(* ===== verification/Webhook_Prelude.thy ===== *)
theory Webhook_Prelude
  imports Main "HOL-Library.Word" "HOL-Library.Char_ord" "HOL-Library.List_Lexorder"
    "HOL-Library.Product_Lexorder"
begin

text \<open>
  What every component of the Outbound Webhook Plugin shares: the result type of fallible Rust
  code with its early return (\<open>?\<close>) and its panics, strings as their UTF-8 bytes, the integer
  conversions the code performs at the \<open>i32\<close> / \<open>i64\<close> boundary, the standard-library string
  predicates, and the generic lemmas on lists that the table lemmas use.
\<close>

section \<open>Fallible code\<close>

text \<open>
  \<open>Ok\<close> and \<open>Err\<close> are Rust's; \<open>Panic\<close> is an \<open>expect\<close> that fails, with its message.
\<close>

datatype ('a, 'e) result = Ok 'a | Err 'e | Panic string

fun and_then :: "('a, 'e) result \<Rightarrow> ('a \<Rightarrow> ('b, 'e) result) \<Rightarrow> ('b, 'e) result" where
  "and_then (Ok x) f = f x"
| "and_then (Err e) f = Err e"
| "and_then (Panic m) f = Panic m"

fun map_err :: "('e \<Rightarrow> 'f) \<Rightarrow> ('a, 'e) result \<Rightarrow> ('a, 'f) result" where
  "map_err f (Ok x) = Ok x"
| "map_err f (Err e) = Err (f e)"
| "map_err f (Panic m) = Panic m"

fun expect :: "string \<Rightarrow> 'a option \<Rightarrow> ('a, 'e) result" where
  "expect m (Some x) = Ok x"
| "expect m None = Panic m"

text \<open>Calls into code outside the repository return a sum; \<open>Inl\<close> carries the callee's error.\<close>

fun of_sum :: "('e \<Rightarrow> 'f) \<Rightarrow> 'e + 'a \<Rightarrow> ('a, 'f) result" where
  "of_sum f (Inl e) = Err (f e)"
| "of_sum f (Inr x) = Ok x"

definition no_panic :: "('a, 'e) result \<Rightarrow> bool" where
  "no_panic r \<longleftrightarrow> (\<forall>m. r \<noteq> Panic m)"

lemma no_panic_simps [simp]: "no_panic (Ok x)" "no_panic (Err e)" "\<not> no_panic (Panic m)"
  by (simp_all add: no_panic_def)

lemma and_then_Ok_iff: "and_then r f = Ok y \<longleftrightarrow> (\<exists>x. r = Ok x \<and> f x = Ok y)"
  by (cases r) auto

lemma and_then_Err_iff: "and_then r f = Err e \<longleftrightarrow> r = Err e \<or> (\<exists>x. r = Ok x \<and> f x = Err e)"
  by (cases r) auto

lemma and_then_Panic_iff:
  "and_then r f = Panic m \<longleftrightarrow> r = Panic m \<or> (\<exists>x. r = Ok x \<and> f x = Panic m)"
  by (cases r) auto

lemma map_err_Ok_iff [simp]: "map_err f r = Ok x \<longleftrightarrow> r = Ok x"
  by (cases r) auto

lemma map_err_Err_iff: "map_err f r = Err e \<longleftrightarrow> (\<exists>e'. r = Err e' \<and> e = f e')"
  by (cases r) auto

lemma map_err_Panic_iff [simp]: "map_err f r = Panic m \<longleftrightarrow> r = Panic m"
  by (cases r) auto

text \<open>Panic-freedom of a chain follows from that of its parts; the collection drives the proofs.\<close>

named_theorems no_panic_intros

lemma no_panic_and_then [no_panic_intros]:
  "no_panic r \<Longrightarrow> (\<And>x. r = Ok x \<Longrightarrow> no_panic (f x)) \<Longrightarrow> no_panic (and_then r f)"
  by (cases r) auto

lemma no_panic_of_sum [simp, no_panic_intros]: "no_panic (of_sum f s)"
  by (cases s) auto

lemma no_panic_map_err [simp]: "no_panic (map_err f r) = no_panic r"
  by (cases r) auto

lemma no_panic_if [no_panic_intros]:
  "(b \<Longrightarrow> no_panic x) \<Longrightarrow> (\<not> b \<Longrightarrow> no_panic y) \<Longrightarrow> no_panic (if b then x else y)"
  by simp

lemma no_panic_Ok_Err [no_panic_intros]: "no_panic (Ok x)" "no_panic (Err e)"
  by simp_all

section \<open>Integers at their width\<close>

text \<open>
  Rust's \<open>i64\<close> values are \<open>int\<close>s here; every operation of the code that could leave the type
  saturates or is checked, and is written out below.
\<close>

definition i64_min :: int where "i64_min = - (2 ^ 63)"
definition i64_max :: int where "i64_max = 2 ^ 63 - 1"

definition saturate :: "int \<Rightarrow> int" where
  "saturate x = (if x < i64_min then i64_min else if i64_max < x then i64_max else x)"

definition saturating_sub :: "int \<Rightarrow> int \<Rightarrow> int" where
  "saturating_sub a b = saturate (a - b)"

definition saturating_mul :: "int \<Rightarrow> int \<Rightarrow> int" where
  "saturating_mul a b = saturate (a * b)"

definition clamp :: "int \<Rightarrow> int \<Rightarrow> int \<Rightarrow> int" where
  "clamp x lo hi = (if x < lo then lo else if hi < x then hi else x)"

text \<open>\<open>i64::checked_shl\<close>: the shift amount is checked against the width, the bits are shifted.\<close>

definition checked_shl :: "64 word \<Rightarrow> nat \<Rightarrow> 64 word option" where
  "checked_shl x e = (if e < 64 then Some (push_bit e x) else None)"

definition u32_try_from :: "int \<Rightarrow> nat option" where
  "u32_try_from x = (if 0 \<le> x \<and> x < 2 ^ 32 then Some (nat x) else None)"

definition i32_try_from :: "int \<Rightarrow> int option" where
  "i32_try_from x = (if - (2 ^ 31) \<le> x \<and> x < 2 ^ 31 then Some x else None)"

lemma i32_try_from_Some: "i32_try_from x = Some y \<Longrightarrow> y = x"
  by (simp add: i32_try_from_def split: if_splits)

lemma i32_try_from_small [simp]: "0 \<le> x \<Longrightarrow> x \<le> 1000000 \<Longrightarrow> i32_try_from x = Some x"
  by (simp add: i32_try_from_def)

text \<open>\<open>format!("{}")\<close> of an integer: decimal digits with a leading minus sign.\<close>

definition digit_char :: "nat \<Rightarrow> char" where
  "digit_char d = char_of (48 + d)"

fun show_nat :: "nat \<Rightarrow> string" where
  "show_nat n = (if n < 10 then [digit_char n] else show_nat (n div 10) @ [digit_char (n mod 10)])"

declare show_nat.simps [simp del]

definition show_int :: "int \<Rightarrow> string" where
  "show_int i = (if i < 0 then ''-'' @ show_nat (nat (- i)) else show_nat (nat i))"

definition digit_value :: "char \<Rightarrow> nat" where
  "digit_value c = of_char c - 48"

definition read_nat :: "string \<Rightarrow> nat" where
  "read_nat s = foldl (\<lambda>n c. 10 * n + digit_value c) 0 s"

lemma digit_value_char: "d < 10 \<Longrightarrow> digit_value (digit_char d) = d"
  by (simp add: digit_value_def digit_char_def)

lemma read_show_nat: "read_nat (show_nat n) = n"
proof (induction n rule: show_nat.induct)
  case (1 n)
  then show ?case
    by (cases "n < 10") (simp_all add: show_nat.simps [of n] read_nat_def digit_value_char)
qed

lemma show_nat_inject: "show_nat m = show_nat n \<longleftrightarrow> m = n"
  by (metis read_show_nat)

lemma digit_char_not_minus: "d < 10 \<Longrightarrow> digit_char d \<noteq> CHR ''-''"
proof
  assume "d < 10" and "digit_char d = CHR ''-''"
  then have "(of_char (digit_char d) :: nat) = of_char (CHR ''-'')" by simp
  with \<open>d < 10\<close> show False by (simp add: digit_char_def)
qed

lemma show_nat_hd: "show_nat n \<noteq> [] \<and> hd (show_nat n) \<noteq> CHR ''-''"
proof (induction n rule: show_nat.induct)
  case (1 n)
  then show ?case
    by (cases "n < 10") (simp_all add: show_nat.simps [of n] digit_char_not_minus)
qed

lemma show_int_inject: "show_int i = show_int j \<longleftrightarrow> i = j"
proof
  assume eq: "show_int i = show_int j"
  have neg: "\<And>m n. CHR ''-'' # show_nat m \<noteq> show_nat n"
    by (metis list.sel(1) show_nat_hd)
  show "i = j"
    using eq neg by (auto simp: show_int_def show_nat_inject split: if_splits dest: sym)
qed simp

section \<open>Strings as UTF-8 bytes\<close>

text \<open>
  A Rust \<open>String\<close> is modelled by the list of its UTF-8 bytes, one \<open>char\<close> each, so that \<open>length\<close>
  is \<open>str::len\<close> and slicing is by byte. All patterns the code searches for are ASCII.
\<close>

type_synonym byte = "8 word"
type_synonym bytes = "byte list"

definition as_bytes :: "string \<Rightarrow> bytes" where
  "as_bytes s = map of_char s"

lemma as_bytes_append [simp]: "as_bytes (s @ t) = as_bytes s @ as_bytes t"
  by (simp add: as_bytes_def)

lemma length_as_bytes [simp]: "length (as_bytes s) = length s"
  by (simp add: as_bytes_def)

lemma unat_of_char [simp]: "unat (of_char c :: byte) = of_char c"
proof -
  have "(of_char c :: byte) = of_nat (of_char c)"
    by (simp only: of_nat_of_char)
  then show ?thesis
    by (simp only: unat_of_nat) (simp add: take_bit_eq_mod)
qed

lemma of_char_byte_inject [simp]: "(of_char c :: byte) = of_char d \<longleftrightarrow> c = d"
  by (metis of_char_eq_iff unat_of_char)

lemma as_bytes_inject [simp]: "as_bytes s = as_bytes t \<longleftrightarrow> s = t"
  unfolding as_bytes_def by (rule inj_map_eq_map) (simp add: inj_def)

lemma as_bytes_mem [simp]: "of_char c \<in> set (as_bytes s) \<longleftrightarrow> c \<in> set s"
  by (auto simp: as_bytes_def)

subsection \<open>The predicates of \<open>u8\<close> and \<open>str\<close> the code uses\<close>

definition in_bytes :: "char \<Rightarrow> char \<Rightarrow> char \<Rightarrow> bool" where
  "in_bytes lo hi c \<longleftrightarrow> (of_char lo :: nat) \<le> of_char c \<and> (of_char c :: nat) \<le> of_char hi"

definition is_ascii_alphanumeric :: "char \<Rightarrow> bool" where
  "is_ascii_alphanumeric c \<longleftrightarrow>
     in_bytes (CHR ''0'') (CHR ''9'') c \<or> in_bytes (CHR ''A'') (CHR ''Z'') c \<or>
     in_bytes (CHR ''a'') (CHR ''z'') c"

definition is_ascii_hexdigit :: "char \<Rightarrow> bool" where
  "is_ascii_hexdigit c \<longleftrightarrow>
     in_bytes (CHR ''0'') (CHR ''9'') c \<or> in_bytes (CHR ''A'') (CHR ''F'') c \<or>
     in_bytes (CHR ''a'') (CHR ''f'') c"

definition starts_with :: "string \<Rightarrow> string \<Rightarrow> bool" where
  "starts_with p s \<longleftrightarrow> take (length p) s = p"

definition ends_with :: "string \<Rightarrow> string \<Rightarrow> bool" where
  "ends_with p s \<longleftrightarrow> length p \<le> length s \<and> drop (length s - length p) s = p"

fun contains :: "string \<Rightarrow> string \<Rightarrow> bool" where
  "contains p [] \<longleftrightarrow> p = []"
| "contains p (c # s) \<longleftrightarrow> starts_with p (c # s) \<or> contains p s"

text \<open>\<open>str::split\<close> on one character: at least one segment, empty segments kept.\<close>

fun split_on :: "char \<Rightarrow> string \<Rightarrow> string list" where
  "split_on d [] = [[]]"
| "split_on d (c # s) =
     (if c = d then [] # split_on d s
      else (case split_on d s of [] \<Rightarrow> [[c]] | seg # segs \<Rightarrow> (c # seg) # segs))"

lemma split_on_nonempty [simp]: "split_on d s \<noteq> []"
  by (cases s) (auto split: list.splits)

lemma ends_with_iff: "ends_with p s \<longleftrightarrow> (\<exists>u. s = u @ p)"
  by (auto simp: ends_with_def) (metis append_take_drop_id)

lemma split_on_empty:
  "([] \<in> set (split_on d s) \<longrightarrow> s = [] \<or> starts_with [d] s \<or> ends_with [d] s \<or> contains [d, d] s) \<and>
   ([] \<in> set (tl (split_on d s)) \<longrightarrow> ends_with [d] s \<or> contains [d, d] s)"
proof (induction s)
  case Nil
  show ?case by simp
next
  case (Cons c s)
  have ends: "ends_with [d] s \<Longrightarrow> ends_with [d] (c # s)"
    by (auto simp: ends_with_iff)
  have starts: "c = d \<Longrightarrow> starts_with [d] s \<Longrightarrow> contains [d, d] (c # s)"
    by (cases s) (auto simp: starts_with_def)
  have single: "c = d \<Longrightarrow> s = [] \<Longrightarrow> ends_with [d] (c # s)"
    by (simp add: ends_with_def)
  have here: "c = d \<Longrightarrow> starts_with [d] (c # s)"
    by (simp add: starts_with_def)
  show ?case
  proof (cases "c = d")
    case True
    then show ?thesis using Cons ends starts single here by auto
  next
    case False
    then show ?thesis using Cons ends by (cases "split_on d s") auto
  qed
qed

lemma split_on_append: "split_on d (xs @ d # ys) = split_on d xs @ split_on d ys"
proof (induction xs)
  case (Cons c xs)
  then show ?case
    using split_on_nonempty [of d xs] by (cases "split_on d xs") auto
qed simp

lemma contains_split: "contains [d, d] s \<Longrightarrow> \<exists>u v. s = u @ d # d # v"
proof (induction s)
  case (Cons c s)
  consider "starts_with [d, d] (c # s)" | "contains [d, d] s" using Cons.prems by auto
  then show ?case
  proof cases
    case 1
    then show ?thesis by (cases s) (auto simp: starts_with_def intro: exI [where x = "[]"])
  next
    case 2
    then show ?thesis using Cons.IH by (metis append_Cons)
  qed
qed simp

lemma empty_segment_iff:
  "[] \<in> set (split_on d s) \<longleftrightarrow> s = [] \<or> starts_with [d] s \<or> ends_with [d] s \<or> contains [d, d] s"
proof
  assume "s = [] \<or> starts_with [d] s \<or> ends_with [d] s \<or> contains [d, d] s"
  then have "s = [] \<or> (\<exists>v. s = [] @ d # v) \<or> (\<exists>u. s = u @ d # []) \<or> (\<exists>u v. s = u @ d # [] @ d # v)"
    using contains_split [of d s] by (cases s) (auto simp: starts_with_def ends_with_iff simp del: contains.simps)
  then consider "s = []" | v where "s = [] @ d # v" | u where "s = u @ d # []" | u v where "s = u @ d # [] @ d # v"
    by blast
  then show "[] \<in> set (split_on d s)"
    by cases (simp_all only: split_on_append, simp_all)
qed (use split_on_empty in blast)

section \<open>Lists\<close>

text \<open>The first \<open>n\<close> of a sorted list are those with fewer than \<open>n\<close> before them.\<close>

lemma in_take_sorted_iff:
  assumes "sorted (map f xs)" and "distinct (map f xs)" and "x \<in> set xs"
  shows "x \<in> set (take n xs) \<longleftrightarrow> card {y \<in> set xs. f y < f x} < n"
  using assms
proof (induction xs arbitrary: n)
  case (Cons a xs)
  have le: "f a < f y" if "y \<in> set xs" for y
    using Cons.prems(1,2) that by (force simp: less_le)
  show ?case
  proof (cases "x = a")
    case True
    then have none: "{y \<in> set (a # xs). f y < f x} = {}" using le by (auto dest: less_asym)
    show ?thesis unfolding none using True by (cases n) auto
  next
    case False
    then have x: "x \<in> set xs" using Cons.prems(3) by simp
    have "{y \<in> set (a # xs). f y < f x} = insert a {y \<in> set xs. f y < f x}" using le x by auto
    moreover have "a \<notin> set xs" using Cons.prems(2) by auto
    ultimately have "card {y \<in> set (a # xs). f y < f x} = Suc (card {y \<in> set xs. f y < f x})" by simp
    then show ?thesis
      using Cons.IH [of "n - 1"] Cons.prems(1,2) x False by (cases n) auto
  qed
qed simp

lemma map_cond_id: "(\<And>x. x \<in> set xs \<Longrightarrow> \<not> P x) \<Longrightarrow> map (\<lambda>x. if P x then f x else x) xs = xs"
  by (induction xs) auto

lemma map_cong_key: "(\<And>x. k (f x) = k x) \<Longrightarrow> map k (map f xs) = map k xs"
  by simp

lemma distinct_map_eqD: "distinct (map f xs) \<Longrightarrow> x \<in> set xs \<Longrightarrow> y \<in> set xs \<Longrightarrow> f x = f y \<Longrightarrow> x = y"
  by (auto simp: distinct_map inj_on_def)

lemma filter_eq_single: "distinct xs \<Longrightarrow> x \<in> set xs \<Longrightarrow> filter (\<lambda>y. y = x) xs = [x]"
  by (induction xs) (auto simp: filter_empty_conv)

lemma find_Some_in: "List.find P xs = Some x \<Longrightarrow> x \<in> set xs \<and> P x"
  by (auto simp: find_Some_iff)

lemma find_key_unique:
  assumes "distinct (map f xs)" and "x \<in> set xs"
  shows "List.find (\<lambda>y. f y = f x) xs = Some x"
  using assms by (induction xs) (auto simp: image_iff)

lemma sorted_take_minimal:
  assumes "x \<in> set (take 1 (sort_key f xs))" and "y \<in> set xs"
  shows "f x \<le> f y"
proof -
  obtain z zs where zs: "sort_key f xs = z # zs"
    using assms(1) by (cases "sort_key f xs") auto
  have "sorted (map f (z # zs))" using zs by (metis sorted_sort_key)
  moreover have "y \<in> set (z # zs)" using assms(2) zs by (metis set_sort)
  ultimately show ?thesis using assms(1) zs by auto
qed

end
