(* ===== verification/Json_Values.thy ===== *)
theory Json_Values
  imports Webhook_Prelude "HOL-Library.AList"
begin

text \<open>
  JSON values as the code handles them (\<open>serde_json::Value\<close>) and the standard library's
  \<open>BTreeMap\<close> as a strictly sorted association list. Object equality of \<open>serde_json\<close> ignores
  order, so an object is an association list and only lookup, in-place insertion and removal are
  used on it.
\<close>

section \<open>Ordered maps\<close>

type_synonym 'v btree_map = "(string \<times> 'v) list"

fun btree_insert :: "string \<Rightarrow> 'v \<Rightarrow> 'v btree_map \<Rightarrow> 'v btree_map" where
  "btree_insert k v [] = [(k, v)]"
| "btree_insert k v ((k', v') # m) =
     (if k < k' then (k, v) # (k', v') # m
      else if k = k' then (k, v) # m
      else (k', v') # btree_insert k v m)"

text \<open>\<open>collect::<BTreeMap<_, _>>()\<close> and \<open>BTreeMap::from\<close>: a later entry replaces an earlier one.\<close>

definition btree_of_list :: "(string \<times> 'v) list \<Rightarrow> 'v btree_map" where
  "btree_of_list kvs = foldl (\<lambda>m (k, v). btree_insert k v m) [] kvs"

definition btree_ok :: "'v btree_map \<Rightarrow> bool" where
  "btree_ok m \<longleftrightarrow> sorted_wrt (<) (map fst m)"

lemma btree_ok_Nil [simp]: "btree_ok []"
  by (simp add: btree_ok_def)

lemma btree_ok_Cons [simp]: "btree_ok (p # m) \<longleftrightarrow> (\<forall>q \<in> set m. fst p < fst q) \<and> btree_ok m"
  by (simp add: btree_ok_def)

lemma btree_ok_distinct: "btree_ok m \<Longrightarrow> distinct (map fst m)"
  by (simp add: btree_ok_def strict_sorted_iff)

lemma fst_set_btree_insert: "fst ` set (btree_insert k v m) = insert k (fst ` set m)"
  by (induction k v m rule: btree_insert.induct) (simp_all add: insert_commute)

lemma btree_ok_insert: "btree_ok m \<Longrightarrow> btree_ok (btree_insert k v m)"
proof (induction m)
  case (Cons p m)
  have keys: "\<forall>q \<in> set (btree_insert k v m). fst q = k \<or> fst q \<in> fst ` set m"
    using fst_set_btree_insert [of k v m] by blast
  from Cons show ?case
    by (cases p) (use keys in fastforce)
qed simp

lemma map_of_btree_insert:
  "btree_ok m \<Longrightarrow> map_of (btree_insert k v m) = (map_of m)(k \<mapsto> v)"
proof (induction m)
  case (Cons p m)
  then show ?case by (cases p) (auto simp: fun_eq_iff)
qed auto

lemma btree_of_list_snoc:
  "btree_of_list (kvs @ [(k, v)]) = btree_insert k v (btree_of_list kvs)"
  by (simp add: btree_of_list_def)

lemma btree_ok_of_list: "btree_ok (btree_of_list kvs)"
  by (induction kvs rule: rev_induct)
    (auto simp: btree_of_list_snoc btree_ok_insert, simp add: btree_of_list_def)

lemma map_of_btree_of_list: "map_of (btree_of_list kvs) = map_of (rev kvs)"
  by (induction kvs rule: rev_induct)
    (auto simp: btree_of_list_snoc map_of_btree_insert btree_ok_of_list, simp add: btree_of_list_def)

text \<open>A map is determined by its lookups: the representation is canonical.\<close>

lemma btree_ext:
  assumes "btree_ok m" and "btree_ok n" and "map_of m = map_of n"
  shows "m = n"
proof -
  have keys: "map fst m = map fst n"
  proof (rule sorted_distinct_set_unique)
    show "set (map fst m) = set (map fst n)"
      using assms(3) by (metis dom_map_of_conv_image_fst list.set_map)
  qed (use assms in \<open>auto simp: btree_ok_def strict_sorted_iff\<close>)
  moreover have "map snd m = map snd n"
  proof -
    have val: "\<And>l :: 'a btree_map. btree_ok l \<Longrightarrow> map snd l = map (\<lambda>k. the (map_of l k)) (map fst l)"
      by (auto dest: btree_ok_distinct)
    show ?thesis using val [OF assms(1)] val [OF assms(2)] keys assms(3) by simp
  qed
  ultimately show ?thesis by (metis zip_map_fst_snd)
qed

lemma map_of_rev: "distinct (map fst m) \<Longrightarrow> map_of (rev m) = map_of m"
  by (induction m) (auto simp: fun_eq_iff map_add_def domIff image_iff split: option.splits)

lemma btree_of_list_id: "btree_ok m \<Longrightarrow> btree_of_list m = m"
  by (rule btree_ext)
    (simp_all add: btree_ok_of_list map_of_btree_of_list map_of_rev btree_ok_distinct)

lemma btree_of_list_cong:
  "distinct (map fst xs) \<Longrightarrow> distinct (map fst ys) \<Longrightarrow> set xs = set ys \<Longrightarrow>
    btree_of_list xs = btree_of_list ys"
  by (rule btree_ext)
    (auto simp: btree_ok_of_list map_of_btree_of_list map_of_rev intro: map_of_inject_set [THEN iffD2])

section \<open>JSON values\<close>

text \<open>A number is kept as the text \<open>serde_json\<close> prints for it; no code here inspects one.\<close>

datatype json =
    JNull
  | JBool bool
  | JNumber string
  | JString string
  | JArray "json list"
  | JObject "(string \<times> json) list"

fun as_str :: "json \<Rightarrow> string option" where
  "as_str (JString s) = Some s"
| "as_str _ = None"

fun as_object :: "json \<Rightarrow> (string \<times> json) list option" where
  "as_object (JObject kvs) = Some kvs"
| "as_object _ = None"

fun as_array :: "json \<Rightarrow> json list option" where
  "as_array (JArray vs) = Some vs"
| "as_array _ = None"

fun is_string :: "json \<Rightarrow> bool" where
  "is_string (JString _) = True"
| "is_string _ = False"

definition object_remove :: "string \<Rightarrow> (string \<times> json) list \<Rightarrow> (string \<times> json) list" where
  "object_remove k kvs = filter (\<lambda>p. fst p \<noteq> k) kvs"

lemma map_of_object_remove: "map_of (object_remove k kvs) = (map_of kvs)(k := None)"
  by (induction kvs) (auto simp: object_remove_def fun_eq_iff)

end
