(* ===== verification/External_Code.thy ===== *)
theory External_Code
  imports Json_Values
begin

text \<open>
  The code outside the repository that the plugin calls, as one record of functions. Every
  definition that calls it takes this record as an argument; nothing is assumed about it except
  where a theorem names a hypothesis.
\<close>

text \<open>A parsed URL, as far as the code looks at it: the accessors of \<open>url::Url\<close> it calls.\<close>

record url =
  url_scheme :: string
  url_host_str :: "string option"
  url_username :: string
  url_password :: "string option"
  url_query :: "string option"
  url_fragment :: "string option"
  url_origin_ascii :: string
  url_as_str :: string

text \<open>
  \<^item> \<open>url_parse\<close>: \<open>Url::parse\<close>;
  \<^item> \<open>schema_plan_new\<close>: \<open>lenso_postgres_kit::SchemaPlan::new\<close> on a schema name and the
    migrations (version, name, path), \<open>Inl\<close> with the text of a \<open>PlanError\<close>;
  \<^item> \<open>sha256\<close>: \<open>Sha256::digest\<close>, streaming updates being concatenation;
  \<^item> \<open>hmac_sha256\<close>: the HMAC of a message under a key, \<open>None\<close> when the key is refused;
  \<^item> \<open>to_vec\<close>: \<open>serde_json::to_vec\<close>; \<open>Inl\<close> with the text of its error;
  \<^item> \<open>rfc3339\<close>: \<open>OffsetDateTime::format(&Rfc3339)\<close> of a UTC time in Unix nanoseconds;
  \<^item> \<open>pg_micros\<close>, \<open>pg_time\<close>: what \<open>sqlx\<close> stores in a \<open>timestamptz\<close> for a time in nanoseconds
    (Unix microseconds), and the time it reads back;
  \<^item> \<open>time_min\<close>, \<open>time_max\<close>: the earliest and the latest time an \<open>OffsetDateTime\<close> can hold; adding
    a \<open>Duration\<close> that leaves this range panics.
\<close>

record crates =
  url_parse :: "string \<Rightarrow> string + url"
  schema_plan_new :: "string \<Rightarrow> (nat \<times> string \<times> string) list \<Rightarrow> string + unit"
  sha256 :: "bytes \<Rightarrow> bytes"
  hmac_sha256 :: "bytes \<Rightarrow> bytes \<Rightarrow> bytes option"
  to_vec :: "json \<Rightarrow> string + bytes"
  rfc3339 :: "int \<Rightarrow> string + string"
  pg_micros :: "int \<Rightarrow> int"
  pg_time :: "int \<Rightarrow> int"
  time_min :: int
  time_max :: int

text \<open>
  A concrete instance for the witnesses: every URL parses to an \<open>https\<close> URL whose origin is
  itself, digests are constant, a JSON value is encoded as the bytes of its event id, a time is
  printed as its decimal number. The range of times is that of the years -9999 to 9999.
\<close>

definition sample_url :: "string \<Rightarrow> url" where
  "sample_url s = \<lparr>url_scheme = ''https'', url_host_str = Some ''h'', url_username = '''',
     url_password = None, url_query = None, url_fragment = None,
     url_origin_ascii = s, url_as_str = s\<rparr>"

fun sample_vec :: "json \<Rightarrow> string + bytes" where
  "sample_vec (JObject ((_, JString s) # _)) = Inr (as_bytes s)"
| "sample_vec _ = Inr []"

definition sample_crates :: crates where
  "sample_crates = \<lparr>url_parse = (\<lambda>s. Inr (sample_url s)), schema_plan_new = (\<lambda>_ _. Inr ()),
     sha256 = (\<lambda>_. replicate 32 171), hmac_sha256 = (\<lambda>_ _. Some (replicate 32 205)),
     to_vec = sample_vec, rfc3339 = (\<lambda>t. Inr (show_int t)),
     pg_micros = (\<lambda>t. t div 1000), pg_time = (\<lambda>t. 1000 * t),
     time_min = -377705116800000000000, time_max = 253402300799999999999\<rparr>"

end
