(* ===== verification/Contract_Types.thy ===== *)
theory Contract_Types
  imports Json_Values
begin

text \<open>
  The wire contract of the two capability crates: the request, response and domain-error types of
  \<open>lenso.outbound-webhook@1\<close> and \<open>lenso.outbound-webhook-admin@1\<close> (\<open>generated.rs\<close>, projected
  from \<open>contract.rs\<close>), and the hand-shaped JSON form of the four domain errors. The locale
  \<open>domain_error_codec\<close> states what the four serialisers and deserialisers share; each of them
  interprets it.
\<close>

section \<open>Failures of the runtime\<close>

text \<open>
  The values of \<open>lenso_kernel::RuntimeFailure\<close> the code constructs, and one constructor for the
  values it only passes on.
\<close>

datatype runtime_failure =
    InvalidResolvedPlan string
  | PluginFailure string
  | ProtocolViolation string
  | UnknownOperation string string
  | Unavailable string
  | OtherRuntimeFailure string

section \<open>Requests, responses, domain errors\<close>

record unknown_domain_error =
  ude_code :: string
  ude_payload :: "json option"
  ude_extra :: "json btree_map"

record enqueue_request =
  enq_event_id :: string
  enq_event_type :: string
  enq_payload :: "json btree_map"

datatype enqueue_response_status =
  EnqueueQueued | EnqueueDelivering | EnqueueDelivered | EnqueueRetryScheduled | EnqueueDeadLetter

record enqueue_response =
  enq_created :: bool
  enq_delivery_id :: string
  enq_status :: enqueue_response_status

datatype enqueue_error =
    EnqueueForbidden
  | EnqueueIdempotencyConflict
  | EnqueueInvalidEvent
  | EnqueueUnknown unknown_domain_error

datatype dispatch_request = DispatchRequest

datatype dispatch_response_outcome =
  DispatchIdle | DispatchDelivered | DispatchRetryScheduled | DispatchDeadLettered

record dispatch_response_receipt =
  drr_attempt :: int
  drr_http_status :: "string option"
  drr_occurred_at :: string
  drr_outcome :: string
  drr_response_sha256 :: "string option"

record dispatch_response =
  dsp_delivery_id :: "string option"
  dsp_outcome :: dispatch_response_outcome
  dsp_receipt :: "dispatch_response_receipt option"

datatype dispatch_error = DispatchForbidden | DispatchUnknown unknown_domain_error

record inspect_request =
  ins_request_delivery_id :: string

datatype inspect_response_status =
  InspectQueued | InspectDelivering | InspectRetryScheduled | InspectDelivered | InspectDeadLetter

record inspect_response_last_receipt =
  ilr_attempt :: int
  ilr_http_status :: "string option"
  ilr_occurred_at :: string
  ilr_outcome :: string
  ilr_response_sha256 :: "string option"

record inspect_response =
  ins_attempts :: int
  ins_delivery_id :: string
  ins_endpoint_origin :: string
  ins_event_id :: string
  ins_event_type :: string
  ins_last_receipt :: "inspect_response_last_receipt option"
  ins_max_attempts :: int
  ins_payload_sha256 :: string
  ins_replay_count :: int
  ins_status :: inspect_response_status

datatype inspect_error =
    InspectForbidden
  | InspectInvalidDelivery
  | InspectNotFound
  | InspectUnknown unknown_domain_error

record replay_request =
  rpl_request_delivery_id :: string

record replay_response =
  rpl_replay_count :: int

datatype replay_error =
    ReplayForbidden
  | ReplayInvalidDelivery
  | ReplayNotDeadLetter
  | ReplayNotFound
  | ReplayUnknown unknown_domain_error

section \<open>The JSON form of a domain error\<close>

text \<open>\<open>serialize_entry\<close> into a map replaces the value of a key that is already there.\<close>

definition serialize_map :: "(string \<times> json) list \<Rightarrow> json" where
  "serialize_map entries = JObject (foldl (\<lambda>m (k, v). AList.update k v m) [] entries)"

definition serialize_unknown :: "unknown_domain_error \<Rightarrow> json" where
  "serialize_unknown value =
     serialize_map
       ((''code'', JString (ude_code value))
        # (case ude_payload value of Some payload \<Rightarrow> [(''payload'', payload)] | None \<Rightarrow> [])
        @ ude_extra value)"

definition unknown_of_object ::
    "(string \<times> json) list \<Rightarrow> (unknown_domain_error, string) result" where
  "unknown_of_object object =
     (case Option.bind (map_of object ''code'') as_str of
        None \<Rightarrow> Err ''Domain Error object is missing a string code''
      | Some code \<Rightarrow>
          (let object = object_remove ''code'' object;
               payload = map_of object ''payload'';
               object = object_remove ''payload'' object
           in Ok \<lparr>ude_code = code, ude_payload = payload, ude_extra = btree_of_list object\<rparr>))"

definition unknown_code :: "string \<Rightarrow> unknown_domain_error" where
  "unknown_code code = \<lparr>ude_code = code, ude_payload = None, ude_extra = []\<rparr>"

text \<open>\<open>show_value\<close> is \<open>serde_json\<close>'s \<open>Display\<close>, used in one error message.\<close>

definition not_a_domain_error :: "(json \<Rightarrow> string) \<Rightarrow> json \<Rightarrow> string" where
  "not_a_domain_error show_value other =
     ''Domain Error must be a string or object, got '' @ show_value other"

fun enqueue_error_serialize :: "enqueue_error \<Rightarrow> json" where
  "enqueue_error_serialize EnqueueForbidden = JString ''forbidden''"
| "enqueue_error_serialize EnqueueIdempotencyConflict = JString ''idempotency_conflict''"
| "enqueue_error_serialize EnqueueInvalidEvent = JString ''invalid_event''"
| "enqueue_error_serialize (EnqueueUnknown value) = serialize_unknown value"

fun enqueue_error_deserialize :: "(json \<Rightarrow> string) \<Rightarrow> json \<Rightarrow> (enqueue_error, string) result" where
  "enqueue_error_deserialize show_value (JString code) =
     (if code = ''forbidden'' then Ok EnqueueForbidden
      else if code = ''idempotency_conflict'' then Ok EnqueueIdempotencyConflict
      else if code = ''invalid_event'' then Ok EnqueueInvalidEvent
      else Ok (EnqueueUnknown (unknown_code code)))"
| "enqueue_error_deserialize show_value (JObject object) =
     and_then (unknown_of_object object) (\<lambda>value. Ok (EnqueueUnknown value))"
| "enqueue_error_deserialize show_value other = Err (not_a_domain_error show_value other)"

fun dispatch_error_serialize :: "dispatch_error \<Rightarrow> json" where
  "dispatch_error_serialize DispatchForbidden = JString ''forbidden''"
| "dispatch_error_serialize (DispatchUnknown value) = serialize_unknown value"

fun dispatch_error_deserialize :: "(json \<Rightarrow> string) \<Rightarrow> json \<Rightarrow> (dispatch_error, string) result" where
  "dispatch_error_deserialize show_value (JString code) =
     (if code = ''forbidden'' then Ok DispatchForbidden
      else Ok (DispatchUnknown (unknown_code code)))"
| "dispatch_error_deserialize show_value (JObject object) =
     and_then (unknown_of_object object) (\<lambda>value. Ok (DispatchUnknown value))"
| "dispatch_error_deserialize show_value other = Err (not_a_domain_error show_value other)"

fun inspect_error_serialize :: "inspect_error \<Rightarrow> json" where
  "inspect_error_serialize InspectForbidden = JString ''forbidden''"
| "inspect_error_serialize InspectInvalidDelivery = JString ''invalid_delivery''"
| "inspect_error_serialize InspectNotFound = JString ''not_found''"
| "inspect_error_serialize (InspectUnknown value) = serialize_unknown value"

fun inspect_error_deserialize :: "(json \<Rightarrow> string) \<Rightarrow> json \<Rightarrow> (inspect_error, string) result" where
  "inspect_error_deserialize show_value (JString code) =
     (if code = ''forbidden'' then Ok InspectForbidden
      else if code = ''invalid_delivery'' then Ok InspectInvalidDelivery
      else if code = ''not_found'' then Ok InspectNotFound
      else Ok (InspectUnknown (unknown_code code)))"
| "inspect_error_deserialize show_value (JObject object) =
     and_then (unknown_of_object object) (\<lambda>value. Ok (InspectUnknown value))"
| "inspect_error_deserialize show_value other = Err (not_a_domain_error show_value other)"

fun replay_error_serialize :: "replay_error \<Rightarrow> json" where
  "replay_error_serialize ReplayForbidden = JString ''forbidden''"
| "replay_error_serialize ReplayInvalidDelivery = JString ''invalid_delivery''"
| "replay_error_serialize ReplayNotDeadLetter = JString ''not_dead_letter''"
| "replay_error_serialize ReplayNotFound = JString ''not_found''"
| "replay_error_serialize (ReplayUnknown value) = serialize_unknown value"

fun replay_error_deserialize :: "(json \<Rightarrow> string) \<Rightarrow> json \<Rightarrow> (replay_error, string) result" where
  "replay_error_deserialize show_value (JString code) =
     (if code = ''forbidden'' then Ok ReplayForbidden
      else if code = ''invalid_delivery'' then Ok ReplayInvalidDelivery
      else if code = ''not_dead_letter'' then Ok ReplayNotDeadLetter
      else if code = ''not_found'' then Ok ReplayNotFound
      else Ok (ReplayUnknown (unknown_code code)))"
| "replay_error_deserialize show_value (JObject object) =
     and_then (unknown_of_object object) (\<lambda>value. Ok (ReplayUnknown value))"
| "replay_error_deserialize show_value other = Err (not_a_domain_error show_value other)"

section \<open>What the four codecs share\<close>

text \<open>
  An unknown error decoded from the wire has its \<open>code\<close> and \<open>payload\<close> taken out of the remaining
  fields, which are kept ordered.
\<close>

definition unknown_ok :: "unknown_domain_error \<Rightarrow> bool" where
  "unknown_ok value \<longleftrightarrow> btree_ok (ude_extra value) \<and>
     ''code'' \<notin> fst ` set (ude_extra value) \<and> ''payload'' \<notin> fst ` set (ude_extra value)"

lemma update_fresh: "k \<notin> fst ` set m \<Longrightarrow> AList.update k v m = m @ [(k, v)]"
  by (induction m) auto

lemma serialize_map_distinct:
  assumes "distinct (map fst entries)"
  shows "serialize_map entries = JObject entries"
proof -
  have "distinct (map fst (m @ entries)) \<Longrightarrow>
      foldl (\<lambda>m (k, v). AList.update k v m) m entries = m @ entries" for m
  proof (induction entries arbitrary: m)
    case (Cons p entries)
    then show ?case by (cases p) (simp add: update_fresh image_Un)
  qed simp
  from this [of "[]"] show ?thesis using assms by (simp add: serialize_map_def)
qed

lemma serialize_unknown_object:
  assumes "unknown_ok value"
  shows "serialize_unknown value =
    JObject ((''code'', JString (ude_code value))
      # (case ude_payload value of Some payload \<Rightarrow> [(''payload'', payload)] | None \<Rightarrow> [])
      @ ude_extra value)"
  unfolding serialize_unknown_def
  using assms by (intro serialize_map_distinct)
    (auto simp: unknown_ok_def btree_ok_distinct image_iff split: option.splits)

lemma object_remove_fresh: "k \<notin> fst ` set kvs \<Longrightarrow> object_remove k kvs = kvs"
  by (auto simp: object_remove_def intro: filter_True)

lemma unknown_roundtrip:
  assumes "unknown_ok value" and "serialize_unknown value = JObject object"
  shows "unknown_of_object object = Ok value"
proof -
  have extra: "btree_of_list (ude_extra value) = ude_extra value"
    "object_remove ''code'' (ude_extra value) = ude_extra value"
    "object_remove ''payload'' (ude_extra value) = ude_extra value"
    "map_of (ude_extra value) ''payload'' = None"
    using assms(1) by (auto simp: unknown_ok_def btree_of_list_id object_remove_fresh map_of_eq_None_iff)
  show ?thesis
    using assms(2) extra
    by (cases "ude_payload value")
      (auto simp: serialize_unknown_object [OF assms(1)] unknown_of_object_def Let_def
        object_remove_def)
qed

lemma serialize_unknown_is_object: "\<exists>object. serialize_unknown value = JObject object"
  by (simp add: serialize_unknown_def serialize_map_def)

lemma unknown_of_object_ok: "unknown_of_object object = Ok value \<Longrightarrow> unknown_ok value"
proof -
  assume "unknown_of_object object = Ok value"
  then have extra: "ude_extra value = btree_of_list (object_remove ''payload'' (object_remove ''code'' object))"
    by (auto simp: unknown_of_object_def Let_def split: option.splits)
  have "k \<notin> fst ` set (ude_extra value)" if "k \<in> {''code'', ''payload''}" for k
    unfolding map_of_eq_None_iff [symmetric] extra
    using that by (auto simp: map_of_btree_of_list map_of_eq_None_iff object_remove_def)
  then show ?thesis by (simp add: unknown_ok_def extra btree_ok_of_list)
qed

lemma unknown_code_ok [simp]: "unknown_ok (unknown_code code)"
  by (simp add: unknown_ok_def unknown_code_def)

locale domain_error_codec =
  fixes serialize :: "'e \<Rightarrow> json"
    and deserialize :: "(json \<Rightarrow> string) \<Rightarrow> json \<Rightarrow> ('e, string) result"
    and codes :: "(string \<times> 'e) list"
    and unknown :: "unknown_domain_error \<Rightarrow> 'e"
  assumes serialize_known: "(code, e) \<in> set codes \<Longrightarrow> serialize e = JString code"
    and deserialize_known: "(code, e) \<in> set codes \<Longrightarrow> deserialize sv (JString code) = Ok e"
    and serialize_unknown: "serialize (unknown value) = serialize_unknown value"
    and deserialize_code:
      "code \<notin> fst ` set codes \<Longrightarrow> deserialize sv (JString code) = Ok (unknown (unknown_code code))"
    and deserialize_object:
      "deserialize sv (JObject object) = and_then (unknown_of_object object) (\<lambda>value. Ok (unknown value))"
    and deserialize_other:
      "as_str v = None \<Longrightarrow> as_object v = None \<Longrightarrow>
        deserialize sv v = Err (not_a_domain_error sv v)"
begin

definition decoded :: "'e \<Rightarrow> bool" where
  "decoded e \<longleftrightarrow> e \<in> snd ` set codes \<or> (\<exists>value. e = unknown value \<and> unknown_ok value)"

lemma roundtrip: "decoded e \<Longrightarrow> deserialize sv (serialize e) = Ok e"
proof -
  assume "decoded e"
  then consider (known) code where "(code, e) \<in> set codes"
    | (unknown) u where "e = unknown u" "unknown_ok u"
    by (auto simp: decoded_def)
  then show ?thesis
  proof cases
    case known
    then show ?thesis by (simp add: serialize_known deserialize_known)
  next
    case unknown
    obtain object where "serialize_unknown u = JObject object"
      using serialize_unknown_is_object by blast
    with unknown show ?thesis
      by (simp add: serialize_unknown deserialize_object unknown_roundtrip)
  qed
qed

lemma deserialize_decoded: "deserialize sv v = Ok e \<Longrightarrow> decoded e"
proof (cases v)
  case (JString code)
  assume "deserialize sv v = Ok e"
  then show ?thesis
    using JString deserialize_known deserialize_code [of code sv]
    by (cases "code \<in> fst ` set codes") (force simp: decoded_def)+
next
  case (JObject object)
  assume "deserialize sv v = Ok e"
  then show ?thesis
    using JObject
    by (auto simp: deserialize_object and_then_Ok_iff decoded_def dest: unknown_of_object_ok)
qed (simp_all add: deserialize_other)

lemma decode_stable: "deserialize sv v = Ok e \<Longrightarrow> deserialize sv (serialize e) = Ok e"
  by (rule roundtrip) (rule deserialize_decoded)

end

interpretation enqueue_codec: domain_error_codec enqueue_error_serialize enqueue_error_deserialize
  "[(''forbidden'', EnqueueForbidden), (''idempotency_conflict'', EnqueueIdempotencyConflict),
    (''invalid_event'', EnqueueInvalidEvent)]" EnqueueUnknown
  by unfold_locales (auto elim: as_str.elims as_object.elims)

interpretation dispatch_codec: domain_error_codec dispatch_error_serialize dispatch_error_deserialize
  "[(''forbidden'', DispatchForbidden)]" DispatchUnknown
  by unfold_locales (auto elim: as_str.elims as_object.elims)

interpretation inspect_codec: domain_error_codec inspect_error_serialize inspect_error_deserialize
  "[(''forbidden'', InspectForbidden), (''invalid_delivery'', InspectInvalidDelivery),
    (''not_found'', InspectNotFound)]" InspectUnknown
  by unfold_locales (auto elim: as_str.elims as_object.elims)

interpretation replay_codec: domain_error_codec replay_error_serialize replay_error_deserialize
  "[(''forbidden'', ReplayForbidden), (''invalid_delivery'', ReplayInvalidDelivery),
    (''not_dead_letter'', ReplayNotDeadLetter), (''not_found'', ReplayNotFound)]" ReplayUnknown
  by unfold_locales (auto elim: as_str.elims as_object.elims)

end
