(* ===== verification/Config.thy ===== *)
theory Config
  imports External_Code Contract_Types
begin

text \<open>
  \<open>config.rs\<close> and \<open>schema.rs\<close>: the immutable policy of one plugin instance, its validation
  check by check, the fixed endpoint, and the two caller allowlists. The locale
  \<open>caller_authority\<close> states what makes an allowlist closed; both lists interpret it.
\<close>

section \<open>The model\<close>

subsection \<open>Schema plan\<close>

definition MIGRATIONS :: "(nat \<times> string \<times> string) list" where
  "MIGRATIONS =
     [(1, ''create-outbound-webhook'', ''migrations/001_create_outbound_webhook.sql''),
      (2, ''index-expired-delivery-maintenance'',
        ''migrations/002_index_expired_delivery_maintenance.sql'')]"

definition schema_plan :: "crates \<Rightarrow> string \<Rightarrow> string + unit" where
  "schema_plan cr schema = schema_plan_new cr schema MIGRATIONS"

subsection \<open>The configuration record\<close>

definition MAX_REFERENCE_BYTES :: nat where "MAX_REFERENCE_BYTES = 256"
definition MAX_PAYLOAD_BYTES :: nat where "MAX_PAYLOAD_BYTES = 1024 * 1024"

record outbound_webhook_config =
  cfg_schema :: string
  cfg_database_url_secret :: string
  cfg_signing_secret :: string
  cfg_endpoint_url :: string
  cfg_queue_name :: string
  cfg_max_attempts :: int
  cfg_max_payload_bytes :: nat
  cfg_lease_seconds :: int
  cfg_retry_base_seconds :: int
  cfg_retry_max_seconds :: int
  cfg_producer_instances :: "string list"
  cfg_admin_instances :: "string list"

subsection \<open>Names and references\<close>

definition valid_name :: "string \<Rightarrow> bool" where
  "valid_name s \<longleftrightarrow> s \<noteq> [] \<and> length s \<le> MAX_REFERENCE_BYTES \<and>
     list_all (\<lambda>byte. is_ascii_alphanumeric byte \<or> byte \<in> set ''._-:'') s"

definition valid_secret_reference :: "string \<Rightarrow> bool" where
  "valid_secret_reference s \<longleftrightarrow> s \<noteq> [] \<and> length s \<le> MAX_REFERENCE_BYTES \<and>
     \<not> starts_with ''/'' s \<and> \<not> ends_with ''/'' s \<and> \<not> contains ''//'' s \<and>
     list_all (\<lambda>segment. segment \<noteq> ''.'' \<and> segment \<noteq> ''..'') (split_on (CHR ''/'') s) \<and>
     list_all (\<lambda>byte. is_ascii_alphanumeric byte \<or> byte \<in> set ''._-/'') s"

definition validate_callers :: "string list \<Rightarrow> string \<Rightarrow> (unit, string) result" where
  "validate_callers callers role =
     (if callers = [] \<or> \<not> list_all valid_name callers
      then Err (''at least one valid '' @ role @ '' caller is required'')
      else if card (set callers) \<noteq> length callers
      then Err (role @ '' caller list contains duplicates'')
      else Ok ())"

subsection \<open>The fixed endpoint\<close>

definition fixed_endpoint :: "crates \<Rightarrow> string \<Rightarrow> (url, string) result" where
  "fixed_endpoint cr s =
     and_then (of_sum (\<lambda>_. ''endpoint_url is invalid'') (url_parse cr s)) (\<lambda>endpoint.
       if \<not> (url_scheme endpoint = ''http'' \<or> url_scheme endpoint = ''https'')
          \<or> url_host_str endpoint = None
          \<or> url_username endpoint \<noteq> []
          \<or> url_password endpoint \<noteq> None
          \<or> url_query endpoint \<noteq> None
          \<or> url_fragment endpoint \<noteq> None
       then Err ''endpoint_url must be one fixed HTTP(S) URL without credentials, query, or fragment''
       else Ok endpoint)"

definition config_endpoint_origin :: "url \<Rightarrow> string" where
  "config_endpoint_origin endpoint = url_origin_ascii endpoint"

subsection \<open>Validation\<close>

definition validate :: "crates \<Rightarrow> outbound_webhook_config \<Rightarrow> (unit, string) result" where
  "validate cr c =
     and_then (of_sum (\<lambda>error. ''invalid owned PostgreSQL schema: '' @ error)
                 (schema_plan cr (cfg_schema c))) (\<lambda>_.
     if \<not> valid_secret_reference (cfg_database_url_secret c)
        \<or> \<not> valid_secret_reference (cfg_signing_secret c)
        \<or> cfg_database_url_secret c = cfg_signing_secret c
     then Err ''database and signing secret references must be valid and distinct''
     else and_then (fixed_endpoint cr (cfg_endpoint_url c)) (\<lambda>_.
     if \<not> valid_name (cfg_queue_name c) then Err ''queue_name is invalid''
     else if \<not> (1 \<le> cfg_max_attempts c \<and> cfg_max_attempts c \<le> 100)
     then Err ''max_attempts must be between 1 and 100''
     else if \<not> (1 \<le> cfg_max_payload_bytes c \<and> cfg_max_payload_bytes c \<le> MAX_PAYLOAD_BYTES)
     then Err (''max_payload_bytes must be between 1 and '' @ show_nat MAX_PAYLOAD_BYTES)
     else if \<not> (1 \<le> cfg_lease_seconds c \<and> cfg_lease_seconds c \<le> 3600)
     then Err ''lease_seconds must be between 1 and 3600''
     else if \<not> (1 \<le> cfg_retry_base_seconds c \<and> cfg_retry_base_seconds c \<le> 86400)
        \<or> \<not> (cfg_retry_base_seconds c \<le> cfg_retry_max_seconds c \<and> cfg_retry_max_seconds c \<le> 86400)
     then Err ''retry delays must satisfy 1 <= retry_base_seconds <= retry_max_seconds <= 86400''
     else and_then (validate_callers (cfg_producer_instances c) ''producer'') (\<lambda>_.
          and_then (validate_callers (cfg_admin_instances c) ''admin'') (\<lambda>_. Ok ()))))"

text \<open>\<open>OutboundWebhookConfig::new\<close> fills the record from its arguments and validates it.\<close>

definition config_new :: "crates \<Rightarrow> outbound_webhook_config \<Rightarrow> (outbound_webhook_config, string) result" where
  "config_new cr c = and_then (validate cr c) (\<lambda>_. Ok c)"

definition endpoint :: "crates \<Rightarrow> outbound_webhook_config \<Rightarrow> (url, 'e) result" where
  "endpoint cr c =
     (case fixed_endpoint cr (cfg_endpoint_url c) of
        Ok u \<Rightarrow> Ok u
      | _ \<Rightarrow> Panic ''validated fixed Webhook endpoint'')"

text \<open>\<open>validate_config\<close> of \<open>lib.rs\<close>, the hook the plugin host runs.\<close>

definition validate_config :: "crates \<Rightarrow> outbound_webhook_config \<Rightarrow> (unit, runtime_failure) result" where
  "validate_config cr c =
     map_err (\<lambda>detail. InvalidResolvedPlan (''Outbound Webhook configuration is invalid: '' @ detail))
       (validate cr c)"

subsection \<open>Caller authority\<close>

definition producer_allowed :: "outbound_webhook_config \<Rightarrow> string option \<Rightarrow> bool" where
  "producer_allowed c caller =
     (case caller of None \<Rightarrow> False
      | Some name \<Rightarrow> list_ex (\<lambda>item. item = name) (cfg_producer_instances c))"

definition admin_allowed :: "outbound_webhook_config \<Rightarrow> string option \<Rightarrow> bool" where
  "admin_allowed c caller =
     (case caller of None \<Rightarrow> False
      | Some name \<Rightarrow> list_ex (\<lambda>item. item = name) (cfg_admin_instances c))"

section \<open>What a validated configuration guarantees\<close>

definition config_bounds :: "outbound_webhook_config \<Rightarrow> bool" where
  "config_bounds c \<longleftrightarrow>
     1 \<le> cfg_max_attempts c \<and> cfg_max_attempts c \<le> 100 \<and>
     1 \<le> cfg_max_payload_bytes c \<and> cfg_max_payload_bytes c \<le> 1048576 \<and>
     1 \<le> cfg_lease_seconds c \<and> cfg_lease_seconds c \<le> 3600 \<and>
     1 \<le> cfg_retry_base_seconds c \<and> cfg_retry_base_seconds c \<le> cfg_retry_max_seconds c \<and>
     cfg_retry_max_seconds c \<le> 86400"

definition callers_ok :: "string list \<Rightarrow> bool" where
  "callers_ok callers \<longleftrightarrow> callers \<noteq> [] \<and> (\<forall>caller \<in> set callers. valid_name caller) \<and> distinct callers"

lemma validate_callers_Ok: "validate_callers callers role = Ok u \<longleftrightarrow> callers_ok callers"
  by (auto simp: validate_callers_def callers_ok_def list_all_iff card_distinct distinct_card)

lemma fixed_endpoint_Ok:
  "fixed_endpoint cr s = Ok u \<longleftrightarrow> url_parse cr s = Inr u \<and>
     url_scheme u \<in> {''http'', ''https''} \<and> url_host_str u \<noteq> None \<and> url_username u = [] \<and>
     url_password u = None \<and> url_query u = None \<and> url_fragment u = None"
  by (cases "url_parse cr s") (auto simp: fixed_endpoint_def)

lemma fixed_endpoint_no_panic [no_panic_intros]: "no_panic (fixed_endpoint cr s)"
  unfolding fixed_endpoint_def by (intro no_panic_intros)

lemma validate_callers_no_panic [no_panic_intros]: "no_panic (validate_callers callers role)"
  unfolding validate_callers_def by (intro no_panic_intros)

lemma validate_no_panic: "no_panic (validate cr c)"
  unfolding validate_def by (intro no_panic_intros)

text \<open>What names and secret references may be, in terms of characters and path segments.\<close>

definition plain_name :: "string \<Rightarrow> bool" where
  "plain_name s \<longleftrightarrow> 1 \<le> length s \<and> length s \<le> 256 \<and>
     set s \<subseteq> {c. is_ascii_alphanumeric c} \<union> {CHR ''.'', CHR ''_'', CHR ''-'', CHR '':''}"

definition plain_path :: "string \<Rightarrow> bool" where
  "plain_path s \<longleftrightarrow> length s \<le> 256 \<and>
     set s \<subseteq> {c. is_ascii_alphanumeric c} \<union> {CHR ''.'', CHR ''_'', CHR ''-'', CHR ''/''} \<and>
     {[], ''.'', ''..''} \<inter> set (split_on (CHR ''/'') s) = {}"

lemma valid_name_plain: "valid_name s \<longleftrightarrow> plain_name s"
  by (cases s) (auto simp: valid_name_def plain_name_def MAX_REFERENCE_BYTES_def list_all_iff)

lemma valid_reference_plain: "valid_secret_reference s \<longleftrightarrow> plain_path s"
  using empty_segment_iff [of "CHR ''/''" s]
  by (auto simp: valid_secret_reference_def plain_path_def MAX_REFERENCE_BYTES_def list_all_iff)

lemma callers_ok_plain: "callers_ok callers \<longleftrightarrow> callers \<noteq> [] \<and> distinct callers \<and> list_all plain_name callers"
  by (auto simp: callers_ok_def valid_name_plain list_all_iff)

text \<open>
  C26: a configuration is accepted exactly when the policy holds: the schema is planned with both
  migrations; the two secret references are different relative paths of plain segments, none of
  them empty or a dot segment; the endpoint parses to an HTTP(S) URL with a host and no user,
  password, query or fragment; the queue name is plain; attempts lie in 1..100, payload bytes in
  1..1048576, the lease in 1..3600 seconds, the retry delays satisfy 1 <= base <= maximum <= 86400;
  and both caller lists are non-empty, free of duplicates and made of plain names.
\<close>

theorem validate_accepts_iff:
  "validate cr c = Ok () \<longleftrightarrow>
     schema_plan_new cr (cfg_schema c) MIGRATIONS = Inr () \<and>
     plain_path (cfg_database_url_secret c) \<and> plain_path (cfg_signing_secret c) \<and>
     cfg_database_url_secret c \<noteq> cfg_signing_secret c \<and>
     (\<exists>u. url_parse cr (cfg_endpoint_url c) = Inr u \<and> url_scheme u \<in> {''http'', ''https''} \<and>
        url_host_str u \<noteq> None \<and> url_username u = [] \<and> url_password u = None \<and>
        url_query u = None \<and> url_fragment u = None) \<and>
     plain_name (cfg_queue_name c) \<and>
     1 \<le> cfg_max_attempts c \<and> cfg_max_attempts c \<le> 100 \<and>
     1 \<le> cfg_max_payload_bytes c \<and> cfg_max_payload_bytes c \<le> 1048576 \<and>
     1 \<le> cfg_lease_seconds c \<and> cfg_lease_seconds c \<le> 3600 \<and>
     1 \<le> cfg_retry_base_seconds c \<and> cfg_retry_base_seconds c \<le> cfg_retry_max_seconds c \<and>
     cfg_retry_max_seconds c \<le> 86400 \<and>
     cfg_producer_instances c \<noteq> [] \<and> distinct (cfg_producer_instances c) \<and>
     list_all plain_name (cfg_producer_instances c) \<and>
     cfg_admin_instances c \<noteq> [] \<and> distinct (cfg_admin_instances c) \<and>
     list_all plain_name (cfg_admin_instances c)"
proof -
  have "validate cr c = Ok () \<longleftrightarrow>
     schema_plan cr (cfg_schema c) = Inr () \<and>
     valid_secret_reference (cfg_database_url_secret c) \<and>
     valid_secret_reference (cfg_signing_secret c) \<and>
     cfg_database_url_secret c \<noteq> cfg_signing_secret c \<and>
     (\<exists>u. fixed_endpoint cr (cfg_endpoint_url c) = Ok u) \<and>
     valid_name (cfg_queue_name c) \<and> config_bounds c \<and>
     callers_ok (cfg_producer_instances c) \<and> callers_ok (cfg_admin_instances c)"
    by (cases "schema_plan cr (cfg_schema c)"; cases "fixed_endpoint cr (cfg_endpoint_url c)")
      (auto simp: validate_def and_then_Ok_iff validate_callers_Ok config_bounds_def
        MAX_PAYLOAD_BYTES_def split: if_splits)
  then show ?thesis
    by (simp only: schema_plan_def valid_name_plain valid_reference_plain callers_ok_plain
        fixed_endpoint_Ok config_bounds_def conj_assoc)
qed

lemma validate_endpoint_Ok:
  "validate cr c = Ok () \<Longrightarrow> \<exists>u. fixed_endpoint cr (cfg_endpoint_url c) = Ok u"
  by (cases "schema_plan cr (cfg_schema c)"; cases "fixed_endpoint cr (cfg_endpoint_url c)")
    (auto simp: validate_def split: if_splits)

lemma validate_bounds: "validate cr c = Ok () \<Longrightarrow> config_bounds c"
  by (cases "schema_plan cr (cfg_schema c)"; cases "fixed_endpoint cr (cfg_endpoint_url c)")
    (auto simp: validate_def config_bounds_def MAX_PAYLOAD_BYTES_def split: if_splits)

subsection \<open>Secret references cannot escape their namespace\<close>

text \<open>
  A valid secret reference is a relative path of plain segments: none of them is empty,
  \<open>.\<close> or \<open>..\<close>, so it cannot leave the namespace it is resolved in.
\<close>

lemma valid_secret_reference_relative:
  assumes "valid_secret_reference s" and "segment \<in> set (split_on (CHR ''/'') s)"
  shows "segment \<noteq> [] \<and> segment \<noteq> ''.'' \<and> segment \<noteq> ''..''"
  using assms split_on_empty [of "CHR ''/''" s]
  by (auto simp: valid_secret_reference_def list_all_iff)

subsection \<open>Closed caller lists\<close>

locale caller_authority =
  fixes allowed :: "'c \<Rightarrow> string option \<Rightarrow> bool"
    and callers :: "'c \<Rightarrow> string list"
  assumes allowed_iff: "allowed c caller \<longleftrightarrow> caller \<in> Some ` set (callers c)"
begin

lemma fail_closed: "\<not> allowed c None"
  by (auto simp: allowed_iff)

lemma exact: "allowed c (Some name) \<longleftrightarrow> name \<in> set (callers c)"
  by (auto simp: allowed_iff)

end

interpretation producers: caller_authority producer_allowed cfg_producer_instances
  by unfold_locales (auto simp: producer_allowed_def list_ex_iff split: option.splits)

interpretation admins: caller_authority admin_allowed cfg_admin_instances
  by unfold_locales (auto simp: admin_allowed_def list_ex_iff split: option.splits)

end
