(* ===== verification/Storage.thy ===== *)
theory Storage
  imports External_Code
begin

text \<open>
  \<open>storage.rs\<close> and the tables of \<open>migrations/\<close>: the two tables as lists of rows with the authored
  CHECK, UNIQUE and foreign-key constraints, every SQL statement as a function on them, and the
  five storage operations with their transactions. A transaction takes effect atomically; the
  environment of a call says which database calls fail, whether a failed commit was applied
  nevertheless, the transaction timestamp, and which rows other transactions hold locked
  (\<open>SKIP LOCKED\<close> passes over them).
\<close>

section \<open>Records of the code\<close>

definition EXPIRED_DELIVERY_MAINTENANCE_BATCH_LIMIT :: nat where
  "EXPIRED_DELIVERY_MAINTENANCE_BATCH_LIMIT = 64"

text \<open>The operation label of a failed database call, or the invariant that does not hold.\<close>

datatype store_error = Database string | Invariant string

fun store_error_to_string :: "store_error \<Rightarrow> string" where
  "store_error_to_string (Database operation) =
     ''PostgreSQL operation `'' @ operation @ ''` failed''"
| "store_error_to_string (Invariant detail) =
     ''Outbound Webhook persistence invariant failed: '' @ detail"

datatype delivery_status = Queued | Delivering | RetryScheduled | Delivered | DeadLetter

fun delivery_status_as_str :: "delivery_status \<Rightarrow> string" where
  "delivery_status_as_str Queued = ''queued''"
| "delivery_status_as_str Delivering = ''delivering''"
| "delivery_status_as_str RetryScheduled = ''retry_scheduled''"
| "delivery_status_as_str Delivered = ''delivered''"
| "delivery_status_as_str DeadLetter = ''dead_letter''"

definition delivery_status_parse :: "string \<Rightarrow> (delivery_status, store_error) result" where
  "delivery_status_parse s =
     (if s = ''queued'' then Ok Queued
      else if s = ''delivering'' then Ok Delivering
      else if s = ''retry_scheduled'' then Ok RetryScheduled
      else if s = ''delivered'' then Ok Delivered
      else if s = ''dead_letter'' then Ok DeadLetter
      else Err (Invariant ''unknown delivery status''))"

record new_delivery =
  nd_delivery_id :: string
  nd_event_id :: string
  nd_event_type :: string
  nd_endpoint_url :: string
  nd_endpoint_origin :: string
  nd_payload_snapshot :: bytes
  nd_payload_sha256 :: string
  nd_queue_name :: string
  nd_max_attempts :: int
  nd_available_at :: int

record delivery_receipt =
  rc_attempt :: int
  rc_outcome :: string
  rc_http_status :: "int option"
  rc_response_sha256 :: "string option"
  rc_occurred_at :: int

record delivery_record =
  dr_delivery_id :: string
  dr_event_id :: string
  dr_event_type :: string
  dr_endpoint_url :: string
  dr_endpoint_origin :: string
  dr_payload_snapshot :: bytes
  dr_payload_sha256 :: string
  dr_queue_name :: string
  dr_status :: delivery_status
  dr_attempts :: int
  dr_max_attempts :: int
  dr_replay_count :: int
  dr_last_receipt :: "delivery_receipt option"

datatype insert_outcome = Created delivery_record | Existing delivery_record | Conflict

section \<open>The tables\<close>

text \<open>Columns \<open>integer\<close> are \<open>int\<close>s, \<open>timestamptz\<close> columns Unix microseconds.\<close>

record delivery_row =
  row_delivery_id :: string
  row_event_id :: string
  row_event_type :: string
  row_endpoint_url :: string
  row_endpoint_origin :: string
  row_payload_snapshot :: bytes
  row_payload_sha256 :: string
  row_queue_name :: string
  row_status :: string
  row_available_at :: int
  row_lease_expires_at :: "int option"
  row_attempts :: int
  row_max_attempts :: int
  row_replay_count :: int
  row_created_at :: int
  row_updated_at :: int

record attempt_row =
  att_delivery_id :: string
  att_replay_count :: int
  att_attempt :: int
  att_outcome :: string
  att_http_status :: "int option"
  att_response_sha256 :: "string option"
  att_occurred_at :: int

record database =
  deliveries :: "delivery_row list"
  attempts :: "attempt_row list"

definition empty_database :: database where
  "empty_database = \<lparr>deliveries = [], attempts = []\<rparr>"

text \<open>The CHECK constraints of the two tables.\<close>

definition delivery_checks :: "delivery_row \<Rightarrow> bool" where
  "delivery_checks r \<longleftrightarrow>
     row_status r \<in> {''queued'', ''delivering'', ''retry_scheduled'', ''delivered'', ''dead_letter''} \<and>
     (0 \<le> row_attempts r \<and> row_attempts r \<le> row_max_attempts r \<and>
      1 \<le> row_max_attempts r \<and> row_max_attempts r \<le> 100) \<and>
     (0 \<le> row_replay_count r \<and> row_replay_count r \<le> 1000000) \<and>
     (row_status r = ''delivering'') = (row_lease_expires_at r \<noteq> None)"

definition attempt_checks :: "attempt_row \<Rightarrow> bool" where
  "attempt_checks a \<longleftrightarrow>
     (1 \<le> att_attempt a \<and> att_attempt a \<le> 100) \<and>
     (case att_http_status a of None \<Rightarrow> True | Some status \<Rightarrow> 100 \<le> status \<and> status \<le> 599)"

definition attempt_key :: "attempt_row \<Rightarrow> string \<times> int \<times> int" where
  "attempt_key a = (att_delivery_id a, att_replay_count a, att_attempt a)"

section \<open>Statements on the tables\<close>

text \<open>
  A statement that violates a constraint is \<open>None\<close>: PostgreSQL raises an error and aborts the
  transaction. CHECK constraints are tested before the conflict target of \<open>ON CONFLICT\<close>.
\<close>

definition insert_delivery :: "delivery_row \<Rightarrow> database \<Rightarrow> (nat \<times> database) option" where
  "insert_delivery r s =
     (if \<not> delivery_checks r then None
      else if list_ex (\<lambda>r'. row_delivery_id r' = row_delivery_id r \<or> row_event_id r' = row_event_id r)
                (deliveries s)
      then Some (0, s)
      else Some (1, s\<lparr>deliveries := deliveries s @ [r]\<rparr>))"

definition insert_attempt :: "attempt_row \<Rightarrow> database \<Rightarrow> database option" where
  "insert_attempt a s =
     (if \<not> attempt_checks a then None
      else if list_ex (\<lambda>a'. attempt_key a' = attempt_key a) (attempts s) then Some s
      else if \<not> list_ex (\<lambda>r. row_delivery_id r = att_delivery_id a) (deliveries s) then None
      else Some (s\<lparr>attempts := attempts s @ [a]\<rparr>))"

fun insert_attempts :: "attempt_row list \<Rightarrow> database \<Rightarrow> database option" where
  "insert_attempts [] s = Some s"
| "insert_attempts (a # as) s = Option.bind (insert_attempt a s) (insert_attempts as)"

text \<open>\<open>UPDATE ... WHERE p RETURNING\<close>: the new values of the matching rows, and the table.\<close>

definition update_deliveries ::
    "(delivery_row \<Rightarrow> bool) \<Rightarrow> (delivery_row \<Rightarrow> delivery_row) \<Rightarrow> database \<Rightarrow>
     (delivery_row list \<times> database) option" where
  "update_deliveries p f s =
     (let rows = map f (filter p (deliveries s)) in
      if list_all delivery_checks rows
      then Some (rows, s\<lparr>deliveries := map (\<lambda>r. if p r then f r else r) (deliveries s)\<rparr>)
      else None)"

section \<open>Calls, transactions, decoding\<close>

record db_env =
  db_now :: int
  db_fails :: "string \<Rightarrow> bool"
  db_commit_applied :: bool
  db_locked :: "string \<Rightarrow> bool"

text \<open>\<open>s0\<close> is the state the transaction started in, \<open>s1\<close> the one it leaves when committed.\<close>

definition commit ::
    "db_env \<Rightarrow> string \<Rightarrow> database \<Rightarrow> database \<Rightarrow> 'a \<Rightarrow> ('a, store_error) result \<times> database" where
  "commit env operation s0 s1 v =
     (if db_fails env operation
      then (Err (Database operation), if db_commit_applied env then s1 else s0)
      else (Ok v, s1))"

definition execute :: "db_env \<Rightarrow> string \<Rightarrow> 'a option \<Rightarrow> 'a option" where
  "execute env operation statement = (if db_fails env operation then None else statement)"

definition decode_delivery :: "db_env \<Rightarrow> delivery_row \<Rightarrow> (delivery_record, store_error) result" where
  "decode_delivery env r =
     (if db_fails env ''decode delivery'' then Err (Database ''decode delivery'')
      else and_then (delivery_status_parse (row_status r)) (\<lambda>status.
        Ok \<lparr>dr_delivery_id = row_delivery_id r,
            dr_event_id = row_event_id r,
            dr_event_type = row_event_type r,
            dr_endpoint_url = row_endpoint_url r,
            dr_endpoint_origin = row_endpoint_origin r,
            dr_payload_snapshot = row_payload_snapshot r,
            dr_payload_sha256 = row_payload_sha256 r,
            dr_queue_name = row_queue_name r,
            dr_status = status,
            dr_attempts = row_attempts r,
            dr_max_attempts = row_max_attempts r,
            dr_replay_count = row_replay_count r,
            dr_last_receipt = None\<rparr>))"

definition decode_receipt ::
    "crates \<Rightarrow> db_env \<Rightarrow> attempt_row \<Rightarrow> (delivery_receipt, store_error) result" where
  "decode_receipt cr env a =
     (if db_fails env ''decode receipt'' then Err (Database ''decode receipt'')
      else Ok \<lparr>rc_attempt = att_attempt a,
               rc_outcome = att_outcome a,
               rc_http_status = att_http_status a,
               rc_response_sha256 = att_response_sha256 a,
               rc_occurred_at = pg_time cr (att_occurred_at a)\<rparr>)"

definition ensure_updated :: "nat \<Rightarrow> string \<Rightarrow> (unit, store_error) result" where
  "ensure_updated rows operation = (if rows = 1 then Ok () else Err (Invariant operation))"

section \<open>Operations\<close>

subsection \<open>Enqueue\<close>

definition new_row :: "crates \<Rightarrow> db_env \<Rightarrow> new_delivery \<Rightarrow> int \<Rightarrow> delivery_row" where
  "new_row cr env d max_attempts =
     \<lparr>row_delivery_id = nd_delivery_id d,
      row_event_id = nd_event_id d,
      row_event_type = nd_event_type d,
      row_endpoint_url = nd_endpoint_url d,
      row_endpoint_origin = nd_endpoint_origin d,
      row_payload_snapshot = nd_payload_snapshot d,
      row_payload_sha256 = nd_payload_sha256 d,
      row_queue_name = nd_queue_name d,
      row_status = ''queued'',
      row_available_at = pg_micros cr (nd_available_at d),
      row_lease_expires_at = None,
      row_attempts = 0,
      row_max_attempts = max_attempts,
      row_replay_count = 0,
      row_created_at = db_now env,
      row_updated_at = db_now env\<rparr>"

definition created_record :: "new_delivery \<Rightarrow> delivery_record" where
  "created_record d =
     \<lparr>dr_delivery_id = nd_delivery_id d,
      dr_event_id = nd_event_id d,
      dr_event_type = nd_event_type d,
      dr_endpoint_url = nd_endpoint_url d,
      dr_endpoint_origin = nd_endpoint_origin d,
      dr_payload_snapshot = nd_payload_snapshot d,
      dr_payload_sha256 = nd_payload_sha256 d,
      dr_queue_name = nd_queue_name d,
      dr_status = Queued,
      dr_attempts = 0,
      dr_max_attempts = nd_max_attempts d,
      dr_replay_count = 0,
      dr_last_receipt = None\<rparr>"

definition same_delivery :: "delivery_record \<Rightarrow> new_delivery \<Rightarrow> bool" where
  "same_delivery existing d \<longleftrightarrow>
     dr_event_type existing = nd_event_type d \<and>
     dr_endpoint_url existing = nd_endpoint_url d \<and>
     dr_endpoint_origin existing = nd_endpoint_origin d \<and>
     dr_payload_snapshot existing = nd_payload_snapshot d \<and>
     dr_payload_sha256 existing = nd_payload_sha256 d \<and>
     dr_queue_name existing = nd_queue_name d"

definition insert_or_get ::
    "crates \<Rightarrow> db_env \<Rightarrow> new_delivery \<Rightarrow> database \<Rightarrow>
     (insert_outcome, store_error) result \<times> database" where
  "insert_or_get cr env d s =
     (if db_fails env ''begin enqueue'' then (Err (Database ''begin enqueue''), s)
      else (case i32_try_from (nd_max_attempts d) of
        None \<Rightarrow> (Panic ''validated attempts'', s)
      | Some max_attempts \<Rightarrow>
     (case execute env ''insert delivery'' (insert_delivery (new_row cr env d max_attempts) s) of
        None \<Rightarrow> (Err (Database ''insert delivery''), s)
      | Some (rows_affected, s1) \<Rightarrow>
     if rows_affected = 1
     then commit env ''commit delivery enqueue'' s s1 (Created (created_record d))
     else if db_fails env ''read idempotent delivery''
     then (Err (Database ''read idempotent delivery''), s)
     else (case List.find (\<lambda>r. row_event_id r = nd_event_id d) (deliveries s1) of
        None \<Rightarrow> (Err (Invariant ''delivery identity collision''), s)
      | Some row \<Rightarrow>
     (case decode_delivery env row of
        Err e \<Rightarrow> (Err e, s)
      | Panic m \<Rightarrow> (Panic m, s)
      | Ok existing \<Rightarrow>
          commit env ''commit idempotent delivery'' s s1
            (if same_delivery existing d then Existing existing else Conflict))))))"

subsection \<open>Load\<close>

text \<open>
  Two statements on the pool without a transaction: \<open>s\<close> is the database when the delivery is read,
  \<open>s'\<close> when its receipt is.
\<close>

definition last_receipt ::
    "crates \<Rightarrow> db_env \<Rightarrow> string \<Rightarrow> database \<Rightarrow> (delivery_receipt option, store_error) result" where
  "last_receipt cr env delivery_id s =
     (if db_fails env ''load delivery receipt'' then Err (Database ''load delivery receipt'')
      else (case sort_key (\<lambda>a. (- att_replay_count a, - att_attempt a))
                  (filter (\<lambda>a. att_delivery_id a = delivery_id) (attempts s)) of
        [] \<Rightarrow> Ok None
      | a # _ \<Rightarrow> and_then (decode_receipt cr env a) (\<lambda>receipt. Ok (Some receipt))))"

definition load ::
    "crates \<Rightarrow> db_env \<Rightarrow> string \<Rightarrow> database \<Rightarrow> database \<Rightarrow>
     (delivery_record option, store_error) result" where
  "load cr env delivery_id s s' =
     (if db_fails env ''load delivery'' then Err (Database ''load delivery'')
      else (case List.find (\<lambda>r. row_delivery_id r = delivery_id) (deliveries s) of
        None \<Rightarrow> Ok None
      | Some row \<Rightarrow>
          and_then (decode_delivery env row) (\<lambda>delivery.
          and_then (last_receipt cr env delivery_id s') (\<lambda>receipt.
          Ok (Some (delivery\<lparr>dr_last_receipt := receipt\<rparr>))))))"

subsection \<open>Claim\<close>

text \<open>\<open>lease_expires_at <= transaction_timestamp()\<close>, false for NULL.\<close>

definition lease_expired :: "int \<Rightarrow> delivery_row \<Rightarrow> bool" where
  "lease_expired now r \<longleftrightarrow>
     (case row_lease_expires_at r of None \<Rightarrow> False | Some lease \<Rightarrow> lease \<le> now)"

definition lease_order :: "delivery_row \<Rightarrow> int \<times> string" where
  "lease_order r = (case row_lease_expires_at r of None \<Rightarrow> 0 | Some lease \<Rightarrow> lease, row_delivery_id r)"

definition due_order :: "delivery_row \<Rightarrow> int \<times> int \<times> string" where
  "due_order r = (row_available_at r, row_created_at r, row_delivery_id r)"

text \<open>The CTE \<open>expired\<close>: at most one batch of rows whose lease has run out, locked rows skipped.\<close>

definition expired :: "db_env \<Rightarrow> string \<Rightarrow> database \<Rightarrow> delivery_row list" where
  "expired env queue s =
     take EXPIRED_DELIVERY_MAINTENANCE_BATCH_LIMIT
       (filter (\<lambda>r. \<not> db_locked env (row_delivery_id r))
         (sort_key lease_order
           (filter (\<lambda>r. row_queue_name r = queue \<and> row_status r = ''delivering'' \<and>
                        lease_expired (db_now env) r) (deliveries s))))"

text \<open>The CTE \<open>receipted\<close>: what it inserts for each of them.\<close>

definition lease_expired_receipt :: "db_env \<Rightarrow> delivery_row \<Rightarrow> attempt_row" where
  "lease_expired_receipt env r =
     \<lparr>att_delivery_id = row_delivery_id r, att_replay_count = row_replay_count r,
      att_attempt = row_attempts r, att_outcome = ''lease_expired'', att_http_status = None,
      att_response_sha256 = None, att_occurred_at = db_now env\<rparr>"

text \<open>The CTE \<open>retired\<close>: the exhausted rows of the batch become dead letters.\<close>

definition retires :: "delivery_row list \<Rightarrow> delivery_row \<Rightarrow> bool" where
  "retires batch r \<longleftrightarrow>
     list_ex (\<lambda>e. row_delivery_id e = row_delivery_id r \<and> row_max_attempts e \<le> row_attempts e) batch"

definition retire_row :: "db_env \<Rightarrow> delivery_row \<Rightarrow> delivery_row" where
  "retire_row env r =
     r\<lparr>row_status := ''dead_letter'', row_lease_expires_at := None, row_updated_at := db_now env\<rparr>"

text \<open>The CTE \<open>candidate\<close>: the first due row of the queue.\<close>

definition due :: "db_env \<Rightarrow> string \<Rightarrow> delivery_row list \<Rightarrow> delivery_row \<Rightarrow> bool" where
  "due env queue batch r \<longleftrightarrow>
     row_queue_name r = queue \<and> row_attempts r < row_max_attempts r \<and>
     ((row_status r \<in> {''queued'', ''retry_scheduled''} \<and> row_available_at r \<le> db_now env) \<or>
      (row_status r = ''delivering'' \<and> lease_expired (db_now env) r \<and>
       list_ex (\<lambda>e. row_delivery_id e = row_delivery_id r) batch))"

definition candidate :: "db_env \<Rightarrow> string \<Rightarrow> delivery_row list \<Rightarrow> database \<Rightarrow> delivery_row list" where
  "candidate env queue batch s =
     take 1 (filter (\<lambda>r. \<not> db_locked env (row_delivery_id r))
       (sort_key due_order (filter (due env queue batch) (deliveries s))))"

definition claim_row :: "db_env \<Rightarrow> int \<Rightarrow> delivery_row \<Rightarrow> delivery_row" where
  "claim_row env lease_seconds r =
     r\<lparr>row_status := ''delivering'', row_attempts := row_attempts r + 1,
       row_lease_expires_at := Some (db_now env + lease_seconds * 1000000),
       row_updated_at := db_now env\<rparr>"

text \<open>The whole statement: every CTE reads the snapshot \<open>s\<close>, the modifications are applied in turn.\<close>

definition claim_statement ::
    "db_env \<Rightarrow> string \<Rightarrow> int \<Rightarrow> database \<Rightarrow> (delivery_row list \<times> database) option" where
  "claim_statement env queue lease_seconds s =
     (let batch = expired env queue s;
          chosen = candidate env queue batch s
      in Option.bind (insert_attempts (map (lease_expired_receipt env) batch) s) (\<lambda>s1.
         Option.bind (update_deliveries (retires batch) (retire_row env) s1) (\<lambda>(_, s2).
         update_deliveries
           (\<lambda>r. list_ex (\<lambda>c. row_delivery_id c = row_delivery_id r) chosen)
           (claim_row env lease_seconds) s2)))"

definition claim_due ::
    "db_env \<Rightarrow> string \<Rightarrow> int \<Rightarrow> database \<Rightarrow>
     (delivery_record option, store_error) result \<times> database" where
  "claim_due env queue lease_seconds s =
     (if db_fails env ''begin delivery claim'' then (Err (Database ''begin delivery claim''), s)
      else (case i32_try_from lease_seconds of
        None \<Rightarrow> (Panic ''validated lease seconds'', s)
      | Some lease \<Rightarrow>
     (case execute env ''claim due delivery'' (claim_statement env queue lease s) of
        None \<Rightarrow> (Err (Database ''claim due delivery''), s)
      | Some (rows, s1) \<Rightarrow>
     (case commit env ''commit delivery claim'' s s1 () of
        (Ok _, s2) \<Rightarrow>
          (case rows of
             [] \<Rightarrow> Ok None
           | row # _ \<Rightarrow> and_then (decode_delivery env row) (\<lambda>delivery. Ok (Some delivery)), s2)
      | (Err e, s2) \<Rightarrow> (Err e, s2)
      | (Panic m, s2) \<Rightarrow> (Panic m, s2)))))"

subsection \<open>Record an outcome\<close>

definition outcome_matches :: "db_env \<Rightarrow> string \<Rightarrow> int \<Rightarrow> int \<Rightarrow> delivery_row \<Rightarrow> bool" where
  "outcome_matches env delivery_id replay_count attempt r \<longleftrightarrow>
     row_delivery_id r = delivery_id \<and> row_replay_count r = replay_count \<and>
     row_attempts r = attempt \<and> row_status r = ''delivering'' \<and>
     (case row_lease_expires_at r of None \<Rightarrow> False | Some lease \<Rightarrow> db_now env < lease)"

definition outcome_row :: "db_env \<Rightarrow> string \<Rightarrow> int option \<Rightarrow> delivery_row \<Rightarrow> delivery_row" where
  "outcome_row env status available_at r =
     r\<lparr>row_status := status,
       row_available_at := (case available_at of None \<Rightarrow> row_available_at r | Some t \<Rightarrow> t),
       row_lease_expires_at := (if status = ''delivering'' then row_lease_expires_at r else None),
       row_updated_at := db_now env\<rparr>"

text \<open>The bound parameters of the receipt, each conversion with its \<open>expect\<close>.\<close>

definition receipt_row ::
    "crates \<Rightarrow> string \<Rightarrow> int \<Rightarrow> delivery_receipt \<Rightarrow> (attempt_row, store_error) result" where
  "receipt_row cr delivery_id replay_count receipt =
     and_then (expect ''bounded replay count'' (i32_try_from replay_count)) (\<lambda>replay.
     and_then (expect ''bounded attempt'' (i32_try_from (rc_attempt receipt))) (\<lambda>attempt.
     and_then (case rc_http_status receipt of
                 None \<Rightarrow> Ok None
               | Some status \<Rightarrow>
                   and_then (expect ''HTTP status'' (i32_try_from status)) (\<lambda>h. Ok (Some h)))
       (\<lambda>http_status.
     Ok \<lparr>att_delivery_id = delivery_id, att_replay_count = replay, att_attempt = attempt,
         att_outcome = rc_outcome receipt, att_http_status = http_status,
         att_response_sha256 = rc_response_sha256 receipt,
         att_occurred_at = pg_micros cr (rc_occurred_at receipt)\<rparr>)))"

definition record_outcome ::
    "crates \<Rightarrow> db_env \<Rightarrow> string \<Rightarrow> int \<Rightarrow> delivery_receipt \<Rightarrow> delivery_status \<Rightarrow> int option \<Rightarrow>
     database \<Rightarrow> (unit, store_error) result \<times> database" where
  "record_outcome cr env delivery_id replay_count receipt status next_available_at s =
     (if db_fails env ''begin record receipt'' then (Err (Database ''begin record receipt''), s)
      else (case receipt_row cr delivery_id replay_count receipt of
        Err e \<Rightarrow> (Err e, s)
      | Panic m \<Rightarrow> (Panic m, s)
      | Ok a \<Rightarrow>
     (case execute env ''insert delivery receipt'' (insert_attempt a s) of
        None \<Rightarrow> (Err (Database ''insert delivery receipt''), s)
      | Some s1 \<Rightarrow>
     (case execute env ''update delivery outcome''
            (update_deliveries
              (outcome_matches env delivery_id replay_count (rc_attempt receipt))
              (outcome_row env (delivery_status_as_str status) (map_option (pg_micros cr) next_available_at)) s1) of
        None \<Rightarrow> (Err (Database ''update delivery outcome''), s)
      | Some (rows, s2) \<Rightarrow>
     (case ensure_updated (length rows) ''record fenced delivery outcome'' of
        Err e \<Rightarrow> (Err e, s)
      | Panic m \<Rightarrow> (Panic m, s)
      | Ok _ \<Rightarrow> commit env ''commit delivery receipt'' s s2 ())))))"

subsection \<open>Replay\<close>

definition replayable :: "string \<Rightarrow> delivery_row \<Rightarrow> bool" where
  "replayable delivery_id r \<longleftrightarrow>
     row_delivery_id r = delivery_id \<and> row_status r = ''dead_letter'' \<and> row_replay_count r < 1000000"

definition replay_row :: "db_env \<Rightarrow> delivery_row \<Rightarrow> delivery_row" where
  "replay_row env r =
     r\<lparr>row_replay_count := row_replay_count r + 1, row_status := ''queued'', row_attempts := 0,
       row_available_at := db_now env, row_lease_expires_at := None, row_updated_at := db_now env\<rparr>"

text \<open>One statement on the pool: it commits by itself, so a failed call may have been applied.\<close>

definition begin_replay ::
    "db_env \<Rightarrow> string \<Rightarrow> database \<Rightarrow> (delivery_record option, store_error) result \<times> database" where
  "begin_replay env delivery_id s =
     (case update_deliveries (replayable delivery_id) (replay_row env) s of
        None \<Rightarrow> (Err (Database ''begin dead-letter replay''), s)
      | Some (rows, s1) \<Rightarrow>
          if db_fails env ''begin dead-letter replay''
          then (Err (Database ''begin dead-letter replay''), if db_commit_applied env then s1 else s)
          else (case rows of
                  [] \<Rightarrow> Ok None
                | row # _ \<Rightarrow> and_then (decode_delivery env row) (\<lambda>delivery. Ok (Some delivery)), s1))"

end
