(* ===== verification/Protocol.thy ===== *)
theory Protocol
  imports Storage Contract_Types
begin

text \<open>
  \<open>protocol.rs\<close>: identities, digests and signatures, the payload snapshot, headers, the
  classification of HTTP results, timestamps, and the shaping of responses.
\<close>

section \<open>The model\<close>

subsection \<open>Hexadecimal digests\<close>

definition hex_digit :: "nat \<Rightarrow> char" where
  "hex_digit n = ''0123456789abcdef'' ! n"

definition hex :: "bytes \<Rightarrow> string" where
  "hex bs = concat (map (\<lambda>byte. [hex_digit (unat (drop_bit 4 byte)), hex_digit (unat (and byte 0x0f))]) bs)"

definition sha256_hex :: "crates \<Rightarrow> bytes \<Rightarrow> string" where
  "sha256_hex cr bs = hex (sha256 cr bs)"

definition stable_delivery_id :: "crates \<Rightarrow> string \<Rightarrow> string \<Rightarrow> string" where
  "stable_delivery_id cr endpoint_url event_id =
     ''wh_'' @ take 48 (hex (sha256 cr (as_bytes endpoint_url @ [0] @ as_bytes event_id)))"

definition sign_payload ::
    "crates \<Rightarrow> bytes \<Rightarrow> string \<Rightarrow> string \<Rightarrow> bytes \<Rightarrow> (string, runtime_failure) result" where
  "sign_payload cr key delivery_id timestamp payload =
     (case hmac_sha256 cr key
        (as_bytes delivery_id @ as_bytes ''.'' @ as_bytes timestamp @ as_bytes ''.'' @ payload) of
        None \<Rightarrow> Err (PluginFailure ''Outbound Webhook signing secret is invalid'')
      | Some mac \<Rightarrow> Ok (hex mac))"

subsection \<open>The payload snapshot\<close>

definition webhook_envelope :: "enqueue_request \<Rightarrow> json" where
  "webhook_envelope request =
     JObject [(''event_id'', JString (enq_event_id request)),
              (''event_type'', JString (enq_event_type request)),
              (''payload'', JObject (enq_payload request))]"

definition payload_snapshot :: "crates \<Rightarrow> enqueue_request \<Rightarrow> (bytes, runtime_failure) result" where
  "payload_snapshot cr request =
     of_sum (\<lambda>error. PluginFailure (''Outbound Webhook payload could not be snapshotted: '' @ error))
       (to_vec cr (webhook_envelope request))"

subsection \<open>Names\<close>

definition valid_event_name :: "string \<Rightarrow> bool" where
  "valid_event_name s \<longleftrightarrow> s \<noteq> [] \<and> length s \<le> 256 \<and>
     list_all (\<lambda>byte. is_ascii_alphanumeric byte \<or> byte \<in> set ''._-:/'') s"

definition valid_delivery_id :: "string \<Rightarrow> bool" where
  "valid_delivery_id s \<longleftrightarrow>
     length s = 51 \<and> starts_with ''wh_'' s \<and> list_all is_ascii_hexdigit (drop 3 s)"

subsection \<open>Headers\<close>

type_synonym header = "string \<times> string"

definition webhook_headers :: "delivery_record \<Rightarrow> string \<Rightarrow> string \<Rightarrow> header list" where
  "webhook_headers delivery timestamp signature =
     [(''content-type'', ''application/json''),
      (''x-lenso-webhook-id'', dr_delivery_id delivery),
      (''x-lenso-webhook-event-id'', dr_event_id delivery),
      (''x-lenso-webhook-timestamp'', timestamp),
      (''x-lenso-webhook-signature'', ''v1='' @ signature)]"

subsection \<open>Failures of a delivery\<close>

text \<open>\<open>SendError\<close> of the HTTP client, whose variants the code matches exhaustively.\<close>

datatype send_error =
    Timeout | TransportFailure | ResponseTooLarge | DestinationNotAllowed | InvalidRequest
  | RequestTooLarge | SendUnknown unknown_domain_error

record delivery_failure =
  failure_code :: string
  failure_retryable :: bool

definition failure :: "string \<Rightarrow> bool \<Rightarrow> delivery_failure" where
  "failure code retryable = \<lparr>failure_code = code, failure_retryable = retryable\<rparr>"

definition http_status_failure :: "int \<Rightarrow> delivery_failure" where
  "http_status_failure status =
     \<lparr>failure_code = ''http_status_'' @ show_int status,
      failure_retryable = (status = 408 \<or> status = 429 \<or> (500 \<le> status \<and> status < 600))\<rparr>"

fun http_domain_failure :: "send_error \<Rightarrow> delivery_failure" where
  "http_domain_failure Timeout = failure ''http_timeout'' True"
| "http_domain_failure TransportFailure = failure ''http_transport_failure'' True"
| "http_domain_failure ResponseTooLarge = failure ''http_response_too_large'' False"
| "http_domain_failure DestinationNotAllowed = failure ''http_destination_not_allowed'' False"
| "http_domain_failure InvalidRequest = failure ''http_invalid_request'' False"
| "http_domain_failure RequestTooLarge = failure ''http_request_too_large'' False"
| "http_domain_failure (SendUnknown _) = failure ''http_unknown_failure'' False"

subsection \<open>Time\<close>

text \<open>A time is its Unix nanoseconds; \<open>nanosecond()\<close> is the part within the second.\<close>

definition format_time :: "crates \<Rightarrow> int \<Rightarrow> (string, runtime_failure) result" where
  "format_time cr t =
     of_sum (\<lambda>error. PluginFailure (''Outbound Webhook timestamp could not be encoded: '' @ error))
       (rfc3339 cr t)"

definition nanosecond :: "int \<Rightarrow> int" where
  "nanosecond t = t mod 1000000000"

definition replace_nanosecond :: "int \<Rightarrow> int \<Rightarrow> int option" where
  "replace_nanosecond t ns =
     (if 0 \<le> ns \<and> ns < 1000000000 then Some (t - nanosecond t + ns) else None)"

text \<open>\<open>now\<close> is the reading of the application clock.\<close>

definition database_timestamp_now :: "int \<Rightarrow> (int, 'e) result" where
  "database_timestamp_now now =
     expect ''truncated nanosecond remains valid''
       (replace_nanosecond now (nanosecond now div 1000 * 1000))"

subsection \<open>Responses\<close>

fun enqueue_status :: "delivery_status \<Rightarrow> enqueue_response_status" where
  "enqueue_status Queued = EnqueueQueued"
| "enqueue_status Delivering = EnqueueDelivering"
| "enqueue_status RetryScheduled = EnqueueRetryScheduled"
| "enqueue_status Delivered = EnqueueDelivered"
| "enqueue_status DeadLetter = EnqueueDeadLetter"

fun inspect_status :: "delivery_status \<Rightarrow> inspect_response_status" where
  "inspect_status Queued = InspectQueued"
| "inspect_status Delivering = InspectDelivering"
| "inspect_status RetryScheduled = InspectRetryScheduled"
| "inspect_status Delivered = InspectDelivered"
| "inspect_status DeadLetter = InspectDeadLetter"

fun expect_ok :: "string \<Rightarrow> ('a, 'e) result \<Rightarrow> ('a, 'f) result" where
  "expect_ok m (Ok x) = Ok x"
| "expect_ok m (Err e) = Panic m"
| "expect_ok m (Panic m') = Panic m'"

definition inspect_receipt ::
    "crates \<Rightarrow> delivery_receipt \<Rightarrow> (inspect_response_last_receipt, 'e) result" where
  "inspect_receipt cr receipt =
     and_then (expect_ok ''stored PostgreSQL timestamp'' (format_time cr (rc_occurred_at receipt)))
       (\<lambda>occurred_at.
         Ok \<lparr>ilr_attempt = rc_attempt receipt,
             ilr_http_status = map_option show_int (rc_http_status receipt),
             ilr_occurred_at = occurred_at,
             ilr_outcome = rc_outcome receipt,
             ilr_response_sha256 = rc_response_sha256 receipt\<rparr>)"

definition dispatch_receipt ::
    "crates \<Rightarrow> delivery_receipt \<Rightarrow> (dispatch_response_receipt, 'e) result" where
  "dispatch_receipt cr receipt =
     and_then (expect_ok ''stored PostgreSQL timestamp'' (format_time cr (rc_occurred_at receipt)))
       (\<lambda>occurred_at.
         Ok \<lparr>drr_attempt = rc_attempt receipt,
             drr_http_status = map_option show_int (rc_http_status receipt),
             drr_occurred_at = occurred_at,
             drr_outcome = rc_outcome receipt,
             drr_response_sha256 = rc_response_sha256 receipt\<rparr>)"

definition inspect_response_of :: "crates \<Rightarrow> delivery_record \<Rightarrow> (inspect_response, 'e) result" where
  "inspect_response_of cr delivery =
     and_then (case dr_last_receipt delivery of
                 None \<Rightarrow> Ok None
               | Some receipt \<Rightarrow> and_then (inspect_receipt cr receipt) (\<lambda>r. Ok (Some r)))
       (\<lambda>last_receipt.
         Ok \<lparr>ins_attempts = dr_attempts delivery,
             ins_delivery_id = dr_delivery_id delivery,
             ins_endpoint_origin = dr_endpoint_origin delivery,
             ins_event_id = dr_event_id delivery,
             ins_event_type = dr_event_type delivery,
             ins_last_receipt = last_receipt,
             ins_max_attempts = dr_max_attempts delivery,
             ins_payload_sha256 = dr_payload_sha256 delivery,
             ins_replay_count = dr_replay_count delivery,
             ins_status = inspect_status (dr_status delivery)\<rparr>)"

definition dispatch_response_of ::
    "crates \<Rightarrow> string \<Rightarrow> dispatch_response_outcome \<Rightarrow> delivery_receipt \<Rightarrow>
     (dispatch_response, 'e) result" where
  "dispatch_response_of cr delivery_id outcome receipt =
     and_then (dispatch_receipt cr receipt) (\<lambda>r.
       Ok \<lparr>dsp_delivery_id = Some delivery_id, dsp_outcome = outcome, dsp_receipt = Some r\<rparr>)"

definition idle_dispatch :: dispatch_response where
  "idle_dispatch = \<lparr>dsp_delivery_id = None, dsp_outcome = DispatchIdle, dsp_receipt = None\<rparr>"

end
