(* ===== verification/Service.thy ===== *)
theory Service
  imports Config Storage Protocol
begin

text \<open>
  \<open>service.rs\<close> and the state of \<open>lib.rs\<close> it works on: the flows behind \<open>enqueue\<close>, \<open>inspect\<close>,
  \<open>replay\<close> and \<open>dispatch\<close>, guard by guard. A flow that calls the database takes the environment
  of its calls and the database it sees; \<open>dispatch\<close> also takes the HTTP client, the readings of
  the application clock and what other callers do to the database between its two transactions,
  and yields the requests it has sent.
\<close>

section \<open>The state of the plugin\<close>

record prepared_webhook =
  pw_endpoint :: url
  pw_endpoint_origin :: string
  pw_signing_key :: bytes

text \<open>\<open>OutboundWebhookPlugin\<close>; its ports are arguments of the operations that use them.\<close>

record plugin =
  pl_config :: outbound_webhook_config
  pl_prepared :: "prepared_webhook option"

text \<open>What the code looks at of the \<open>InvocationContext\<close>.\<close>

record invocation_context =
  caller_instance :: "string option"

definition prepared :: "plugin \<Rightarrow> (prepared_webhook, runtime_failure) result" where
  "prepared pl =
     (case pl_prepared pl of
        None \<Rightarrow> Err (PluginFailure ''Outbound Webhook Plugin is not active'')
      | Some pw \<Rightarrow> Ok pw)"

section \<open>Errors of the flows\<close>

datatype flow_error = FlowDomain enqueue_error | FlowRuntime runtime_failure

datatype admin_flow_error =
    AdminDispatch dispatch_error
  | AdminInspect inspect_error
  | AdminReplay replay_error
  | AdminRuntime runtime_failure

definition store_failure :: "store_error \<Rightarrow> runtime_failure" where
  "store_failure error = PluginFailure (store_error_to_string error)"

definition invariant_failure :: "string \<Rightarrow> runtime_failure" where
  "invariant_failure detail = PluginFailure detail"

section \<open>Fallible steps on the database\<close>

text \<open>A storage call with its \<open>map_err\<close>, and the \<open>?\<close> after it.\<close>

definition map_store_err ::
    "(runtime_failure \<Rightarrow> 'f) \<Rightarrow> ('a, store_error) result \<times> database \<Rightarrow> ('a, 'f) result \<times> database" where
  "map_store_err f p = (map_err (\<lambda>error. f (store_failure error)) (fst p), snd p)"

fun and_then_db ::
    "('a, 'e) result \<times> database \<Rightarrow> ('a \<Rightarrow> database \<Rightarrow> ('b, 'e) result \<times> database) \<Rightarrow>
     ('b, 'e) result \<times> database" where
  "and_then_db (Ok x, s) f = f x s"
| "and_then_db (Err e, s) f = (Err e, s)"
| "and_then_db (Panic m, s) f = (Panic m, s)"

fun ok_or :: "'e \<Rightarrow> 'a option \<Rightarrow> ('a, 'e) result" where
  "ok_or e None = Err e"
| "ok_or e (Some x) = Ok x"

section \<open>Enqueue\<close>

definition new_delivery_of ::
    "crates \<Rightarrow> plugin \<Rightarrow> prepared_webhook \<Rightarrow> enqueue_request \<Rightarrow> bytes \<Rightarrow> int \<Rightarrow> new_delivery" where
  "new_delivery_of cr pl pw request snapshot available_at =
     \<lparr>nd_delivery_id = stable_delivery_id cr (cfg_endpoint_url (pl_config pl)) (enq_event_id request),
      nd_event_id = enq_event_id request,
      nd_event_type = enq_event_type request,
      nd_endpoint_url = cfg_endpoint_url (pl_config pl),
      nd_endpoint_origin = pw_endpoint_origin pw,
      nd_payload_snapshot = snapshot,
      nd_payload_sha256 = sha256_hex cr snapshot,
      nd_queue_name = cfg_queue_name (pl_config pl),
      nd_max_attempts = cfg_max_attempts (pl_config pl),
      nd_available_at = available_at\<rparr>"

definition enqueue_response_of ::
    "string \<Rightarrow> insert_outcome \<Rightarrow> (enqueue_response, flow_error) result" where
  "enqueue_response_of delivery_id outcome =
     (case outcome of
        Conflict \<Rightarrow> Err (FlowDomain EnqueueIdempotencyConflict)
      | Created delivery \<Rightarrow>
          Ok \<lparr>enq_created = True, enq_delivery_id = delivery_id,
              enq_status = enqueue_status (dr_status delivery)\<rparr>
      | Existing delivery \<Rightarrow>
          Ok \<lparr>enq_created = False, enq_delivery_id = delivery_id,
              enq_status = enqueue_status (dr_status delivery)\<rparr>)"

text \<open>Everything before the transaction; \<open>now\<close> is the reading of the application clock.\<close>

definition enqueue_prepare ::
    "crates \<Rightarrow> plugin \<Rightarrow> int \<Rightarrow> invocation_context \<Rightarrow> enqueue_request \<Rightarrow> (new_delivery, flow_error) result" where
  "enqueue_prepare cr pl now context request =
     (if \<not> producer_allowed (pl_config pl) (caller_instance context)
      then Err (FlowDomain EnqueueForbidden)
      else if \<not> valid_event_name (enq_event_id request) \<or> \<not> valid_event_name (enq_event_type request)
      then Err (FlowDomain EnqueueInvalidEvent)
      else and_then (map_err FlowRuntime (prepared pl)) (\<lambda>pw.
           and_then (map_err FlowRuntime (payload_snapshot cr request)) (\<lambda>snapshot.
           if cfg_max_payload_bytes (pl_config pl) < length snapshot
           then Err (FlowDomain EnqueueInvalidEvent)
           else and_then (database_timestamp_now now) (\<lambda>available_at.
                Ok (new_delivery_of cr pl pw request snapshot available_at)))))"

definition enqueue_delivery ::
    "crates \<Rightarrow> plugin \<Rightarrow> db_env \<Rightarrow> int \<Rightarrow> invocation_context \<Rightarrow> enqueue_request \<Rightarrow> database \<Rightarrow>
     (enqueue_response, flow_error) result \<times> database" where
  "enqueue_delivery cr pl env now context request s =
     and_then_db (enqueue_prepare cr pl now context request, s) (\<lambda>new s.
     and_then_db (map_store_err FlowRuntime (insert_or_get cr env new s)) (\<lambda>outcome s.
     (enqueue_response_of (nd_delivery_id new) outcome, s)))"

section \<open>Inspect\<close>

text \<open>\<open>s\<close> and \<open>s'\<close> are what the two statements of \<open>load\<close> see.\<close>

definition inspect_delivery ::
    "crates \<Rightarrow> plugin \<Rightarrow> db_env \<Rightarrow> invocation_context \<Rightarrow> inspect_request \<Rightarrow> database \<Rightarrow> database \<Rightarrow>
     (inspect_response, admin_flow_error) result" where
  "inspect_delivery cr pl env context request s s' =
     (if \<not> admin_allowed (pl_config pl) (caller_instance context)
      then Err (AdminInspect InspectForbidden)
      else if \<not> valid_delivery_id (ins_request_delivery_id request)
      then Err (AdminInspect InspectInvalidDelivery)
      else and_then (map_err AdminRuntime (prepared pl)) (\<lambda>_.
           and_then (map_err (\<lambda>error. AdminRuntime (store_failure error))
                       (load cr env (ins_request_delivery_id request) s s')) (\<lambda>found.
           and_then (ok_or (AdminInspect InspectNotFound) found) (\<lambda>delivery.
           inspect_response_of cr delivery))))"

section \<open>Replay\<close>

text \<open>\<open>s\<close> and \<open>s'\<close> are what \<open>load\<close> sees, \<open>s''\<close> is the database its \<open>UPDATE\<close> finds.\<close>

definition replay_delivery ::
    "crates \<Rightarrow> plugin \<Rightarrow> db_env \<Rightarrow> invocation_context \<Rightarrow> replay_request \<Rightarrow>
     database \<Rightarrow> database \<Rightarrow> database \<Rightarrow> (replay_response, admin_flow_error) result \<times> database" where
  "replay_delivery cr pl env context request s s' s'' =
     (if \<not> admin_allowed (pl_config pl) (caller_instance context)
      then (Err (AdminReplay ReplayForbidden), s'')
      else if \<not> valid_delivery_id (rpl_request_delivery_id request)
      then (Err (AdminReplay ReplayInvalidDelivery), s'')
      else and_then_db (map_err AdminRuntime (prepared pl), s'') (\<lambda>_ s''.
           and_then_db (map_err (\<lambda>error. AdminRuntime (store_failure error))
                          (load cr env (rpl_request_delivery_id request) s s'), s'') (\<lambda>found s''.
           and_then_db (ok_or (AdminReplay ReplayNotFound) found, s'') (\<lambda>existing s''.
           if dr_status existing \<noteq> DeadLetter
           then (Err (AdminReplay ReplayNotDeadLetter), s'')
           else and_then_db
                  (map_store_err AdminRuntime (begin_replay env (rpl_request_delivery_id request) s''))
                  (\<lambda>replayed s''.
                and_then_db (ok_or (AdminReplay ReplayNotDeadLetter) replayed, s'') (\<lambda>delivery s''.
                (Ok \<lparr>rpl_replay_count = dr_replay_count delivery\<rparr>, s'')))))))"

section \<open>Retry delay\<close>

definition retry_delay_seconds :: "int \<Rightarrow> int \<Rightarrow> int \<Rightarrow> int" where
  "retry_delay_seconds attempt base_seconds max_seconds =
     (let exponent = (case u32_try_from (clamp (saturating_sub attempt 1) 0 62) of
                        Some e \<Rightarrow> e | None \<Rightarrow> 62)
      in min (saturating_mul base_seconds
                (case checked_shl 1 exponent of Some w \<Rightarrow> sint w | None \<Rightarrow> i64_max))
             max_seconds)"

section \<open>Dispatch\<close>

subsection \<open>The HTTP client\<close>

record send_request =
  sr_body :: bytes
  sr_headers :: "header list"
  sr_method :: string
  sr_url :: string

record send_response =
  resp_status :: int
  resp_body :: bytes

datatype client_invocation_error = HttpDomain send_error | HttpRuntime runtime_failure

type_synonym http_result = "client_invocation_error + send_response"

type_synonym http_client = "invocation_context \<Rightarrow> send_request \<Rightarrow> http_result"

text \<open>The three readings of the application clock: for the signature, the receipt, the retry.\<close>

record clocks =
  ck_signed :: int
  ck_receipt :: int
  ck_retry :: int

subsection \<open>After the response\<close>

definition new_receipt ::
    "delivery_record \<Rightarrow> string \<Rightarrow> int option \<Rightarrow> string option \<Rightarrow> int \<Rightarrow> delivery_receipt" where
  "new_receipt delivery outcome http_status response_sha256 occurred_at =
     \<lparr>rc_attempt = dr_attempts delivery, rc_outcome = outcome, rc_http_status = http_status,
      rc_response_sha256 = response_sha256, rc_occurred_at = occurred_at\<rparr>"

text \<open>The receipt of the attempt and its failure, for the results that are settled.\<close>

definition response_receipt ::
    "crates \<Rightarrow> delivery_record \<Rightarrow> send_response \<Rightarrow> int \<Rightarrow> delivery_receipt \<times> delivery_failure option" where
  "response_receipt cr delivery response now =
     (if 200 \<le> resp_status response \<and> resp_status response < 300
      then (new_receipt delivery ''delivered'' (Some (resp_status response))
              (Some (sha256_hex cr (resp_body response))) now, None)
      else (let fail = http_status_failure (resp_status response)
            in (new_receipt delivery (failure_code fail) (Some (resp_status response))
                  (Some (sha256_hex cr (resp_body response))) now, Some fail)))"

definition domain_error_receipt ::
    "delivery_record \<Rightarrow> send_error \<Rightarrow> int \<Rightarrow> delivery_receipt \<times> delivery_failure option" where
  "domain_error_receipt delivery error now =
     (let fail = http_domain_failure error
      in (new_receipt delivery (failure_code fail) None None now, Some fail))"

text \<open>\<open>OffsetDateTime + Duration\<close>, in nanoseconds.\<close>

definition time_add :: "crates \<Rightarrow> int \<Rightarrow> int \<Rightarrow> (int, 'e) result" where
  "time_add cr t duration =
     (if time_min cr \<le> t + duration \<and> t + duration \<le> time_max cr then Ok (t + duration)
      else Panic ''resulting value is out of range'')"

text \<open>The next status, the outcome reported and the time of the next attempt.\<close>

definition next_state ::
    "crates \<Rightarrow> outbound_webhook_config \<Rightarrow> delivery_record \<Rightarrow> delivery_failure option \<Rightarrow> int \<Rightarrow>
     (delivery_status \<times> dispatch_response_outcome \<times> int option, admin_flow_error) result" where
  "next_state cr c delivery fail now =
     (case fail of
        None \<Rightarrow> Ok (Delivered, DispatchDelivered, None)
      | Some fl \<Rightarrow>
          if failure_retryable fl \<and> dr_attempts delivery < dr_max_attempts delivery
          then and_then (database_timestamp_now now) (\<lambda>t.
               and_then (time_add cr t (1000000000 * retry_delay_seconds (dr_attempts delivery)
                                          (cfg_retry_base_seconds c) (cfg_retry_max_seconds c))) (\<lambda>at.
               Ok (RetryScheduled, DispatchRetryScheduled, Some at)))
          else Ok (DeadLetter, DispatchDeadLettered, None))"

definition settle ::
    "crates \<Rightarrow> outbound_webhook_config \<Rightarrow> delivery_record \<Rightarrow>
     delivery_receipt \<times> delivery_failure option \<Rightarrow> clocks \<Rightarrow> db_env \<Rightarrow> database \<Rightarrow>
     (dispatch_response, admin_flow_error) result \<times> database" where
  "settle cr c delivery receipt_failure ck env s =
     (case receipt_failure of (receipt, fail) \<Rightarrow>
        and_then_db (next_state cr c delivery fail (ck_retry ck), s) (\<lambda>(status, outcome, next) s.
        and_then_db (map_store_err AdminRuntime
            (record_outcome cr env (dr_delivery_id delivery) (dr_replay_count delivery)
               receipt status next s)) (\<lambda>_ s.
        (dispatch_response_of cr (dr_delivery_id delivery) outcome receipt, s))))"

definition finish_dispatch ::
    "crates \<Rightarrow> outbound_webhook_config \<Rightarrow> delivery_record \<Rightarrow> http_result \<Rightarrow> clocks \<Rightarrow> db_env \<Rightarrow>
     database \<Rightarrow> (dispatch_response, admin_flow_error) result \<times> database" where
  "finish_dispatch cr c delivery response ck env s =
     (case response of
        Inr r \<Rightarrow> settle cr c delivery (response_receipt cr delivery r (ck_receipt ck)) ck env s
      | Inl (HttpDomain error) \<Rightarrow>
          settle cr c delivery (domain_error_receipt delivery error (ck_receipt ck)) ck env s
      | Inl (HttpRuntime error) \<Rightarrow>
          and_then_db (map_store_err AdminRuntime
              (record_outcome cr env (dr_delivery_id delivery) (dr_replay_count delivery)
                 (new_receipt delivery ''http_runtime_failure'' None None (ck_receipt ck))
                 Delivering None s)) (\<lambda>_ s.
          (Err (AdminRuntime error), s)))"

subsection \<open>Before the response\<close>

text \<open>The guards and the first transaction.\<close>

definition dispatch_claim ::
    "plugin \<Rightarrow> db_env \<Rightarrow> invocation_context \<Rightarrow> database \<Rightarrow>
     ((prepared_webhook \<times> delivery_record option), admin_flow_error) result \<times> database" where
  "dispatch_claim pl env context s =
     (if \<not> admin_allowed (pl_config pl) (caller_instance context)
      then (Err (AdminDispatch DispatchForbidden), s)
      else and_then_db (map_err AdminRuntime (prepared pl), s) (\<lambda>pw s.
           and_then_db (map_store_err AdminRuntime
               (claim_due env (cfg_queue_name (pl_config pl)) (cfg_lease_seconds (pl_config pl)) s))
             (\<lambda>claimed s. (Ok (pw, claimed), s))))"

definition endpoint_changed :: "plugin \<Rightarrow> prepared_webhook \<Rightarrow> delivery_record \<Rightarrow> bool" where
  "endpoint_changed pl pw delivery \<longleftrightarrow>
     dr_endpoint_url delivery \<noteq> cfg_endpoint_url (pl_config pl) \<or>
     dr_endpoint_origin delivery \<noteq> pw_endpoint_origin pw"

text \<open>The signed request for a claimed delivery.\<close>

definition signed_request ::
    "crates \<Rightarrow> prepared_webhook \<Rightarrow> delivery_record \<Rightarrow> int \<Rightarrow> (send_request, admin_flow_error) result" where
  "signed_request cr pw delivery now =
     and_then (map_err AdminRuntime (format_time cr now)) (\<lambda>timestamp.
     and_then (map_err AdminRuntime
         (sign_payload cr (pw_signing_key pw) (dr_delivery_id delivery) timestamp
            (dr_payload_snapshot delivery))) (\<lambda>signature.
     Ok \<lparr>sr_body = dr_payload_snapshot delivery,
         sr_headers = webhook_headers delivery timestamp signature,
         sr_method = ''POST'',
         sr_url = url_as_str (pw_endpoint pw)\<rparr>))"

text \<open>
  What happens to a claimed delivery, on the database \<open>s\<close> its second transaction finds; with the
  requests that were sent.
\<close>

definition dispatch_claimed ::
    "crates \<Rightarrow> plugin \<Rightarrow> prepared_webhook \<Rightarrow> http_client \<Rightarrow> clocks \<Rightarrow> db_env \<Rightarrow> invocation_context \<Rightarrow>
     delivery_record \<Rightarrow> database \<Rightarrow>
     ((dispatch_response, admin_flow_error) result \<times> database) \<times> send_request list" where
  "dispatch_claimed cr pl pw http ck env context delivery s =
     (if endpoint_changed pl pw delivery
      then (let receipt = new_receipt delivery ''endpoint_configuration_changed'' None None (ck_receipt ck)
            in (and_then_db (map_store_err AdminRuntime
                    (record_outcome cr env (dr_delivery_id delivery) (dr_replay_count delivery)
                       receipt DeadLetter None s)) (\<lambda>_ s.
                (dispatch_response_of cr (dr_delivery_id delivery) DispatchDeadLettered receipt, s)), []))
      else (case signed_request cr pw delivery (ck_signed ck) of
              Err e \<Rightarrow> ((Err e, s), [])
            | Panic m \<Rightarrow> ((Panic m, s), [])
            | Ok request \<Rightarrow>
                (finish_dispatch cr (pl_config pl) delivery (http context request) ck env s, [request])))"

text \<open>
  The whole flow: \<open>env\<close> and \<open>env'\<close> are the environments of the two transactions, \<open>between\<close> what
  others do to the database while the request is under way.
\<close>

definition dispatch_delivery ::
    "crates \<Rightarrow> plugin \<Rightarrow> http_client \<Rightarrow> clocks \<Rightarrow> db_env \<Rightarrow> db_env \<Rightarrow> (database \<Rightarrow> database) \<Rightarrow>
     invocation_context \<Rightarrow> database \<Rightarrow>
     ((dispatch_response, admin_flow_error) result \<times> database) \<times> send_request list" where
  "dispatch_delivery cr pl http ck env env' between context s =
     (case dispatch_claim pl env context s of
        (Err e, s1) \<Rightarrow> ((Err e, s1), [])
      | (Panic m, s1) \<Rightarrow> ((Panic m, s1), [])
      | (Ok (pw, None), s1) \<Rightarrow> ((Ok idle_dispatch, s1), [])
      | (Ok (pw, Some delivery), s1) \<Rightarrow>
          dispatch_claimed cr pl pw http ck env' context delivery (between s1))"

end
