(* ===== verification/Storage_Invariant.thy ===== *)
theory Storage_Invariant
  imports Storage
begin

text \<open>
  What the storage operations keep true of the two tables: the authored constraints, the delivery
  lifecycle (an active row has attempts left or a lease), and the audit trail (every finished
  attempt of every cycle has exactly one receipt).
\<close>

section \<open>The invariant\<close>

definition receipted :: "database \<Rightarrow> (string \<times> int \<times> int) set" where
  "receipted s = attempt_key ` set (attempts s)"

definition lifecycle_row :: "delivery_row \<Rightarrow> bool" where
  "lifecycle_row r \<longleftrightarrow>
     (row_status r = ''queued'' \<longrightarrow> row_attempts r = 0) \<and>
     (row_status r = ''retry_scheduled'' \<longrightarrow> 1 \<le> row_attempts r \<and> row_attempts r < row_max_attempts r) \<and>
     (row_status r \<in> {''delivering'', ''delivered'', ''dead_letter''} \<longrightarrow> 1 \<le> row_attempts r)"

definition audit_row :: "(string \<times> int \<times> int) set \<Rightarrow> delivery_row \<Rightarrow> bool" where
  "audit_row K r \<longleftrightarrow>
     (\<forall>j k. (row_delivery_id r, j, k) \<in> K \<longrightarrow>
        j < row_replay_count r \<or> (j = row_replay_count r \<and> k \<le> row_attempts r)) \<and>
     (\<forall>k. 1 \<le> k \<and> (k < row_attempts r \<or> (k = row_attempts r \<and> row_status r \<noteq> ''delivering'')) \<longrightarrow>
        (row_delivery_id r, row_replay_count r, k) \<in> K)"

text \<open>The cycles before the current one: attempts 1 to \<open>n\<close> were made, and each has its receipt.\<close>

definition earlier_cycles :: "(string \<times> int \<times> int) set \<Rightarrow> delivery_row \<Rightarrow> bool" where
  "earlier_cycles K r \<longleftrightarrow>
     (\<forall>j. 0 \<le> j \<and> j < row_replay_count r \<longrightarrow>
        (\<exists>n. 1 \<le> n \<and> n \<le> row_max_attempts r \<and>
           (\<forall>k. 1 \<le> k \<longrightarrow> ((row_delivery_id r, j, k) \<in> K \<longleftrightarrow> k \<le> n))))"

lemma earlier_cycles_updates [simp]:
  "earlier_cycles K (r\<lparr>row_status := x\<rparr>) = earlier_cycles K r"
  "earlier_cycles K (r\<lparr>row_attempts := y\<rparr>) = earlier_cycles K r"
  "earlier_cycles K (r\<lparr>row_lease_expires_at := z\<rparr>) = earlier_cycles K r"
  "earlier_cycles K (r\<lparr>row_updated_at := y\<rparr>) = earlier_cycles K r"
  "earlier_cycles K (r\<lparr>row_available_at := y\<rparr>) = earlier_cycles K r"
  by (simp_all add: earlier_cycles_def)

lemma earlier_cycles_first [simp]: "row_replay_count r = 0 \<Longrightarrow> earlier_cycles K r"
  by (auto simp: earlier_cycles_def)

lemma earlier_cycles_insert:
  assumes "i = row_delivery_id r \<Longrightarrow> c = row_replay_count r"
  shows "earlier_cycles (insert (i, c, a) K) r = earlier_cycles K r"
proof -
  have "(row_delivery_id r, j, k) \<in> insert (i, c, a) K \<longleftrightarrow> (row_delivery_id r, j, k) \<in> K"
    if "0 \<le> j \<and> j < row_replay_count r" for j k
    using assms that by auto
  then show ?thesis
    by (simp add: earlier_cycles_def del: insert_iff cong: imp_cong)
qed

definition row_ok :: "(string \<times> int \<times> int) set \<Rightarrow> delivery_row \<Rightarrow> bool" where
  "row_ok K r \<longleftrightarrow> delivery_checks r \<and> lifecycle_row r \<and> audit_row K r \<and> earlier_cycles K r"

definition store_ok :: "database \<Rightarrow> bool" where
  "store_ok s \<longleftrightarrow>
     distinct (map row_delivery_id (deliveries s)) \<and>
     distinct (map row_event_id (deliveries s)) \<and>
     distinct (map attempt_key (attempts s)) \<and>
     (\<forall>a \<in> set (attempts s). attempt_checks a \<and>
        att_delivery_id a \<in> row_delivery_id ` set (deliveries s)) \<and>
     (\<forall>r \<in> set (deliveries s). row_ok (receipted s) r)"

lemma receipted_deliveries_update [simp]: "receipted (s\<lparr>deliveries := rs\<rparr>) = receipted s"
  by (simp add: receipted_def)

lemmas row_ok_defs = row_ok_def delivery_checks_def lifecycle_row_def audit_row_def

lemma store_ok_row: "store_ok s \<Longrightarrow> r \<in> set (deliveries s) \<Longrightarrow> row_ok (receipted s) r"
  by (simp add: store_ok_def)

lemma store_ok_empty: "store_ok empty_database"
  by (simp add: store_ok_def empty_database_def)

lemma store_ok_unique:
  "store_ok s \<Longrightarrow> r \<in> set (deliveries s) \<Longrightarrow> r' \<in> set (deliveries s) \<Longrightarrow>
    row_delivery_id r = row_delivery_id r' \<Longrightarrow> r = r'"
  by (rule distinct_map_eqD [of row_delivery_id "deliveries s"]) (auto simp: store_ok_def)

lemma store_ok_find:
  "store_ok s \<Longrightarrow> r \<in> set (deliveries s) \<Longrightarrow>
    List.find (\<lambda>r'. row_delivery_id r' = row_delivery_id r) (deliveries s) = Some r"
  by (rule find_key_unique) (simp_all add: store_ok_def)

lemma receipted_delivery:
  "store_ok s \<Longrightarrow> (i, j, k) \<in> receipted s \<Longrightarrow> i \<in> row_delivery_id ` set (deliveries s)"
  by (auto simp: store_ok_def receipted_def attempt_key_def)

section \<open>Statuses\<close>

lemma delivery_status_parse_as_str: "delivery_status_parse (delivery_status_as_str st) = Ok st"
  by (cases st) (simp_all add: delivery_status_parse_def)

lemma delivery_status_parse_Ok:
  "delivery_status_parse s = Ok st \<longleftrightarrow> s = delivery_status_as_str st"
  by (cases st) (auto simp: delivery_status_parse_def)

lemma status_cases:
  assumes "delivery_checks r"
  obtains st where "row_status r = delivery_status_as_str st"
  using assms that [of Queued] that [of Delivering] that [of RetryScheduled] that [of Delivered]
    that [of DeadLetter]
  by (auto simp: delivery_checks_def)

section \<open>Statements\<close>

lemma insert_attempt_Some:
  assumes "insert_attempt a s = Some s'"
  shows "deliveries s' = deliveries s" and "receipted s' = insert (attempt_key a) (receipted s)"
    and "\<exists>as. attempts s' = attempts s @ as \<and> set as \<subseteq> {a}"
    and "attempt_checks a" and "set (attempts s') \<subseteq> insert a (set (attempts s))"
  using assms
  by (auto simp: insert_attempt_def receipted_def list_ex_iff image_iff split: if_splits)
    metis+

lemma insert_attempt_ok:
  assumes "store_ok s" and "insert_attempt a s = Some s'"
    and "\<And>r. r \<in> set (deliveries s) \<Longrightarrow> row_delivery_id r = att_delivery_id a \<Longrightarrow>
        att_replay_count a = row_replay_count r \<and> att_attempt a \<le> row_attempts r"
  shows "store_ok s'"
proof -
  have rows: "row_ok (insert (attempt_key a) (receipted s)) r" if "r \<in> set (deliveries s)" for r
    using store_ok_row [OF assms(1) that] assms(3) [OF that]
    by (auto simp: row_ok_def audit_row_def attempt_key_def earlier_cycles_insert)
  have keys: "distinct (map attempt_key (attempts s'))"
    using assms(1,2) by (auto simp: insert_attempt_def store_ok_def list_ex_iff split: if_splits) metis
  have fk: "\<forall>a \<in> set (attempts s'). attempt_checks a \<and>
      att_delivery_id a \<in> row_delivery_id ` set (deliveries s')"
    using assms(1,2)
    by (auto simp: insert_attempt_def store_ok_def list_ex_iff image_iff split: if_splits) metis
  show ?thesis
    using assms(1) insert_attempt_Some(1,2) [OF assms(2)] rows keys fk
    by (simp add: store_ok_def)
qed

lemma insert_attempts_Some:
  assumes "insert_attempts as s = Some s'"
  shows "deliveries s' = deliveries s" and "receipted s' = receipted s \<union> attempt_key ` set as"
    and "\<exists>as'. attempts s' = attempts s @ as' \<and> length as' \<le> length as \<and> set as' \<subseteq> set as"
  using assms
proof (induction as arbitrary: s)
  case (Cons a as)
  {
    case 1
    then show ?case using Cons.IH(1) insert_attempt_Some(1) by (auto simp: bind_eq_Some_conv)
  next
    case 2
    then show ?case using Cons.IH(2) insert_attempt_Some(2) by (fastforce simp: bind_eq_Some_conv)
  next
    case 3
    then obtain s1 where s1: "insert_attempt a s = Some s1" "insert_attempts as s1 = Some s'"
      by (auto simp: bind_eq_Some_conv)
    then obtain as' where as': "attempts s' = attempts s1 @ as'" "length as' \<le> length as" "set as' \<subseteq> set as"
      using Cons.IH(3) by blast
    have "attempts s1 = attempts s \<or> attempts s1 = attempts s @ [a]"
      using s1(1) by (auto simp: insert_attempt_def split: if_splits)
    then show ?case using as' by (elim disjE) force+
  }
qed auto

lemma insert_attempts_ok:
  assumes "store_ok s" and "insert_attempts as s = Some s'"
    and "\<And>r a. r \<in> set (deliveries s) \<Longrightarrow> a \<in> set as \<Longrightarrow> row_delivery_id r = att_delivery_id a \<Longrightarrow>
        att_replay_count a = row_replay_count r \<and> att_attempt a \<le> row_attempts r"
  shows "store_ok s'"
  using assms
proof (induction as arbitrary: s)
  case (Cons a as)
  then obtain s1 where s1: "insert_attempt a s = Some s1" "insert_attempts as s1 = Some s'"
    by (auto simp: bind_eq_Some_conv)
  have "store_ok s1"
    using Cons.prems(1) s1(1) by (rule insert_attempt_ok) (use Cons.prems(3) in auto)
  then show ?case
    using s1(2) by (rule Cons.IH) (use Cons.prems(3) insert_attempt_Some(1) [OF s1(1)] in auto)
qed simp

lemma update_deliveries_Some:
  assumes "update_deliveries p f s = Some (rows, s')"
  shows "rows = map f (filter p (deliveries s))"
    and "deliveries s' = map (\<lambda>r. if p r then f r else r) (deliveries s)"
    and "attempts s' = attempts s" and "receipted s' = receipted s"
    and "\<forall>r \<in> set (deliveries s). p r \<longrightarrow> delivery_checks (f r)"
  using assms by (auto simp: update_deliveries_def Let_def receipted_def list_all_iff split: if_splits)

lemma update_deliveries_total:
  assumes "\<And>r. r \<in> set (deliveries s) \<Longrightarrow> p r \<Longrightarrow> delivery_checks (f r)"
  obtains rows s' where "update_deliveries p f s = Some (rows, s')"
  using assms by (auto simp: update_deliveries_def Let_def list_all_iff)

definition keeps_keys :: "(delivery_row \<Rightarrow> delivery_row) \<Rightarrow> bool" where
  "keeps_keys f \<longleftrightarrow> (\<forall>r. row_delivery_id (f r) = row_delivery_id r \<and> row_event_id (f r) = row_event_id r)"

lemma keeps_keys_writers [simp]:
  "keeps_keys (retire_row env)" "keeps_keys (claim_row env l)"
  "keeps_keys (outcome_row env st av)" "keeps_keys (replay_row env)"
  by (simp_all add: keeps_keys_def retire_row_def claim_row_def outcome_row_def replay_row_def)

lemma store_ok_map:
  assumes "store_ok s" and "\<And>r. row_delivery_id (g r) = row_delivery_id r \<and> row_event_id (g r) = row_event_id r"
    and "\<And>r. r \<in> set (deliveries s) \<Longrightarrow> row_ok (receipted s) (g r)"
  shows "store_ok (s\<lparr>deliveries := map g (deliveries s)\<rparr>)"
proof -
  have "row_delivery_id \<circ> g = row_delivery_id" "row_event_id \<circ> g = row_event_id"
    using assms(2) by (simp_all add: fun_eq_iff)
  then show ?thesis
    using assms by (simp add: store_ok_def image_image)
qed

lemma update_deliveries_ok:
  assumes "store_ok s" and "update_deliveries p f s = Some (rows, s')" and "keeps_keys f"
    and "\<And>r. r \<in> set (deliveries s) \<Longrightarrow> p r \<Longrightarrow>
        lifecycle_row (f r) \<and> audit_row (receipted s) (f r) \<and> earlier_cycles (receipted s) (f r)"
  shows "store_ok s'"
proof -
  have "s' = s\<lparr>deliveries := map (\<lambda>r. if p r then f r else r) (deliveries s)\<rparr>"
    using assms(2) by (auto simp: update_deliveries_def Let_def split: if_splits)
  moreover have "row_ok (receipted s) (if p r then f r else r)" if "r \<in> set (deliveries s)" for r
    using store_ok_row [OF assms(1) that] assms(4) [OF that] update_deliveries_Some(5) [OF assms(2)] that
    by (simp add: row_ok_def)
  ultimately show ?thesis
    using assms(3) by (auto simp: keeps_keys_def intro!: store_ok_map [OF assms(1)])
qed

section \<open>Enqueue\<close>

lemma commit_snd: "snd (commit env l s0 s1 v) = s0 \<or> snd (commit env l s0 s1 v) = s1"
  by (simp add: commit_def)

lemma execute_Some [simp]: "execute env l x = Some y \<longleftrightarrow> \<not> db_fails env l \<and> x = Some y"
  by (simp add: execute_def)

lemma insert_delivery_cases:
  assumes "insert_delivery r s = Some (n, s')"
  obtains (fresh) "n = 1" "s' = s\<lparr>deliveries := deliveries s @ [r]\<rparr>" "delivery_checks r"
      "row_delivery_id r \<notin> row_delivery_id ` set (deliveries s)"
      "row_event_id r \<notin> row_event_id ` set (deliveries s)"
  | (known) "n = 0" "s' = s"
      "\<exists>r' \<in> set (deliveries s). row_delivery_id r' = row_delivery_id r \<or> row_event_id r' = row_event_id r"
proof (cases "n = 1")
  case True
  then show thesis
    using assms by (intro fresh) (auto simp: insert_delivery_def list_ex_iff split: if_splits)
next
  case False
  then show thesis
    using assms by (intro known) (auto simp: insert_delivery_def list_ex_iff split: if_splits)
qed

lemma insert_delivery_ok:
  assumes "store_ok s" and "insert_delivery r s = Some (n, s')"
    and "row_status r = ''queued''" and "row_attempts r = 0" and "row_replay_count r = 0"
  shows "store_ok s'"
  using assms(2)
proof (cases rule: insert_delivery_cases)
  case fresh
  have rec: "receipted s' = receipted s" using fresh by (simp add: receipted_def)
  have "row_ok (receipted s) r"
    using fresh assms(3-5) receipted_delivery [OF assms(1)] by (auto simp: row_ok_defs)
  then show ?thesis
    using assms(1) fresh by (auto simp: store_ok_def rec)
next
  case known
  with assms(1) show ?thesis by simp
qed

lemma new_row_simps [simp]:
  "row_status (new_row cr env d m) = ''queued''" "row_attempts (new_row cr env d m) = 0"
  "row_delivery_id (new_row cr env d m) = nd_delivery_id d"
  "row_event_id (new_row cr env d m) = nd_event_id d" "row_replay_count (new_row cr env d m) = 0"
  by (simp_all add: new_row_def)

text \<open>The insert of a new delivery leaves the database as it was, or with the new row.\<close>

lemma insert_or_get_snd:
  "snd (insert_or_get cr env d s) = s \<or>
   (\<exists>n m. insert_delivery (new_row cr env d m) s = Some (n, snd (insert_or_get cr env d s)))"
  unfolding insert_or_get_def
  by (auto simp: commit_def split: option.splits result.splits)

lemma insert_or_get_ok: "store_ok s \<Longrightarrow> store_ok (snd (insert_or_get cr env d s))"
  using insert_or_get_snd [of cr env d s] insert_delivery_ok by fastforce

section \<open>Claim\<close>

lemma in_expired:
  assumes "r \<in> set (expired env queue s)"
  shows "r \<in> set (deliveries s)" "row_queue_name r = queue" "row_status r = ''delivering''"
    "lease_expired (db_now env) r" "\<not> db_locked env (row_delivery_id r)"
  using assms by (auto simp: expired_def dest!: in_set_takeD)

lemma length_expired: "length (expired env queue s) \<le> 64"
  by (simp add: expired_def EXPIRED_DELIVERY_MAINTENANCE_BATCH_LIMIT_def)

lemma in_candidate:
  assumes "r \<in> set (candidate env queue batch s)"
  shows "r \<in> set (deliveries s)" "due env queue batch r" "\<not> db_locked env (row_delivery_id r)"
  using assms by (auto simp: candidate_def dest!: in_set_takeD)

lemma length_candidate: "length (candidate env queue batch s) \<le> 1"
  by (simp add: candidate_def)

lemma retires_iff:
  assumes "store_ok s" and "r \<in> set (deliveries s)" and "set batch \<subseteq> set (deliveries s)"
  shows "retires batch r \<longleftrightarrow> r \<in> set batch \<and> row_max_attempts r \<le> row_attempts r"
  using store_ok_unique [OF assms(1)] assms(2,3) by (force simp: retires_def list_ex_iff)

lemma same_id_iff:
  assumes "store_ok s" and "r \<in> set (deliveries s)" and "set batch \<subseteq> set (deliveries s)"
  shows "list_ex (\<lambda>e. row_delivery_id e = row_delivery_id r) batch \<longleftrightarrow> r \<in> set batch"
  using store_ok_unique [OF assms(1)] assms(2,3) by (force simp: list_ex_iff)

text \<open>What the claim statement does to one row, when the delivery ids are unique.\<close>

definition claim_step ::
    "db_env \<Rightarrow> int \<Rightarrow> delivery_row list \<Rightarrow> delivery_row list \<Rightarrow> delivery_row \<Rightarrow> delivery_row" where
  "claim_step env lease batch chosen r =
     (if r \<in> set chosen then claim_row env lease r
      else if retires batch r then retire_row env r else r)"

lemma chosen_not_retired:
  assumes "store_ok s" and "r \<in> set (candidate env queue (expired env queue s) s)"
  shows "\<not> retires (expired env queue s) r"
  using in_candidate [OF assms(2)] in_expired(1) [of _ env queue s]
    retires_iff [OF assms(1), of r "expired env queue s"]
  by (auto simp: due_def)

lemma insert_receipts_total:
  assumes "store_ok s" and "set batch \<subseteq> {r \<in> set (deliveries s). row_status r = ''delivering''}"
  shows "\<exists>s1. insert_attempts (map (lease_expired_receipt env) batch) s = Some s1"
proof -
  have "set batch \<subseteq> {r \<in> set (deliveries t). delivery_checks r \<and> lifecycle_row r \<and> row_status r = ''delivering''}
      \<Longrightarrow> \<exists>s1. insert_attempts (map (lease_expired_receipt env) batch) t = Some s1" for t
  proof (induction batch arbitrary: t)
    case (Cons r batch)
    have "attempt_checks (lease_expired_receipt env r)"
      using Cons.prems
      by (auto simp: attempt_checks_def lease_expired_receipt_def delivery_checks_def lifecycle_row_def)
    moreover have "list_ex (\<lambda>r'. row_delivery_id r' = att_delivery_id (lease_expired_receipt env r)) (deliveries t)"
      using Cons.prems by (auto simp: list_ex_iff lease_expired_receipt_def)
    ultimately have "\<exists>t1. insert_attempt (lease_expired_receipt env r) t = Some t1"
      by (simp add: insert_attempt_def)
    then obtain t1 where t1: "insert_attempt (lease_expired_receipt env r) t = Some t1" ..
    have "\<exists>s1. insert_attempts (map (lease_expired_receipt env) batch) t1 = Some s1"
      using Cons.prems insert_attempt_Some(1) [OF t1] by (intro Cons.IH) auto
    then show ?case using t1 by simp
  qed simp
  moreover have "set batch \<subseteq> {r \<in> set (deliveries s). delivery_checks r \<and> lifecycle_row r \<and> row_status r = ''delivering''}"
    using assms by (auto simp: store_ok_def row_ok_def)
  ultimately show ?thesis by blast
qed

lemma claim_checks:
  assumes "store_ok s" and "r \<in> set (deliveries s)"
  shows "row_status r = ''delivering'' \<Longrightarrow> delivery_checks (retire_row env r)"
    and "due env queue batch r \<Longrightarrow> delivery_checks (claim_row env lease r)"
  using store_ok_row [OF assms]
  by (auto simp: row_ok_def delivery_checks_def retire_row_def claim_row_def due_def)

text \<open>
  The statement never violates a constraint, and is one simultaneous step on the rows: the chosen
  row is claimed, the exhausted rows of the batch are retired, all others stay.
\<close>

lemma claim_statement_eq:
  fixes env :: db_env and queue :: string and s :: database and lease :: int
  assumes ok: "store_ok s"
  defines "batch \<equiv> expired env queue s"
  defines "chosen \<equiv> candidate env queue batch s"
  obtains s1 where "insert_attempts (map (lease_expired_receipt env) batch) s = Some s1"
    and "claim_statement env queue lease s =
      Some (map (claim_row env lease) (filter (\<lambda>r. r \<in> set chosen) (deliveries s)),
            s1\<lparr>deliveries := map (claim_step env lease batch chosen) (deliveries s)\<rparr>)"
proof -
  have batch: "set batch \<subseteq> {r \<in> set (deliveries s). row_status r = ''delivering''}"
    using in_expired(1,3) by (auto simp: batch_def)
  then have sub: "set batch \<subseteq> set (deliveries s)" by auto
  have chosen: "set chosen \<subseteq> set (deliveries s)"
    using in_candidate(1) by (auto simp: chosen_def)
  obtain s1 where s1: "insert_attempts (map (lease_expired_receipt env) batch) s = Some s1"
    using insert_receipts_total [OF ok batch] by blast
  have d1: "deliveries s1 = deliveries s" by (rule insert_attempts_Some(1) [OF s1])
  have "delivery_checks (retire_row env r)" if "r \<in> set (deliveries s1)" "retires batch r" for r
    using that batch claim_checks(1) [OF ok] retires_iff [OF ok _ sub] by (auto simp: d1)
  then obtain rows2 s2 where s2: "update_deliveries (retires batch) (retire_row env) s1 = Some (rows2, s2)"
    by (rule update_deliveries_total)
  have d2: "deliveries s2 = map (\<lambda>r. if retires batch r then retire_row env r else r) (deliveries s)"
    using update_deliveries_Some(2) [OF s2] d1 by simp
  let ?hit = "\<lambda>r. list_ex (\<lambda>c. row_delivery_id c = row_delivery_id r) chosen"
  have hit: "?hit (if retires batch r then retire_row env r else r) \<longleftrightarrow> r \<in> set chosen"
    if "r \<in> set (deliveries s)" for r
    using same_id_iff [OF ok that chosen] by (simp add: retire_row_def)
  have nret: "\<not> retires batch r" if "r \<in> set chosen" for r
    using chosen_not_retired [OF ok] that by (simp add: chosen_def batch_def)
  have "delivery_checks (claim_row env lease r)" if r: "r \<in> set (deliveries s2)" and h: "?hit r" for r
  proof -
    obtain r0 where r0: "r0 \<in> set (deliveries s)" "r = (if retires batch r0 then retire_row env r0 else r0)"
      using r by (auto simp: d2)
    then have "r0 \<in> set chosen" using hit h by blast
    then have "r = r0" and "due env queue batch r0"
      using r0 nret in_candidate(2) by (auto simp: chosen_def)
    then show ?thesis using claim_checks(2) [OF ok] r0(1) by simp
  qed
  then obtain rows3 s3 where s3: "update_deliveries ?hit (claim_row env lease) s2 = Some (rows3, s3)"
    by (rule update_deliveries_total)
  have d3: "deliveries s3 = map (claim_step env lease batch chosen) (deliveries s)"
    using hit nret update_deliveries_Some(2) [OF s3] by (auto simp: d2 claim_step_def)
  have r3: "rows3 = map (claim_row env lease) (filter (\<lambda>r. r \<in> set chosen) (deliveries s))"
  proof -
    have "filter (\<lambda>r. ?hit (if retires batch r then retire_row env r else r)) (deliveries s)
        = filter (\<lambda>r. r \<in> set chosen) (deliveries s)"
      by (rule filter_cong [OF refl]) (rule hit)
    then show ?thesis
      using nret update_deliveries_Some(1) [OF s3]
      by (simp only: d2 filter_map o_def map_map) (auto intro!: map_cong)
  qed
  have a3: "s3 = s1\<lparr>deliveries := deliveries s3\<rparr>"
    using update_deliveries_Some(3) [OF s3] update_deliveries_Some(3) [OF s2] by simp
  show thesis
    by (rule that [OF s1])
      (use s1 s2 s3 r3 d3 a3 in \<open>simp add: claim_statement_def Let_def batch_def [symmetric]
        chosen_def [symmetric]\<close>)
qed

lemma claim_step_keys:
  "row_delivery_id (claim_step env lease batch chosen r) = row_delivery_id r"
  "row_event_id (claim_step env lease batch chosen r) = row_event_id r"
  by (simp_all add: claim_step_def claim_row_def retire_row_def)

lemma claim_row_ok:
  assumes "row_ok K r" and "due env queue batch r"
    and "row_status r = ''delivering'' \<Longrightarrow> (row_delivery_id r, row_replay_count r, row_attempts r) \<in> K"
  shows "row_ok K (claim_row env lease r)"
proof -
  have fin: "(row_delivery_id r, row_replay_count r, k) \<in> K" if "1 \<le> k" "k \<le> row_attempts r" for k
    using assms(1,3) that by (cases "k = row_attempts r") (auto simp: row_ok_def audit_row_def)
  have "delivery_checks (claim_row env lease r)"
    using assms(1,2) by (auto simp: row_ok_def delivery_checks_def claim_row_def due_def)
  moreover have "lifecycle_row (claim_row env lease r)"
    using assms(1) by (simp add: row_ok_def lifecycle_row_def delivery_checks_def claim_row_def)
  moreover have "earlier_cycles K (claim_row env lease r)"
    using assms(1) by (simp add: row_ok_def claim_row_def)
  moreover have "audit_row K (claim_row env lease r)"
    using assms(1) fin by (fastforce simp: row_ok_def audit_row_def claim_row_def)
  ultimately show ?thesis by (simp add: row_ok_def)
qed

lemma retire_row_ok:
  assumes "row_ok K r" and "row_status r = ''delivering''"
    and "(row_delivery_id r, row_replay_count r, row_attempts r) \<in> K"
  shows "row_ok K (retire_row env r)"
  using assms by (auto simp: row_ok_defs retire_row_def)

lemma claim_statement_ok:
  assumes "store_ok s" and "claim_statement env queue lease s = Some (rows, s')"
  shows "store_ok s'"
proof -
  let ?batch = "expired env queue s"
  let ?chosen = "candidate env queue ?batch s"
  obtain s1 where s1: "insert_attempts (map (lease_expired_receipt env) ?batch) s = Some s1"
    and eq: "claim_statement env queue lease s =
      Some (map (claim_row env lease) (filter (\<lambda>r. r \<in> set ?chosen) (deliveries s)),
            s1\<lparr>deliveries := map (claim_step env lease ?batch ?chosen) (deliveries s)\<rparr>)"
    by (rule claim_statement_eq [OF assms(1)])
  have d1: "deliveries s1 = deliveries s" by (rule insert_attempts_Some(1) [OF s1])
  have s': "s' = s1\<lparr>deliveries := map (claim_step env lease ?batch ?chosen) (deliveries s1)\<rparr>"
    using assms(2) eq d1 by simp
  have sub: "set ?batch \<subseteq> set (deliveries s)" using in_expired(1) by blast
  have ok1: "store_ok s1"
    using assms(1) s1
  proof (rule insert_attempts_ok)
    fix r a
    assume r: "r \<in> set (deliveries s)" "row_delivery_id r = att_delivery_id a"
      and "a \<in> set (map (lease_expired_receipt env) ?batch)"
    then obtain e where e: "e \<in> set ?batch" "a = lease_expired_receipt env e" by auto
    have "r = e"
      using store_ok_unique [OF assms(1) r(1)] r(2) e sub by (auto simp: lease_expired_receipt_def)
    then show "att_replay_count a = row_replay_count r \<and> att_attempt a \<le> row_attempts r"
      using e(2) by (simp add: lease_expired_receipt_def)
  qed
  have batched: "(row_delivery_id r, row_replay_count r, row_attempts r) \<in> receipted s1"
    if "r \<in> set ?batch" for r
  proof -
    have "attempt_key (lease_expired_receipt env r) \<in> receipted s1"
      using that insert_attempts_Some(2) [OF s1] by simp
    then show ?thesis by (simp add: attempt_key_def lease_expired_receipt_def)
  qed
  show ?thesis
    unfolding s'
  proof (rule store_ok_map [OF ok1])
    fix r assume r: "r \<in> set (deliveries s1)"
    then have ok: "row_ok (receipted s1) r" and mem: "r \<in> set (deliveries s)"
      using store_ok_row [OF ok1] by (auto simp: d1)
    show "row_ok (receipted s1) (claim_step env lease ?batch ?chosen r)"
    proof (cases "r \<in> set ?chosen")
      case True
      then have due: "due env queue ?batch r" by (rule in_candidate(2))
      have "row_ok (receipted s1) (claim_row env lease r)"
        using ok due
        by (rule claim_row_ok)
          (use due same_id_iff [OF assms(1) mem sub] batched in \<open>auto simp: due_def\<close>)
      with True show ?thesis by (simp add: claim_step_def)
    next
      case False
      with ok show ?thesis
        using retires_iff [OF assms(1) mem sub] retire_row_ok [OF ok] batched in_expired(3)
        by (auto simp: claim_step_def)
    qed
  qed (simp add: claim_step_keys)
qed

lemma claim_due_snd:
  "snd (claim_due env queue lease s) = s \<or>
   (\<exists>rows. claim_statement env queue lease s = Some (rows, snd (claim_due env queue lease s)))"
  by (auto simp: claim_due_def commit_def dest: i32_try_from_Some split: option.splits list.splits)

lemma claim_due_ok: "store_ok s \<Longrightarrow> store_ok (snd (claim_due env queue lease s))"
  using claim_due_snd [of env queue lease s] claim_statement_ok by auto

end
