(* ===== verification/Delivery_Lifecycle.thy ===== *)
theory Delivery_Lifecycle
  imports Storage
begin

text \<open>
  The abstract specification of one delivery: its status, replay cycle, attempt number and attempt
  limit, and the steps the documentation allows. The storage operations refine it: every one of
  them moves a stored row along one step of this machine or leaves it alone.
\<close>

datatype life = Life (life_status: delivery_status) (life_cycle: int) (life_attempt: int) (life_limit: int)

inductive life_step :: "life \<Rightarrow> life \<Rightarrow> bool" where
  claim: "st \<in> {Queued, RetryScheduled, Delivering} \<Longrightarrow> a < m \<Longrightarrow>
    life_step (Life st c a m) (Life Delivering c (a + 1) m)"
| deliver: "life_step (Life Delivering c a m) (Life Delivered c a m)"
| retry: "a < m \<Longrightarrow> life_step (Life Delivering c a m) (Life RetryScheduled c a m)"
| bury: "life_step (Life Delivering c a m) (Life DeadLetter c a m)"
| replay: "c < 1000000 \<Longrightarrow> life_step (Life DeadLetter c a m) (Life Queued (c + 1) 0 m)"

inductive_cases life_step_delivered: "life_step (Life Delivered c a m) l"
inductive_cases life_step_dead: "life_step (Life DeadLetter c a m) l"
inductive_cases life_step_waiting: "life_step (Life Queued c a m) l"

inductive_simps life_step_simps [simp]:
  "life_step (Life Queued c a m) l"
  "life_step (Life RetryScheduled c a m) l"
  "life_step (Life Delivering c a m) l"
  "life_step (Life Delivered c a m) l"
  "life_step (Life DeadLetter c a m) l"

definition life_ok :: "life \<Rightarrow> bool" where
  "life_ok l \<longleftrightarrow> 0 \<le> life_attempt l \<and> life_attempt l \<le> life_limit l \<and> 1 \<le> life_limit l \<and>
     0 \<le> life_cycle l \<and> life_cycle l \<le> 1000000"

lemma life_step_ok: "life_step l l' \<Longrightarrow> life_ok l \<Longrightarrow> life_ok l'"
  by (induction rule: life_step.induct) (auto simp: life_ok_def)

lemma life_step_limit: "life_step l l' \<Longrightarrow> life_limit l' = life_limit l"
  by (induction rule: life_step.induct) auto

text \<open>The version of a delivery, which the fence of \<open>record_outcome\<close> compares.\<close>

definition life_version :: "life \<Rightarrow> int \<times> int" where
  "life_version l = (life_cycle l, life_attempt l)"

lemma life_step_version: "life_step l l' \<Longrightarrow> life_version l \<le> life_version l'"
  by (induction rule: life_step.induct) (auto simp: life_version_def less_eq_prod_def)

lemma life_step_same_version:
  "life_step l l' \<Longrightarrow> life_version l' = life_version l \<Longrightarrow> life_status l = Delivering"
  by (induction rule: life_step.induct) (auto simp: life_version_def)

text \<open>Every delivery comes to rest: cycles are bounded, and each cycle is.\<close>

lemma life_step_terminates: "wf {(l', l). life_step l l' \<and> life_ok l}"
proof (rule wf_subset)
  let ?r = "measures [\<lambda>l. nat (1000000 - life_cycle l), \<lambda>l. nat (life_limit l - life_attempt l),
      \<lambda>l. case life_status l of Delivering \<Rightarrow> 1 | _ \<Rightarrow> 0]"
  show "wf ?r" by simp
  show "{(l', l). life_step l l' \<and> life_ok l} \<subseteq> ?r"
    by (auto simp: life_ok_def elim!: life_step.cases)
qed

end
