(* ===== verification/Storage_Contract.thy ===== *)
theory Storage_Contract
  imports Storage_Invariant Delivery_Lifecycle "HOL-Library.Sublist"
begin

text \<open>
  The contract of the storage operations towards the service: each keeps the invariant, refines
  the delivery lifecycle on every row, only appends receipts, and rolls back on failure. The
  contract is the locale \<open>store_operation\<close>, interpreted on the four operations that write. Then
  what each operation does when it succeeds.
\<close>

section \<open>Recording and replaying keep the invariant\<close>

text \<open>
  The status an outcome may set: a retry only while attempts are left. \<open>record_outcome\<close> itself
  accepts any status, so this is what its caller has to ensure.
\<close>

definition outcome_allowed :: "string \<Rightarrow> int \<Rightarrow> delivery_status \<Rightarrow> database \<Rightarrow> bool" where
  "outcome_allowed delivery_id attempt status s \<longleftrightarrow> status \<noteq> Queued \<and>
     (status = RetryScheduled \<longrightarrow>
       (\<forall>r \<in> set (deliveries s). row_delivery_id r = delivery_id \<longrightarrow> attempt < row_max_attempts r))"

lemma receipt_row_Ok:
  "receipt_row cr i c receipt = Ok a \<Longrightarrow>
    attempt_key a = (i, c, rc_attempt receipt) \<and> att_outcome a = rc_outcome receipt \<and>
    att_http_status a = rc_http_status receipt \<and>
    att_response_sha256 a = rc_response_sha256 receipt \<and>
    att_occurred_at a = pg_micros cr (rc_occurred_at receipt)"
  by (cases "i32_try_from c"; cases "i32_try_from (rc_attempt receipt)"; cases "rc_http_status receipt";
      cases "i32_try_from (the (rc_http_status receipt))")
    (auto simp: receipt_row_def attempt_key_def dest!: i32_try_from_Some)

text \<open>The two statements of the transaction, when exactly one row matched the fence.\<close>

definition recorded ::
    "crates \<Rightarrow> db_env \<Rightarrow> string \<Rightarrow> int \<Rightarrow> delivery_receipt \<Rightarrow> delivery_status \<Rightarrow> int option \<Rightarrow>
     database \<Rightarrow> database \<Rightarrow> bool" where
  "recorded cr env i c receipt status next s s' \<longleftrightarrow>
     (\<exists>a s1 rows. receipt_row cr i c receipt = Ok a \<and> insert_attempt a s = Some s1 \<and>
        update_deliveries (outcome_matches env i c (rc_attempt receipt))
          (outcome_row env (delivery_status_as_str status) (map_option (pg_micros cr) next)) s1
          = Some (rows, s') \<and> length rows = 1)"

lemma record_outcome_cases:
  "snd (record_outcome cr env i c receipt status next s) = s \<and>
     fst (record_outcome cr env i c receipt status next s) \<noteq> Ok () \<or>
   recorded cr env i c receipt status next s (snd (record_outcome cr env i c receipt status next s)) \<and>
     (fst (record_outcome cr env i c receipt status next s) = Ok () \<or>
      fst (record_outcome cr env i c receipt status next s) = Err (Database ''commit delivery receipt'') \<and>
      db_commit_applied env)"
  by (auto simp: record_outcome_def commit_def ensure_updated_def recorded_def
      split: result.splits option.splits if_splits)

text \<open>The row the fence let through, and what became of the database.\<close>

lemma recordedE:
  assumes "store_ok s" and "recorded cr env i c receipt status next s s'"
  obtains a s1 r where "receipt_row cr i c receipt = Ok a" "insert_attempt a s = Some s1"
    "store_ok s1" "r \<in> set (deliveries s)" "outcome_matches env i c (rc_attempt receipt) r"
    "\<And>r'. r' \<in> set (deliveries s) \<Longrightarrow> row_delivery_id r' = i \<Longrightarrow> r' = r"
    "deliveries s1 = deliveries s" "(i, c, rc_attempt receipt) \<in> receipted s1"
    "s' = s1\<lparr>deliveries := map (\<lambda>r'. if outcome_matches env i c (rc_attempt receipt) r'
        then outcome_row env (delivery_status_as_str status) (map_option (pg_micros cr) next) r'
        else r') (deliveries s)\<rparr>"
proof -
  let ?p = "outcome_matches env i c (rc_attempt receipt)"
  let ?f = "outcome_row env (delivery_status_as_str status) (map_option (pg_micros cr) next)"
  obtain a s1 rows where a: "receipt_row cr i c receipt = Ok a" and s1: "insert_attempt a s = Some s1"
    and up: "update_deliveries ?p ?f s1 = Some (rows, s')" and one: "length rows = 1"
    using assms(2) by (auto simp: recorded_def)
  have d1: "deliveries s1 = deliveries s" by (rule insert_attempt_Some(1) [OF s1])
  have "filter ?p (deliveries s) \<noteq> []"
    using one update_deliveries_Some(1) [OF up] d1 by (auto split: if_splits)
  then obtain r where r: "r \<in> set (deliveries s)" "?p r"
    by (auto simp: filter_empty_conv)
  have uniq: "r' = r" if "r' \<in> set (deliveries s)" "row_delivery_id r' = i" for r'
    using store_ok_unique [OF assms(1)] r that by (auto simp: outcome_matches_def)
  have key: "attempt_key a = (i, c, rc_attempt receipt)" using receipt_row_Ok [OF a] by simp
  have ok1: "store_ok s1"
    using assms(1) s1
  proof (rule insert_attempt_ok)
    fix r' assume "r' \<in> set (deliveries s)" "row_delivery_id r' = att_delivery_id a"
    then have "r' = r" using uniq key by (auto simp: attempt_key_def)
    then show "att_replay_count a = row_replay_count r' \<and> att_attempt a \<le> row_attempts r'"
      using r(2) key by (auto simp: outcome_matches_def attempt_key_def)
  qed
  have s': "s' = s1\<lparr>deliveries := map (\<lambda>r'. if ?p r' then ?f r' else r') (deliveries s)\<rparr>"
    using up by (simp add: update_deliveries_def Let_def d1 split: if_splits)
  have "(i, c, rc_attempt receipt) \<in> receipted s1"
    using insert_attempt_Some(2) [OF s1] key by simp
  with a s1 ok1 r uniq d1 s' show thesis by (intro that)
qed

lemma recorded_ok:
  assumes "store_ok s" and "recorded cr env i c receipt status next s s'"
    and "outcome_allowed i (rc_attempt receipt) status s"
  shows "store_ok s'"
  using assms(1,2)
proof (rule recordedE)
  fix a s1 r
  assume s1: "store_ok s1" "deliveries s1 = deliveries s" "(i, c, rc_attempt receipt) \<in> receipted s1"
    and s': "s' = s1\<lparr>deliveries := map (\<lambda>r'. if outcome_matches env i c (rc_attempt receipt) r'
        then outcome_row env (delivery_status_as_str status) (map_option (pg_micros cr) next) r'
        else r') (deliveries s)\<rparr>"
  let ?f = "outcome_row env (delivery_status_as_str status) (map_option (pg_micros cr) next)"
  have "row_ok (receipted s1) (?f r')"
    if "r' \<in> set (deliveries s)" "outcome_matches env i c (rc_attempt receipt) r'" for r'
    using that store_ok_row [OF s1(1), of r'] s1(2,3) assms(3)
    by (cases status)
      (auto simp: row_ok_defs outcome_matches_def outcome_row_def outcome_allowed_def)
  then show ?thesis
    using store_ok_row [OF s1(1)] s1(2) unfolding s' s1(2) [symmetric]
    by (intro store_ok_map [OF s1(1)]) (auto simp: outcome_row_def)
qed

definition replayed :: "db_env \<Rightarrow> string \<Rightarrow> database \<Rightarrow> database" where
  "replayed env i s =
     s\<lparr>deliveries := map (\<lambda>r. if replayable i r then replay_row env r else r) (deliveries s)\<rparr>"

lemma replay_row_ok:
  assumes "row_ok K r" and "replayable i r"
  shows "row_ok K (replay_row env r)"
proof -
  have dead: "row_status r = ''dead_letter''" using assms(2) by (simp add: replayable_def)
  have n: "1 \<le> row_attempts r" "row_attempts r \<le> row_max_attempts r"
    using assms(1) dead by (auto simp: row_ok_defs)
  have last: "(row_delivery_id r, row_replay_count r, k) \<in> K \<longleftrightarrow> k \<le> row_attempts r" if "1 \<le> k" for k
    using assms(1) dead that unfolding row_ok_def audit_row_def by (cases "k = row_attempts r") force+
  have "earlier_cycles K (replay_row env r)"
    unfolding earlier_cycles_def
  proof (intro allI impI)
    fix j assume j: "0 \<le> j \<and> j < row_replay_count (replay_row env r)"
    show "\<exists>n. 1 \<le> n \<and> n \<le> row_max_attempts (replay_row env r) \<and>
        (\<forall>k. 1 \<le> k \<longrightarrow> ((row_delivery_id (replay_row env r), j, k) \<in> K \<longleftrightarrow> k \<le> n))"
    proof (cases "j = row_replay_count r")
      case True
      then show ?thesis using n last by (intro exI [where x = "row_attempts r"]) (simp add: replay_row_def)
    next
      case False
      then have "0 \<le> j \<and> j < row_replay_count r" using j by (simp add: replay_row_def)
      then show ?thesis using assms(1) by (simp add: row_ok_def earlier_cycles_def replay_row_def)
    qed
  qed
  moreover have "delivery_checks (replay_row env r) \<and> lifecycle_row (replay_row env r) \<and> audit_row K (replay_row env r)"
    using assms by (fastforce simp: row_ok_defs replayable_def replay_row_def)
  ultimately show ?thesis by (simp add: row_ok_def)
qed

lemma replay_update:
  assumes "store_ok s"
  shows "update_deliveries (replayable i) (replay_row env) s =
    Some (map (replay_row env) (filter (replayable i) (deliveries s)), replayed env i s)"
proof -
  have "delivery_checks (replay_row env r)" if "r \<in> set (deliveries s)" "replayable i r" for r
    using replay_row_ok [OF store_ok_row [OF assms that(1)] that(2)] by (simp add: row_ok_def)
  then show ?thesis
    by (simp add: update_deliveries_def replayed_def list_all_iff Let_def)
qed

lemma replayed_ok: "store_ok s \<Longrightarrow> store_ok (replayed env i s)"
  unfolding replayed_def
  by (rule store_ok_map) (auto simp: replay_row_def intro: replay_row_ok [unfolded replay_row_def] store_ok_row)

lemma begin_replay_snd:
  "store_ok s \<Longrightarrow> snd (begin_replay env i s) = s \<or> snd (begin_replay env i s) = replayed env i s"
  by (auto simp: begin_replay_def replay_update)

section \<open>Refinement of the lifecycle\<close>

definition status_of :: "delivery_row \<Rightarrow> delivery_status" where
  "status_of r = (case delivery_status_parse (row_status r) of Ok st \<Rightarrow> st | _ \<Rightarrow> DeadLetter)"

definition life_of :: "delivery_row \<Rightarrow> life" where
  "life_of r = Life (status_of r) (row_replay_count r) (row_attempts r) (row_max_attempts r)"

lemma status_of_as_str [simp]:
  "row_status r = delivery_status_as_str st \<Longrightarrow> status_of r = st"
  by (simp add: status_of_def delivery_status_parse_as_str)

lemma status_of_literals [simp]:
  "row_status r = ''queued'' \<Longrightarrow> status_of r = Queued"
  "row_status r = ''delivering'' \<Longrightarrow> status_of r = Delivering"
  "row_status r = ''retry_scheduled'' \<Longrightarrow> status_of r = RetryScheduled"
  "row_status r = ''delivered'' \<Longrightarrow> status_of r = Delivered"
  "row_status r = ''dead_letter'' \<Longrightarrow> status_of r = DeadLetter"
  by (simp_all add: status_of_def delivery_status_parse_def)

lemma row_status_of: "delivery_checks r \<Longrightarrow> row_status r = delivery_status_as_str (status_of r)"
  by (erule status_cases) simp

text \<open>The columns no operation may change.\<close>

definition same_snapshot :: "delivery_row \<Rightarrow> delivery_row \<Rightarrow> bool" where
  "same_snapshot r r' \<longleftrightarrow>
     row_delivery_id r' = row_delivery_id r \<and> row_event_id r' = row_event_id r \<and>
     row_event_type r' = row_event_type r \<and> row_endpoint_url r' = row_endpoint_url r \<and>
     row_endpoint_origin r' = row_endpoint_origin r \<and>
     row_payload_snapshot r' = row_payload_snapshot r \<and>
     row_payload_sha256 r' = row_payload_sha256 r \<and> row_queue_name r' = row_queue_name r \<and>
     row_max_attempts r' = row_max_attempts r \<and> row_created_at r' = row_created_at r"

lemma same_snapshot_refl [simp]: "same_snapshot r r"
  by (simp add: same_snapshot_def)

lemma same_snapshot_trans: "same_snapshot r r' \<Longrightarrow> same_snapshot r' r'' \<Longrightarrow> same_snapshot r r''"
  by (simp add: same_snapshot_def)

lemma same_snapshot_writers [simp]:
  "same_snapshot r (retire_row env r)" "same_snapshot r (claim_row env l r)"
  "same_snapshot r (outcome_row env st av r)" "same_snapshot r (replay_row env r)"
  by (simp_all add: same_snapshot_def retire_row_def claim_row_def outcome_row_def replay_row_def)

definition row_moves :: "delivery_row \<Rightarrow> delivery_row \<Rightarrow> bool" where
  "row_moves r r' \<longleftrightarrow> same_snapshot r r' \<and> (life_of r' = life_of r \<or> life_step (life_of r) (life_of r'))"

lemma row_moves_refl [simp]: "row_moves r r"
  by (simp add: row_moves_def)

definition refines :: "database \<Rightarrow> database \<Rightarrow> bool" where
  "refines s s' \<longleftrightarrow> (\<forall>r \<in> set (deliveries s). \<exists>r' \<in> set (deliveries s'). row_moves r r')"

lemma refines_refl [simp]: "refines s s"
  by (auto simp: refines_def intro: row_moves_refl)

text \<open>Any number of lifecycle steps later.\<close>

definition evolves :: "database \<Rightarrow> database \<Rightarrow> bool" where
  "evolves s s' \<longleftrightarrow> (\<forall>r \<in> set (deliveries s). \<exists>r' \<in> set (deliveries s').
     same_snapshot r r' \<and> life_step\<^sup>*\<^sup>* (life_of r) (life_of r'))"

lemma refines_evolves: "refines s s' \<Longrightarrow> evolves s s'"
  unfolding refines_def evolves_def row_moves_def by (metis r_into_rtranclp rtranclp.rtrancl_refl)

lemma evolves_trans: "evolves s s' \<Longrightarrow> evolves s' s'' \<Longrightarrow> evolves s s''"
  unfolding evolves_def by (meson rtranclp_trans same_snapshot_trans)

lemma refines_map:
  "(\<And>r. r \<in> set (deliveries s) \<Longrightarrow> row_moves r (g r)) \<Longrightarrow> deliveries s' = map g (deliveries s) \<Longrightarrow>
    refines s s'"
  by (auto simp: refines_def)

lemma life_of_writers:
  "life_of (claim_row env l r) =
     Life Delivering (row_replay_count r) (row_attempts r + 1) (row_max_attempts r)"
  "life_of (retire_row env r) =
     Life DeadLetter (row_replay_count r) (row_attempts r) (row_max_attempts r)"
  "life_of (replay_row env r) = Life Queued (row_replay_count r + 1) 0 (row_max_attempts r)"
  "life_of (outcome_row env (delivery_status_as_str st) av r) =
     Life st (row_replay_count r) (row_attempts r) (row_max_attempts r)"
  by (simp_all add: life_of_def claim_row_def retire_row_def replay_row_def outcome_row_def)

lemma claim_row_moves: "due env queue batch r \<Longrightarrow> row_moves r (claim_row env lease r)"
  by (auto simp: row_moves_def life_of_writers due_def) (auto simp: life_of_def)

lemma retire_row_moves: "row_status r = ''delivering'' \<Longrightarrow> row_moves r (retire_row env r)"
  by (simp add: row_moves_def life_of_writers) (simp add: life_of_def)

lemma replay_row_moves: "replayable i r \<Longrightarrow> row_moves r (replay_row env r)"
  by (simp add: row_moves_def life_of_writers replayable_def) (simp add: life_of_def)

lemma outcome_row_moves:
  assumes "row_status r = ''delivering''" and "status \<noteq> Queued"
    and "status = RetryScheduled \<Longrightarrow> row_attempts r < row_max_attempts r"
  shows "row_moves r (outcome_row env (delivery_status_as_str status) av r)"
proof -
  have "life_of r = Life Delivering (row_replay_count r) (row_attempts r) (row_max_attempts r)"
    using assms(1) by (simp add: life_of_def)
  with assms(2,3) show ?thesis
    unfolding row_moves_def life_of_writers by (cases status) auto
qed

section \<open>The contract of a writing operation\<close>

definition extends :: "database \<Rightarrow> database \<Rightarrow> bool" where
  "extends s s' \<longleftrightarrow> prefix (attempts s) (attempts s')"

lemma extends_refl [simp]: "extends s s"
  by (simp add: extends_def)

text \<open>
  \<open>run\<close> is the operation on its arguments, \<open>pre\<close> what its caller ensures. A failed call has
  rolled back, unless the failure is a commit that was applied nevertheless or the decoding of
  an answer that was already committed; a panic always has.
\<close>

locale store_operation =
  fixes run :: "'i \<Rightarrow> db_env \<Rightarrow> database \<Rightarrow> ('a, store_error) result \<times> database"
    and pre :: "'i \<Rightarrow> database \<Rightarrow> bool"
  assumes keeps_ok: "store_ok s \<Longrightarrow> pre i s \<Longrightarrow> store_ok (snd (run i env s))"
    and refines_lifecycle: "store_ok s \<Longrightarrow> pre i s \<Longrightarrow> refines s (snd (run i env s))"
    and extends_receipts: "store_ok s \<Longrightarrow> extends s (snd (run i env s))"
    and error_rolls_back: "store_ok s \<Longrightarrow> fst (run i env s) = Err e \<Longrightarrow> \<not> db_commit_applied env \<Longrightarrow>
      \<not> db_fails env ''decode delivery'' \<Longrightarrow> snd (run i env s) = s"
    and panic_rolls_back: "store_ok s \<Longrightarrow> fst (run i env s) = Panic m \<Longrightarrow> snd (run i env s) = s"
begin

text \<open>The row a delivery id has after the operation is a lifecycle step from the row before.\<close>

lemma row_after:
  assumes "store_ok s" and "pre i s" and "r \<in> set (deliveries s)"
    and "r' \<in> set (deliveries (snd (run i env s)))" and "row_delivery_id r' = row_delivery_id r"
  shows "row_moves r r'"
proof -
  obtain r1 where r1: "r1 \<in> set (deliveries (snd (run i env s)))" "row_moves r r1"
    using refines_lifecycle [OF assms(1,2), of env] assms(3) by (auto simp: refines_def)
  have "r1 = r'"
    using store_ok_unique [OF keeps_ok [OF assms(1,2)] r1(1) assms(4)] r1(2) assms(5)
    by (simp add: row_moves_def same_snapshot_def)
  with r1(2) show ?thesis by simp
qed

lemma delivered_stays:
  assumes "store_ok s" and "pre i s" and "r \<in> set (deliveries s)" and "row_status r = ''delivered''"
  shows "\<exists>r' \<in> set (deliveries (snd (run i env s))). same_snapshot r r' \<and> life_of r' = life_of r"
proof -
  have "life_of r = Life Delivered (row_replay_count r) (row_attempts r) (row_max_attempts r)"
    using assms(4) by (simp add: life_of_def)
  then show ?thesis
    using refines_lifecycle [OF assms(1,2), of env] assms(3)
    by (fastforce simp: refines_def row_moves_def)
qed

lemma receipts_kept: "store_ok s \<Longrightarrow> set (attempts s) \<subseteq> set (attempts (snd (run i env s)))"
  using extends_receipts [of s i env] by (auto simp: extends_def dest: set_mono_prefix)

end

subsection \<open>The four operations fulfil it\<close>

lemma decode_delivery_ok:
  "delivery_checks r \<Longrightarrow> \<not> db_fails env ''decode delivery'' \<Longrightarrow> \<exists>d. decode_delivery env r = Ok d"
  by (erule status_cases) (simp add: decode_delivery_def delivery_status_parse_as_str)

lemma decode_delivery_no_panic [no_panic_intros]: "no_panic (decode_delivery env r)"
  unfolding decode_delivery_def delivery_status_parse_def by (intro no_panic_intros)

text \<open>Either the transaction inserted the new row, or the database is as it was.\<close>

lemma insert_or_get_cases:
  obtains (unchanged) "snd (insert_or_get cr env d s) = s"
      "\<And>d'. fst (insert_or_get cr env d s) \<noteq> Ok (Created d')"
  | (created) s1 where
      "insert_delivery (new_row cr env d (nd_max_attempts d)) s = Some (1, s1)"
      "insert_or_get cr env d s =
        commit env ''commit delivery enqueue'' s s1 (Created (created_record d))"
proof (cases "\<exists>s1. \<not> db_fails env ''begin enqueue'' \<and> \<not> db_fails env ''insert delivery'' \<and>
    i32_try_from (nd_max_attempts d) = Some (nd_max_attempts d) \<and>
    insert_delivery (new_row cr env d (nd_max_attempts d)) s = Some (1, s1)")
  case True
  then show thesis by (elim exE, intro created) (simp_all add: insert_or_get_def execute_def)
next
  case False
  have same: "s1 = s" if "insert_delivery r s = Some (n, s1)" "n \<noteq> 1" for r n s1
    using that by (cases rule: insert_delivery_cases) auto
  show thesis
  proof (rule unchanged)
    show "snd (insert_or_get cr env d s) = s"
      using False same
      by (auto simp: insert_or_get_def execute_def commit_def dest: i32_try_from_Some
          split: option.splits result.splits)
    show "fst (insert_or_get cr env d s) \<noteq> Ok (Created d')" for d'
      using False
      by (auto simp: insert_or_get_def execute_def commit_def dest: i32_try_from_Some
          split: option.splits result.splits)
  qed
qed

lemma insert_or_get_refines: "refines s (snd (insert_or_get cr env d s)) \<and>
    extends s (snd (insert_or_get cr env d s))"
  using insert_or_get_snd [of cr env d s]
proof (elim disjE exE)
  fix n m assume "insert_delivery (new_row cr env d m) s = Some (n, snd (insert_or_get cr env d s))"
  then show ?thesis
    by (cases rule: insert_delivery_cases)
      (auto simp: refines_def extends_def intro: row_moves_refl)
qed simp

lemma insert_or_get_failure:
  "fst (insert_or_get cr env d s) = Err e \<Longrightarrow> \<not> db_commit_applied env \<Longrightarrow>
    snd (insert_or_get cr env d s) = s"
  by (rule insert_or_get_cases [of cr env d s]) (simp_all add: commit_def split: if_splits)

lemma insert_or_get_panic:
  "fst (insert_or_get cr env d s) = Panic m \<Longrightarrow> snd (insert_or_get cr env d s) = s"
  by (rule insert_or_get_cases [of cr env d s]) (simp_all add: commit_def split: if_splits)

interpretation insert_op: store_operation
  "\<lambda>(cr, d) env s. insert_or_get cr env d s" "\<lambda>_ _. True"
  by unfold_locales
    (auto simp: insert_or_get_ok insert_or_get_refines insert_or_get_failure
      insert_or_get_panic)

lemma claim_statement_refines:
  assumes "store_ok s" and "claim_statement env queue lease s = Some (rows, s')"
  shows "refines s s' \<and> extends s s'"
proof -
  let ?batch = "expired env queue s"
  let ?chosen = "candidate env queue ?batch s"
  obtain s1 where s1: "insert_attempts (map (lease_expired_receipt env) ?batch) s = Some s1"
    and eq: "claim_statement env queue lease s =
      Some (map (claim_row env lease) (filter (\<lambda>r. r \<in> set ?chosen) (deliveries s)),
            s1\<lparr>deliveries := map (claim_step env lease ?batch ?chosen) (deliveries s)\<rparr>)"
    by (rule claim_statement_eq [OF assms(1)])
  have sub: "set ?batch \<subseteq> set (deliveries s)" using in_expired(1) by blast
  have "row_moves r (claim_step env lease ?batch ?chosen r)" if "r \<in> set (deliveries s)" for r
    using retires_iff [OF assms(1) that sub] in_expired(3)
    by (auto simp: claim_step_def intro: retire_row_moves claim_row_moves [OF in_candidate(2)])
  moreover have "deliveries s' = map (claim_step env lease ?batch ?chosen) (deliveries s)"
    and "attempts s' = attempts s1"
    using assms(2) eq by auto
  ultimately show ?thesis
    using insert_attempts_Some(3) [OF s1] by (auto simp: extends_def intro: refines_map)
qed

lemma claim_rows_checks:
  assumes "claim_statement env queue lease s = Some (rows, s')"
  shows "\<forall>r \<in> set rows. delivery_checks r"
proof -
  obtain p f s2 where "update_deliveries p f s2 = Some (rows, s')"
    using assms by (auto simp: claim_statement_def Let_def bind_eq_Some_conv)
  then show ?thesis
    by (auto simp: update_deliveries_def Let_def list_all_iff split: if_splits)
qed

text \<open>The ways a claim can end, and the answer it decodes once committed.\<close>

definition claim_answer ::
    "db_env \<Rightarrow> delivery_row list \<Rightarrow> (delivery_record option, store_error) result" where
  "claim_answer env rows =
     (case rows of
        [] \<Rightarrow> Ok None
      | row # _ \<Rightarrow> and_then (decode_delivery env row) (\<lambda>delivery. Ok (Some delivery)))"

lemma claim_due_cases:
  obtains (aborted) e where "claim_due env queue lease s = (Err e, s)"
  | (panicked) "i32_try_from lease = None" "claim_due env queue lease s = (Panic ''validated lease seconds'', s)"
  | (uncertain) rows s1 where "claim_statement env queue lease s = Some (rows, s1)"
      "db_fails env ''commit delivery claim''"
      "claim_due env queue lease s =
        (Err (Database ''commit delivery claim''), if db_commit_applied env then s1 else s)"
  | (committed) rows s1 where "claim_statement env queue lease s = Some (rows, s1)"
      "claim_due env queue lease s = (claim_answer env rows, s1)"
proof (cases "db_fails env ''begin delivery claim''")
  case True
  then show thesis by (intro aborted) (simp add: claim_due_def)
next
  case nobegin: False
  show thesis
  proof (cases "i32_try_from lease")
    case None
    with nobegin show thesis by (intro panicked) (simp_all add: claim_due_def)
  next
    case (Some l)
    then have l: "i32_try_from lease = Some lease" using i32_try_from_Some by blast
    show thesis
    proof (cases "execute env ''claim due delivery'' (claim_statement env queue lease s)")
      case None
      with nobegin l show thesis by (intro aborted) (simp add: claim_due_def)
    next
      case (Some p)
      then obtain rows s1 where st: "claim_statement env queue lease s = Some (rows, s1)"
        and ex: "execute env ''claim due delivery'' (claim_statement env queue lease s) = Some (rows, s1)"
        by (cases p) auto
      show thesis
      proof (cases "db_fails env ''commit delivery claim''")
        case True
        with nobegin l ex st show thesis
          by (intro uncertain) (simp_all add: claim_due_def commit_def execute_def)
      next
        case False
        with nobegin l ex st show thesis
          by (intro committed) (simp_all add: claim_due_def commit_def execute_def claim_answer_def)
      qed
    qed
  qed
qed

lemma claim_answer_no_panic [no_panic_intros]: "no_panic (claim_answer env rows)"
  unfolding claim_answer_def
  by (cases rows) (auto intro!: no_panic_intros)

lemma claim_answer_ok:
  "\<forall>r \<in> set rows. delivery_checks r \<Longrightarrow> \<not> db_fails env ''decode delivery'' \<Longrightarrow>
    claim_answer env rows \<noteq> Err e"
  using decode_delivery_ok by (cases rows) (fastforce simp: claim_answer_def)+

lemma claim_due_failure:
  "fst (claim_due env queue lease s) = Err e \<Longrightarrow> \<not> db_commit_applied env \<Longrightarrow>
    \<not> db_fails env ''decode delivery'' \<Longrightarrow> snd (claim_due env queue lease s) = s"
  "fst (claim_due env queue lease s) = Panic m \<Longrightarrow> snd (claim_due env queue lease s) = s"
proof -
  assume err: "fst (claim_due env queue lease s) = Err e" "\<not> db_commit_applied env"
    "\<not> db_fails env ''decode delivery''"
  show "snd (claim_due env queue lease s) = s"
  proof (rule claim_due_cases [of env queue lease s])
    fix rows s1
    assume st: "claim_statement env queue lease s = Some (rows, s1)"
      and eq: "claim_due env queue lease s = (claim_answer env rows, s1)"
    from claim_answer_ok [OF claim_rows_checks [OF st] err(3)] have False using err(1) eq by simp
    then show ?thesis ..
  qed (use err in auto)
next
  assume panic: "fst (claim_due env queue lease s) = Panic m"
  show "snd (claim_due env queue lease s) = s"
    by (rule claim_due_cases [of env queue lease s])
      (use panic claim_answer_no_panic in \<open>auto simp: no_panic_def\<close>)
qed

lemma claim_due_refines:
  "store_ok s \<Longrightarrow> refines s (snd (claim_due env queue lease s)) \<and>
    extends s (snd (claim_due env queue lease s))"
  using claim_due_snd [of env queue lease s] claim_statement_refines by fastforce

interpretation claim_op: store_operation
  "\<lambda>i env s. claim_due env (fst i) (snd i) s" "\<lambda>_ _. True"
  by unfold_locales (auto simp: claim_due_ok claim_due_refines claim_due_failure)

lemma recorded_refines:
  assumes "store_ok s" and "recorded cr env i c receipt status next s s'"
    and "outcome_allowed i (rc_attempt receipt) status s"
  shows "refines s s'"
  using assms(1,2)
proof (rule recordedE)
  fix s1
  assume "s' = s1\<lparr>deliveries := map (\<lambda>r'. if outcome_matches env i c (rc_attempt receipt) r'
        then outcome_row env (delivery_status_as_str status) (map_option (pg_micros cr) next) r'
        else r') (deliveries s)\<rparr>"
  then show ?thesis
    using assms(3)
    by (intro refines_map [where g = "\<lambda>r'. if outcome_matches env i c (rc_attempt receipt) r'
        then outcome_row env (delivery_status_as_str status) (map_option (pg_micros cr) next) r'
        else r'"])
      (auto simp: outcome_allowed_def outcome_matches_def intro!: outcome_row_moves)
qed

lemma recorded_extends:
  assumes "recorded cr env i c receipt status next s s'"
  shows "extends s s'"
  using assms insert_attempt_Some(3) update_deliveries_Some(3)
  by (fastforce simp: recorded_def extends_def)

interpretation record_op: store_operation
  "\<lambda>(cr, i, c, receipt, status, next) env s. record_outcome cr env i c receipt status next s"
  "\<lambda>(cr, i, c, receipt, status, next) s. outcome_allowed i (rc_attempt receipt) status s"
proof unfold_locales
  fix s :: database and env and i :: "crates \<times> string \<times> int \<times> delivery_receipt \<times> delivery_status \<times> int option"
  obtain cr d c receipt status n where i: "i = (cr, d, c, receipt, status, n)" by (cases i)
  note c = record_outcome_cases [of cr env d c receipt status n s]
  let ?run = "(\<lambda>(cr, i, c, receipt, status, next) env s. record_outcome cr env i c receipt status next s) i env s"
  assume ok: "store_ok s"
  {
    assume "(\<lambda>(cr, i, c, receipt, status, next) s. outcome_allowed i (rc_attempt receipt) status s) i s"
    then show "store_ok (snd ?run)" "refines s (snd ?run)"
      using c ok recorded_ok recorded_refines by (auto simp: i)
  next
    show "extends s (snd ?run)"
      using c recorded_extends by (auto simp: i)
  next
    fix e m
    show "fst ?run = Err e \<Longrightarrow> \<not> db_commit_applied env \<Longrightarrow> snd ?run = s"
      and "fst ?run = Panic m \<Longrightarrow> snd ?run = s"
      using c by (auto simp: i)
  }
qed

lemma replayed_refines: "refines s (replayed env i s)"
  unfolding replayed_def
  by (rule refines_map [where g = "\<lambda>r. if replayable i r then replay_row env r else r"])
    (auto intro: replay_row_moves)

lemma begin_replay_failure:
  assumes "store_ok s"
  shows "fst (begin_replay env i s) = Err e \<Longrightarrow> \<not> db_commit_applied env \<Longrightarrow>
      \<not> db_fails env ''decode delivery'' \<Longrightarrow> snd (begin_replay env i s) = s"
    and "fst (begin_replay env i s) \<noteq> Panic m"
proof -
  let ?rows = "map (replay_row env) (filter (replayable i) (deliveries s))"
  have eq: "begin_replay env i s =
      (if db_fails env ''begin dead-letter replay''
       then (Err (Database ''begin dead-letter replay''), if db_commit_applied env then replayed env i s else s)
       else (claim_answer env ?rows, replayed env i s))"
    by (simp add: begin_replay_def replay_update [OF assms] claim_answer_def)
  have "\<forall>r \<in> set ?rows. delivery_checks r"
    using replay_row_ok [OF store_ok_row [OF assms]] by (auto simp: row_ok_def)
  then show "fst (begin_replay env i s) = Err e \<Longrightarrow> \<not> db_commit_applied env \<Longrightarrow>
      \<not> db_fails env ''decode delivery'' \<Longrightarrow> snd (begin_replay env i s) = s"
    using claim_answer_ok [of ?rows env e] by (auto simp: eq split: if_splits)
  show "fst (begin_replay env i s) \<noteq> Panic m"
    using claim_answer_no_panic [of env ?rows] by (simp add: eq no_panic_def)
qed

lemma begin_replay_ok:
  "store_ok s \<Longrightarrow> store_ok (snd (begin_replay env i s)) \<and> refines s (snd (begin_replay env i s)) \<and>
    extends s (snd (begin_replay env i s))"
  using begin_replay_snd [of s env i] replayed_ok replayed_refines
  by (auto simp: extends_def replayed_def)

interpretation replay_op: store_operation
  "\<lambda>i env s. begin_replay env i s" "\<lambda>_ _. True"
  by unfold_locales (auto simp: begin_replay_ok begin_replay_failure)

end
