(* ===== verification/Samples.thy ===== *)
theory Samples
  imports Storage_Invariant Service
begin

text \<open>Concrete rows and environments on which the theorems are instantiated.\<close>

definition sample_env :: db_env where
  "sample_env = \<lparr>db_now = 5000000, db_fails = (\<lambda>_. False), db_commit_applied = False,
     db_locked = (\<lambda>_. False)\<rparr>"

definition sample_id :: string where
  "sample_id = ''wh_'' @ replicate 48 (CHR ''a'')"

definition sample_row :: delivery_row where
  "sample_row = \<lparr>row_delivery_id = sample_id, row_event_id = ''e'', row_event_type = ''t'',
     row_endpoint_url = ''u'', row_endpoint_origin = ''u'', row_payload_snapshot = [1],
     row_payload_sha256 = ''d'', row_queue_name = ''q'', row_status = ''queued'',
     row_available_at = 0, row_lease_expires_at = None, row_attempts = 0, row_max_attempts = 2,
     row_replay_count = 0, row_created_at = 0, row_updated_at = 0\<rparr>"

text \<open>The same row under its first lease, and as a dead letter after it.\<close>

definition claimed_row :: delivery_row where
  "claimed_row = sample_row\<lparr>row_status := ''delivering'', row_attempts := 1,
     row_lease_expires_at := Some 35000000, row_updated_at := 5000000\<rparr>"

definition dead_row :: delivery_row where
  "dead_row = sample_row\<lparr>row_status := ''dead_letter'', row_attempts := 1\<rparr>"

definition sample_attempt :: attempt_row where
  "sample_attempt = \<lparr>att_delivery_id = sample_id, att_replay_count = 0, att_attempt = 1,
     att_outcome = ''http_status_404'', att_http_status = Some 404,
     att_response_sha256 = Some ''d'', att_occurred_at = 0\<rparr>"

definition queued_db :: database where
  "queued_db = \<lparr>deliveries = [sample_row], attempts = []\<rparr>"

definition claimed_db :: database where
  "claimed_db = \<lparr>deliveries = [claimed_row], attempts = []\<rparr>"

definition dead_db :: database where
  "dead_db = \<lparr>deliveries = [dead_row], attempts = [sample_attempt]\<rparr>"

definition claimed_record :: delivery_record where
  "claimed_record = \<lparr>dr_delivery_id = sample_id, dr_event_id = ''e'', dr_event_type = ''t'',
     dr_endpoint_url = ''u'', dr_endpoint_origin = ''u'', dr_payload_snapshot = [1],
     dr_payload_sha256 = ''d'', dr_queue_name = ''q'', dr_status = Delivering,
     dr_attempts = 1, dr_max_attempts = 2, dr_replay_count = 0, dr_last_receipt = None\<rparr>"

lemmas sample_defs = sample_env_def sample_row_def claimed_row_def dead_row_def sample_attempt_def
  queued_db_def claimed_db_def dead_db_def claimed_record_def

lemma queued_db_ok: "store_ok queued_db"
  by (simp add: store_ok_def row_ok_defs sample_defs receipted_def)

lemma claimed_db_ok: "store_ok claimed_db"
  by (simp add: store_ok_def row_ok_defs sample_defs receipted_def)

lemma dead_db_ok: "store_ok dead_db"
  by (auto simp: store_ok_def row_ok_defs sample_defs receipted_def attempt_key_def attempt_checks_def)

lemma claim_queued_db:
  "claim_due sample_env ''q'' 30 queued_db = (Ok (Some claimed_record), claimed_db)"
  by (simp add: claim_due_def execute_def commit_def claim_statement_def expired_def candidate_def
      due_def claim_row_def retires_def update_deliveries_def delivery_checks_def Let_def
      decode_delivery_def delivery_status_parse_def i32_try_from_def sample_defs)

text \<open>A delivery whose only attempt ran out its lease, and what a claim leaves of it.\<close>

definition expired_row :: delivery_row where
  "expired_row = claimed_row\<lparr>row_max_attempts := 1, row_lease_expires_at := Some 1\<rparr>"

definition expired_db :: database where
  "expired_db = \<lparr>deliveries = [expired_row], attempts = []\<rparr>"

definition retired_db :: database where
  "retired_db = \<lparr>deliveries = [retire_row sample_env expired_row],
     attempts = [lease_expired_receipt sample_env expired_row]\<rparr>"

lemma expired_db_ok: "store_ok expired_db"
  by (simp add: store_ok_def row_ok_defs sample_defs expired_row_def expired_db_def receipted_def)

lemma claim_expired_db: "claim_due sample_env ''q'' 30 expired_db = (Ok None, retired_db)"
  by (simp add: claim_due_def execute_def commit_def claim_statement_def expired_def candidate_def
      due_def claim_row_def retires_def retire_row_def update_deliveries_def delivery_checks_def Let_def
      lease_expired_def lease_expired_receipt_def insert_attempt_def attempt_checks_def
      EXPIRED_DELIVERY_MAINTENANCE_BATCH_LIMIT_def expired_row_def expired_db_def retired_db_def
      i32_try_from_def sample_defs)

section \<open>A plugin and its callers\<close>

definition sample_config :: outbound_webhook_config where
  "sample_config = \<lparr>cfg_schema = ''s'', cfg_database_url_secret = ''d'', cfg_signing_secret = ''k'',
     cfg_endpoint_url = ''u'', cfg_queue_name = ''q'', cfg_max_attempts = 2,
     cfg_max_payload_bytes = 100, cfg_lease_seconds = 30, cfg_retry_base_seconds = 5,
     cfg_retry_max_seconds = 300, cfg_producer_instances = [''p''], cfg_admin_instances = [''a'']\<rparr>"

definition sample_prepared :: prepared_webhook where
  "sample_prepared = \<lparr>pw_endpoint = sample_url ''u'', pw_endpoint_origin = ''u'',
     pw_signing_key = replicate 32 7\<rparr>"

definition sample_plugin :: plugin where
  "sample_plugin = \<lparr>pl_config = sample_config, pl_prepared = Some sample_prepared\<rparr>"

definition as_producer :: invocation_context where
  "as_producer = \<lparr>caller_instance = Some ''p''\<rparr>"

definition as_admin :: invocation_context where
  "as_admin = \<lparr>caller_instance = Some ''a''\<rparr>"

definition sample_request :: enqueue_request where
  "sample_request = \<lparr>enq_event_id = ''e'', enq_event_type = ''t'', enq_payload = []\<rparr>"

definition sample_new :: new_delivery where
  "sample_new = new_delivery_of sample_crates sample_plugin sample_prepared sample_request
     (as_bytes ''e'') 7000"

definition enqueued_db :: database where
  "enqueued_db = \<lparr>deliveries = [new_row sample_crates sample_env sample_new 2], attempts = []\<rparr>"

definition created_response :: enqueue_response where
  "created_response = \<lparr>enq_created = True, enq_delivery_id = nd_delivery_id sample_new,
     enq_status = EnqueueQueued\<rparr>"

lemmas plugin_sample_defs = sample_config_def sample_prepared_def sample_plugin_def
  as_producer_def as_admin_def sample_request_def

lemma sample_bounds: "config_bounds (pl_config sample_plugin)"
  by (simp add: config_bounds_def plugin_sample_defs)

lemma sample_crates_simps [simp]:
  "to_vec sample_crates = sample_vec" "rfc3339 sample_crates = (\<lambda>t. Inr (show_int t))"
  "pg_micros sample_crates = (\<lambda>t. t div 1000)" "pg_time sample_crates = (\<lambda>t. 1000 * t)"
  "url_parse sample_crates = (\<lambda>s. Inr (sample_url s))"
  "hmac_sha256 sample_crates = (\<lambda>_ _. Some (replicate 32 205))"
  "sha256 sample_crates = (\<lambda>_. replicate 32 171)"
  "schema_plan_new sample_crates = (\<lambda>_ _. Inr ())"
  by (simp_all add: sample_crates_def)

lemma sample_snapshot: "payload_snapshot sample_crates sample_request = Ok (as_bytes ''e'')"
  by (simp add: payload_snapshot_def webhook_envelope_def sample_request_def)

lemma sample_names: "valid_event_name ''e''" "valid_event_name ''t''"
  by (simp_all add: valid_event_name_def is_ascii_alphanumeric_def in_bytes_def)

lemma sample_id_valid: "valid_delivery_id sample_id"
  by (simp add: valid_delivery_id_def sample_id_def starts_with_def is_ascii_hexdigit_def in_bytes_def
      list_all_iff)

lemma sample_allowed: "producer_allowed sample_config (Some ''p'')" "admin_allowed sample_config (Some ''a'')"
  by (simp_all add: producer_allowed_def admin_allowed_def sample_config_def)

end
