(* ===== verification/Enqueue_Flow.thy ===== *)
theory Enqueue_Flow
  imports Service Storage_Contract Samples
begin

text \<open>
  What \<open>enqueue\<close> guarantees: the exact snapshot is stored before success is reported, a repeated
  event finds its delivery, a reused event id with other content is refused, nothing changes
  on an error.
\<close>

section \<open>Steps of a flow\<close>

lemma and_then_db_Ok_iff:
  "and_then_db p f = (Ok y, s') \<longleftrightarrow> (\<exists>x s. p = (Ok x, s) \<and> f x s = (Ok y, s'))"
  by (cases "(p, f)" rule: and_then_db.cases) auto

lemma and_then_db_Err_iff:
  "and_then_db p f = (Err e, s') \<longleftrightarrow> p = (Err e, s') \<or> (\<exists>x s. p = (Ok x, s) \<and> f x s = (Err e, s'))"
  by (cases "(p, f)" rule: and_then_db.cases) auto

lemma map_store_err_Ok_iff [simp]: "map_store_err f p = (Ok x, s) \<longleftrightarrow> p = (Ok x, s)"
  by (cases p) (auto simp: map_store_err_def)

lemma map_store_err_Err_iff:
  "map_store_err f p = (Err e, s) \<longleftrightarrow> (\<exists>e'. p = (Err e', s) \<and> e = f (store_failure e'))"
  by (cases p) (auto simp: map_store_err_def map_err_Err_iff)

lemma map_store_err_simps [simp]:
  "map_store_err f (Ok x, s) = (Ok x, s)"
  "map_store_err f (Err e, s) = (Err (f (store_failure e)), s)"
  "map_store_err f (Panic m, s) = (Panic m, s)"
  by (simp_all add: map_store_err_def)

lemma snd_map_store_err [simp]: "snd (map_store_err f p) = snd p"
  by (simp add: map_store_err_def)

text \<open>A storage call that does not succeed ends the flow with the database it leaves.\<close>

lemma failed_call_ends:
  assumes "\<And>x. fst p \<noteq> Ok x"
  shows "snd (and_then_db (map_store_err f p) g) = snd p"
    and "fst (and_then_db (map_store_err f p) g) \<noteq> Ok y"
  using assms by (cases p; cases "fst p"; auto)+

lemma no_panic_and_then_db [no_panic_intros]:
  "no_panic (fst p) \<Longrightarrow> (\<And>x s. p = (Ok x, s) \<Longrightarrow> no_panic (fst (f x s))) \<Longrightarrow>
    no_panic (fst (and_then_db p f))"
  by (cases "(p, f)" rule: and_then_db.cases) auto

lemma no_panic_map_store_err [simp]: "no_panic (fst (map_store_err f p)) = no_panic (fst p)"
  by (simp add: map_store_err_def)

lemma database_timestamp_now_eq: "database_timestamp_now now = Ok (now - now mod 1000)"
proof -
  have "0 \<le> nanosecond now" "nanosecond now < 1000000000" by (simp_all add: nanosecond_def)
  then have "replace_nanosecond now (nanosecond now div 1000 * 1000)
      = Some (now - nanosecond now + nanosecond now div 1000 * 1000)"
    by (simp add: replace_nanosecond_def)
  moreover have "nanosecond now - nanosecond now div 1000 * 1000 = now mod 1000"
    by (simp add: nanosecond_def minus_div_mult_eq_mod mod_mod_cancel)
  ultimately show ?thesis
    by (simp add: database_timestamp_now_def)
qed

text \<open>The guards of \<open>enqueue\<close>, all at once.\<close>

definition enqueue_admits ::
    "crates \<Rightarrow> plugin \<Rightarrow> invocation_context \<Rightarrow> enqueue_request \<Rightarrow> prepared_webhook \<Rightarrow> bytes \<Rightarrow> bool" where
  "enqueue_admits cr pl context request pw snapshot \<longleftrightarrow>
     producer_allowed (pl_config pl) (caller_instance context) \<and>
     valid_event_name (enq_event_id request) \<and> valid_event_name (enq_event_type request) \<and>
     pl_prepared pl = Some pw \<and> payload_snapshot cr request = Ok snapshot \<and>
     length snapshot \<le> cfg_max_payload_bytes (pl_config pl)"

lemma enqueue_prepare_Ok:
  "enqueue_prepare cr pl now context request = Ok new \<longleftrightarrow>
    (\<exists>pw snapshot. enqueue_admits cr pl context request pw snapshot \<and>
      new = new_delivery_of cr pl pw request snapshot (now - now mod 1000))"
  by (cases "pl_prepared pl"; cases "payload_snapshot cr request")
    (auto simp: enqueue_prepare_def enqueue_admits_def prepared_def database_timestamp_now_eq)

lemma enqueue_delivery_Ok:
  assumes "enqueue_delivery cr pl env now context request s = (Ok response, s')"
  obtains pw snapshot outcome where "enqueue_admits cr pl context request pw snapshot"
    "insert_or_get cr env (new_delivery_of cr pl pw request snapshot (now - now mod 1000)) s = (Ok outcome, s')"
    "enqueue_response_of (stable_delivery_id cr (cfg_endpoint_url (pl_config pl)) (enq_event_id request)) outcome
      = Ok response"
  using assms
  by (auto simp: enqueue_delivery_def and_then_db_Ok_iff enqueue_prepare_Ok new_delivery_of_def)

lemma enqueue_admitted:
  "enqueue_admits cr pl context request pw snapshot \<Longrightarrow>
    enqueue_delivery cr pl env now context request s =
      and_then_db (map_store_err FlowRuntime
          (insert_or_get cr env (new_delivery_of cr pl pw request snapshot (now - now mod 1000)) s))
        (\<lambda>outcome s. (enqueue_response_of
          (stable_delivery_id cr (cfg_endpoint_url (pl_config pl)) (enq_event_id request)) outcome, s))"
  using enqueue_prepare_Ok [of cr pl now "context" request
      "new_delivery_of cr pl pw request snapshot (now - now mod 1000)"]
  by (auto simp: enqueue_delivery_def new_delivery_of_def)

section \<open>Inserting a known event\<close>

text \<open>The columns the idempotence check compares.\<close>

definition same_content :: "delivery_row \<Rightarrow> new_delivery \<Rightarrow> bool" where
  "same_content r d \<longleftrightarrow>
     row_event_type r = nd_event_type d \<and> row_endpoint_url r = nd_endpoint_url d \<and>
     row_endpoint_origin r = nd_endpoint_origin d \<and>
     row_payload_snapshot r = nd_payload_snapshot d \<and>
     row_payload_sha256 r = nd_payload_sha256 d \<and> row_queue_name r = nd_queue_name d"

lemma decode_same_delivery:
  "decode_delivery env r = Ok d \<Longrightarrow> same_delivery d new \<longleftrightarrow> same_content r new"
  by (auto simp: decode_delivery_def same_delivery_def same_content_def and_then_Ok_iff split: if_splits)

lemma decode_status:
  "decode_delivery env r = Ok d \<Longrightarrow> dr_status d = status_of r"
  by (auto simp: decode_delivery_def and_then_Ok_iff delivery_status_parse_Ok split: if_splits)

lemma store_ok_find_event:
  "store_ok s \<Longrightarrow> r \<in> set (deliveries s) \<Longrightarrow>
    List.find (\<lambda>r'. row_event_id r' = row_event_id r) (deliveries s) = Some r"
  by (rule find_key_unique) (simp_all add: store_ok_def)

lemma new_row_checks:
  "1 \<le> m \<Longrightarrow> m \<le> 100 \<Longrightarrow> delivery_checks (new_row cr env d m)"
  by (simp add: delivery_checks_def new_row_def)

lemma insert_known_event:
  assumes "store_ok s" and "r \<in> set (deliveries s)" and "row_event_id r = nd_event_id d"
    and "1 \<le> nd_max_attempts d" and "nd_max_attempts d \<le> 100" and "\<And>label. \<not> db_fails env label"
  obtains existing where "decode_delivery env r = Ok existing"
    "insert_or_get cr env d s = (Ok (if same_content r d then Existing existing else Conflict), s)"
proof -
  have "delivery_checks r" using store_ok_row [OF assms(1,2)] by (simp add: row_ok_def)
  then obtain existing where ex: "decode_delivery env r = Ok existing"
    using decode_delivery_ok assms(6) by blast
  have "list_ex (\<lambda>r'. row_delivery_id r' = nd_delivery_id d \<or> row_event_id r' = nd_event_id d) (deliveries s)"
    using assms(2,3) by (auto simp: list_ex_iff)
  then have "insert_delivery (new_row cr env d (nd_max_attempts d)) s = Some (0, s)"
    using new_row_checks [OF assms(4,5)] by (simp add: insert_delivery_def new_row_def)
  then have "insert_or_get cr env d s = (Ok (if same_content r d then Existing existing else Conflict), s)"
    using assms ex store_ok_find_event [OF assms(1,2)] decode_same_delivery [OF ex]
    by (simp add: insert_or_get_def execute_def commit_def)
  with ex show thesis by (rule that)
qed

lemma accepted_existing:
  assumes "insert_or_get cr env d s = (Ok (Existing existing), s')"
  obtains r where "List.find (\<lambda>r. row_event_id r = nd_event_id d) (deliveries s) = Some r"
    "decode_delivery env r = Ok existing" "same_delivery existing d"
  using assms
  by (auto simp: insert_or_get_def execute_def commit_def insert_delivery_def
      split: if_splits option.splits result.splits)

text \<open>Whatever an accepted insert returns, its content is stored.\<close>

lemma accepted_content:
  assumes "insert_or_get cr env d s = (Ok outcome, s')" and "outcome \<noteq> Conflict"
  shows "\<exists>r \<in> set (deliveries s'). row_event_id r = nd_event_id d \<and> same_content r d"
proof (rule insert_or_get_cases [of cr env d s])
  fix s1
  assume "insert_delivery (new_row cr env d (nd_max_attempts d)) s = Some (1, s1)"
    and "insert_or_get cr env d s = commit env ''commit delivery enqueue'' s s1 (Created (created_record d))"
  then show ?thesis
    using assms(1)
    by (auto simp: commit_def insert_delivery_def same_content_def new_row_def split: if_splits)
next
  assume same: "snd (insert_or_get cr env d s) = s" and "\<And>d'. fst (insert_or_get cr env d s) \<noteq> Ok (Created d')"
  then obtain existing where ex: "insert_or_get cr env d s = (Ok (Existing existing), s)"
    using assms by (cases outcome) auto
  obtain r where r: "List.find (\<lambda>r. row_event_id r = nd_event_id d) (deliveries s) = Some r"
    "decode_delivery env r = Ok existing" "same_delivery existing d"
    using accepted_existing [OF ex] by blast
  then show ?thesis
    using find_Some_in [OF r(1)] decode_same_delivery [OF r(2)] assms(1) ex by auto
qed

text \<open>When nothing fails, an insert has an outcome, and a conflict changes nothing.\<close>

lemma insert_or_get_works:
  assumes "store_ok s" and "1 \<le> nd_max_attempts d" and "nd_max_attempts d \<le> 100"
    and "\<And>label. \<not> db_fails env label"
    and "\<And>r. r \<in> set (deliveries s) \<Longrightarrow> row_delivery_id r = nd_delivery_id d \<Longrightarrow> row_event_id r = nd_event_id d"
  obtains outcome s' where "insert_or_get cr env d s = (Ok outcome, s')" "outcome = Conflict \<Longrightarrow> s' = s"
proof (cases "\<exists>r \<in> set (deliveries s). row_event_id r = nd_event_id d")
  case True
  then obtain r where r: "r \<in> set (deliveries s)" "row_event_id r = nd_event_id d" by blast
  obtain existing where
    "insert_or_get cr env d s = (Ok (if same_content r d then Existing existing else Conflict), s)"
    by (rule insert_known_event [OF assms(1) r assms(2-4)])
  then show thesis by (rule that) simp
next
  case False
  let ?r = "new_row cr env d (nd_max_attempts d)"
  have "\<not> list_ex (\<lambda>r'. row_delivery_id r' = nd_delivery_id d \<or> row_event_id r' = nd_event_id d) (deliveries s)"
    using False assms(5) by (auto simp: list_ex_iff)
  then have "insert_delivery ?r s = Some (1, s\<lparr>deliveries := deliveries s @ [?r]\<rparr>)"
    using new_row_checks [OF assms(2,3)] by (simp add: insert_delivery_def new_row_def)
  then have "insert_or_get cr env d s = (Ok (Created (created_record d)), s\<lparr>deliveries := deliveries s @ [?r]\<rparr>)"
    using assms(2-4) by (simp add: insert_or_get_def execute_def commit_def)
  then show thesis by (rule that) simp
qed

text \<open>So an admitted producer of an active instance gets an answer, never a failure of the runtime.\<close>

lemma enqueue_delivery_works:
  assumes "store_ok s" and "config_bounds (pl_config pl)" and "\<And>label. \<not> db_fails env label"
    and "producer_allowed (pl_config pl) (caller_instance context)" and "pl_prepared pl = Some pw"
    and "payload_snapshot cr request = Ok snapshot"
    and "\<And>r. r \<in> set (deliveries s) \<Longrightarrow>
      row_delivery_id r = stable_delivery_id cr (cfg_endpoint_url (pl_config pl)) (enq_event_id request) \<Longrightarrow>
      row_event_id r = enq_event_id request"
  obtains (accepted) response s' r where
      "enqueue_delivery cr pl env now context request s = (Ok response, s')" "r \<in> set (deliveries s')"
      "row_event_id r = enq_event_id request" "row_event_type r = enq_event_type request"
      "row_payload_snapshot r = snapshot" "row_endpoint_url r = cfg_endpoint_url (pl_config pl)"
      "enq_delivery_id response = stable_delivery_id cr (cfg_endpoint_url (pl_config pl)) (enq_event_id request)"
  | (refused) e where "enqueue_delivery cr pl env now context request s = (Err (FlowDomain e), s)"
      "e \<in> {EnqueueInvalidEvent, EnqueueIdempotencyConflict}"
proof (cases "enqueue_admits cr pl context request pw snapshot")
  case False
  then have "enqueue_prepare cr pl now context request = Err (FlowDomain EnqueueInvalidEvent)"
    using assms(4-6) by (auto simp: enqueue_admits_def enqueue_prepare_def prepared_def)
  then have "enqueue_delivery cr pl env now context request s = (Err (FlowDomain EnqueueInvalidEvent), s)"
    by (simp add: enqueue_delivery_def)
  then show thesis by (rule refused) simp
next
  case adm: True
  let ?new = "new_delivery_of cr pl pw request snapshot (now - now mod 1000)"
  obtain outcome s' where ins: "insert_or_get cr env ?new s = (Ok outcome, s')"
    and conflict: "outcome = Conflict \<Longrightarrow> s' = s"
    by (rule insert_or_get_works [OF assms(1), of ?new env cr])
      (use assms in \<open>auto simp: new_delivery_of_def config_bounds_def\<close>)
  have run: "enqueue_delivery cr pl env now context request s =
      (enqueue_response_of (stable_delivery_id cr (cfg_endpoint_url (pl_config pl)) (enq_event_id request)) outcome, s')"
    by (simp add: enqueue_admitted [OF adm] ins)
  show thesis
  proof (cases "outcome = Conflict")
    case True
    with run conflict show thesis by (intro refused [of EnqueueIdempotencyConflict]) (simp_all add: enqueue_response_of_def)
  next
    case False
    obtain r where r: "r \<in> set (deliveries s')" "row_event_id r = nd_event_id ?new" "same_content r ?new"
      using accepted_content [OF ins False] by blast
    obtain response where resp: "enqueue_response_of
        (stable_delivery_id cr (cfg_endpoint_url (pl_config pl)) (enq_event_id request)) outcome
        = (Ok response :: (_, flow_error) result)"
      "enq_delivery_id response = stable_delivery_id cr (cfg_endpoint_url (pl_config pl)) (enq_event_id request)"
      using False by (cases outcome) (simp_all add: enqueue_response_of_def)
    show thesis
      by (rule accepted [of response s' r])
        (use run resp r in \<open>simp_all add: same_content_def new_delivery_of_def\<close>)
  qed
qed

section \<open>Properties of enqueue\<close>

text \<open>
  C7: when enqueue reports a new delivery, exactly one row has been added and nothing else changed:
  it holds the exact serialised envelope with its digest, the configured endpoint, queue and
  attempt limit, the identity derived from endpoint and event, is queued with no attempt, and is
  due at the reading of the clock cut to microseconds.
\<close>

theorem enqueue_creates:
  assumes "enqueue_delivery cr pl env now context request s = (Ok response, s')"
    and "enq_created response"
  shows "\<exists>r pw. s' = s\<lparr>deliveries := deliveries s @ [r]\<rparr> \<and> pl_prepared pl = Some pw \<and>
    (\<forall>r' \<in> set (deliveries s). row_event_id r' \<noteq> row_event_id r \<and> row_delivery_id r' \<noteq> row_delivery_id r) \<and>
    row_event_id r = enq_event_id request \<and> row_event_type r = enq_event_type request \<and>
    payload_snapshot cr request = Ok (row_payload_snapshot r) \<and>
    length (row_payload_snapshot r) \<le> cfg_max_payload_bytes (pl_config pl) \<and>
    row_payload_sha256 r = sha256_hex cr (row_payload_snapshot r) \<and>
    row_endpoint_url r = cfg_endpoint_url (pl_config pl) \<and>
    row_endpoint_origin r = pw_endpoint_origin pw \<and>
    row_queue_name r = cfg_queue_name (pl_config pl) \<and>
    row_max_attempts r = cfg_max_attempts (pl_config pl) \<and>
    row_delivery_id r = stable_delivery_id cr (row_endpoint_url r) (row_event_id r) \<and>
    row_status r = ''queued'' \<and> row_attempts r = 0 \<and> row_replay_count r = 0 \<and>
    row_available_at r = pg_micros cr (now - now mod 1000) \<and>
    response = \<lparr>enq_created = True, enq_delivery_id = row_delivery_id r, enq_status = EnqueueQueued\<rparr>"
proof (rule enqueue_delivery_Ok [OF assms(1)])
  fix pw snapshot outcome
  let ?new = "new_delivery_of cr pl pw request snapshot (now - now mod 1000)"
  assume adm: "enqueue_admits cr pl context request pw snapshot"
    and ins: "insert_or_get cr env ?new s = (Ok outcome, s')"
    and resp: "enqueue_response_of
      (stable_delivery_id cr (cfg_endpoint_url (pl_config pl)) (enq_event_id request)) outcome = Ok response"
  then obtain d where d: "outcome = Created d"
    using assms(2) by (cases outcome) (auto simp: enqueue_response_of_def)
  show ?thesis
  proof (rule insert_or_get_cases [of cr env ?new s])
    fix s1
    assume one: "insert_delivery (new_row cr env ?new (nd_max_attempts ?new)) s = Some (1, s1)"
      and eq: "insert_or_get cr env ?new s =
        commit env ''commit delivery enqueue'' s s1 (Created (created_record ?new))"
    have s': "s' = s1" "d = created_record ?new"
      using eq ins d by (auto simp: commit_def split: if_splits)
    let ?r = "new_row cr env ?new (nd_max_attempts ?new)"
    have "s1 = s\<lparr>deliveries := deliveries s @ [?r]\<rparr>"
      and "\<forall>r' \<in> set (deliveries s). row_event_id r' \<noteq> row_event_id ?r \<and> row_delivery_id r' \<noteq> row_delivery_id ?r"
      using one by (auto simp: insert_delivery_def list_ex_iff split: if_splits)
    then show ?thesis
      using adm resp d s'
      by (intro exI [where x = ?r] exI [where x = pw])
        (auto simp: enqueue_admits_def new_row_def new_delivery_of_def enqueue_response_of_def
          created_record_def)
  qed (use ins d in auto)
qed

text \<open>
  C15: enqueueing an event that is stored answers with its delivery when type, payload bytes,
  endpoint and queue are the same, whatever has happened to it since, and refuses the event
  otherwise; either way nothing is written.
\<close>

theorem enqueue_known_event:
  assumes "store_ok s" and "r \<in> set (deliveries s)" and "row_event_id r = enq_event_id request"
    and "enqueue_admits cr pl context request pw snapshot"
    and "config_bounds (pl_config pl)" and "\<forall>label. \<not> db_fails env label"
  shows "enqueue_delivery cr pl env now context request s =
    (if row_event_type r = enq_event_type request \<and>
        row_endpoint_url r = cfg_endpoint_url (pl_config pl) \<and>
        row_endpoint_origin r = pw_endpoint_origin pw \<and>
        row_payload_snapshot r = snapshot \<and> row_payload_sha256 r = sha256_hex cr snapshot \<and>
        row_queue_name r = cfg_queue_name (pl_config pl)
     then Ok \<lparr>enq_created = False,
              enq_delivery_id = stable_delivery_id cr (cfg_endpoint_url (pl_config pl)) (enq_event_id request),
              enq_status = enqueue_status (status_of r)\<rparr>
     else Err (FlowDomain EnqueueIdempotencyConflict), s)"
proof -
  let ?new = "new_delivery_of cr pl pw request snapshot (now - now mod 1000)"
  obtain existing where ex: "decode_delivery env r = Ok existing"
    and ins: "insert_or_get cr env ?new s = (Ok (if same_content r ?new then Existing existing else Conflict), s)"
    by (rule insert_known_event [OF assms(1,2), of ?new env cr])
      (use assms in \<open>simp_all add: new_delivery_of_def config_bounds_def\<close>)
  show ?thesis
    using ins decode_status [OF ex]
    by (simp add: enqueue_admitted [OF assms(4)] map_store_err_def enqueue_response_of_def
        same_content_def new_delivery_of_def)
qed

text \<open>
  C6: enqueueing is idempotent under interference: once an event has been accepted, the same
  request of any authorised producer is answered with the same delivery and writes nothing,
  however many steps of its lifecycle the stored delivery has made in the meantime.
\<close>

theorem enqueue_idempotent:
  assumes "store_ok s" and "enqueue_delivery cr pl env now context request s = (Ok response, s1)"
    and "store_ok t" and "evolves s1 t"
    and "config_bounds (pl_config pl)" and "\<forall>label. \<not> db_fails env' label"
    and "producer_allowed (pl_config pl) (caller_instance context')"
  shows "\<exists>status. enqueue_delivery cr pl env' now' context' request t =
    (Ok \<lparr>enq_created = False, enq_delivery_id = enq_delivery_id response, enq_status = status\<rparr>, t)"
proof (rule enqueue_delivery_Ok [OF assms(2)])
  fix pw snapshot outcome
  let ?new = "new_delivery_of cr pl pw request snapshot (now - now mod 1000)"
  assume adm: "enqueue_admits cr pl context request pw snapshot"
    and ins: "insert_or_get cr env ?new s = (Ok outcome, s1)"
    and resp: "enqueue_response_of
      (stable_delivery_id cr (cfg_endpoint_url (pl_config pl)) (enq_event_id request)) outcome = Ok response"
  have nc: "outcome \<noteq> Conflict" using resp by (auto simp: enqueue_response_of_def)
  have "\<exists>r \<in> set (deliveries s1). row_event_id r = enq_event_id request \<and> same_content r ?new"
    using accepted_content [OF ins nc] by (simp add: new_delivery_of_def)
  then obtain r where r: "r \<in> set (deliveries s1)" "row_event_id r = enq_event_id request"
    "same_content r ?new" by blast
  obtain r' where r': "r' \<in> set (deliveries t)" "same_snapshot r r'"
    using assms(4) r(1) unfolding evolves_def by blast
  have adm': "enqueue_admits cr pl context' request pw snapshot"
    using adm assms(7) by (simp add: enqueue_admits_def)
  obtain existing where
    ins': "insert_or_get cr env' (new_delivery_of cr pl pw request snapshot (now' - now' mod 1000)) t =
      (Ok (if same_content r' (new_delivery_of cr pl pw request snapshot (now' - now' mod 1000))
           then Existing existing else Conflict), t)"
    by (rule insert_known_event [OF assms(3) r'(1), of "new_delivery_of cr pl pw request snapshot (now' - now' mod 1000)" env' cr])
      (use r r' assms(5,6) in \<open>simp_all add: new_delivery_of_def config_bounds_def same_snapshot_def\<close>)
  have "same_content r' (new_delivery_of cr pl pw request snapshot (now' - now' mod 1000))"
    using r(3) r'(2) by (simp add: same_content_def same_snapshot_def new_delivery_of_def)
  then show ?thesis
    using ins' resp
    by (auto simp: enqueue_admitted [OF adm'] map_store_err_def enqueue_response_of_def
        split: insert_outcome.splits)
qed

text \<open>
  C24: an enqueue that fails has written nothing, whatever fails: the transaction is rolled back.
  The one exception is a commit that the database applied although the client saw it fail; then
  the queued row of exactly this request has been added, and the same request finds it later.
\<close>

theorem enqueue_rolls_back:
  "(\<exists>response. fst (enqueue_delivery cr pl env now context request s) = Ok response) \<or>
   snd (enqueue_delivery cr pl env now context request s) = s \<or>
   db_fails env ''commit delivery enqueue'' \<and> db_commit_applied env \<and>
   (\<exists>r. snd (enqueue_delivery cr pl env now context request s) = s\<lparr>deliveries := deliveries s @ [r]\<rparr> \<and>
     row_event_id r = enq_event_id request \<and> row_event_type r = enq_event_type request \<and>
     payload_snapshot cr request = Ok (row_payload_snapshot r) \<and>
     row_delivery_id r = stable_delivery_id cr (cfg_endpoint_url (pl_config pl)) (enq_event_id request) \<and>
     row_status r = ''queued'' \<and> row_attempts r = 0 \<and> row_replay_count r = 0)"
  (is "?ok \<or> ?same \<or> ?unknown")
proof (cases "enqueue_prepare cr pl now context request")
  case (Ok new)
  show ?thesis
  proof (rule insert_or_get_cases [of cr env new s])
    assume "snd (insert_or_get cr env new s) = s"
    then have ?same
      by (cases "insert_or_get cr env new s"; cases "fst (insert_or_get cr env new s)")
        (auto simp: enqueue_delivery_def Ok map_store_err_def)
    then show ?thesis by blast
  next
    fix s1
    let ?r = "new_row cr env new (nd_max_attempts new)"
    assume one: "insert_delivery ?r s = Some (1, s1)"
      and eq: "insert_or_get cr env new s = commit env ''commit delivery enqueue'' s s1 (Created (created_record new))"
    have s1: "s1 = s\<lparr>deliveries := deliveries s @ [?r]\<rparr>"
      using one by (auto simp: insert_delivery_def split: if_splits)
    obtain pw snapshot where adm: "enqueue_admits cr pl context request pw snapshot"
      and new: "new = new_delivery_of cr pl pw request snapshot (now - now mod 1000)"
      using Ok by (auto simp: enqueue_prepare_Ok)
    consider "\<not> db_fails env ''commit delivery enqueue''"
      | "db_fails env ''commit delivery enqueue''" "\<not> db_commit_applied env"
      | "db_fails env ''commit delivery enqueue''" "db_commit_applied env" by blast
    then show ?thesis
    proof cases
      case 1
      then have ?ok
        by (simp add: enqueue_delivery_def Ok map_store_err_def eq commit_def enqueue_response_of_def)
      then show ?thesis ..
    next
      case 2
      then have ?same by (simp add: enqueue_delivery_def Ok map_store_err_def eq commit_def)
      then show ?thesis by blast
    next
      case 3
      then have "snd (enqueue_delivery cr pl env now context request s) = s1"
        by (simp add: enqueue_delivery_def Ok map_store_err_def eq commit_def)
      with s1 3 adm have ?unknown
        by (intro conjI exI [where x = ?r])
          (simp_all add: enqueue_admits_def new new_row_def new_delivery_of_def)
      then show ?thesis by blast
    qed
  qed
qed (simp_all add: enqueue_delivery_def)

section \<open>Instances\<close>

lemma sample_admits:
  "enqueue_admits sample_crates sample_plugin as_producer sample_request sample_prepared (as_bytes ''e'')"
  using sample_snapshot sample_names sample_allowed
  by (simp add: enqueue_admits_def plugin_sample_defs)

lemma sample_enqueue:
  "enqueue_delivery sample_crates sample_plugin sample_env 7777 as_producer sample_request empty_database
    = (Ok created_response, enqueued_db)"
  unfolding enqueue_admitted [OF sample_admits]
  by (simp add: map_store_err_def insert_or_get_def execute_def
      commit_def insert_delivery_def new_row_checks empty_database_def enqueued_db_def sample_new_def
      enqueue_response_of_def created_record_def created_response_def new_delivery_of_def
      i32_try_from_def sample_env_def plugin_sample_defs)

lemma enqueued_db_ok: "store_ok enqueued_db"
  using insert_or_get_ok [OF store_ok_empty, of sample_crates sample_env sample_new]
  by (simp add: insert_or_get_def execute_def commit_def insert_delivery_def new_row_checks
      empty_database_def enqueued_db_def sample_new_def new_delivery_of_def i32_try_from_def
      sample_env_def plugin_sample_defs)

theorem enqueue_creates_witness:
  "\<exists>r. enqueued_db = empty_database\<lparr>deliveries := deliveries empty_database @ [r]\<rparr> \<and>
    row_payload_snapshot r = as_bytes ''e''"
proof -
  have c: "enq_created created_response" by (simp add: created_response_def)
  show ?thesis
    using enqueue_creates [OF sample_enqueue c] sample_snapshot by fastforce
qed

theorem enqueue_known_event_witness:
  "enqueue_delivery sample_crates sample_plugin sample_env 0 as_producer sample_request queued_db
    = (Err (FlowDomain EnqueueIdempotencyConflict), queued_db)"
proof -
  have r: "sample_row \<in> set (deliveries queued_db)"
    and e: "row_event_id sample_row = enq_event_id sample_request"
    and f: "\<forall>label. \<not> db_fails sample_env label"
    and p: "row_payload_snapshot sample_row \<noteq> as_bytes ''e''"
    by (simp_all add: sample_defs plugin_sample_defs as_bytes_def)
  show ?thesis
    using enqueue_known_event [OF queued_db_ok r e sample_admits sample_bounds f, of 0] p by simp
qed

end
