(* ===== verification/Claim_Contract.thy ===== *)
theory Claim_Contract
  imports Storage_Contract Samples
begin

text \<open>
  What a claim does when it commits: which row it hands out, when it hands out none, what happens
  to the expired leases, and how much one call changes.
\<close>

lemma candidate_sorted:
  "candidate env queue batch s =
    take 1 (sort_key due_order
      (filter (\<lambda>r. due env queue batch r \<and> \<not> db_locked env (row_delivery_id r)) (deliveries s)))"
  by (simp add: candidate_def filter_sort conj_commute)


lemma candidate_empty_iff:
  "candidate env queue batch s = [] \<longleftrightarrow>
    (\<forall>r \<in> set (deliveries s). due env queue batch r \<longrightarrow> db_locked env (row_delivery_id r))"
  by (auto simp: candidate_sorted filter_empty_conv dest: arg_cong [where f = length])

text \<open>The effect of a committed claim.\<close>

lemma claim_due_Ok:
  assumes "store_ok s" and "claim_due env queue lease s = (Ok found, s')"
  obtains s1 where
    "insert_attempts (map (lease_expired_receipt env) (expired env queue s)) s = Some s1"
    "s' = s1\<lparr>deliveries := map (claim_step env lease (expired env queue s)
        (candidate env queue (expired env queue s) s)) (deliveries s)\<rparr>"
    "Ok found = claim_answer env (map (claim_row env lease)
        (filter (\<lambda>r. r \<in> set (candidate env queue (expired env queue s) s)) (deliveries s)))"
proof (rule claim_due_cases [of env queue lease s])
  fix rows s2
  assume st: "claim_statement env queue lease s = Some (rows, s2)"
    and eq: "claim_due env queue lease s = (claim_answer env rows, s2)"
  show thesis
    by (rule claim_statement_eq [OF assms(1), of env queue lease], rule that)
      (use st eq assms(2) in auto)
qed (use assms(2) in auto)

lemma chosen_filter:
  assumes "store_ok s" and "candidate env queue batch s = [r]"
  shows "filter (\<lambda>r'. r' \<in> set (candidate env queue batch s)) (deliveries s) = [r]"
proof -
  have "distinct (map row_delivery_id (deliveries s))" using assms(1) by (simp add: store_ok_def)
  then have "distinct (deliveries s)" by (simp add: distinct_map)
  moreover have "r \<in> set (deliveries s)" using in_candidate(1) [of r env queue batch s] assms(2) by auto
  ultimately show ?thesis
    using assms(2) by (simp add: filter_eq_single)
qed

text \<open>The row a claim hands out.\<close>

lemma claim_due_Some:
  assumes "store_ok s" and "claim_due env queue lease s = (Ok (Some d), s')"
  obtains r where "candidate env queue (expired env queue s) s = [r]" "r \<in> set (deliveries s)"
    "decode_delivery env (claim_row env lease r) = Ok d"
    "claim_row env lease r \<in> set (deliveries s')"
proof -
  let ?chosen = "candidate env queue (expired env queue s) s"
  obtain s1 where s': "s' = s1\<lparr>deliveries := map (claim_step env lease (expired env queue s) ?chosen) (deliveries s)\<rparr>"
    and ans: "Ok (Some d) = claim_answer env (map (claim_row env lease)
        (filter (\<lambda>r. r \<in> set ?chosen) (deliveries s)))"
    by (rule claim_due_Ok [OF assms])
  have "?chosen \<noteq> []"
  proof
    assume "?chosen = []"
    with ans show False by (simp add: claim_answer_def)
  qed
  then obtain r where r: "?chosen = [r]"
    using length_candidate [of env queue "expired env queue s" s] by (cases ?chosen) auto
  then have mem: "r \<in> set (deliveries s)"
    using in_candidate(1) [of r env queue "expired env queue s" s] by simp
  have "decode_delivery env (claim_row env lease r) = Ok d"
    using ans unfolding chosen_filter [OF assms(1) r]
    by (cases "decode_delivery env (claim_row env lease r)") (auto simp: claim_answer_def)
  moreover have "claim_row env lease r \<in> set (deliveries s')"
    using mem by (auto simp: s' r claim_step_def intro!: image_eqI [where x = r])
  ultimately show thesis using that r mem by blast
qed

lemma claim_due_None:
  assumes "store_ok s" and "claim_due env queue lease s = (Ok None, s')"
  shows "candidate env queue (expired env queue s) s = []"
proof (rule ccontr)
  let ?chosen = "candidate env queue (expired env queue s) s"
  assume "?chosen \<noteq> []"
  then obtain r where r: "?chosen = [r]"
    using length_candidate [of env queue "expired env queue s" s] by (cases ?chosen) auto
  obtain s1 :: database where ans: "Ok None = claim_answer env (map (claim_row env lease)
        (filter (\<lambda>r. r \<in> set ?chosen) (deliveries s)))"
    by (rule claim_due_Ok [OF assms])
  then show False
    unfolding chosen_filter [OF assms(1) r]
    by (cases "decode_delivery env (claim_row env lease r)") (auto simp: claim_answer_def)
qed

lemma claim_due_returns:
  assumes "store_ok s" and "i32_try_from lease = Some lease" and "\<And>label. \<not> db_fails env label"
  shows "\<exists>found s'. claim_due env queue lease s = (Ok found, s')"
proof (rule claim_due_cases [of env queue lease s])
  fix rows s1
  assume st: "claim_statement env queue lease s = Some (rows, s1)"
    and eq: "claim_due env queue lease s = (claim_answer env rows, s1)"
  have "claim_answer env rows \<noteq> Err e" for e
    by (rule claim_answer_ok [OF claim_rows_checks [OF st] assms(3)])
  then show ?thesis
    using eq claim_answer_no_panic [of env rows] by (cases "claim_answer env rows") auto
next
  fix e assume "claim_due env queue lease s = (Err e, s)"
  moreover obtain rows s1 where "claim_statement env queue lease s = Some (rows, s1)"
    using claim_statement_eq [OF assms(1), of env queue lease] by metis
  ultimately have False
    using assms claim_answer_ok [OF claim_rows_checks [of env queue lease s rows s1]]
    by (auto simp: claim_due_def execute_def commit_def claim_answer_def split: result.splits list.splits)
  then show ?thesis ..
qed (use assms in auto)

text \<open>
  The expired leases of a queue that one claim can see before the lease of \<open>r\<close>: the unlocked ones
  that ran out earlier, or at the same time with a smaller identity.
\<close>

definition leases_ahead :: "db_env \<Rightarrow> string \<Rightarrow> database \<Rightarrow> delivery_row \<Rightarrow> delivery_row set" where
  "leases_ahead env queue s r =
     {r' \<in> set (deliveries s). row_queue_name r' = queue \<and> row_status r' = ''delivering'' \<and>
        (\<exists>l. row_lease_expires_at r' = Some l \<and> l \<le> db_now env) \<and> \<not> db_locked env (row_delivery_id r') \<and>
        (the (row_lease_expires_at r'), row_delivery_id r') < (the (row_lease_expires_at r), row_delivery_id r)}"

lemma expired_iff:
  assumes "store_ok s"
  shows "r \<in> set (expired env queue s) \<longleftrightarrow>
    r \<in> set (deliveries s) \<and> row_queue_name r = queue \<and> row_status r = ''delivering'' \<and>
    (\<exists>l. row_lease_expires_at r = Some l \<and> l \<le> db_now env) \<and> \<not> db_locked env (row_delivery_id r) \<and>
    card (leases_ahead env queue s r) < 64" (is "_ \<longleftrightarrow> ?P r \<and> _")
proof -
  define ys where "ys = filter (\<lambda>r. row_queue_name r = queue \<and> row_status r = ''delivering'' \<and>
    lease_expired (db_now env) r \<and> \<not> db_locked env (row_delivery_id r)) (deliveries s)"
  have take: "expired env queue s = take 64 (sort_key lease_order ys)"
    by (simp add: expired_def filter_sort ys_def EXPIRED_DELIVERY_MAINTENANCE_BATCH_LIMIT_def conj_commute conj_left_commute)
  have mem: "r \<in> set ys \<longleftrightarrow> r \<in> set (deliveries s) \<and> row_queue_name r = queue \<and> row_status r = ''delivering'' \<and>
      (\<exists>l. row_lease_expires_at r = Some l \<and> l \<le> db_now env) \<and> \<not> db_locked env (row_delivery_id r)" for r
    by (auto simp: ys_def lease_expired_def split: option.splits)
  have "distinct (map row_delivery_id ys)"
    using assms by (simp add: ys_def store_ok_def distinct_map_filter)
  then have "distinct (map lease_order ys)"
    by (auto simp: distinct_map inj_on_def lease_order_def)
  then have keys: "sorted (map lease_order (sort_key lease_order ys))" "distinct (map lease_order (sort_key lease_order ys))"
    by (simp_all add: distinct_map)
  have key: "lease_order r = (the (row_lease_expires_at r), row_delivery_id r)" if "r \<in> set ys" for r
    using that by (auto simp: mem lease_order_def)
  have ahead: "leases_ahead env queue s r = {r' \<in> set (sort_key lease_order ys). lease_order r' < lease_order r}"
    if "r \<in> set ys"
    using key that by (auto simp: leases_ahead_def mem)
  show ?thesis
  proof (cases "r \<in> set ys")
    case True
    then have "r \<in> set (sort_key lease_order ys)" by simp
    from in_take_sorted_iff [OF keys this, of 64, folded ahead [OF True] take] show ?thesis
      using True mem [of r] by blast
  next
    case False
    then have "r \<notin> set (expired env queue s)" unfolding take by (auto dest: in_set_takeD)
    then show ?thesis using False mem [of r] by blast
  qed
qed

section \<open>Properties of a claim\<close>



text \<open>
  C12: a claim whose database calls succeed finds nothing exactly when there is nothing it may hand
  out: among the deliveries of the queue that have attempts left and are not held by another
  transaction, none is queued or scheduled and due, and every one whose lease ran out has at least
  64 expired leases before it, which is how many one claim looks at. So due work is passed over
  only for the maintenance of older expired leases.
\<close>

theorem claim_due_idle_iff:
  assumes "store_ok s" and "0 \<le> lease" and "lease \<le> 3600" and "\<forall>label. \<not> db_fails env label"
  shows "fst (claim_due env queue lease s) = Ok None \<longleftrightarrow>
    (\<forall>r \<in> set (deliveries s). row_queue_name r = queue \<and> row_attempts r < row_max_attempts r \<and>
        \<not> db_locked env (row_delivery_id r) \<longrightarrow>
      \<not> (row_status r \<in> {''queued'', ''retry_scheduled''} \<and> row_available_at r \<le> db_now env) \<and>
      (row_status r = ''delivering'' \<and> (\<exists>l. row_lease_expires_at r = Some l \<and> l \<le> db_now env) \<longrightarrow>
        64 \<le> card (leases_ahead env queue s r)))"
proof -
  have "i32_try_from lease = Some lease" using assms(2,3) by simp
  then obtain found s' where eq: "claim_due env queue lease s = (Ok found, s')"
    using claim_due_returns [OF assms(1)] assms(4) by blast
  have due: "due env queue (expired env queue s) r \<longleftrightarrow>
      row_queue_name r = queue \<and> row_attempts r < row_max_attempts r \<and>
      (row_status r \<in> {''queued'', ''retry_scheduled''} \<and> row_available_at r \<le> db_now env \<or>
       r \<in> set (expired env queue s))" if "r \<in> set (deliveries s)" for r
  proof -
    have "list_ex (\<lambda>e. row_delivery_id e = row_delivery_id r) (expired env queue s) \<longleftrightarrow> r \<in> set (expired env queue s)"
      using same_id_iff [OF assms(1) that, of "expired env queue s"] in_expired(1) by blast
    moreover have "row_status r = ''delivering'' \<and> lease_expired (db_now env) r" if "r \<in> set (expired env queue s)"
      using that by (auto simp: expired_iff [OF assms(1)] lease_expired_def)
    ultimately show ?thesis by (auto simp: due_def)
  qed
  have "fst (claim_due env queue lease s) = Ok None \<longleftrightarrow>
    (\<forall>r \<in> set (deliveries s). due env queue (expired env queue s) r \<longrightarrow> db_locked env (row_delivery_id r))"
  proof (cases found)
    case None
    then show ?thesis
      using eq claim_due_None [OF assms(1)] candidate_empty_iff by force
  next
    case (Some d)
    then obtain r where "candidate env queue (expired env queue s) s = [r]"
      using claim_due_Some [OF assms(1)] eq by metis
    then show ?thesis
      using eq Some candidate_empty_iff [of env queue "expired env queue s" s] by auto
  qed
  then show ?thesis
    by (auto simp: due expired_iff [OF assms(1)])
qed

theorem claim_due_idle_iff_witness:
  "store_ok queued_db \<and> fst (claim_due sample_env ''x'' 30 queued_db) = Ok None"
  using claim_due_idle_iff [of queued_db 30 sample_env "''x''"] queued_db_ok
  by (simp add: sample_defs)

text \<open>
  C14: one claim does a bounded amount of maintenance: it changes at most 64 deliveries besides the
  one it hands out, and writes at most 64 receipts.
\<close>

theorem claim_due_bounded:
  assumes "store_ok s"
  shows "card {r \<in> set (deliveries s). r \<notin> set (deliveries (snd (claim_due env queue lease s)))} \<le> 65 \<and>
    length (attempts (snd (claim_due env queue lease s))) \<le> length (attempts s) + 64"
  (is "card ?changed \<le> 65 \<and> _")
proof (cases "snd (claim_due env queue lease s) = s")
  case False
  let ?batch = "expired env queue s"
  let ?chosen = "candidate env queue ?batch s"
  obtain rows where "claim_statement env queue lease s = Some (rows, snd (claim_due env queue lease s))"
    using claim_due_snd [of env queue lease s] False by auto
  then obtain s1 where s1: "insert_attempts (map (lease_expired_receipt env) ?batch) s = Some s1"
    and s': "snd (claim_due env queue lease s) =
      s1\<lparr>deliveries := map (claim_step env lease ?batch ?chosen) (deliveries s)\<rparr>"
    using claim_statement_eq [OF assms, of env queue lease] by (metis option.inject prod.inject)
  have sub: "set ?batch \<subseteq> set (deliveries s)" using in_expired(1) by blast
  have "?changed \<subseteq> set (?chosen @ ?batch)"
  proof
    fix r assume r: "r \<in> ?changed"
    then have "claim_step env lease ?batch ?chosen r \<noteq> r"
      by (auto simp: s' image_iff)
    then show "r \<in> set (?chosen @ ?batch)"
      using r retires_iff [OF assms _ sub] by (auto simp: claim_step_def split: if_splits)
  qed
  then have "card ?changed \<le> length (?chosen @ ?batch)"
    by (meson List.finite_set card_length card_mono le_trans)
  then have "card ?changed \<le> 65"
    using length_candidate [of env queue ?batch s] length_expired [of env queue s] by simp
  moreover have "length (attempts s1) \<le> length (attempts s) + length ?batch"
    using insert_attempts_Some(3) [OF s1] by auto
  ultimately show ?thesis
    using length_expired [of env queue s] by (simp add: s')
qed simp

theorem claim_due_bounded_witness:
  "store_ok queued_db \<and> length (attempts (snd (claim_due sample_env ''q'' 30 queued_db))) \<le> 64"
  using claim_due_bounded [OF queued_db_ok, of sample_env "''q''" 30] queued_db_ok
  by (simp add: queued_db_def)

text \<open>
  C13: a committed claim settles the expired leases of its queue, up to 64 of them in the order they
  ran out, before anything is delivered again: the attempt of each has a receipt, and a delivery
  that has used all its attempts is now a dead letter without a lease, otherwise unchanged.
\<close>

theorem claim_due_settles_expired:
  assumes "store_ok s" and "claim_due env queue lease s = (Ok found, s')"
    and "r \<in> set (deliveries s)" and "row_queue_name r = queue" and "row_status r = ''delivering''"
    and "row_lease_expires_at r = Some l" and "l \<le> db_now env"
    and "\<not> db_locked env (row_delivery_id r)" and "card (leases_ahead env queue s r) < 64"
  shows "(row_delivery_id r, row_replay_count r, row_attempts r) \<in> receipted s' \<and>
    (row_attempts r = row_max_attempts r \<longrightarrow>
      (\<exists>r' \<in> set (deliveries s'). same_snapshot r r' \<and> row_status r' = ''dead_letter'' \<and>
        row_lease_expires_at r' = None \<and> row_attempts r' = row_attempts r \<and>
        row_replay_count r' = row_replay_count r \<and> row_available_at r' = row_available_at r))"
proof -
  let ?batch = "expired env queue s"
  let ?chosen = "candidate env queue ?batch s"
  have batch: "r \<in> set ?batch" using assms(3-9) by (simp add: expired_iff [OF assms(1)])
  obtain s1 where s1: "insert_attempts (map (lease_expired_receipt env) ?batch) s = Some s1"
    and s': "s' = s1\<lparr>deliveries := map (claim_step env lease ?batch ?chosen) (deliveries s)\<rparr>"
    by (rule claim_due_Ok [OF assms(1,2)])
  have sub: "set ?batch \<subseteq> set (deliveries s)" using in_expired(1) by blast
  have "attempt_key (lease_expired_receipt env r) \<in> receipted s1"
    using batch insert_attempts_Some(2) [OF s1] by simp
  then have receipt: "(row_delivery_id r, row_replay_count r, row_attempts r) \<in> receipted s'"
    by (simp add: s' attempt_key_def lease_expired_receipt_def)
  have "retire_row env r \<in> set (deliveries s')" if "row_attempts r = row_max_attempts r"
  proof -
    have "retires ?batch r" using that batch retires_iff [OF assms(1,3) sub] by simp
    moreover from this have "r \<notin> set ?chosen" using chosen_not_retired [OF assms(1)] by blast
    ultimately show ?thesis
      using assms(3) by (auto simp: s' claim_step_def intro!: image_eqI [where x = r])
  qed
  moreover have "same_snapshot r (retire_row env r)" "row_status (retire_row env r) = ''dead_letter''"
    "row_lease_expires_at (retire_row env r) = None" "row_attempts (retire_row env r) = row_attempts r"
    "row_replay_count (retire_row env r) = row_replay_count r" "row_available_at (retire_row env r) = row_available_at r"
    by (simp_all add: retire_row_def same_snapshot_def)
  ultimately show ?thesis using receipt by blast
qed

theorem claim_due_settles_expired_witness:
  "claim_due sample_env ''q'' 30 expired_db = (Ok None, retired_db) \<and>
    (\<exists>r' \<in> set (deliveries retired_db). row_status r' = ''dead_letter'' \<and> row_attempts r' = 1)"
proof -
  have row: "expired_row \<in> set (deliveries expired_db)" "row_queue_name expired_row = ''q''"
    "row_status expired_row = ''delivering''" "row_lease_expires_at expired_row = Some 1" "1 \<le> db_now sample_env"
    "\<not> db_locked sample_env (row_delivery_id expired_row)"
    "row_attempts expired_row = row_max_attempts expired_row" "row_attempts expired_row = 1"
    by (simp_all add: expired_db_def expired_row_def sample_defs)
  have "leases_ahead sample_env ''q'' expired_db expired_row = {}"
    by (auto simp: leases_ahead_def expired_db_def)
  then have "card (leases_ahead sample_env ''q'' expired_db expired_row) < 64" by simp
  from claim_due_settles_expired [OF expired_db_ok claim_expired_db row(1-6) this] row(7,8)
  show ?thesis using claim_expired_db by auto
qed

end
