(* ===== verification/Dispatch_Flow.thy ===== *)
theory Dispatch_Flow
  imports Enqueue_Flow Claim_Contract
begin

text \<open>
  What \<open>dispatch\<close> guarantees: what it sends, how each result of the request settles the
  delivery, the retry delay, the fence around a worker that comes too late.
\<close>

section \<open>The retry delay\<close>

lemma exponent_of_attempt:
  "(case u32_try_from (clamp (saturating_sub attempt 1) 0 62) of Some e \<Rightarrow> e | None \<Rightarrow> 62)
    = nat (min (max (attempt - 1) 0) 62)"
  by (auto simp: u32_try_from_def clamp_def saturating_sub_def saturate_def i64_min_def i64_max_def)

lemma shifted_one:
  assumes "e \<le> 62"
  shows "checked_shl 1 e = Some (push_bit e 1)" and "sint (push_bit e 1 :: 64 word) = 2 ^ e"
proof -
  show "checked_shl 1 e = Some (push_bit e 1)" using assms by (simp add: checked_shl_def)
  have "(2::int) ^ e < 2 ^ 63" using assms by (intro power_strict_increasing) auto
  then have "signed_take_bit 63 (2 ^ e :: int) = 2 ^ e"
    by (intro signed_take_bit_int_eq_self) (auto intro: order_trans [of _ 0])
  moreover have "(push_bit e 1 :: 64 word) = word_of_int (2 ^ e)"
    by (simp add: push_bit_eq_mult)
  ultimately show "sint (push_bit e 1 :: 64 word) = 2 ^ e"
    by (simp only: signed_of_int) simp
qed

lemma retry_delay_eq:
  assumes "1 \<le> base" and "base \<le> 86400" and "limit \<le> 86400"
  shows "retry_delay_seconds attempt base limit =
    min (base * 2 ^ nat (min (max (attempt - 1) 0) 62)) limit"
proof -
  define e where "e = nat (min (max (attempt - 1) 0) 62)"
  have e: "e \<le> 62" by (simp add: e_def)
  have "saturating_mul base (2 ^ e) = min (base * 2 ^ e) i64_max"
    using assms(1) by (simp add: saturating_mul_def saturate_def i64_min_def min_def not_less)
      (smt (verit) mult_nonneg_nonneg zero_le_power)
  moreover have "retry_delay_seconds attempt base limit = min (saturating_mul base (2 ^ e)) limit"
    by (simp only: retry_delay_seconds_def exponent_of_attempt Let_def e_def [symmetric]
        shifted_one [OF e] option.case)
  ultimately show ?thesis
    using assms(3) by (simp add: e_def [symmetric] i64_max_def)
qed

text \<open>
  C19: the retry delay is the exponential backoff of the configuration: the base doubled with every
  attempt after the first, never above the configured maximum, for every attempt there can be, in
  spite of the shift and the saturating 64-bit arithmetic it is computed with.
\<close>

theorem retry_delay_exponential:
  assumes "config_bounds c" and "1 \<le> attempt"
  shows "retry_delay_seconds attempt (cfg_retry_base_seconds c) (cfg_retry_max_seconds c) =
    min (cfg_retry_base_seconds c * 2 ^ nat (attempt - 1)) (cfg_retry_max_seconds c)"
proof -
  let ?b = "cfg_retry_base_seconds c" and ?m = "cfg_retry_max_seconds c"
  have b: "1 \<le> ?b" "?b \<le> 86400" "?m \<le> 86400" using assms(1) by (simp_all add: config_bounds_def)
  have eq: "retry_delay_seconds attempt ?b ?m = min (?b * 2 ^ nat (min (attempt - 1) 62)) ?m"
    using retry_delay_eq [OF b, of attempt] assms(2) by (simp add: max_absorb1)
  show ?thesis
  proof (cases "attempt - 1 \<le> 62")
    case True
    then show ?thesis by (simp add: eq min_absorb1)
  next
    case False
    have capped: "?m \<le> ?b * 2 ^ n" if "62 \<le> n" for n :: nat
    proof -
      have "?m \<le> 1 * 2 ^ 62" using b(3) by simp
      also have "\<dots> \<le> ?b * 2 ^ n"
        using b(1) that by (intro mult_mono power_increasing) simp_all
      finally show ?thesis .
    qed
    have "62 \<le> nat (attempt - 1)" and "nat (min (attempt - 1) 62) = 62" using False by simp_all
    then show ?thesis
      using capped [of "nat (attempt - 1)"] capped [of 62] by (simp only: eq min_absorb2)
  qed
qed

theorem retry_delay_exponential_witness:
  "retry_delay_seconds 2 5 300 = 10 \<and> retry_delay_seconds 100 5 300 = 300"
  using retry_delay_exponential [of sample_config 2] retry_delay_exponential [of sample_config 100]
    sample_bounds
  by (simp add: sample_config_def sample_plugin_def)

text \<open>
  C20: the retry delay is bounded and monotone for every attempt number an \<open>i64\<close> can hold: it lies
  between the configured base and maximum, and a later attempt never waits less.
\<close>

theorem retry_delay_bounded_monotone:
  assumes "config_bounds c"
  shows "cfg_retry_base_seconds c \<le>
      retry_delay_seconds attempt (cfg_retry_base_seconds c) (cfg_retry_max_seconds c) \<and>
    retry_delay_seconds attempt (cfg_retry_base_seconds c) (cfg_retry_max_seconds c)
      \<le> cfg_retry_max_seconds c \<and>
    (attempt \<le> attempt' \<longrightarrow>
      retry_delay_seconds attempt (cfg_retry_base_seconds c) (cfg_retry_max_seconds c)
      \<le> retry_delay_seconds attempt' (cfg_retry_base_seconds c) (cfg_retry_max_seconds c))"
proof -
  let ?b = "cfg_retry_base_seconds c" and ?e = "\<lambda>a. nat (min (max (a - 1) 0) 62) :: nat"
  have b: "1 \<le> ?b" "?b \<le> 86400" "cfg_retry_max_seconds c \<le> 86400" "?b \<le> cfg_retry_max_seconds c"
    using assms by (simp_all add: config_bounds_def)
  have eq: "retry_delay_seconds a ?b (cfg_retry_max_seconds c) = min (?b * 2 ^ ?e a) (cfg_retry_max_seconds c)"
    for a using b by (intro retry_delay_eq)
  have "?b * 1 \<le> ?b * 2 ^ ?e attempt"
    using b by (intro mult_left_mono) auto
  moreover have "?b * 2 ^ ?e attempt \<le> ?b * 2 ^ ?e attempt'" if "attempt \<le> attempt'"
    using b that by (intro mult_left_mono power_increasing) auto
  ultimately show ?thesis using b(4) unfolding eq by linarith
qed

theorem retry_delay_bounded_monotone_witness:
  "5 \<le> retry_delay_seconds 100 5 300 \<and> retry_delay_seconds 100 5 300 \<le> 300"
  using retry_delay_bounded_monotone [of sample_config 100] sample_bounds
  by (simp add: sample_config_def sample_plugin_def)

section \<open>Recording an outcome\<close>

lemma receipt_row_of:
  assumes "i32_try_from c = Some c" and "i32_try_from (rc_attempt receipt) = Some (rc_attempt receipt)"
    and "\<And>h. rc_http_status receipt = Some h \<Longrightarrow> i32_try_from h = Some h"
  shows "receipt_row cr i c receipt =
    Ok \<lparr>att_delivery_id = i, att_replay_count = c, att_attempt = rc_attempt receipt,
        att_outcome = rc_outcome receipt, att_http_status = rc_http_status receipt,
        att_response_sha256 = rc_response_sha256 receipt,
        att_occurred_at = pg_micros cr (rc_occurred_at receipt)\<rparr>"
  using assms by (cases "rc_http_status receipt") (simp_all add: receipt_row_def)

definition http_status_ok :: "int option \<Rightarrow> bool" where
  "http_status_ok status \<longleftrightarrow> (case status of None \<Rightarrow> True | Some h \<Rightarrow> 100 \<le> h \<and> h \<le> 599)"

text \<open>The transaction goes through when the fence holds and nothing fails.\<close>

lemma record_outcome_succeeds:
  assumes "store_ok s" and "r \<in> set (deliveries s)"
    and "outcome_matches env i c (rc_attempt receipt) r"
    and "http_status_ok (rc_http_status receipt)" and "\<And>label. \<not> db_fails env label"
  obtains s' where "record_outcome cr env i c receipt status next s = (Ok (), s')"
    "recorded cr env i c receipt status next s s'"
proof -
  let ?p = "outcome_matches env i c (rc_attempt receipt)"
  let ?f = "outcome_row env (delivery_status_as_str status) (map_option (pg_micros cr) next)"
  have r: "row_delivery_id r = i" "row_replay_count r = c" "row_attempts r = rc_attempt receipt"
    "row_status r = ''delivering''"
    using assms(3) by (simp_all add: outcome_matches_def)
  have rok: "delivery_checks r" "lifecycle_row r"
    using store_ok_row [OF assms(1,2)] by (simp_all add: row_ok_def)
  then have bounds: "0 \<le> c" "c \<le> 1000000" "1 \<le> rc_attempt receipt" "rc_attempt receipt \<le> 100"
    using r by (auto simp: delivery_checks_def lifecycle_row_def)
  obtain a where a: "receipt_row cr i c receipt = Ok a" and key: "attempt_key a = (i, c, rc_attempt receipt)"
    and h: "att_http_status a = rc_http_status receipt"
  proof (rule that [OF receipt_row_of])
    show "i32_try_from h = Some h" if "rc_http_status receipt = Some h" for h
      using assms(4) that by (simp add: http_status_ok_def)
  qed (use bounds in \<open>simp_all add: attempt_key_def\<close>)
  have "attempt_checks a"
    using assms(4) bounds key h
    by (auto simp: attempt_checks_def http_status_ok_def attempt_key_def split: option.splits)
  moreover have "list_ex (\<lambda>r'. row_delivery_id r' = att_delivery_id a) (deliveries s)"
    using assms(2) r(1) key by (auto simp: attempt_key_def list_ex_iff)
  ultimately have "\<exists>s1. insert_attempt a s = Some s1" by (simp add: insert_attempt_def)
  then obtain s1 where s1: "insert_attempt a s = Some s1" ..
  have d1: "deliveries s1 = deliveries s" by (rule insert_attempt_Some(1) [OF s1])
  have uniq: "r' = r" if "r' \<in> set (deliveries s)" "?p r'" for r'
    using store_ok_unique [OF assms(1) that(1) assms(2)] that(2) r(1) by (simp add: outcome_matches_def)
  have "delivery_checks (?f r)"
    using rok r(4) by (cases status) (auto simp: delivery_checks_def outcome_row_def)
  then obtain rows s2 where s2: "update_deliveries ?p ?f s1 = Some (rows, s2)"
    using uniq by (metis d1 update_deliveries_total)
  have "distinct (deliveries s)"
    using assms(1) by (simp add: store_ok_def distinct_map)
  then have "filter ?p (deliveries s) = [r]"
    using filter_eq_single [OF _ assms(2)] uniq assms(3)
    by (metis (mono_tags, lifting) filter_cong)
  then have one: "length rows = 1"
    using update_deliveries_Some(1) [OF s2] d1 by simp
  show thesis
  proof (rule that)
    show "record_outcome cr env i c receipt status next s = (Ok (), s2)"
      using a s1 s2 one assms(5)
      by (simp add: record_outcome_def execute_def ensure_updated_def commit_def)
    show "recorded cr env i c receipt status next s s2"
      using a s1 s2 one by (auto simp: recorded_def)
  qed
qed

text \<open>Without a matching row it does not: the database stays as it is.\<close>

lemma record_outcome_fenced:
  assumes "\<And>r. r \<in> set (deliveries s) \<Longrightarrow> \<not> outcome_matches env i c (rc_attempt receipt) r"
  shows "snd (record_outcome cr env i c receipt status next s) = s"
    and "fst (record_outcome cr env i c receipt status next s) \<noteq> Ok ()"
proof -
  have none: "filter (outcome_matches env i c (rc_attempt receipt)) (deliveries s) = []"
    using assms by (simp add: filter_empty_conv)
  have "\<not> recorded cr env i c receipt status next s s'" for s'
  proof
    assume "recorded cr env i c receipt status next s s'"
    then obtain a s1 rows f where "insert_attempt a s = Some s1" "length rows = 1"
      "update_deliveries (outcome_matches env i c (rc_attempt receipt)) f s1 = Some (rows, s')"
      by (auto simp: recorded_def)
    with none show False
      using insert_attempt_Some(1) [of a s s1] update_deliveries_Some(1) by fastforce
  qed
  then show "snd (record_outcome cr env i c receipt status next s) = s"
    and "fst (record_outcome cr env i c receipt status next s) \<noteq> Ok ()"
    using record_outcome_cases [of cr env i c receipt status "next" s] by auto
qed

text \<open>What a recorded outcome leaves behind.\<close>

lemma recorded_effect:
  assumes "store_ok s" and "recorded cr env i c receipt status next s s'"
    and "r \<in> set (deliveries s)" and "row_delivery_id r = i"
  shows "outcome_row env (delivery_status_as_str status) (map_option (pg_micros cr) next) r
      \<in> set (deliveries s')"
    and "(i, c, rc_attempt receipt) \<in> receipted s'"
    and "r' \<in> set (deliveries s) \<Longrightarrow> row_delivery_id r' \<noteq> i \<Longrightarrow> r' \<in> set (deliveries s')"
proof (rule_tac [!] recordedE [OF assms(1,2)])
  fix s1 r0
  assume s': "s' = s1\<lparr>deliveries := map (\<lambda>r'. if outcome_matches env i c (rc_attempt receipt) r'
        then outcome_row env (delivery_status_as_str status) (map_option (pg_micros cr) next) r'
        else r') (deliveries s)\<rparr>"
    and r0: "outcome_matches env i c (rc_attempt receipt) r0"
      "\<And>r'. r' \<in> set (deliveries s) \<Longrightarrow> row_delivery_id r' = i \<Longrightarrow> r' = r0"
    and key: "(i, c, rc_attempt receipt) \<in> receipted s1"
  have "r = r0" using r0(2) assms(3,4) by blast
  then show "outcome_row env (delivery_status_as_str status) (map_option (pg_micros cr) next) r
      \<in> set (deliveries s')"
    using r0(1) assms(3) by (auto simp: s' intro!: image_eqI [where x = r])
  show "(i, c, rc_attempt receipt) \<in> receipted s'" using key by (simp add: s')
  show "r' \<in> set (deliveries s')" if "r' \<in> set (deliveries s)" "row_delivery_id r' \<noteq> i"
    using that by (auto simp: s' outcome_matches_def intro!: image_eqI [where x = r'])
qed

lemma recorded_receipt:
  assumes "store_ok s" and "recorded cr env i c receipt status next s s'"
    and "(i, c, rc_attempt receipt) \<notin> receipted s"
  shows "\<exists>a. receipt_row cr i c receipt = Ok a \<and> attempts s' = attempts s @ [a]"
proof (rule recordedE [OF assms(1,2)])
  fix a s1
  assume a: "receipt_row cr i c receipt = Ok a" and s1: "insert_attempt a s = Some s1"
    and "s' = s1\<lparr>deliveries := map (\<lambda>r'. if outcome_matches env i c (rc_attempt receipt) r'
        then outcome_row env (delivery_status_as_str status) (map_option (pg_micros cr) next) r'
        else r') (deliveries s)\<rparr>"
  moreover have "attempt_key a \<notin> receipted s" using receipt_row_Ok [OF a] assms(3) by simp
  then have "attempts s1 = attempts s @ [a]"
    using s1 by (auto simp: insert_attempt_def receipted_def list_ex_iff image_iff split: if_splits)
  ultimately show ?thesis by simp
qed

section \<open>What the documentation promises for each result\<close>

text \<open>
  The README: 2xx is delivered; timeouts, transport failures, 408, 429 and 5xx are retried while
  attempts are left; everything else, and exhausted attempts, are dead letters.
\<close>

fun retryable_result :: "http_result \<Rightarrow> bool" where
  "retryable_result (Inr response) \<longleftrightarrow>
     resp_status response \<in> {408, 429} \<or> resp_status response \<in> {500..599}"
| "retryable_result (Inl (HttpDomain error)) \<longleftrightarrow> error \<in> {Timeout, TransportFailure}"
| "retryable_result (Inl (HttpRuntime error)) \<longleftrightarrow> False"

fun delivered_result :: "http_result \<Rightarrow> bool" where
  "delivered_result (Inr response) \<longleftrightarrow> resp_status response \<in> {200..299}"
| "delivered_result (Inl error) \<longleftrightarrow> False"

definition documented_status :: "http_result \<Rightarrow> int \<Rightarrow> int \<Rightarrow> delivery_status" where
  "documented_status response attempt max_attempts =
     (if delivered_result response then Delivered
      else if retryable_result response \<and> attempt < max_attempts then RetryScheduled
      else DeadLetter)"

fun status_outcome :: "delivery_status \<Rightarrow> dispatch_response_outcome" where
  "status_outcome Delivered = DispatchDelivered"
| "status_outcome RetryScheduled = DispatchRetryScheduled"
| "status_outcome DeadLetter = DispatchDeadLettered"
| "status_outcome Queued = DispatchIdle"
| "status_outcome Delivering = DispatchIdle"

text \<open>The receipt of a settled result, and its failure.\<close>

definition settled :: "http_result \<Rightarrow> bool" where
  "settled response \<longleftrightarrow> (\<forall>error. response \<noteq> Inl (HttpRuntime error))"

fun result_receipt ::
    "crates \<Rightarrow> delivery_record \<Rightarrow> http_result \<Rightarrow> int \<Rightarrow> delivery_receipt \<times> delivery_failure option" where
  "result_receipt cr d (Inr response) now = response_receipt cr d response now"
| "result_receipt cr d (Inl (HttpDomain error)) now = domain_error_receipt d error now"
| "result_receipt cr d (Inl (HttpRuntime error)) now =
     (new_receipt d ''http_runtime_failure'' None None now, None)"

fun result_status :: "http_result \<Rightarrow> int option" where
  "result_status (Inr response) = Some (resp_status response)"
| "result_status (Inl error) = None"

lemma finish_dispatch_settled:
  "settled response \<Longrightarrow> finish_dispatch cr c d response ck env s =
    settle cr c d (result_receipt cr d response (ck_receipt ck)) ck env s"
  by (cases response; cases "projl response") (auto simp: finish_dispatch_def settled_def)

lemma result_receipt_simps [simp]:
  "rc_attempt (fst (result_receipt cr d response now)) = dr_attempts d"
  "rc_http_status (fst (result_receipt cr d response now)) = result_status response"
  "rc_occurred_at (fst (result_receipt cr d response now)) = now"
  by (cases "(cr, d, response, now)" rule: result_receipt.cases;
      simp add: response_receipt_def domain_error_receipt_def new_receipt_def Let_def)+

declare result_receipt.simps [simp del]

text \<open>The status the code computes is the documented one.\<close>

definition retry_time :: "outbound_webhook_config \<Rightarrow> int \<Rightarrow> int \<Rightarrow> int" where
  "retry_time c attempt now = now - now mod 1000
     + 1000000000 * retry_delay_seconds attempt (cfg_retry_base_seconds c) (cfg_retry_max_seconds c)"

definition next_attempt_at ::
    "outbound_webhook_config \<Rightarrow> delivery_record \<Rightarrow> http_result \<Rightarrow> int \<Rightarrow> int option" where
  "next_attempt_at c d response now =
     (if documented_status response (dr_attempts d) (dr_max_attempts d) = RetryScheduled
      then Some (retry_time c (dr_attempts d) now) else None)"

definition retry_in_range ::
    "crates \<Rightarrow> outbound_webhook_config \<Rightarrow> delivery_record \<Rightarrow> http_result \<Rightarrow> int \<Rightarrow> bool" where
  "retry_in_range cr c d response now \<longleftrightarrow>
     (documented_status response (dr_attempts d) (dr_max_attempts d) = RetryScheduled \<longrightarrow>
      time_min cr \<le> retry_time c (dr_attempts d) now \<and> retry_time c (dr_attempts d) now \<le> time_max cr)"

lemma next_state_documented:
  assumes "settled response"
  shows "next_state cr c d (snd (result_receipt cr d response now)) retry =
    (if retry_in_range cr c d response retry
     then Ok (documented_status response (dr_attempts d) (dr_max_attempts d),
        status_outcome (documented_status response (dr_attempts d) (dr_max_attempts d)),
        next_attempt_at c d response retry)
     else Panic ''resulting value is out of range'')"
proof (cases response)
  case (Inr r)
  then show ?thesis
    by (auto simp: next_state_def result_receipt.simps response_receipt_def Let_def http_status_failure_def
        documented_status_def next_attempt_at_def retry_time_def database_timestamp_now_eq
        time_add_def retry_in_range_def)
next
  case (Inl e)
  with assms obtain error where "e = HttpDomain error" by (cases e) (auto simp: settled_def)
  with Inl show ?thesis
    by (cases error) (auto simp: next_state_def result_receipt.simps domain_error_receipt_def Let_def failure_def
        documented_status_def next_attempt_at_def retry_time_def database_timestamp_now_eq
        time_add_def retry_in_range_def)
qed

lemma settle_eq:
  assumes "settled response"
  shows "finish_dispatch cr c d response ck env s =
    (if retry_in_range cr c d response (ck_retry ck)
     then and_then_db (map_store_err AdminRuntime
        (record_outcome cr env (dr_delivery_id d) (dr_replay_count d)
           (fst (result_receipt cr d response (ck_receipt ck)))
           (documented_status response (dr_attempts d) (dr_max_attempts d))
           (next_attempt_at c d response (ck_retry ck)) s))
      (\<lambda>_ s. (dispatch_response_of cr (dr_delivery_id d)
          (status_outcome (documented_status response (dr_attempts d) (dr_max_attempts d)))
          (fst (result_receipt cr d response (ck_receipt ck))), s))
     else (Panic ''resulting value is out of range'', s))"
  using next_state_documented [OF assms, of cr c d "ck_receipt ck" "ck_retry ck"]
  by (cases "result_receipt cr d response (ck_receipt ck)")
    (simp add: finish_dispatch_settled [OF assms] settle_def)

lemma dispatch_response_of_eq:
  "rfc3339 cr (rc_occurred_at receipt) = Inr stamp \<Longrightarrow>
    dispatch_response_of cr i outcome receipt =
      Ok \<lparr>dsp_delivery_id = Some i, dsp_outcome = outcome,
          dsp_receipt = Some \<lparr>drr_attempt = rc_attempt receipt,
            drr_http_status = map_option show_int (rc_http_status receipt), drr_occurred_at = stamp,
            drr_outcome = rc_outcome receipt, drr_response_sha256 = rc_response_sha256 receipt\<rparr>\<rparr>"
  by (simp add: dispatch_response_of_def dispatch_receipt_def format_time_def)

section \<open>Properties of a finished dispatch\<close>

text \<open>
  C9: while its lease runs, the result of the request settles the delivery as documented: 2xx is
  delivered; a timeout, a transport failure, 408, 429 and 5xx are retried at the backed-off time
  while attempts are left, if the clock can express that time; everything else is a dead letter.
  The lease is released, the attempt has its receipt, no other delivery is touched, and the caller
  is told the same outcome.
\<close>

theorem finish_dispatch_settles:
  assumes "store_ok s" and "r \<in> set (deliveries s)"
    and "outcome_matches env (dr_delivery_id d) (dr_replay_count d) (dr_attempts d) r"
    and "settled response" and "http_status_ok (result_status response)"
    and "\<forall>label. \<not> db_fails env label" and "rfc3339 cr (ck_receipt ck) = Inr stamp"
    and "documented_status response (dr_attempts d) (dr_max_attempts d) = RetryScheduled \<Longrightarrow>
      time_min cr \<le> retry_time c (dr_attempts d) (ck_retry ck) \<and>
      retry_time c (dr_attempts d) (ck_retry ck) \<le> time_max cr"
  shows "\<exists>s' answer r'. finish_dispatch cr c d response ck env s = (Ok answer, s') \<and>
    r' \<in> set (deliveries s') \<and> same_snapshot r r' \<and>
    status_of r' = documented_status response (dr_attempts d) (dr_max_attempts d) \<and>
    row_lease_expires_at r' = None \<and> row_attempts r' = row_attempts r \<and>
    (status_of r' = RetryScheduled \<longrightarrow>
      row_available_at r' = pg_micros cr (retry_time c (dr_attempts d) (ck_retry ck))) \<and>
    (dr_delivery_id d, dr_replay_count d, dr_attempts d) \<in> receipted s' \<and>
    (\<forall>other \<in> set (deliveries s). row_delivery_id other \<noteq> dr_delivery_id d \<longrightarrow>
      other \<in> set (deliveries s')) \<and>
    dsp_delivery_id answer = Some (dr_delivery_id d) \<and>
    dsp_outcome answer = status_outcome (status_of r')"
proof -
  let ?receipt = "fst (result_receipt cr d response (ck_receipt ck))"
  let ?status = "documented_status response (dr_attempts d) (dr_max_attempts d)"
  let ?next = "next_attempt_at c d response (ck_retry ck)"
  obtain s' where run: "record_outcome cr env (dr_delivery_id d) (dr_replay_count d) ?receipt ?status ?next s = (Ok (), s')"
    and rec: "recorded cr env (dr_delivery_id d) (dr_replay_count d) ?receipt ?status ?next s s'"
    by (rule record_outcome_succeeds [of s r env "dr_delivery_id d" "dr_replay_count d" ?receipt cr ?status ?next])
      (use assms in auto)
  let ?r' = "outcome_row env (delivery_status_as_str ?status) (map_option (pg_micros cr) ?next) r"
  have id: "row_delivery_id r = dr_delivery_id d" using assms(3) by (simp add: outcome_matches_def)
  note effect = recorded_effect [OF assms(1) rec assms(2) id]
  obtain answer where fin: "finish_dispatch cr c d response ck env s = (Ok answer, s')"
    and ans: "dsp_delivery_id answer = Some (dr_delivery_id d)" "dsp_outcome answer = status_outcome ?status"
    using run assms(7,8) by (simp add: settle_eq [OF assms(4)] retry_in_range_def dispatch_response_of_eq)
  have st: "status_of ?r' = ?status" and lease: "row_lease_expires_at ?r' = None"
    and att: "row_attempts ?r' = row_attempts r"
    by (simp_all add: outcome_row_def) (simp add: documented_status_def)
  have av: "status_of ?r' = RetryScheduled \<longrightarrow>
      row_available_at ?r' = pg_micros cr (retry_time c (dr_attempts d) (ck_retry ck))"
    unfolding st by (simp add: outcome_row_def next_attempt_at_def)
  have key: "(dr_delivery_id d, dr_replay_count d, dr_attempts d) \<in> receipted s'"
    using effect(2) by simp
  have out: "dsp_outcome answer = status_outcome (status_of ?r')" by (simp only: st ans(2))
  have others: "\<forall>other \<in> set (deliveries s). row_delivery_id other \<noteq> dr_delivery_id d \<longrightarrow>
      other \<in> set (deliveries s')"
    using effect(3) by blast
  show ?thesis
    by (intro exI [where x = s'] exI [where x = answer] exI [where x = ?r'] conjI
        fin effect(1) same_snapshot_writers(3) st lease att av key others ans(1) out)
qed

text \<open>
  C10: a late worker cannot touch newer state. If no row of the delivery is still under the lease of
  exactly this replay cycle and attempt (it was settled, reclaimed, replayed, or the lease has run
  out), finishing the dispatch changes neither the deliveries nor the receipts, whatever the
  result of the request was, and is not reported as a success.
\<close>

theorem finish_dispatch_fenced:
  assumes "\<forall>r \<in> set (deliveries s). row_delivery_id r = dr_delivery_id d \<longrightarrow>
    (row_replay_count r, row_attempts r) \<noteq> (dr_replay_count d, dr_attempts d) \<or>
    row_status r \<noteq> ''delivering'' \<or> lease_expired (db_now env) r"
  shows "snd (finish_dispatch cr c d response ck env s) = s \<and>
    (\<forall>answer. fst (finish_dispatch cr c d response ck env s) \<noteq> Ok answer)"
proof -
  have fence: "\<not> outcome_matches env (dr_delivery_id d) (dr_replay_count d) (dr_attempts d) r"
    if "r \<in> set (deliveries s)" for r
    using assms that by (auto simp: outcome_matches_def lease_expired_def split: option.splits)
  have rec: "snd (and_then_db (map_store_err AdminRuntime p) g) = s \<and>
      (\<forall>answer. fst (and_then_db (map_store_err AdminRuntime p) g) \<noteq> Ok answer)"
    if p: "p = record_outcome cr env (dr_delivery_id d) (dr_replay_count d) receipt status at s"
      and att: "rc_attempt receipt = dr_attempts d"
    for p receipt status at and g :: "unit \<Rightarrow> database \<Rightarrow> (dispatch_response, admin_flow_error) result \<times> database"
    using failed_call_ends [of p AdminRuntime g]
      record_outcome_fenced [of s env "dr_delivery_id d" "dr_replay_count d" receipt cr status at]
      fence by (simp add: p att)
  show ?thesis
  proof (cases "settled response")
    case True
    then show ?thesis unfolding settle_eq [OF True] using rec by simp
  next
    case False
    then obtain error where "response = Inl (HttpRuntime error)" by (auto simp: settled_def)
    then show ?thesis using rec by (simp add: finish_dispatch_def new_receipt_def)
  qed
qed

text \<open>
  C23: when the HTTP client fails without a result, the outcome is unknown: the delivery keeps its
  lease and its status, so that it is reclaimed when the lease runs out, the attempt is receipted
  as \<open>http_runtime_failure\<close>, and the failure is passed on to the caller.
\<close>

theorem runtime_failure_keeps_lease:
  assumes "store_ok s" and "r \<in> set (deliveries s)"
    and "outcome_matches env (dr_delivery_id d) (dr_replay_count d) (dr_attempts d) r"
    and "(dr_delivery_id d, dr_replay_count d, dr_attempts d) \<notin> receipted s"
    and "\<forall>label. \<not> db_fails env label"
  shows "\<exists>s' a. finish_dispatch cr c d (Inl (HttpRuntime error)) ck env s = (Err (AdminRuntime error), s') \<and>
    r\<lparr>row_updated_at := db_now env\<rparr> \<in> set (deliveries s') \<and> attempts s' = attempts s @ [a] \<and>
    attempt_key a = (dr_delivery_id d, dr_replay_count d, dr_attempts d) \<and>
    att_outcome a = ''http_runtime_failure'' \<and> att_http_status a = None"
proof -
  let ?receipt = "new_receipt d ''http_runtime_failure'' None None (ck_receipt ck)"
  obtain s' where run: "record_outcome cr env (dr_delivery_id d) (dr_replay_count d) ?receipt Delivering None s = (Ok (), s')"
    and rec: "recorded cr env (dr_delivery_id d) (dr_replay_count d) ?receipt Delivering None s s'"
    by (rule record_outcome_succeeds [of s r env "dr_delivery_id d" "dr_replay_count d" ?receipt cr Delivering None])
      (use assms in \<open>auto simp: new_receipt_def http_status_ok_def\<close>)
  have m: "row_delivery_id r = dr_delivery_id d" "row_status r = ''delivering''"
    using assms(3) by (simp_all add: outcome_matches_def)
  have "outcome_row env ''delivering'' None r \<in> set (deliveries s')"
    using recorded_effect(1) [OF assms(1) rec assms(2) m(1)] by simp
  moreover have "outcome_row env ''delivering'' None r = r\<lparr>row_updated_at := db_now env\<rparr>"
    using m(2) by (cases r) (simp add: outcome_row_def)
  moreover obtain a where "receipt_row cr (dr_delivery_id d) (dr_replay_count d) ?receipt = Ok a"
    "attempts s' = attempts s @ [a]"
    using recorded_receipt [OF assms(1) rec] assms(4) by (auto simp: new_receipt_def)
  ultimately show ?thesis
    using run receipt_row_Ok [of cr "dr_delivery_id d" "dr_replay_count d" ?receipt a]
    by (intro exI [where x = s'] exI [where x = a])
      (simp add: finish_dispatch_def new_receipt_def)
qed

text \<open>
  C27: a response whose status lies outside 100 to 599 is never settled: the receipt violates the
  CHECK constraint of the attempts table, the transaction is rolled back, the caller gets a
  database failure, and the delivery stays under its lease instead of becoming a dead letter.
\<close>

theorem status_outside_check_not_settled:
  assumes "resp_status response < 100 \<or> 599 < resp_status response"
    and "i32_try_from (resp_status response) = Some (resp_status response)"
    and "0 \<le> dr_replay_count d" and "dr_replay_count d \<le> 1000000"
    and "0 \<le> dr_attempts d" and "dr_attempts d \<le> 100" and "\<not> db_fails env ''begin record receipt''"
  shows "finish_dispatch cr c d (Inr response) ck env s =
    (Err (AdminRuntime (PluginFailure ''PostgreSQL operation `insert delivery receipt` failed'')), s)"
proof -
  let ?receipt = "fst (result_receipt cr d (Inr response) (ck_receipt ck))"
  obtain a where a: "receipt_row cr (dr_delivery_id d) (dr_replay_count d) ?receipt = Ok a"
    by (rule that [OF receipt_row_of]) (use assms in simp_all)
  have "att_http_status a = Some (resp_status response)" using receipt_row_Ok [OF a] by simp
  then have "\<not> attempt_checks a" using assms(1) by (auto simp: attempt_checks_def)
  then have "insert_attempt a s = None" by (simp add: insert_attempt_def)
  then have "record_outcome cr env (dr_delivery_id d) (dr_replay_count d) ?receipt status at s
      = (Err (Database ''insert delivery receipt''), s)" for status at
    using a assms(7) by (simp add: record_outcome_def execute_def)
  moreover have "retry_in_range cr c d (Inr response) (ck_retry ck)"
    using assms(1) by (auto simp: retry_in_range_def documented_status_def)
  ultimately show ?thesis
    by (simp add: settle_eq settled_def store_failure_def)
qed

section \<open>Properties of the whole flow\<close>

lemma dispatch_claim_Ok:
  "dispatch_claim pl env context s = (Ok (pw, found), s1) \<longleftrightarrow>
    admin_allowed (pl_config pl) (caller_instance context) \<and> pl_prepared pl = Some pw \<and>
    claim_due env (cfg_queue_name (pl_config pl)) (cfg_lease_seconds (pl_config pl)) s = (Ok found, s1)"
  by (cases "pl_prepared pl")
    (auto simp: dispatch_claim_def prepared_def and_then_db_Ok_iff)

lemma signed_request_Ok:
  "signed_request cr pw d now = Ok request \<longleftrightarrow>
    (\<exists>stamp mac. rfc3339 cr now = Inr stamp \<and>
      hmac_sha256 cr (pw_signing_key pw)
        (as_bytes (dr_delivery_id d) @ as_bytes ''.'' @ as_bytes stamp @ as_bytes ''.'' @
         dr_payload_snapshot d) = Some mac \<and>
      request = \<lparr>sr_body = dr_payload_snapshot d, sr_headers = webhook_headers d stamp (hex mac),
        sr_method = ''POST'', sr_url = url_as_str (pw_endpoint pw)\<rparr>)"
  by (cases "rfc3339 cr now")
    (auto simp: signed_request_def format_time_def sign_payload_def split: option.splits)

lemma dispatch_claimed_sends:
  assumes "request \<in> set (snd (dispatch_claimed cr pl pw http ck env context d s))"
  shows "\<not> endpoint_changed pl pw d" and "signed_request cr pw d (ck_signed ck) = Ok request"
    and "snd (dispatch_claimed cr pl pw http ck env context d s) = [request]"
    and "fst (dispatch_claimed cr pl pw http ck env context d s) =
      finish_dispatch cr (pl_config pl) d (http context request) ck env s"
  using assms by (auto simp: dispatch_claimed_def Let_def split: if_splits result.splits)

text \<open>
  C8: one dispatch sends at most one request, and only for a delivery it has claimed whose stored
  endpoint is the configured one: a POST to that endpoint whose body is the stored snapshot byte
  for byte, with the five headers, the signature being the hexadecimal HMAC under the signing key
  of delivery id, timestamp and body.
\<close>

theorem dispatch_sends_signed_snapshot:
  assumes "request \<in> set (snd (dispatch_delivery cr pl http ck env env' between context s))"
  shows "snd (dispatch_delivery cr pl http ck env env' between context s) = [request] \<and>
    (\<exists>pw d s1 stamp mac. pl_prepared pl = Some pw \<and>
      admin_allowed (pl_config pl) (caller_instance context) \<and>
      claim_due env (cfg_queue_name (pl_config pl)) (cfg_lease_seconds (pl_config pl)) s = (Ok (Some d), s1) \<and>
      dr_endpoint_url d = cfg_endpoint_url (pl_config pl) \<and>
      dr_endpoint_origin d = pw_endpoint_origin pw \<and>
      rfc3339 cr (ck_signed ck) = Inr stamp \<and>
      hmac_sha256 cr (pw_signing_key pw)
        (as_bytes (dr_delivery_id d) @ as_bytes ''.'' @ as_bytes stamp @ as_bytes ''.'' @
         dr_payload_snapshot d) = Some mac \<and>
      request = \<lparr>sr_body = dr_payload_snapshot d,
        sr_headers =
          [(''content-type'', ''application/json''),
           (''x-lenso-webhook-id'', dr_delivery_id d),
           (''x-lenso-webhook-event-id'', dr_event_id d),
           (''x-lenso-webhook-timestamp'', stamp),
           (''x-lenso-webhook-signature'', ''v1='' @ hex mac)],
        sr_method = ''POST'', sr_url = url_as_str (pw_endpoint pw)\<rparr>)"
proof -
  obtain pw d s1 where claim: "dispatch_claim pl env context s = (Ok (pw, Some d), s1)"
    and eq: "dispatch_delivery cr pl http ck env env' between context s =
      dispatch_claimed cr pl pw http ck env' context d (between s1)"
    using assms by (auto simp: dispatch_delivery_def split: prod.splits result.splits option.splits)
  note sends = dispatch_claimed_sends [of request cr pl pw http ck env' "context" d "between s1"]
  have mem: "request \<in> set (snd (dispatch_claimed cr pl pw http ck env' context d (between s1)))"
    using assms eq by simp
  show ?thesis
    using sends(1-3) [OF mem] claim eq
    by (auto simp: dispatch_claim_Ok signed_request_Ok endpoint_changed_def webhook_headers_def)
qed

text \<open>
  C22: a claimed delivery whose stored endpoint or origin is no longer the configured one is never
  sent: it becomes a dead letter with the receipt \<open>endpoint_configuration_changed\<close>.
\<close>

theorem changed_endpoint_is_not_contacted:
  assumes "endpoint_changed pl pw d" and "store_ok s" and "r \<in> set (deliveries s)"
    and "outcome_matches env (dr_delivery_id d) (dr_replay_count d) (dr_attempts d) r"
    and "(dr_delivery_id d, dr_replay_count d, dr_attempts d) \<notin> receipted s"
    and "\<forall>label. \<not> db_fails env label" and "rfc3339 cr (ck_receipt ck) = Inr stamp"
  shows "\<exists>s' a answer. dispatch_claimed cr pl pw http ck env context d s = ((Ok answer, s'), []) \<and>
    outcome_row env ''dead_letter'' None r \<in> set (deliveries s') \<and> attempts s' = attempts s @ [a] \<and>
    att_outcome a = ''endpoint_configuration_changed'' \<and>
    dsp_delivery_id answer = Some (dr_delivery_id d) \<and> dsp_outcome answer = DispatchDeadLettered"
proof -
  let ?receipt = "new_receipt d ''endpoint_configuration_changed'' None None (ck_receipt ck)"
  obtain s' where run: "record_outcome cr env (dr_delivery_id d) (dr_replay_count d) ?receipt DeadLetter None s = (Ok (), s')"
    and rec: "recorded cr env (dr_delivery_id d) (dr_replay_count d) ?receipt DeadLetter None s s'"
    by (rule record_outcome_succeeds [of s r env "dr_delivery_id d" "dr_replay_count d" ?receipt cr DeadLetter None])
      (use assms in \<open>auto simp: new_receipt_def http_status_ok_def\<close>)
  have "row_delivery_id r = dr_delivery_id d" using assms(4) by (simp add: outcome_matches_def)
  then have "outcome_row env ''dead_letter'' None r \<in> set (deliveries s')"
    using recorded_effect(1) [OF assms(2) rec assms(3)] by simp
  moreover obtain a where "receipt_row cr (dr_delivery_id d) (dr_replay_count d) ?receipt = Ok a"
    "attempts s' = attempts s @ [a]"
    using recorded_receipt [OF assms(2) rec] assms(5) by (auto simp: new_receipt_def)
  ultimately show ?thesis
    using run assms(1,7) receipt_row_Ok [of cr "dr_delivery_id d" "dr_replay_count d" ?receipt a]
    by (intro exI [where x = s'] exI [where x = a])
      (simp add: dispatch_claimed_def Let_def dispatch_response_of_eq new_receipt_def)
qed

section \<open>Instances\<close>

definition sample_clocks :: clocks where
  "sample_clocks = \<lparr>ck_signed = 6, ck_receipt = 7, ck_retry = 8\<rparr>"

definition response_of :: "int \<Rightarrow> send_response" where
  "response_of status = \<lparr>resp_status = status, resp_body = []\<rparr>"

lemma claimed_matches:
  "claimed_row \<in> set (deliveries claimed_db)"
  "outcome_matches sample_env (dr_delivery_id claimed_record) (dr_replay_count claimed_record)
    (dr_attempts claimed_record) claimed_row"
  "(dr_delivery_id claimed_record, dr_replay_count claimed_record, dr_attempts claimed_record)
    \<notin> receipted claimed_db"
  "\<forall>label. \<not> db_fails sample_env label"
  by (simp_all add: outcome_matches_def receipted_def sample_defs)

theorem finish_dispatch_settles_witness:
  "\<exists>s' answer r'. finish_dispatch sample_crates sample_config claimed_record (Inr (response_of 503))
      sample_clocks sample_env claimed_db = (Ok answer, s') \<and>
    r' \<in> set (deliveries s') \<and> status_of r' = RetryScheduled \<and>
    row_available_at r' = 5000000"
proof -
  have st: "settled (Inr (response_of 503))" "http_status_ok (result_status (Inr (response_of 503)))"
    by (simp_all add: settled_def http_status_ok_def response_of_def)
  have doc: "documented_status (Inr (response_of 503)) (dr_attempts claimed_record)
      (dr_max_attempts claimed_record) = RetryScheduled"
    by (simp add: documented_status_def response_of_def claimed_record_def)
  have "retry_delay_seconds 1 5 300 = 5" by (simp add: retry_delay_eq)
  then have av: "pg_micros sample_crates
      (retry_time sample_config (dr_attempts claimed_record) (ck_retry sample_clocks)) = 5000000"
    by (simp add: retry_time_def sample_config_def claimed_record_def sample_clocks_def)
  have "rfc3339 sample_crates (ck_receipt sample_clocks) = Inr (show_int 7)"
    by (simp add: sample_clocks_def)
  moreover have "time_min sample_crates \<le> retry_time sample_config (dr_attempts claimed_record) (ck_retry sample_clocks) \<and>
      retry_time sample_config (dr_attempts claimed_record) (ck_retry sample_clocks) \<le> time_max sample_crates"
    using \<open>retry_delay_seconds 1 5 300 = 5\<close>
    by (simp add: retry_time_def sample_config_def claimed_record_def sample_clocks_def sample_crates_def)
  ultimately show ?thesis
    using finish_dispatch_settles [OF claimed_db_ok claimed_matches(1,2) st claimed_matches(4),
      of sample_crates sample_clocks "show_int 7" sample_config] doc av by (metis (no_types, lifting))
qed

theorem finish_dispatch_fenced_witness:
  "snd (finish_dispatch sample_crates sample_config claimed_record (Inr (response_of 200))
      sample_clocks sample_env queued_db) = queued_db"
proof -
  have "\<forall>r \<in> set (deliveries queued_db). row_delivery_id r = dr_delivery_id claimed_record \<longrightarrow>
      (row_replay_count r, row_attempts r) \<noteq> (dr_replay_count claimed_record, dr_attempts claimed_record) \<or>
      row_status r \<noteq> ''delivering'' \<or> lease_expired (db_now sample_env) r"
    by (simp add: sample_defs)
  from finish_dispatch_fenced [OF this] show ?thesis by blast
qed

theorem runtime_failure_keeps_lease_witness:
  "\<exists>s' a. finish_dispatch sample_crates sample_config claimed_record
      (Inl (HttpRuntime (Unavailable ''c''))) sample_clocks sample_env claimed_db
      = (Err (AdminRuntime (Unavailable ''c'')), s') \<and>
    attempts s' = attempts claimed_db @ [a] \<and> att_outcome a = ''http_runtime_failure''"
  using runtime_failure_keeps_lease [OF claimed_db_ok claimed_matches] by metis

theorem status_outside_check_not_settled_witness:
  "snd (finish_dispatch sample_crates sample_config claimed_record (Inr (response_of 600))
      sample_clocks sample_env claimed_db) = claimed_db"
proof -
  have "resp_status (response_of 600) < 100 \<or> 599 < resp_status (response_of 600)"
    "i32_try_from (resp_status (response_of 600)) = Some (resp_status (response_of 600))"
    "0 \<le> dr_replay_count claimed_record" "dr_replay_count claimed_record \<le> 1000000"
    "0 \<le> dr_attempts claimed_record" "dr_attempts claimed_record \<le> 100"
    "\<not> db_fails sample_env ''begin record receipt''"
    by (simp_all add: response_of_def sample_defs)
  from status_outside_check_not_settled [OF this] show ?thesis by simp
qed

lemma sample_claim:
  "dispatch_claim sample_plugin sample_env as_admin queued_db =
    (Ok (sample_prepared, Some claimed_record), claimed_db)"
  using claim_queued_db sample_allowed
  by (simp add: dispatch_claim_Ok plugin_sample_defs)

lemma endpoint_not_changed: "\<not> endpoint_changed sample_plugin sample_prepared claimed_record"
  by (simp add: endpoint_changed_def plugin_sample_defs claimed_record_def)

theorem dispatch_sends_signed_snapshot_witness:
  "\<exists>request. snd (dispatch_delivery sample_crates sample_plugin (\<lambda>_ _. Inr (response_of 200))
      sample_clocks sample_env sample_env (\<lambda>s. s) as_admin queued_db) = [request] \<and>
    sr_method request = ''POST'' \<and> sr_body request = [1]"
proof -
  obtain request where "signed_request sample_crates sample_prepared claimed_record (ck_signed sample_clocks) = Ok request"
    and body: "sr_body request = [1]"
    using signed_request_Ok [of sample_crates sample_prepared claimed_record "ck_signed sample_clocks"]
    by (auto simp: claimed_record_def)
  then have mem: "request \<in> set (snd (dispatch_delivery sample_crates sample_plugin
      (\<lambda>_ _. Inr (response_of 200)) sample_clocks sample_env sample_env (\<lambda>s. s) as_admin queued_db))"
    using endpoint_not_changed by (simp add: dispatch_delivery_def sample_claim dispatch_claimed_def)
  from dispatch_sends_signed_snapshot [OF mem] body show ?thesis by fastforce
qed

theorem changed_endpoint_is_not_contacted_witness:
  "\<exists>s' answer. dispatch_claimed sample_crates
      (sample_plugin\<lparr>pl_config := sample_config\<lparr>cfg_endpoint_url := ''v''\<rparr>\<rparr>) sample_prepared
      (\<lambda>_ _. Inr (response_of 200)) sample_clocks sample_env as_admin claimed_record claimed_db
      = ((Ok answer, s'), []) \<and> dsp_outcome answer = DispatchDeadLettered"
proof -
  have ch: "endpoint_changed (sample_plugin\<lparr>pl_config := sample_config\<lparr>cfg_endpoint_url := ''v''\<rparr>\<rparr>)
      sample_prepared claimed_record"
    by (simp add: endpoint_changed_def plugin_sample_defs claimed_record_def)
  have "rfc3339 sample_crates (ck_receipt sample_clocks) = Inr (show_int 7)"
    by (simp add: sample_clocks_def)
  from changed_endpoint_is_not_contacted [OF ch claimed_db_ok claimed_matches this]
  show ?thesis by metis
qed

end
