(* ===== verification/Admin_Flow.thy ===== *)
theory Admin_Flow
  imports Enqueue_Flow
begin

text \<open>
  What \<open>inspect\<close> and \<open>replay\<close> guarantee: inspection reports the stored delivery with its latest
  receipt, replay opens a new cycle of a dead letter over the original snapshot, and of nothing
  else, whatever runs between its two statements.
\<close>

section \<open>Loading a delivery\<close>

definition receipt_of :: "crates \<Rightarrow> attempt_row \<Rightarrow> delivery_receipt" where
  "receipt_of cr a = \<lparr>rc_attempt = att_attempt a, rc_outcome = att_outcome a,
     rc_http_status = att_http_status a, rc_response_sha256 = att_response_sha256 a,
     rc_occurred_at = pg_time cr (att_occurred_at a)\<rparr>"

text \<open>The latest receipt: the last attempt of the last cycle.\<close>

definition latest :: "database \<Rightarrow> string \<Rightarrow> attempt_row \<Rightarrow> bool" where
  "latest s i a \<longleftrightarrow> a \<in> set (attempts s) \<and> att_delivery_id a = i \<and>
     (\<forall>a' \<in> set (attempts s). att_delivery_id a' = i \<longrightarrow>
        (att_replay_count a', att_attempt a') \<le> (att_replay_count a, att_attempt a))"

lemma last_receipt_latest:
  assumes "\<And>label. \<not> db_fails env label"
  shows "last_receipt cr env i s = Ok None \<and> i \<notin> att_delivery_id ` set (attempts s) \<or>
    (\<exists>a. latest s i a \<and> last_receipt cr env i s = Ok (Some (receipt_of cr a)))"
proof -
  let ?key = "\<lambda>a. (- att_replay_count a, - att_attempt a)"
  let ?mine = "filter (\<lambda>a. att_delivery_id a = i) (attempts s)"
  show ?thesis
  proof (cases "sort_key ?key ?mine")
    case Nil
    then have "?mine = []" by (metis length_0_conv length_sort)
    then show ?thesis
      using assms Nil by (auto simp: last_receipt_def filter_empty_conv)
  next
    case (Cons a as)
    then have a: "a \<in> set (take 1 (sort_key ?key ?mine))" by simp
    have "a \<in> set (sort_key ?key ?mine)" using Cons by simp
    then have "a \<in> set ?mine" by simp
    moreover have "(att_replay_count a', att_attempt a') \<le> (att_replay_count a, att_attempt a)"
      if "a' \<in> set ?mine" for a'
      using sorted_take_minimal [OF a that] by (auto simp: less_eq_prod_def)
    ultimately have "latest s i a" by (auto simp: latest_def)
    then show ?thesis
      using assms Cons by (auto simp: last_receipt_def decode_receipt_def receipt_of_def)
  qed
qed

lemma load_stored:
  assumes "store_ok s" and "r \<in> set (deliveries s)" and "row_delivery_id r = i"
    and "\<And>label. \<not> db_fails env label"
  obtains d receipt where "decode_delivery env r = Ok d" "last_receipt cr env i s' = Ok receipt"
    "load cr env i s s' = Ok (Some (d\<lparr>dr_last_receipt := receipt\<rparr>))"
proof -
  have "delivery_checks r" using store_ok_row [OF assms(1,2)] by (simp add: row_ok_def)
  then obtain d where d: "decode_delivery env r = Ok d"
    using decode_delivery_ok assms(4) by blast
  obtain receipt where receipt: "last_receipt cr env i s' = Ok receipt"
    using last_receipt_latest [of env cr i s', OF assms(4)] by blast
  have "List.find (\<lambda>r'. row_delivery_id r' = i) (deliveries s) = Some r"
    using store_ok_find [OF assms(1,2)] assms(3) by simp
  with d receipt assms(4) have "load cr env i s s' = Ok (Some (d\<lparr>dr_last_receipt := receipt\<rparr>))"
    by (simp add: load_def)
  with d receipt show thesis by (rule that)
qed

section \<open>Inspect\<close>

definition inspected_receipt :: "crates \<Rightarrow> attempt_row \<Rightarrow> inspect_response_last_receipt \<Rightarrow> bool" where
  "inspected_receipt cr a lr \<longleftrightarrow>
     ilr_attempt lr = att_attempt a \<and> ilr_outcome lr = att_outcome a \<and>
     ilr_http_status lr = map_option show_int (att_http_status a) \<and>
     ilr_response_sha256 lr = att_response_sha256 a \<and>
     rfc3339 cr (pg_time cr (att_occurred_at a)) = Inr (ilr_occurred_at lr)"

lemma inspect_receipt_of:
  assumes "rfc3339 cr (pg_time cr (att_occurred_at a)) = Inr stamp"
  shows "\<exists>lr. inspect_receipt cr (receipt_of cr a) = Ok lr \<and> inspected_receipt cr a lr"
proof -
  let ?lr = "\<lparr>ilr_attempt = att_attempt a, ilr_http_status = map_option show_int (att_http_status a),
    ilr_occurred_at = stamp, ilr_outcome = att_outcome a, ilr_response_sha256 = att_response_sha256 a\<rparr>"
  have "inspect_receipt cr (receipt_of cr a) = Ok ?lr" and "inspected_receipt cr a ?lr"
    using assms by (simp_all add: inspect_receipt_def receipt_of_def format_time_def inspected_receipt_def)
  then show ?thesis by blast
qed

text \<open>
  C18: inspecting a stored delivery reports its identity, endpoint, digest, status, attempts and
  replay cycle as they are stored, and the receipt of the last attempt of its last cycle, if there
  is one; RFC 3339 must be able to express the times stored with the receipts of the delivery.
\<close>

theorem inspect_reports_stored:
  assumes "store_ok s" and "r \<in> set (deliveries s)"
    and "row_delivery_id r = ins_request_delivery_id request"
    and "admin_allowed (pl_config pl) (caller_instance context)"
    and "valid_delivery_id (ins_request_delivery_id request)" and "pl_prepared pl = Some pw"
    and "\<forall>label. \<not> db_fails env label" 
    and "\<forall>a \<in> set (attempts s). att_delivery_id a = row_delivery_id r \<longrightarrow>
      (\<exists>stamp. rfc3339 cr (pg_time cr (att_occurred_at a)) = Inr stamp)"
  shows "\<exists>answer. inspect_delivery cr pl env context request s s = Ok answer \<and>
    ins_delivery_id answer = row_delivery_id r \<and> ins_event_id answer = row_event_id r \<and>
    ins_event_type answer = row_event_type r \<and> ins_endpoint_origin answer = row_endpoint_origin r \<and>
    ins_payload_sha256 answer = row_payload_sha256 r \<and>
    ins_status answer = inspect_status (status_of r) \<and>
    ins_attempts answer = row_attempts r \<and> ins_max_attempts answer = row_max_attempts r \<and>
    ins_replay_count answer = row_replay_count r \<and>
    (case ins_last_receipt answer of
       None \<Rightarrow> row_delivery_id r \<notin> att_delivery_id ` set (attempts s)
     | Some lr \<Rightarrow> \<exists>a. latest s (row_delivery_id r) a \<and> inspected_receipt cr a lr)"
proof -
  let ?i = "ins_request_delivery_id request"
  obtain d receipt where d: "decode_delivery env r = Ok d"
    and receipt: "last_receipt cr env ?i s = Ok receipt"
    and found: "load cr env ?i s s = Ok (Some (d\<lparr>dr_last_receipt := receipt\<rparr>))"
    by (rule load_stored [OF assms(1-3)]) (use assms(7) in auto)
  have run: "inspect_delivery cr pl env context request s s =
      inspect_response_of cr (d\<lparr>dr_last_receipt := receipt\<rparr>)"
    using assms(4-6) found by (simp add: inspect_delivery_def prepared_def)
  have fields: "dr_delivery_id d = row_delivery_id r" "dr_event_id d = row_event_id r"
    "dr_event_type d = row_event_type r" "dr_endpoint_origin d = row_endpoint_origin r"
    "dr_payload_sha256 d = row_payload_sha256 r" "dr_status d = status_of r"
    "dr_attempts d = row_attempts r" "dr_max_attempts d = row_max_attempts r"
    "dr_replay_count d = row_replay_count r"
    using d decode_status [OF d]
    by (auto simp: decode_delivery_def and_then_Ok_iff split: if_splits)
  consider (none) "receipt = None" "?i \<notin> att_delivery_id ` set (attempts s)"
    | (some) a where "receipt = Some (receipt_of cr a)" "latest s ?i a"
    using last_receipt_latest [of env cr ?i s] assms(7) receipt by auto
  then show ?thesis
  proof cases
    case none
    then show ?thesis using run fields assms(3) by (auto simp: inspect_response_of_def)
  next
    case some
    obtain stamp where stamp: "rfc3339 cr (pg_time cr (att_occurred_at a)) = Inr stamp"
      using assms(3,8) some(2) by (auto simp: latest_def)
    have "\<exists>lr. (inspect_receipt cr (receipt_of cr a) ::
        (inspect_response_last_receipt, admin_flow_error) result) = Ok lr \<and> inspected_receipt cr a lr"
      by (rule inspect_receipt_of [OF stamp])
    then show ?thesis using some run fields assms(3) by (auto simp: inspect_response_of_def)
  qed
qed

section \<open>Replay\<close>

definition replay_admits :: "plugin \<Rightarrow> invocation_context \<Rightarrow> replay_request \<Rightarrow> bool" where
  "replay_admits pl context request \<longleftrightarrow>
     admin_allowed (pl_config pl) (caller_instance context) \<and>
     valid_delivery_id (rpl_request_delivery_id request) \<and> pl_prepared pl \<noteq> None"

lemma replay_admitted:
  "replay_admits pl context request \<Longrightarrow>
    replay_delivery cr pl env context request s s' s'' =
      and_then_db (map_err (\<lambda>error. AdminRuntime (store_failure error))
                     (load cr env (rpl_request_delivery_id request) s s'), s'') (\<lambda>found s''.
      and_then_db (ok_or (AdminReplay ReplayNotFound) found, s'') (\<lambda>existing s''.
      if dr_status existing \<noteq> DeadLetter
      then (Err (AdminReplay ReplayNotDeadLetter), s'')
      else and_then_db
             (map_store_err AdminRuntime (begin_replay env (rpl_request_delivery_id request) s''))
             (\<lambda>replayed s''.
           and_then_db (ok_or (AdminReplay ReplayNotDeadLetter) replayed, s'') (\<lambda>delivery s''.
           (Ok \<lparr>rpl_replay_count = dr_replay_count delivery\<rparr>, s'')))))"
  by (auto simp: replay_delivery_def replay_admits_def prepared_def)

lemma replayable_filter:
  assumes "store_ok s" and "r \<in> set (deliveries s)" and "row_delivery_id r = i"
  shows "filter (replayable i) (deliveries s) = (if replayable i r then [r] else [])"
proof -
  have "distinct (deliveries s)" using assms(1) by (simp add: store_ok_def distinct_map)
  moreover have uniq: "r' = r" if "r' \<in> set (deliveries s)" "replayable i r'" for r'
    using store_ok_unique [OF assms(1) that(1) assms(2)] that(2) assms(3) by (simp add: replayable_def)
  ultimately show ?thesis
  proof (cases "replayable i r")
    case True
    then have "filter (replayable i) (deliveries s) = filter (\<lambda>r'. r' = r) (deliveries s)"
      using uniq by (intro filter_cong) auto
    then show ?thesis
      using True filter_eq_single [OF \<open>distinct (deliveries s)\<close> assms(2)] by simp
  next
    case False
    then show ?thesis using uniq by (auto simp: filter_empty_conv)
  qed
qed

lemma begin_replay_result:
  assumes "store_ok s" and "r \<in> set (deliveries s)" and "row_delivery_id r = i"
    and "\<And>label. \<not> db_fails env label"
  shows "begin_replay env i s =
    (if replayable i r then (and_then (decode_delivery env (replay_row env r)) (\<lambda>d. Ok (Some d)), replayed env i s)
     else (Ok None, replayed env i s))"
  using assms(4) replayable_filter [OF assms(1-3)]
  by (simp add: begin_replay_def replay_update [OF assms(1)])

lemma not_replayable_replayed: "(\<And>r. r \<in> set (deliveries s) \<Longrightarrow> \<not> replayable i r) \<Longrightarrow> replayed env i s = s"
  by (simp add: replayed_def map_cond_id)

text \<open>
  C16: replaying a dead letter queues it again in a new cycle: the cycle number, which is the
  answer, goes up by one, the attempts start from zero, it is due at once, and payload, endpoint,
  identity and all receipts are kept; no other delivery is touched.
\<close>

theorem replay_starts_new_cycle:
  assumes "store_ok s" and "r \<in> set (deliveries s)"
    and "row_delivery_id r = rpl_request_delivery_id request" and "row_status r = ''dead_letter''"
    and "row_replay_count r < 1000000" and "replay_admits pl context request"
    and "\<forall>label. \<not> db_fails env label"
  shows "\<exists>s' r'. replay_delivery cr pl env context request s s s =
      (Ok \<lparr>rpl_replay_count = row_replay_count r + 1\<rparr>, s') \<and>
    attempts s' = attempts s \<and> r' \<in> set (deliveries s') \<and> same_snapshot r r' \<and>
    row_status r' = ''queued'' \<and> row_attempts r' = 0 \<and>
    row_replay_count r' = row_replay_count r + 1 \<and> row_available_at r' = db_now env \<and>
    (\<forall>other \<in> set (deliveries s). row_delivery_id other \<noteq> row_delivery_id r \<longrightarrow>
      other \<in> set (deliveries s'))"
proof -
  let ?i = "rpl_request_delivery_id request"
  let ?s' = "replayed env ?i s"
  have rep: "replayable ?i r" using assms(3-5) by (simp add: replayable_def)
  obtain d receipt where d: "decode_delivery env r = Ok d"
    and found: "load cr env ?i s s = Ok (Some (d\<lparr>dr_last_receipt := receipt\<rparr>))"
    by (rule load_stored [OF assms(1-3)]) (use assms(7) in auto)
  have dead: "dr_status d = DeadLetter" using decode_status [OF d] assms(4) by simp
  have "delivery_checks (replay_row env r)"
    using replay_row_ok [OF store_ok_row [OF assms(1,2)] rep] by (simp add: row_ok_def)
  then obtain d' where d': "decode_delivery env (replay_row env r) = Ok d'"
    using decode_delivery_ok assms(7) by blast
  have "dr_replay_count d' = row_replay_count r + 1"
    using d' by (auto simp: decode_delivery_def replay_row_def and_then_Ok_iff split: if_splits)
  moreover have "begin_replay env ?i s = (Ok (Some d'), ?s')"
    using begin_replay_result [OF assms(1-3), of env] assms(7) rep d' by simp
  ultimately have run: "replay_delivery cr pl env context request s s s =
      (Ok \<lparr>rpl_replay_count = row_replay_count r + 1\<rparr>, ?s')"
    using found dead by (simp add: replay_admitted [OF assms(6)])
  have "replay_row env r \<in> set (deliveries ?s')"
    using rep assms(2) by (auto simp: replayed_def intro!: image_eqI [where x = r])
  moreover have "other \<in> set (deliveries ?s')"
    if "other \<in> set (deliveries s)" "row_delivery_id other \<noteq> row_delivery_id r" for other
    using that assms(3) by (auto simp: replayed_def replayable_def intro!: image_eqI [where x = other])
  ultimately show ?thesis
    using run by (intro exI [where x = ?s'] exI [where x = "replay_row env r"])
      (simp add: replayed_def replay_row_def same_snapshot_def)
qed

text \<open>
  C17: nothing but a dead letter can be replayed, even when the state seen by the check is stale:
  if the delivery is not a dead letter when the update runs, or has used up its cycles, replay
  does not succeed and changes nothing.
\<close>

theorem replay_only_dead_letters:
  assumes "store_ok s''"
    and "\<forall>r \<in> set (deliveries s''). row_delivery_id r = rpl_request_delivery_id request \<longrightarrow>
      row_status r \<noteq> ''dead_letter'' \<or> row_replay_count r = 1000000"
  shows "snd (replay_delivery cr pl env context request s s' s'') = s'' \<and>
    (\<forall>answer. fst (replay_delivery cr pl env context request s s' s'') \<noteq> Ok answer)"
proof (cases "replay_admits pl context request")
  case True
  let ?i = "rpl_request_delivery_id request"
  have none: "\<not> replayable ?i r" if "r \<in> set (deliveries s'')" for r
    using assms(2) that by (auto simp: replayable_def)
  then have "filter (replayable ?i) (deliveries s'') = []" by (simp add: filter_empty_conv)
  then have run: "begin_replay env ?i s'' = (Ok None, s'') \<or> (\<exists>e. begin_replay env ?i s'' = (Err e, s''))"
    using not_replayable_replayed [of s'' ?i env, OF none]
    by (simp add: begin_replay_def replay_update [OF assms(1)])
  show ?thesis
  proof (cases "load cr env ?i s s'")
    case (Ok found)
    then show ?thesis
      using run by (cases found) (auto simp: replay_admitted [OF True])
  qed (simp_all add: replay_admitted [OF True])
next
  case False
  then show ?thesis
    by (auto simp: replay_delivery_def replay_admits_def prepared_def)
qed

section \<open>Instances\<close>

lemma dead_row_facts:
  "dead_row \<in> set (deliveries dead_db)" "row_delivery_id dead_row = sample_id"
  "row_status dead_row = ''dead_letter''" "row_replay_count dead_row < 1000000"
  "\<forall>label. \<not> db_fails sample_env label" "pl_prepared sample_plugin = Some sample_prepared"
  "admin_allowed (pl_config sample_plugin) (caller_instance as_admin)"
  using sample_allowed by (simp_all add: sample_defs sample_plugin_def as_admin_def)

theorem inspect_reports_stored_witness:
  "\<exists>answer. inspect_delivery sample_crates sample_plugin sample_env as_admin
      \<lparr>ins_request_delivery_id = sample_id\<rparr> dead_db dead_db = Ok answer \<and>
    ins_status answer = InspectDeadLetter"
proof -
  have i: "row_delivery_id dead_row = ins_request_delivery_id \<lparr>ins_request_delivery_id = sample_id\<rparr>"
    and v: "valid_delivery_id (ins_request_delivery_id \<lparr>ins_request_delivery_id = sample_id\<rparr>)"
    and t: "\<forall>a \<in> set (attempts dead_db). att_delivery_id a = row_delivery_id dead_row \<longrightarrow>
      (\<exists>stamp. rfc3339 sample_crates (pg_time sample_crates (att_occurred_at a)) = Inr stamp)"
    using dead_row_facts(2) sample_id_valid by simp_all
  have "status_of dead_row = DeadLetter" using dead_row_facts(3) by simp
  with inspect_reports_stored [OF dead_db_ok dead_row_facts(1) i dead_row_facts(7) v
      dead_row_facts(6) dead_row_facts(5) t]
  show ?thesis by (metis inspect_status.simps(5))
qed

lemma replay_sample_admits:
  "replay_admits sample_plugin as_admin \<lparr>rpl_request_delivery_id = sample_id\<rparr>"
  using dead_row_facts(6,7) sample_id_valid by (simp add: replay_admits_def)

theorem replay_starts_new_cycle_witness:
  "\<exists>s' r'. replay_delivery sample_crates sample_plugin sample_env as_admin
      \<lparr>rpl_request_delivery_id = sample_id\<rparr> dead_db dead_db dead_db = (Ok \<lparr>rpl_replay_count = 1\<rparr>, s') \<and>
    r' \<in> set (deliveries s') \<and> row_status r' = ''queued'' \<and> attempts s' = attempts dead_db"
proof -
  have i: "row_delivery_id dead_row = rpl_request_delivery_id \<lparr>rpl_request_delivery_id = sample_id\<rparr>"
    using dead_row_facts(2) by simp
  have "row_replay_count dead_row + 1 = 1" by (simp add: sample_defs)
  with replay_starts_new_cycle [OF dead_db_ok dead_row_facts(1) i dead_row_facts(3,4)
      replay_sample_admits dead_row_facts(5), of sample_crates]
  show ?thesis by (metis (no_types, lifting))
qed

theorem replay_only_dead_letters_witness:
  "snd (replay_delivery sample_crates sample_plugin sample_env as_admin
      \<lparr>rpl_request_delivery_id = sample_id\<rparr> dead_db dead_db queued_db) = queued_db"
proof -
  have "\<forall>r \<in> set (deliveries queued_db).
      row_delivery_id r = rpl_request_delivery_id \<lparr>rpl_request_delivery_id = sample_id\<rparr> \<longrightarrow>
      row_status r \<noteq> ''dead_letter'' \<or> row_replay_count r = 1000000"
    by (simp add: sample_defs)
  from replay_only_dead_letters [OF queued_db_ok this] show ?thesis by blast
qed

end
