(* ===== verification/Plugin.thy ===== *)
theory Plugin
  imports Service Samples
begin

text \<open>
  \<open>lib.rs\<close> and \<open>operator.rs\<close>: how the flows become the answers of the two capabilities, the
  activation and deactivation of an instance, and the operator's entry points to the schema.
\<close>

section \<open>The answers of the capabilities\<close>

text \<open>
  The outer \<open>result\<close> is the runtime's, the inner one the caller's response or domain error.
\<close>

type_synonym ('a, 'd) answer = "(('a, 'd) result, runtime_failure) result"

fun enqueue_answer :: "(enqueue_response, flow_error) result \<Rightarrow> (enqueue_response, enqueue_error) answer" where
  "enqueue_answer (Ok response) = Ok (Ok response)"
| "enqueue_answer (Err (FlowDomain error)) = Ok (Err error)"
| "enqueue_answer (Err (FlowRuntime error)) = Err error"
| "enqueue_answer (Panic m) = Panic m"

fun dispatch_answer ::
    "(dispatch_response, admin_flow_error) result \<Rightarrow> (dispatch_response, dispatch_error) answer" where
  "dispatch_answer (Ok response) = Ok (Ok response)"
| "dispatch_answer (Err (AdminDispatch error)) = Ok (Err error)"
| "dispatch_answer (Err (AdminRuntime error)) = Err error"
| "dispatch_answer (Err (AdminInspect _)) = Err (invariant_failure ''unexpected Admin flow error'')"
| "dispatch_answer (Err (AdminReplay _)) = Err (invariant_failure ''unexpected Admin flow error'')"
| "dispatch_answer (Panic m) = Panic m"

fun inspect_answer ::
    "(inspect_response, admin_flow_error) result \<Rightarrow> (inspect_response, inspect_error) answer" where
  "inspect_answer (Ok response) = Ok (Ok response)"
| "inspect_answer (Err (AdminInspect error)) = Ok (Err error)"
| "inspect_answer (Err (AdminRuntime error)) = Err error"
| "inspect_answer (Err (AdminDispatch _)) = Err (invariant_failure ''unexpected Admin flow error'')"
| "inspect_answer (Err (AdminReplay _)) = Err (invariant_failure ''unexpected Admin flow error'')"
| "inspect_answer (Panic m) = Panic m"

fun replay_answer ::
    "(replay_response, admin_flow_error) result \<Rightarrow> (replay_response, replay_error) answer" where
  "replay_answer (Ok response) = Ok (Ok response)"
| "replay_answer (Err (AdminReplay error)) = Ok (Err error)"
| "replay_answer (Err (AdminRuntime error)) = Err error"
| "replay_answer (Err (AdminDispatch _)) = Err (invariant_failure ''unexpected Admin flow error'')"
| "replay_answer (Err (AdminInspect _)) = Err (invariant_failure ''unexpected Admin flow error'')"
| "replay_answer (Panic m) = Panic m"

definition enqueue ::
    "crates \<Rightarrow> plugin \<Rightarrow> db_env \<Rightarrow> int \<Rightarrow> invocation_context \<Rightarrow> enqueue_request \<Rightarrow> database \<Rightarrow>
     (enqueue_response, enqueue_error) answer \<times> database" where
  "enqueue cr pl env now context request s =
     (case enqueue_delivery cr pl env now context request s of (r, s') \<Rightarrow> (enqueue_answer r, s'))"

definition dispatch ::
    "crates \<Rightarrow> plugin \<Rightarrow> http_client \<Rightarrow> clocks \<Rightarrow> db_env \<Rightarrow> db_env \<Rightarrow> (database \<Rightarrow> database) \<Rightarrow>
     invocation_context \<Rightarrow> dispatch_request \<Rightarrow> database \<Rightarrow>
     ((dispatch_response, dispatch_error) answer \<times> database) \<times> send_request list" where
  "dispatch cr pl http ck env env' between context request s =
     (case dispatch_delivery cr pl http ck env env' between context s of
        ((r, s'), sent) \<Rightarrow> ((dispatch_answer r, s'), sent))"

definition inspect ::
    "crates \<Rightarrow> plugin \<Rightarrow> db_env \<Rightarrow> invocation_context \<Rightarrow> inspect_request \<Rightarrow> database \<Rightarrow> database \<Rightarrow>
     (inspect_response, inspect_error) answer" where
  "inspect cr pl env context request s s' = inspect_answer (inspect_delivery cr pl env context request s s')"

definition replay ::
    "crates \<Rightarrow> plugin \<Rightarrow> db_env \<Rightarrow> invocation_context \<Rightarrow> replay_request \<Rightarrow>
     database \<Rightarrow> database \<Rightarrow> database \<Rightarrow> (replay_response, replay_error) answer \<times> database" where
  "replay cr pl env context request s s' s'' =
     (case replay_delivery cr pl env context request s s' s'' of (r, t) \<Rightarrow> (replay_answer r, t))"

section \<open>Activation\<close>

text \<open>
  A call of the secrets capability: whether the invocation context could be made within the
  dependency timeout, and what the provider answers for a reference.
\<close>

datatype secrets_error = SecretsDomain | SecretsRuntime runtime_failure

record secrets_call =
  sc_context :: "runtime_failure + unit"
  sc_resolve :: "string \<Rightarrow> secrets_error + string"

definition resolve_secret :: "secrets_call \<Rightarrow> string \<Rightarrow> (string, runtime_failure) result" where
  "resolve_secret call reference =
     and_then (of_sum (\<lambda>error. error) (sc_context call)) (\<lambda>_.
     of_sum (\<lambda>error. case error of
               SecretsDomain \<Rightarrow>
                 PluginFailure (''required Outbound Webhook secret `'' @ reference @ ''` was rejected'')
             | SecretsRuntime error \<Rightarrow> error)
       (sc_resolve call reference))"

text \<open>
  \<open>prepare\<close> is \<open>OwnedPostgres::prepare\<close> with the planned schema: \<open>Inl\<close> the text of its error.
\<close>

definition prepare_webhook ::
    "crates \<Rightarrow> secrets_call \<Rightarrow> secrets_call \<Rightarrow> (string \<Rightarrow> string + unit) \<Rightarrow> outbound_webhook_config \<Rightarrow>
     (prepared_webhook, runtime_failure) result" where
  "prepare_webhook cr database_call signing_call prepare c =
     and_then (resolve_secret database_call (cfg_database_url_secret c)) (\<lambda>database_url.
     and_then (resolve_secret signing_call (cfg_signing_secret c)) (\<lambda>signing_key.
     if length signing_key < 32
     then Err (PluginFailure ''Outbound Webhook signing secret must contain at least 32 bytes'')
     else
       and_then (of_sum (\<lambda>error. InvalidResolvedPlan
                           (''Outbound Webhook schema plan is invalid: '' @ error))
                   (schema_plan cr (cfg_schema c))) (\<lambda>_.
       and_then (of_sum (\<lambda>error. PluginFailure
                           (''Outbound Webhook storage is unavailable: '' @ error))
                   (prepare database_url)) (\<lambda>_.
       and_then (endpoint cr c) (\<lambda>u.
       Ok \<lparr>pw_endpoint = u, pw_endpoint_origin = config_endpoint_origin u,
           pw_signing_key = as_bytes signing_key\<rparr>)))))"

definition activate ::
    "crates \<Rightarrow> secrets_call \<Rightarrow> secrets_call \<Rightarrow> (string \<Rightarrow> string + unit) \<Rightarrow> plugin \<Rightarrow>
     (unit, runtime_failure) result \<times> plugin" where
  "activate cr database_call signing_call prepare pl =
     (case prepare_webhook cr database_call signing_call prepare (pl_config pl) of
        Ok pw \<Rightarrow> (Ok (), pl\<lparr>pl_prepared := Some pw\<rparr>)
      | Err error \<Rightarrow> (Err error, pl)
      | Panic m \<Rightarrow> (Panic m, pl))"

definition deactivate :: "plugin \<Rightarrow> (unit, runtime_failure) result \<times> plugin" where
  "deactivate pl = (Ok (), pl\<lparr>pl_prepared := None\<rparr>)"

section \<open>The operator\<close>

text \<open>\<open>OutboundWebhookOperatorError\<close>: both variants carry the message of the crate's error.\<close>

datatype operator_error = Plan string | Postgres string

text \<open>
  The crate's \<open>SchemaOperator::connect\<close>, then its \<open>setup\<close> or \<open>upgrade\<close>, with the outcome the
  crate reports; \<open>connect\<close> is \<open>OwnedPostgres::prepare\<close> and yields the schema name.
\<close>

definition run_operator ::
    "crates \<Rightarrow> (string \<Rightarrow> string + unit) \<Rightarrow> (string + 'o) \<Rightarrow> string \<Rightarrow> string \<Rightarrow> ('o, operator_error) result" where
  "run_operator cr connect run database_url schema =
     and_then (of_sum Plan (schema_plan cr schema)) (\<lambda>_.
     and_then (of_sum Postgres (connect database_url)) (\<lambda>_.
     of_sum Postgres run))"

definition operator_setup ::
    "crates \<Rightarrow> (string \<Rightarrow> string + unit) \<Rightarrow> (string + 'o) \<Rightarrow> string \<Rightarrow> string \<Rightarrow> ('o, operator_error) result" where
  "operator_setup cr connect setup database_url schema = run_operator cr connect setup database_url schema"

definition operator_upgrade ::
    "crates \<Rightarrow> (string \<Rightarrow> string + unit) \<Rightarrow> (string + 'o) \<Rightarrow> string \<Rightarrow> string \<Rightarrow> ('o, operator_error) result" where
  "operator_upgrade cr connect upgrade database_url schema = run_operator cr connect upgrade database_url schema"

definition operator_connect ::
    "crates \<Rightarrow> (string \<Rightarrow> string + unit) \<Rightarrow> string \<Rightarrow> string \<Rightarrow> (string, operator_error) result" where
  "operator_connect cr prepare database_url schema =
     and_then (of_sum Plan (schema_plan cr schema)) (\<lambda>_.
     and_then (of_sum Postgres (prepare database_url)) (\<lambda>_. Ok schema))"

section \<open>What activation establishes\<close>

text \<open>
  An instance as validation and activation leave it: its limits are in range, and if it is active
  its endpoint is the configured one, the origin is that endpoint's, the key has 32 bytes or more.
\<close>

definition plugin_ok :: "crates \<Rightarrow> plugin \<Rightarrow> bool" where
  "plugin_ok cr pl \<longleftrightarrow> config_bounds (pl_config pl) \<and>
     (\<forall>pw. pl_prepared pl = Some pw \<longrightarrow>
        fixed_endpoint cr (cfg_endpoint_url (pl_config pl)) = Ok (pw_endpoint pw) \<and>
        pw_endpoint_origin pw = config_endpoint_origin (pw_endpoint pw) \<and>
        32 \<le> length (pw_signing_key pw))"

lemma activate_Ok:
  assumes "activate cr dcall scall prepare pl = (Ok (), pl')"
  obtains u key where "pl' = pl\<lparr>pl_prepared := Some \<lparr>pw_endpoint = u,
      pw_endpoint_origin = config_endpoint_origin u, pw_signing_key = as_bytes key\<rparr>\<rparr>"
    "resolve_secret scall (cfg_signing_secret (pl_config pl)) = Ok key" "32 \<le> length key"
    "fixed_endpoint cr (cfg_endpoint_url (pl_config pl)) = Ok u"
  using assms
  by (auto simp: activate_def prepare_webhook_def endpoint_def and_then_Ok_iff not_less split: result.splits if_splits)

lemma resolve_secret_no_panic [no_panic_intros]: "no_panic (resolve_secret call reference)"
  unfolding resolve_secret_def by (intro no_panic_intros)

lemma prepare_webhook_no_panic:
  assumes "validate cr c = Ok ()"
  shows "no_panic (prepare_webhook cr dcall scall prepare c)"
proof -
  obtain u where "fixed_endpoint cr (cfg_endpoint_url c) = Ok u"
    using validate_endpoint_Ok [OF assms] by blast
  then have e: "no_panic (endpoint cr c)" by (simp add: endpoint_def)
  show ?thesis unfolding prepare_webhook_def by (intro no_panic_intros e)
qed

text \<open>
  C25: activating a validated instance never panics. When it succeeds, the instance holds the
  endpoint its configuration names, that endpoint's origin, and the resolved signing secret, which
  has at least 32 bytes; when it fails, the instance is as it was.
\<close>

theorem activate_establishes:
  assumes "validate cr (pl_config pl) = Ok ()"
  shows "no_panic (fst (activate cr dcall scall prepare pl)) \<and>
    (fst (activate cr dcall scall prepare pl) = Ok () \<longrightarrow>
      plugin_ok cr (snd (activate cr dcall scall prepare pl)) \<and>
      pl_config (snd (activate cr dcall scall prepare pl)) = pl_config pl \<and>
      (\<exists>pw key. pl_prepared (snd (activate cr dcall scall prepare pl)) = Some pw \<and>
        resolve_secret scall (cfg_signing_secret (pl_config pl)) = Ok key \<and>
        pw_signing_key pw = as_bytes key)) \<and>
    (fst (activate cr dcall scall prepare pl) \<noteq> Ok () \<longrightarrow>
      snd (activate cr dcall scall prepare pl) = pl)"
proof (intro conjI impI)
  have "no_panic (prepare_webhook cr dcall scall prepare (pl_config pl))"
    by (rule prepare_webhook_no_panic [OF assms])
  then show "no_panic (fst (activate cr dcall scall prepare pl))"
    by (auto simp: activate_def split: result.splits)
next
  assume "fst (activate cr dcall scall prepare pl) = Ok ()"
  then have ok: "activate cr dcall scall prepare pl = (Ok (), snd (activate cr dcall scall prepare pl))"
    by (metis prod.collapse)
  show "plugin_ok cr (snd (activate cr dcall scall prepare pl))"
    and "pl_config (snd (activate cr dcall scall prepare pl)) = pl_config pl"
    and "\<exists>pw key. pl_prepared (snd (activate cr dcall scall prepare pl)) = Some pw \<and>
        resolve_secret scall (cfg_signing_secret (pl_config pl)) = Ok key \<and>
        pw_signing_key pw = as_bytes key"
    by (rule activate_Ok [OF ok]; use validate_bounds [OF assms] in \<open>simp add: plugin_ok_def\<close>)+
next
  assume "fst (activate cr dcall scall prepare pl) \<noteq> Ok ()"
  then show "snd (activate cr dcall scall prepare pl) = pl"
    by (auto simp: activate_def split: result.splits)
qed

lemma sample_validates: "validate sample_crates (pl_config sample_plugin) = Ok ()"
  by (simp add: validate_def schema_plan_def fixed_endpoint_def sample_url_def validate_callers_def
      valid_secret_reference_def valid_name_def MAX_REFERENCE_BYTES_def MAX_PAYLOAD_BYTES_def
      starts_with_def ends_with_def is_ascii_alphanumeric_def in_bytes_def plugin_sample_defs)

theorem activate_establishes_witness:
  "plugin_ok sample_crates (snd (activate sample_crates
      \<lparr>sc_context = Inr (), sc_resolve = (\<lambda>_. Inr ''postgres'')\<rparr>
      \<lparr>sc_context = Inr (), sc_resolve = (\<lambda>_. Inr (replicate 32 (CHR ''k'')))\<rparr>
      (\<lambda>_. Inr ()) sample_plugin))"
proof -
  have "fst (activate sample_crates
      \<lparr>sc_context = Inr (), sc_resolve = (\<lambda>_. Inr ''postgres'')\<rparr>
      \<lparr>sc_context = Inr (), sc_resolve = (\<lambda>_. Inr (replicate 32 (CHR ''k'')))\<rparr>
      (\<lambda>_. Inr ()) sample_plugin) = Ok ()"
    by (simp add: activate_def prepare_webhook_def resolve_secret_def schema_plan_def endpoint_def
        fixed_endpoint_def sample_url_def plugin_sample_defs)
  with activate_establishes [OF sample_validates] show ?thesis by blast
qed

end
