(* ===== verification/Runs.thy ===== *)
theory Runs
  imports Dispatch_Flow Admin_Flow Plugin
begin

text \<open>
  The plugin as a concurrent system: any number of instances, with any valid configurations, work
  on one database in any interleaving; workers are lost before or after their request; database
  calls fail; clocks read anything. The step relation is made of the flows of \<open>service.rs\<close>, with
  \<open>dispatch\<close> split at its two transactions. What holds in every reachable state and between any
  two states of a run is proved once in the locale \<open>monotone_system\<close>.
\<close>

section \<open>Worlds and steps\<close>

record flight =
  fl_plugin :: plugin
  fl_prepared :: prepared_webhook
  fl_delivery :: delivery_record

record world =
  w_db :: database
  w_flights :: "flight list"
  w_sent :: "(delivery_record \<times> send_request) list"

definition initial_world :: world where
  "initial_world = \<lparr>w_db = empty_database, w_flights = [], w_sent = []\<rparr>"

text \<open>
  \<^item> \<open>enqueue\<close>, \<open>replay\<close>: a whole call; the check of \<open>replay\<close> may have read any earlier state;
  \<^item> \<open>claim\<close>: the first transaction of a dispatch, which hands out a delivery;
  \<^item> \<open>idle\<close>: a dispatch that ends there, whatever its answer;
  \<^item> \<open>finish\<close>: the rest of a dispatch, up to and including its second transaction;
  \<^item> \<open>lose\<close>: a worker that is lost, before or after it has sent its request.
\<close>

inductive step :: "crates \<Rightarrow> world \<Rightarrow> world \<Rightarrow> bool" for cr :: crates where
  enqueue: "plugin_ok cr pl \<Longrightarrow>
    step cr w (w\<lparr>w_db := snd (enqueue_delivery cr pl env now context request (w_db w))\<rparr>)"
| replay: "plugin_ok cr pl \<Longrightarrow>
    step cr w (w\<lparr>w_db := snd (replay_delivery cr pl env context rrequest s s' (w_db w))\<rparr>)"
| claim: "plugin_ok cr pl \<Longrightarrow>
    dispatch_claim pl env context (w_db w) = (Ok (pw, Some d), s') \<Longrightarrow>
    step cr w (w\<lparr>w_db := s', w_flights := \<lparr>fl_plugin = pl, fl_prepared = pw, fl_delivery = d\<rparr> # w_flights w\<rparr>)"
| idle: "plugin_ok cr pl \<Longrightarrow>
    (\<And>pw d. fst (dispatch_claim pl env context (w_db w)) \<noteq> Ok (pw, Some d)) \<Longrightarrow>
    step cr w (w\<lparr>w_db := snd (dispatch_claim pl env context (w_db w))\<rparr>)"
| finish: "f \<in> set (w_flights w) \<Longrightarrow>
    dispatch_claimed cr (fl_plugin f) (fl_prepared f) http ck env context (fl_delivery f) (w_db w)
      = ((answer, s'), sent) \<Longrightarrow>
    step cr w (w\<lparr>w_db := s', w_flights := remove1 f (w_flights w),
      w_sent := w_sent w @ map (Pair (fl_delivery f)) sent\<rparr>)"
| lose: "f \<in> set (w_flights w) \<Longrightarrow>
    sent = [] \<or> sent = snd (dispatch_claimed cr (fl_plugin f) (fl_prepared f) http ck env context
      (fl_delivery f) (w_db w)) \<Longrightarrow>
    step cr w (w\<lparr>w_flights := remove1 f (w_flights w),
      w_sent := w_sent w @ map (Pair (fl_delivery f)) sent\<rparr>)"

abbreviation reachable :: "crates \<Rightarrow> world \<Rightarrow> bool" where
  "reachable cr w \<equiv> (step cr)\<^sup>*\<^sup>* initial_world w"

section \<open>Invariants and relations along a run\<close>

locale monotone_system =
  fixes move :: "'w \<Rightarrow> 'w \<Rightarrow> bool"
    and inv :: "'w \<Rightarrow> bool"
    and rel :: "'w \<Rightarrow> 'w \<Rightarrow> bool"
  assumes inv_move: "inv w \<Longrightarrow> move w w' \<Longrightarrow> inv w'"
    and rel_refl: "rel w w"
    and rel_trans: "rel w w' \<Longrightarrow> rel w' w'' \<Longrightarrow> rel w w''"
    and rel_move: "inv w \<Longrightarrow> move w w' \<Longrightarrow> rel w w'"
begin

lemma inv_run: "move\<^sup>*\<^sup>* w w' \<Longrightarrow> inv w \<Longrightarrow> inv w'"
  by (induction rule: rtranclp_induct) (auto intro: inv_move)

lemma rel_run: "move\<^sup>*\<^sup>* w w' \<Longrightarrow> inv w \<Longrightarrow> rel w w'"
  by (induction rule: rtranclp_induct) (auto intro: rel_refl rel_trans rel_move inv_run)

end

section \<open>The deliveries in flight\<close>

definition attempt_of :: "delivery_record \<Rightarrow> string \<times> int \<times> int" where
  "attempt_of d = (dr_delivery_id d, dr_replay_count d, dr_attempts d)"

definition snapshot_of :: "delivery_record \<Rightarrow> delivery_row \<Rightarrow> bool" where
  "snapshot_of d r \<longleftrightarrow>
     dr_delivery_id d = row_delivery_id r \<and> dr_event_id d = row_event_id r \<and>
     dr_payload_snapshot d = row_payload_snapshot r \<and> dr_endpoint_url d = row_endpoint_url r \<and>
     dr_endpoint_origin d = row_endpoint_origin r \<and> dr_max_attempts d = row_max_attempts r"

text \<open>A claimed delivery is a snapshot of its row at this or an earlier version.\<close>

definition record_ok :: "database \<Rightarrow> delivery_record \<Rightarrow> bool" where
  "record_ok s d \<longleftrightarrow> 1 \<le> dr_attempts d \<and> dr_attempts d \<le> dr_max_attempts d \<and> 0 \<le> dr_replay_count d \<and>
     (\<exists>r \<in> set (deliveries s). snapshot_of d r \<and>
        (dr_replay_count d, dr_attempts d) \<le> (row_replay_count r, row_attempts r))"

lemma row_moves_version:
  "row_moves r r' \<Longrightarrow> (row_replay_count r, row_attempts r) \<le> (row_replay_count r', row_attempts r')"
  using life_step_version [of "life_of r" "life_of r'"]
  by (auto simp: row_moves_def life_of_def life_version_def)

lemma record_ok_refines:
  assumes "record_ok s d" and "refines s s'"
  shows "record_ok s' d"
proof -
  obtain r where r: "r \<in> set (deliveries s)" "snapshot_of d r"
    "(dr_replay_count d, dr_attempts d) \<le> (row_replay_count r, row_attempts r)"
    using assms(1) by (auto simp: record_ok_def)
  obtain r' where r': "r' \<in> set (deliveries s')" "row_moves r r'"
    using assms(2) r(1) by (auto simp: refines_def)
  have "snapshot_of d r'"
    using r(2) r'(2) by (simp add: snapshot_of_def row_moves_def same_snapshot_def)
  moreover have "(dr_replay_count d, dr_attempts d) \<le> (row_replay_count r', row_attempts r')"
    using r(3) row_moves_version [OF r'(2)] by (rule order_trans)
  ultimately show ?thesis using assms(1) r'(1) unfolding record_ok_def by blast
qed

lemma decoded_snapshot:
  "decode_delivery env r = Ok d \<Longrightarrow> snapshot_of d r \<and> dr_replay_count d = row_replay_count r \<and>
    dr_attempts d = row_attempts r"
  by (auto simp: decode_delivery_def snapshot_of_def and_then_Ok_iff split: if_splits)

section \<open>What one step does to the database\<close>

text \<open>Good for the database: it stays well-formed, moves along the lifecycle, keeps its receipts.\<close>

definition advances :: "database \<Rightarrow> database \<Rightarrow> bool" where
  "advances s s' \<longleftrightarrow> store_ok s' \<and> refines s s' \<and> extends s s'"

lemma advances_refl: "store_ok s \<Longrightarrow> advances s s"
  by (simp add: advances_def)

lemma enqueue_advances:
  assumes "store_ok s"
  shows "advances s (snd (enqueue_delivery cr pl env now context request s))"
proof (cases "enqueue_prepare cr pl now context request")
  case (Ok new)
  have "advances s (snd (insert_or_get cr env new s))"
    using insert_op.keeps_ok [of s "(cr, new)" env] insert_op.refines_lifecycle [of s "(cr, new)" env]
      insert_op.extends_receipts [of s "(cr, new)" env] assms by (simp add: advances_def)
  then show ?thesis
    by (cases "insert_or_get cr env new s"; cases "fst (insert_or_get cr env new s)")
      (auto simp: enqueue_delivery_def Ok)
qed (use assms in \<open>simp_all add: enqueue_delivery_def advances_refl\<close>)

lemma begin_replay_advances: "store_ok s \<Longrightarrow> advances s (snd (begin_replay env i s))"
  using begin_replay_ok by (simp add: advances_def)

lemma snd_ok_or [simp]: "snd (and_then_db (ok_or e x, s) (\<lambda>y. Pair (f y))) = s"
  by (cases x) auto

lemma replay_snd:
  "snd (replay_delivery cr pl env context request s s' s'') \<in>
    {s'', snd (begin_replay env (rpl_request_delivery_id request) s'')}"
proof (cases "replay_admits pl context request")
  case True
  let ?i = "rpl_request_delivery_id request"
  show ?thesis
  proof (cases "load cr env ?i s s'")
    case (Ok found)
    then show ?thesis
      by (cases found; cases "begin_replay env ?i s''"; cases "fst (begin_replay env ?i s'')")
        (auto simp: replay_admitted [OF True])
  qed (simp_all add: replay_admitted [OF True])
next
  case False
  then show ?thesis by (auto simp: replay_delivery_def replay_admits_def prepared_def)
qed

lemma replay_advances:
  "store_ok s'' \<Longrightarrow> advances s'' (snd (replay_delivery cr pl env context request s s' s''))"
  using replay_snd [of cr pl env "context" request s s' s''] begin_replay_advances advances_refl
  by auto

lemma dispatch_claim_snd:
  "snd (dispatch_claim pl env context s) \<in>
    {s, snd (claim_due env (cfg_queue_name (pl_config pl)) (cfg_lease_seconds (pl_config pl)) s)}"
proof (cases "claim_due env (cfg_queue_name (pl_config pl)) (cfg_lease_seconds (pl_config pl)) s")
  case (Pair r s')
  then show ?thesis
    by (cases "pl_prepared pl"; cases r) (auto simp: dispatch_claim_def prepared_def)
qed

lemma dispatch_claim_advances:
  "store_ok s \<Longrightarrow> advances s (snd (dispatch_claim pl env context s))"
  using dispatch_claim_snd [of pl env "context" s] claim_due_ok claim_due_refines advances_refl
  by (auto simp: advances_def)

text \<open>The second transaction of a dispatch only ever records an allowed outcome of its attempt.\<close>

lemma dispatch_claimed_snd:
  "snd (fst (dispatch_claimed cr pl pw http ck env context d s)) = s \<or>
   (\<exists>receipt status at. rc_attempt receipt = dr_attempts d \<and> status \<noteq> Queued \<and>
      (status = RetryScheduled \<longrightarrow> dr_attempts d < dr_max_attempts d) \<and>
      snd (fst (dispatch_claimed cr pl pw http ck env context d s)) =
        snd (record_outcome cr env (dr_delivery_id d) (dr_replay_count d) receipt status at s))"
  (is "?same \<or> ?recorded")
proof -
  have call: "snd (and_then_db (map_store_err AdminRuntime p) (\<lambda>_. Pair g)) = snd p"
    for p :: "(unit, store_error) result \<times> database"
      and g :: "(dispatch_response, admin_flow_error) result"
    by (cases p; cases "fst p") auto
  show ?thesis
  proof (cases "endpoint_changed pl pw d")
    case True
    have ?recorded
      using True call
      by (intro exI [where x = "new_receipt d ''endpoint_configuration_changed'' None None (ck_receipt ck)"]
          exI [where x = DeadLetter] exI [where x = None])
        (simp add: dispatch_claimed_def Let_def new_receipt_def)
    then show ?thesis ..
  next
    case False
    show ?thesis
    proof (cases "signed_request cr pw d (ck_signed ck)")
      case (Ok request)
      let ?response = "http context request"
      have run: "fst (dispatch_claimed cr pl pw http ck env context d s) =
          finish_dispatch cr (pl_config pl) d ?response ck env s"
        using False Ok by (simp add: dispatch_claimed_def)
      consider (settles) "settled ?response" "retry_in_range cr (pl_config pl) d ?response (ck_retry ck)"
        | (panics) "settled ?response" "\<not> retry_in_range cr (pl_config pl) d ?response (ck_retry ck)"
        | (unknown) error where "?response = Inl (HttpRuntime error)"
        by (auto simp: settled_def)
      then show ?thesis
      proof cases
        case settles
        have ?recorded
          unfolding run settle_eq [OF settles(1)] if_P [OF settles(2)] call
          by (intro exI [where x = "fst (result_receipt cr d ?response (ck_receipt ck))"]
              exI [where x = "documented_status ?response (dr_attempts d) (dr_max_attempts d)"]
              exI [where x = "next_attempt_at (pl_config pl) d ?response (ck_retry ck)"])
            (simp add: documented_status_def)
        then show ?thesis ..
      next
        case panics
        then have ?same unfolding run settle_eq [OF panics(1)] if_not_P [OF panics(2)] by simp
        then show ?thesis ..
      next
        case unknown
        have ?recorded
          unfolding run using call unknown
          by (intro exI [where x = "new_receipt d ''http_runtime_failure'' None None (ck_receipt ck)"]
              exI [where x = Delivering] exI [where x = None])
            (simp add: finish_dispatch_def new_receipt_def)
        then show ?thesis ..
      qed
    qed (use False in \<open>simp_all add: dispatch_claimed_def\<close>)
  qed
qed

lemma dispatch_claimed_advances:
  assumes "store_ok s" and "record_ok s d"
  shows "advances s (snd (fst (dispatch_claimed cr pl pw http ck env context d s)))"
  using dispatch_claimed_snd [of cr pl pw http ck env "context" d s]
proof (elim disjE exE conjE)
  fix receipt :: delivery_receipt and status :: delivery_status and at :: "int option"
  let ?i = "(cr, dr_delivery_id d, dr_replay_count d, receipt, status, at)"
  assume r: "rc_attempt receipt = dr_attempts d" "status \<noteq> Queued"
    "status = RetryScheduled \<longrightarrow> dr_attempts d < dr_max_attempts d"
    and run: "snd (fst (dispatch_claimed cr pl pw http ck env context d s)) =
        snd (record_outcome cr env (dr_delivery_id d) (dr_replay_count d) receipt status at s)"
  have "row_max_attempts r = dr_max_attempts d"
    if "r \<in> set (deliveries s)" "row_delivery_id r = dr_delivery_id d" for r
    using assms(2) store_ok_unique [OF assms(1) that(1)] that(2)
    by (auto simp: record_ok_def snapshot_of_def)
  then have "outcome_allowed (dr_delivery_id d) (rc_attempt receipt) status s"
    using r by (auto simp: outcome_allowed_def)
  then show ?thesis
    using record_op.keeps_ok [of s ?i env] record_op.refines_lifecycle [of s ?i env]
      record_op.extends_receipts [of s ?i env] assms(1)
    by (simp add: run advances_def)
qed (simp add: advances_refl [OF assms(1)])

section \<open>Where rows come from\<close>

definition stems :: "database \<Rightarrow> database \<Rightarrow> bool" where
  "stems s s' \<longleftrightarrow> (\<forall>r' \<in> set (deliveries s'). \<exists>r \<in> set (deliveries s). same_snapshot r r')"

lemma stems_refl [simp]: "stems s s"
  by (auto simp: stems_def intro: same_snapshot_refl)

lemma stems_map: "(\<And>r. same_snapshot r (g r)) \<Longrightarrow> deliveries s' = map g (deliveries s) \<Longrightarrow> stems s s'"
  by (auto simp: stems_def)

lemma claim_due_stems:
  assumes "store_ok s"
  shows "stems s (snd (claim_due env queue lease s))"
proof (cases "snd (claim_due env queue lease s) = s")
  case False
  obtain s1 where "claim_statement env queue lease s =
      Some (map (claim_row env lease)
              (filter (\<lambda>r. r \<in> set (candidate env queue (expired env queue s) s)) (deliveries s)),
            s1\<lparr>deliveries := map (claim_step env lease (expired env queue s)
              (candidate env queue (expired env queue s) s)) (deliveries s)\<rparr>)"
    by (rule claim_statement_eq [OF assms])
  then have "snd (claim_due env queue lease s) = s1\<lparr>deliveries := map (claim_step env lease
      (expired env queue s) (candidate env queue (expired env queue s) s)) (deliveries s)\<rparr>"
    using claim_due_snd [of env queue lease s] False by auto
  then show ?thesis
    by (intro stems_map [where g = "claim_step env lease (expired env queue s)
        (candidate env queue (expired env queue s) s)"]) (simp_all add: claim_step_def)
qed simp

lemma record_outcome_stems:
  assumes "store_ok s"
  shows "stems s (snd (record_outcome cr env i c receipt status at s))"
proof -
  have "snd (record_outcome cr env i c receipt status at s) = s \<or>
      recorded cr env i c receipt status at s (snd (record_outcome cr env i c receipt status at s))"
    using record_outcome_cases [of cr env i c receipt status at s] by auto
  then show ?thesis
  proof
    assume "recorded cr env i c receipt status at s (snd (record_outcome cr env i c receipt status at s))"
    then show ?thesis
      by (rule recordedE [OF assms])
        (rule stems_map [where g = "\<lambda>r'. if outcome_matches env i c (rc_attempt receipt) r'
          then outcome_row env (delivery_status_as_str status) (map_option (pg_micros cr) at) r' else r'"],
        simp_all)
  qed simp
qed

lemma begin_replay_stems: "store_ok s \<Longrightarrow> stems s (snd (begin_replay env i s))"
  using begin_replay_snd [of s env i]
  by (auto simp: replayed_def intro: stems_map [where g = "\<lambda>r. if replayable i r then replay_row env r else r"])

text \<open>What every stored delivery is, from the moment it is enqueued.\<close>

definition identity_ok :: "crates \<Rightarrow> database \<Rightarrow> bool" where
  "identity_ok cr s \<longleftrightarrow> (\<forall>r \<in> set (deliveries s).
     row_delivery_id r = stable_delivery_id cr (row_endpoint_url r) (row_event_id r) \<and>
     row_payload_sha256 r = sha256_hex cr (row_payload_snapshot r) \<and>
     (\<exists>u. fixed_endpoint cr (row_endpoint_url r) = Ok u \<and>
       row_endpoint_origin r = config_endpoint_origin u))"

lemma identity_stems: "identity_ok cr s \<Longrightarrow> stems s s' \<Longrightarrow> identity_ok cr s'"
  unfolding identity_ok_def stems_def same_snapshot_def by (metis (no_types, lifting))

lemma identity_enqueue:
  assumes "identity_ok cr s" and "plugin_ok cr pl"
  shows "identity_ok cr (snd (enqueue_delivery cr pl env now context request s))"
proof (cases "enqueue_prepare cr pl now context request")
  case (Ok new)
  obtain pw snapshot where adm: "enqueue_admits cr pl context request pw snapshot"
    and new: "new = new_delivery_of cr pl pw request snapshot (now - now mod 1000)"
    using Ok by (auto simp: enqueue_prepare_Ok)
  have snd: "snd (enqueue_delivery cr pl env now context request s) = snd (insert_or_get cr env new s)"
    by (cases "insert_or_get cr env new s"; cases "fst (insert_or_get cr env new s)")
      (auto simp: enqueue_delivery_def Ok)
  show ?thesis
  proof (rule insert_or_get_cases [of cr env new s])
    assume "snd (insert_or_get cr env new s) = s"
    with snd assms(1) show ?thesis by simp
  next
    fix s1
    assume "insert_delivery (new_row cr env new (nd_max_attempts new)) s = Some (1, s1)"
      and run: "insert_or_get cr env new s =
        commit env ''commit delivery enqueue'' s s1 (Created (created_record new))"
    then have "deliveries s1 = deliveries s @ [new_row cr env new (nd_max_attempts new)]"
      by (auto simp: insert_delivery_def split: if_splits)
    moreover have "pw_endpoint_origin pw = config_endpoint_origin (pw_endpoint pw)"
      "fixed_endpoint cr (cfg_endpoint_url (pl_config pl)) = Ok (pw_endpoint pw)"
      using adm assms(2) by (auto simp: enqueue_admits_def plugin_ok_def)
    ultimately have "identity_ok cr s1"
      using assms(1) by (auto simp: identity_ok_def new new_row_def new_delivery_of_def)
    then show ?thesis using assms(1) by (simp add: snd run commit_def)
  qed
qed (use assms in \<open>simp_all add: enqueue_delivery_def\<close>)

section \<open>The invariant of a run\<close>

definition request_ok :: "crates \<Rightarrow> delivery_record \<Rightarrow> send_request \<Rightarrow> bool" where
  "request_ok cr d request \<longleftrightarrow>
     sr_method request = ''POST'' \<and> sr_body request = dr_payload_snapshot d \<and>
     (''x-lenso-webhook-id'', dr_delivery_id d) \<in> set (sr_headers request) \<and>
     (''x-lenso-webhook-event-id'', dr_event_id d) \<in> set (sr_headers request) \<and>
     (\<exists>u. fixed_endpoint cr (dr_endpoint_url d) = Ok u \<and> sr_url request = url_as_str u \<and>
       dr_endpoint_origin d = config_endpoint_origin u)"

definition flight_ok :: "crates \<Rightarrow> database \<Rightarrow> flight \<Rightarrow> bool" where
  "flight_ok cr s f \<longleftrightarrow> plugin_ok cr (fl_plugin f) \<and>
     pl_prepared (fl_plugin f) = Some (fl_prepared f) \<and> record_ok s (fl_delivery f)"

text \<open>The attempts that are in flight or have sent their request.\<close>

definition taken :: "world \<Rightarrow> delivery_record list" where
  "taken w = map fl_delivery (w_flights w) @ map fst (w_sent w)"

definition world_ok :: "crates \<Rightarrow> world \<Rightarrow> bool" where
  "world_ok cr w \<longleftrightarrow> store_ok (w_db w) \<and> identity_ok cr (w_db w) \<and>
     (\<forall>f \<in> set (w_flights w). flight_ok cr (w_db w) f) \<and>
     (\<forall>(d, request) \<in> set (w_sent w). record_ok (w_db w) d \<and> request_ok cr d request) \<and>
     distinct (map attempt_of (taken w))"

lemma initial_world_ok: "world_ok cr initial_world"
  using store_ok_empty
  by (simp add: world_ok_def initial_world_def identity_ok_def taken_def)
    (simp add: empty_database_def)

lemma taken_record_ok: "world_ok cr w \<Longrightarrow> d \<in> set (taken w) \<Longrightarrow> record_ok (w_db w) d"
  by (fastforce simp: world_ok_def taken_def flight_ok_def)

text \<open>A step that only touches the database.\<close>

lemma world_ok_database:
  assumes "world_ok cr w" and "advances (w_db w) s'" and "identity_ok cr s'"
  shows "world_ok cr (w\<lparr>w_db := s'\<rparr>)"
  using assms record_ok_refines [of "w_db w" _ s']
  by (auto simp: world_ok_def advances_def flight_ok_def taken_def)

text \<open>Giving up a flight, with what it has sent.\<close>

lemma world_ok_land:
  assumes "world_ok cr w" and "f \<in> set (w_flights w)"
    and "sent = [] \<or> (\<exists>request. sent = [request] \<and> request_ok cr (fl_delivery f) request)"
  shows "world_ok cr (w\<lparr>w_flights := remove1 f (w_flights w),
    w_sent := w_sent w @ map (Pair (fl_delivery f)) sent\<rparr>)"
proof -
  obtain xs ys where split: "w_flights w = xs @ f # ys" "f \<notin> set xs"
    using assms(2) by (meson split_list_first)
  then have rest: "remove1 f (w_flights w) = xs @ ys" by (simp add: remove1_append)
  have f: "flight_ok cr (w_db w) f" using assms(1,2) by (simp add: world_ok_def)
  let ?key = "attempt_of \<circ> fl_delivery" and ?sent = "map (attempt_of \<circ> fst) (w_sent w)"
  have "distinct (map ?key xs @ attempt_of (fl_delivery f) # (map ?key ys @ ?sent))"
    using assms(1) by (simp add: world_ok_def taken_def split(1))
  then have "distinct (map ?key xs @ (map ?key ys @ ?sent) @ [attempt_of (fl_delivery f)])"
    and "distinct (map ?key xs @ (map ?key ys @ ?sent))"
    by (auto simp del: set_map)
  then have "distinct (map attempt_of (map fl_delivery (xs @ ys) @ map fst (w_sent w @ map (Pair (fl_delivery f)) sent)))"
    using assms(3) by (elim disjE exE conjE) (simp_all only: list.map map_append map_map fst_conv
        append_Nil2 append_assoc)
  then show ?thesis
    using assms(1,3) f rest
    by (auto simp: world_ok_def taken_def flight_ok_def split(1))
qed

text \<open>A claim takes an attempt nobody has taken before.\<close>

lemma claim_record_ok:
  assumes "store_ok s" and "claim_due env queue lease s = (Ok (Some d), s')"
  shows "record_ok s' d"
    and "record_ok s d' \<Longrightarrow> attempt_of d' \<noteq> attempt_of d"
proof -
  obtain r where r: "candidate env queue (expired env queue s) s = [r]" "r \<in> set (deliveries s)"
    and dec: "decode_delivery env (claim_row env lease r) = Ok d"
    and mem: "claim_row env lease r \<in> set (deliveries s')"
    by (rule claim_due_Some [OF assms])
  have "row_attempts r < row_max_attempts r"
    using in_candidate(2) [of r env queue "expired env queue s" s] r(1) by (simp add: due_def)
  moreover have "0 \<le> row_attempts r" "0 \<le> row_replay_count r"
    using store_ok_row [OF assms(1) r(2)] by (auto simp: row_ok_def delivery_checks_def)
  ultimately show "record_ok s' d"
    using decoded_snapshot [OF dec] mem
    by (auto simp: record_ok_def claim_row_def snapshot_of_def intro!: bexI [where x = "claim_row env lease r"])
  show "attempt_of d' \<noteq> attempt_of d" if "record_ok s d'"
  proof
    assume eq: "attempt_of d' = attempt_of d"
    obtain r0 where r0: "r0 \<in> set (deliveries s)" "dr_delivery_id d' = row_delivery_id r0"
      "(dr_replay_count d', dr_attempts d') \<le> (row_replay_count r0, row_attempts r0)"
      using \<open>record_ok s d'\<close> by (auto simp: record_ok_def snapshot_of_def)
    have "row_delivery_id r0 = row_delivery_id r"
      using eq r0(2) decoded_snapshot [OF dec] by (simp add: attempt_of_def snapshot_of_def claim_row_def)
    then have "r0 = r" using store_ok_unique [OF assms(1) r0(1) r(2)] by simp
    then show False
      using r0(3) eq decoded_snapshot [OF dec] by (simp add: attempt_of_def claim_row_def)
  qed
qed

lemma claim_step_ok:
  assumes "world_ok cr w" and "plugin_ok cr pl"
    and "dispatch_claim pl env context (w_db w) = (Ok (pw, Some d), s')"
  shows "world_ok cr (w\<lparr>w_db := s',
    w_flights := \<lparr>fl_plugin = pl, fl_prepared = pw, fl_delivery = d\<rparr> # w_flights w\<rparr>)"
proof -
  have ok: "store_ok (w_db w)" and ident: "identity_ok cr (w_db w)"
    using assms(1) by (simp_all add: world_ok_def)
  have claim: "claim_due env (cfg_queue_name (pl_config pl)) (cfg_lease_seconds (pl_config pl)) (w_db w)
      = (Ok (Some d), s')" and pw: "pl_prepared pl = Some pw"
    using assms(3) by (simp_all add: dispatch_claim_Ok)
  have adv: "advances (w_db w) s'"
    using dispatch_claim_advances [OF ok, of pl env "context"] assms(3) by simp
  have "stems (w_db w) s'"
    using claim_due_stems [OF ok, of env "cfg_queue_name (pl_config pl)" "cfg_lease_seconds (pl_config pl)"] claim
    by simp
  then have "world_ok cr (w\<lparr>w_db := s'\<rparr>)"
    using world_ok_database [OF assms(1) adv] identity_stems [OF ident] by blast
  moreover have "attempt_of d \<notin> set (map attempt_of (taken w))"
    using claim_record_ok(2) [OF ok claim] taken_record_ok [OF assms(1)] by force
  ultimately show ?thesis
    using claim_record_ok(1) [OF ok claim] assms(2) pw
    by (simp add: world_ok_def taken_def flight_ok_def)
qed

lemma dispatch_claimed_stems:
  "store_ok s \<Longrightarrow> stems s (snd (fst (dispatch_claimed cr pl pw http ck env context d s)))"
  using dispatch_claimed_snd [of cr pl pw http ck env "context" d s] record_outcome_stems by fastforce

lemma flight_sends:
  assumes "flight_ok cr s f"
  shows "snd (dispatch_claimed cr (fl_plugin f) (fl_prepared f) http ck env context (fl_delivery f) t) = [] \<or>
    (\<exists>request. snd (dispatch_claimed cr (fl_plugin f) (fl_prepared f) http ck env context (fl_delivery f) t)
        = [request] \<and> request_ok cr (fl_delivery f) request)"
proof (cases "snd (dispatch_claimed cr (fl_plugin f) (fl_prepared f) http ck env context (fl_delivery f) t)")
  case (Cons request rest)
  then have mem: "request \<in> set (snd (dispatch_claimed cr (fl_plugin f) (fl_prepared f) http ck env context
      (fl_delivery f) t))" by simp
  note sends = dispatch_claimed_sends [OF mem]
  have "fixed_endpoint cr (cfg_endpoint_url (pl_config (fl_plugin f))) = Ok (pw_endpoint (fl_prepared f))"
    "pw_endpoint_origin (fl_prepared f) = config_endpoint_origin (pw_endpoint (fl_prepared f))"
    using assms by (auto simp: flight_ok_def plugin_ok_def)
  then have "request_ok cr (fl_delivery f) request"
    using sends(1,2) by (auto simp: request_ok_def signed_request_Ok endpoint_changed_def webhook_headers_def)
  with sends(3) show ?thesis by blast
qed simp

text \<open>Every step keeps the invariant.\<close>

lemma step_world_ok: "step cr w w' \<Longrightarrow> world_ok cr w \<Longrightarrow> world_ok cr w'"
proof (induction rule: step.induct)
  case (enqueue pl w env now "context" request)
  then show ?case
    by (intro world_ok_database enqueue_advances identity_enqueue) (simp_all add: world_ok_def)
next
  case (replay pl w env "context" rrequest s s')
  then have ok: "store_ok (w_db w)" "identity_ok cr (w_db w)" by (simp_all add: world_ok_def)
  have "stems (w_db w) (snd (replay_delivery cr pl env context rrequest s s' (w_db w)))"
    using replay_snd [of cr pl env "context" rrequest s s' "w_db w"] begin_replay_stems [OF ok(1)]
    by auto
  with replay ok show ?case
    by (intro world_ok_database replay_advances) (auto intro: identity_stems)
next
  case (claim pl env "context" w pw d s')
  then show ?case by (blast intro: claim_step_ok)
next
  case (idle pl env "context" w)
  then have ok: "store_ok (w_db w)" "identity_ok cr (w_db w)" by (simp_all add: world_ok_def)
  have "stems (w_db w) (snd (dispatch_claim pl env context (w_db w)))"
    using dispatch_claim_snd [of pl env "context" "w_db w"] claim_due_stems [OF ok(1)] by auto
  with idle ok show ?case
    by (intro world_ok_database dispatch_claim_advances) (auto intro: identity_stems)
next
  case (finish f w http ck env "context" answer s' sent)
  then have ok: "store_ok (w_db w)" "identity_ok cr (w_db w)" and f: "flight_ok cr (w_db w) f"
    by (simp_all add: world_ok_def)
  let ?run = "dispatch_claimed cr (fl_plugin f) (fl_prepared f) http ck env context (fl_delivery f) (w_db w)"
  have "advances (w_db w) s'" "identity_ok cr s'"
    using dispatch_claimed_advances [OF ok(1), of "fl_delivery f" cr "fl_plugin f" "fl_prepared f" http ck env "context"]
      dispatch_claimed_stems [OF ok(1), of cr "fl_plugin f" "fl_prepared f" http ck env "context" "fl_delivery f"]
      f finish.hyps(2) identity_stems [OF ok(2)] by (simp_all add: flight_ok_def)
  then have "world_ok cr (w\<lparr>w_db := s'\<rparr>)" using finish.prems by (intro world_ok_database)
  then have "world_ok cr ((w\<lparr>w_db := s'\<rparr>)\<lparr>w_flights := remove1 f (w_flights (w\<lparr>w_db := s'\<rparr>)),
      w_sent := w_sent (w\<lparr>w_db := s'\<rparr>) @ map (Pair (fl_delivery f)) sent\<rparr>)"
    using flight_sends [OF f, of http ck env "context" "w_db w"] finish.hyps
    by (intro world_ok_land) simp_all
  then show ?case by simp
next
  case (lose f w sent http ck env "context")
  then have "flight_ok cr (w_db w) f" by (simp add: world_ok_def)
  then show ?case
    using lose flight_sends [of cr "w_db w" f http ck env "context" "w_db w"]
    by (intro world_ok_land) auto
qed

section \<open>The history of a run\<close>

text \<open>
  Between two states of a run every delivery is still there with its immutable columns and has
  moved along the lifecycle; receipts and sent requests have only been appended.
\<close>

definition history :: "world \<Rightarrow> world \<Rightarrow> bool" where
  "history w w' \<longleftrightarrow>
     (\<forall>r \<in> set (deliveries (w_db w)). \<exists>r' \<in> set (deliveries (w_db w')).
        same_snapshot r r' \<and> life_step\<^sup>*\<^sup>* (life_of r) (life_of r')) \<and>
     prefix (attempts (w_db w)) (attempts (w_db w')) \<and> prefix (w_sent w) (w_sent w')"

lemma history_refl: "history w w"
  by (auto simp: history_def intro: same_snapshot_refl)

lemma history_trans: "history w w' \<Longrightarrow> history w' w'' \<Longrightarrow> history w w''"
  unfolding history_def
  by (meson prefix_order.trans rtranclp_trans same_snapshot_trans)

lemma history_advances:
  assumes "advances (w_db w) (w_db w')" and "prefix (w_sent w) (w_sent w')"
  shows "history w w'"
proof -
  have "\<exists>r' \<in> set (deliveries (w_db w')). same_snapshot r r' \<and> life_step\<^sup>*\<^sup>* (life_of r) (life_of r')"
    if r: "r \<in> set (deliveries (w_db w))" for r
  proof -
    obtain r' where "r' \<in> set (deliveries (w_db w'))" "row_moves r r'"
      using assms(1) r by (auto simp: advances_def refines_def)
    then show ?thesis by (auto simp: row_moves_def)
  qed
  then show ?thesis using assms by (auto simp: history_def advances_def extends_def)
qed

lemma step_history: "world_ok cr w \<Longrightarrow> step cr w w' \<Longrightarrow> history w w'"
proof (rule history_advances)
  assume ok: "world_ok cr w" and move: "step cr w w'"
  show "prefix (w_sent w) (w_sent w')" using move by cases simp_all
  have s: "store_ok (w_db w)" using ok by (simp add: world_ok_def)
  show "advances (w_db w) (w_db w')"
    using move
  proof cases
    case (claim pl env "context" pw d s')
    then show ?thesis using dispatch_claim_advances [OF s, of pl env "context"] by simp
  next
    case (finish f http ck env "context" answer s' sent)
    have "record_ok (w_db w) (fl_delivery f)" using ok finish(2) by (auto simp: world_ok_def flight_ok_def)
    from dispatch_claimed_advances [OF s this, of cr "fl_plugin f" "fl_prepared f" http ck env "context"]
    show ?thesis using finish by simp
  qed (simp_all add: s enqueue_advances replay_advances dispatch_claim_advances advances_refl)
qed

interpretation runs: monotone_system "step cr" "world_ok cr" history
  by unfold_locales (auto intro: step_world_ok history_refl history_trans step_history)

lemma reachable_ok: "reachable cr w \<Longrightarrow> world_ok cr w"
  using runs.inv_run initial_world_ok by blast

section \<open>Properties of every run\<close>

text \<open>
  C3: in every reachable state of any number of plugin instances working on one database, in any
  interleaving and with any failures, the tables are consistent: identities and event ids are
  unique, every receipt satisfies the constraints of its table, belongs to a stored delivery and is
  the only one of its attempt, attempts and cycles are within their limits, a lease runs exactly
  while a delivery is delivering, and the audit trail is complete: in the current cycle every
  finished attempt has its receipt, every earlier cycle has receipts for exactly its attempts
  \<open>1\<close> to \<open>n\<close>, where it made at least one and at most as many as the delivery has, and no receipt
  is ahead of its delivery.
\<close>

theorem reachable_store_consistent:
  assumes "reachable cr w"
  shows "distinct (map row_delivery_id (deliveries (w_db w))) \<and>
    distinct (map row_event_id (deliveries (w_db w))) \<and>
    distinct (map attempt_key (attempts (w_db w))) \<and>
    (\<forall>a \<in> set (attempts (w_db w)).
      att_delivery_id a \<in> row_delivery_id ` set (deliveries (w_db w)) \<and>
      1 \<le> att_attempt a \<and> att_attempt a \<le> 100 \<and>
      (\<forall>code. att_http_status a = Some code \<longrightarrow> 100 \<le> code \<and> code \<le> 599)) \<and>
    (\<forall>r \<in> set (deliveries (w_db w)).
      0 \<le> row_attempts r \<and> row_attempts r \<le> row_max_attempts r \<and>
      1 \<le> row_max_attempts r \<and> row_max_attempts r \<le> 100 \<and>
      0 \<le> row_replay_count r \<and> row_replay_count r \<le> 1000000 \<and>
      (row_status r = ''delivering'') = (row_lease_expires_at r \<noteq> None) \<and>
      (\<forall>k. 1 \<le> k \<and> (k < row_attempts r \<or> k = row_attempts r \<and> row_status r \<noteq> ''delivering'') \<longrightarrow>
        (row_delivery_id r, row_replay_count r, k) \<in> receipted (w_db w)) \<and>
      (\<forall>j. 0 \<le> j \<and> j < row_replay_count r \<longrightarrow>
        (\<exists>n. 1 \<le> n \<and> n \<le> row_max_attempts r \<and>
          (\<forall>k. (row_delivery_id r, j, k) \<in> receipted (w_db w) \<longleftrightarrow> 1 \<le> k \<and> k \<le> n))) \<and>
      (\<forall>j k. (row_delivery_id r, j, k) \<in> receipted (w_db w) \<longrightarrow>
        (j, k) \<le> (row_replay_count r, row_attempts r)))"
  (is "_ \<and> _ \<and> _ \<and> (\<forall>a \<in> _. ?receipt a) \<and> (\<forall>r \<in> _. ?row r)")
proof -
  have ok: "store_ok (w_db w)" using reachable_ok [OF assms] by (simp add: world_ok_def)
  have checks: "1 \<le> att_attempt a \<and> att_attempt a \<le> 100 \<and>
      (\<forall>code. att_http_status a = Some code \<longrightarrow> 100 \<le> code \<and> code \<le> 599)"
    if "a \<in> set (attempts (w_db w))" for a
  proof -
    have "attempt_checks a" using ok that by (simp add: store_ok_def)
    then show ?thesis by (simp add: attempt_checks_def split: option.splits)
  qed
  have positive: "1 \<le> k" if "(i, j, k) \<in> receipted (w_db w)" for i j k
    using that checks by (auto simp: receipted_def attempt_key_def)
  have receipts: "(j, k) \<le> (row_replay_count r, row_attempts r)"
    if "r \<in> set (deliveries (w_db w))" "(row_delivery_id r, j, k) \<in> receipted (w_db w)" for r j k
  proof -
    have "j < row_replay_count r \<or> (j = row_replay_count r \<and> k \<le> row_attempts r)"
      using store_ok_row [OF ok that(1)] that(2) unfolding row_ok_def audit_row_def by blast
    then show ?thesis by auto
  qed
  have rows: "0 \<le> row_attempts r \<and> row_attempts r \<le> row_max_attempts r \<and>
      1 \<le> row_max_attempts r \<and> row_max_attempts r \<le> 100 \<and>
      0 \<le> row_replay_count r \<and> row_replay_count r \<le> 1000000 \<and>
      (row_status r = ''delivering'') = (row_lease_expires_at r \<noteq> None) \<and>
      (\<forall>k. 1 \<le> k \<and> (k < row_attempts r \<or> k = row_attempts r \<and> row_status r \<noteq> ''delivering'') \<longrightarrow>
        (row_delivery_id r, row_replay_count r, k) \<in> receipted (w_db w))"
    if "r \<in> set (deliveries (w_db w))" for r
    using store_ok_row [OF ok that] unfolding row_ok_def delivery_checks_def audit_row_def by blast
  have earlier: "\<exists>n. 1 \<le> n \<and> n \<le> row_max_attempts r \<and>
      (\<forall>k. (row_delivery_id r, j, k) \<in> receipted (w_db w) \<longleftrightarrow> 1 \<le> k \<and> k \<le> n)"
    if "r \<in> set (deliveries (w_db w))" "0 \<le> j" "j < row_replay_count r" for r j
  proof -
    have "earlier_cycles (receipted (w_db w)) r"
      using store_ok_row [OF ok that(1)] by (simp add: row_ok_def)
    then show ?thesis
      using that(2,3) positive [of "row_delivery_id r" j] unfolding earlier_cycles_def by meson
  qed
  have "?row r" if r: "r \<in> set (deliveries (w_db w))" for r
  proof -
    have "\<forall>j. 0 \<le> j \<and> j < row_replay_count r \<longrightarrow>
        (\<exists>n. 1 \<le> n \<and> n \<le> row_max_attempts r \<and>
          (\<forall>k. (row_delivery_id r, j, k) \<in> receipted (w_db w) \<longleftrightarrow> 1 \<le> k \<and> k \<le> n))"
      using earlier [OF r] by blast
    moreover have "\<forall>j k. (row_delivery_id r, j, k) \<in> receipted (w_db w) \<longrightarrow>
        (j, k) \<le> (row_replay_count r, row_attempts r)"
      using receipts [OF r] by blast
    ultimately show ?thesis
      using rows [OF r] by (elim conjE) (intro conjI; assumption)
  qed
  moreover have "?receipt a" if "a \<in> set (attempts (w_db w))" for a
    using ok checks [OF that] that by (simp add: store_ok_def)
  ultimately show ?thesis
    using ok by (simp add: store_ok_def)
qed

text \<open>
  C4: along any run nothing is lost or rewritten: a stored delivery stays stored with its identity,
  event, payload, endpoint, queue and attempt limit, its status only moves along the documented
  lifecycle, and the receipts written so far are a prefix of those written later.
\<close>

theorem run_preserves_history:
  assumes "reachable cr w" and "(step cr)\<^sup>*\<^sup>* w w'"
    and "r \<in> set (deliveries (w_db w))"
  shows "(\<exists>r' \<in> set (deliveries (w_db w')). same_snapshot r r' \<and> life_step\<^sup>*\<^sup>* (life_of r) (life_of r')) \<and>
    prefix (attempts (w_db w)) (attempts (w_db w'))"
  using runs.rel_run [OF assms(2) reachable_ok [OF assms(1)]] assms(3) by (simp add: history_def)

text \<open>
  C5: a delivered webhook is final: no sequence of steps, replays included, changes its status,
  cycle or attempt number again.
\<close>

theorem delivered_is_final:
  assumes "reachable cr w" and "(step cr)\<^sup>*\<^sup>* w w'"
    and "r \<in> set (deliveries (w_db w))" and "row_status r = ''delivered''"
  shows "\<exists>r' \<in> set (deliveries (w_db w')). same_snapshot r r' \<and> row_status r' = ''delivered'' \<and>
    row_replay_count r' = row_replay_count r \<and> row_attempts r' = row_attempts r"
proof -
  obtain r' where r': "r' \<in> set (deliveries (w_db w'))" "same_snapshot r r'"
    "life_step\<^sup>*\<^sup>* (life_of r) (life_of r')"
    using runs.rel_run [OF assms(2) reachable_ok [OF assms(1)]] assms(3) by (auto simp: history_def)
  have "life_of r = Life Delivered (row_replay_count r) (row_attempts r) (row_max_attempts r)"
    using assms(4) by (simp add: life_of_def)
  then have same: "life_of r' = Life Delivered (row_replay_count r) (row_attempts r) (row_max_attempts r)"
    using r'(3) by (auto elim: converse_rtranclpE)
  have "world_ok cr w'" using runs.inv_run [OF assms(2)] reachable_ok [OF assms(1)] by blast
  then have "delivery_checks r'"
    using store_ok_row [of "w_db w'" r'] r'(1) by (simp add: world_ok_def row_ok_def)
  from row_status_of [OF this] have "row_status r' = ''delivered''"
    using same by (simp only: life_of_def life.inject delivery_status_as_str.simps)
  moreover have "row_replay_count r' = row_replay_count r" "row_attempts r' = row_attempts r"
    using same by (simp_all only: life_of_def life.inject)
  ultimately show ?thesis using r'(1,2) by blast
qed

text \<open>
  C1: no attempt is sent twice: across all instances, workers and interleavings, the requests
  that have ever been sent belong to pairwise different attempts (delivery, cycle, attempt number).
\<close>

theorem attempts_sent_once:
  assumes "reachable cr w"
  shows "distinct (map (\<lambda>(d, request). attempt_of d) (w_sent w))"
  using reachable_ok [OF assms]
  by (simp add: world_ok_def taken_def case_prod_unfold comp_def)

text \<open>
  C2: every request that was ever sent is a POST whose body is the payload snapshot stored for its
  delivery, byte for byte, goes to the endpoint stored with the delivery, and names the delivery
  and event in its headers.
\<close>

theorem sent_requests_are_stored_snapshots:
  assumes "reachable cr w" and "(d, request) \<in> set (w_sent w)"
  shows "\<exists>r \<in> set (deliveries (w_db w)). \<exists>u.
    sr_method request = ''POST'' \<and> sr_body request = row_payload_snapshot r \<and>
    sha256_hex cr (sr_body request) = row_payload_sha256 r \<and>
    fixed_endpoint cr (row_endpoint_url r) = Ok u \<and> sr_url request = url_as_str u \<and>
    row_endpoint_origin r = config_endpoint_origin u \<and>
    (''x-lenso-webhook-id'', row_delivery_id r) \<in> set (sr_headers request) \<and>
    (''x-lenso-webhook-event-id'', row_event_id r) \<in> set (sr_headers request) \<and>
    row_delivery_id r = stable_delivery_id cr (row_endpoint_url r) (row_event_id r)"
proof -
  have ok: "world_ok cr w" by (rule reachable_ok [OF assms(1)])
  then have "record_ok (w_db w) d" and req: "request_ok cr d request"
    using assms(2) by (auto simp: world_ok_def)
  then obtain r where r: "r \<in> set (deliveries (w_db w))" "snapshot_of d r"
    by (auto simp: record_ok_def)
  have "identity_ok cr (w_db w)" using ok by (simp add: world_ok_def)
  with r req show ?thesis
    by (intro bexI [OF _ r(1)]) (auto simp: identity_ok_def snapshot_of_def request_ok_def)
qed

text \<open>
  C21: a replay cycle of a delivery sends at most as many requests as the delivery has attempts.
\<close>

theorem requests_per_cycle_bounded:
  assumes "reachable cr w" and "r \<in> set (deliveries (w_db w))"
  shows "int (length (filter (\<lambda>(d, request). dr_delivery_id d = row_delivery_id r \<and> dr_replay_count d = c)
    (w_sent w))) \<le> row_max_attempts r"
proof -
  let ?mine = "filter (\<lambda>(d, request). dr_delivery_id d = row_delivery_id r \<and> dr_replay_count d = c) (w_sent w)"
  let ?number = "\<lambda>(d, request). dr_attempts d"
  have ok: "world_ok cr w" by (rule reachable_ok [OF assms(1)])
  then have s: "store_ok (w_db w)" and rec: "\<And>d q. (d, q) \<in> set (w_sent w) \<Longrightarrow> record_ok (w_db w) d"
    by (auto simp: world_ok_def)
  have "?number ` set ?mine \<subseteq> {1..row_max_attempts r}"
  proof
    fix k assume "k \<in> ?number ` set ?mine"
    then obtain d q where d: "(d, q) \<in> set (w_sent w)" "dr_delivery_id d = row_delivery_id r" "k = dr_attempts d"
      by auto
    obtain r0 where "r0 \<in> set (deliveries (w_db w))" "snapshot_of d r0" "1 \<le> k" "k \<le> dr_max_attempts d"
      using rec [OF d(1)] d(3) by (auto simp: record_ok_def)
    moreover from this have "r0 = r"
      using store_ok_unique [OF s _ assms(2)] d(2) by (simp add: snapshot_of_def)
    ultimately show "k \<in> {1..row_max_attempts r}" by (simp add: snapshot_of_def)
  qed
  then have "card (?number ` set ?mine) \<le> nat (row_max_attempts r)"
    using card_mono [of "{1..row_max_attempts r}"] by fastforce
  moreover have "distinct (map (attempt_of \<circ> fst) ?mine)"
    using ok by (auto simp: world_ok_def taken_def distinct_map inj_on_def)
  then have "distinct (map ?number ?mine)"
    by (auto simp: distinct_map inj_on_def attempt_of_def)
  then have "card (?number ` set ?mine) = length ?mine"
    by (metis (no_types, lifting) distinct_card length_map list.set_map)
  moreover have "0 \<le> row_max_attempts r"
    using store_ok_row [OF s assms(2)] by (simp add: row_ok_def delivery_checks_def)
  ultimately show ?thesis by linarith
qed

section \<open>A complete run\<close>

text \<open>One event is enqueued, claimed, and delivered with status 200.\<close>

definition run_row :: delivery_row where
  "run_row = new_row sample_crates sample_env sample_new 2"

definition run_record :: delivery_record where
  "run_record = (created_record sample_new)\<lparr>dr_status := Delivering, dr_attempts := 1\<rparr>"

definition run_world1 :: world where
  "run_world1 = initial_world\<lparr>w_db := enqueued_db\<rparr>"

definition run_world2 :: world where
  "run_world2 = \<lparr>w_db = \<lparr>deliveries = [claim_row sample_env 30 run_row], attempts = []\<rparr>,
     w_flights = [\<lparr>fl_plugin = sample_plugin, fl_prepared = sample_prepared, fl_delivery = run_record\<rparr>],
     w_sent = []\<rparr>"

definition run_request :: send_request where
  "run_request = \<lparr>sr_body = as_bytes ''e'',
     sr_headers = webhook_headers run_record (show_int 6) (hex (replicate 32 205)),
     sr_method = ''POST'', sr_url = ''u''\<rparr>"

definition run_receipt :: attempt_row where
  "run_receipt = \<lparr>att_delivery_id = nd_delivery_id sample_new, att_replay_count = 0, att_attempt = 1,
     att_outcome = ''delivered'', att_http_status = Some 200,
     att_response_sha256 = Some (sha256_hex sample_crates []), att_occurred_at = 0\<rparr>"

definition run_world3 :: world where
  "run_world3 = \<lparr>w_db = \<lparr>deliveries = [outcome_row sample_env ''delivered'' None (claim_row sample_env 30 run_row)],
     attempts = [run_receipt]\<rparr>, w_flights = [], w_sent = [(run_record, run_request)]\<rparr>"

lemma sample_plugin_ok: "plugin_ok sample_crates sample_plugin"
  using sample_bounds
  by (simp add: plugin_ok_def fixed_endpoint_def config_endpoint_origin_def sample_url_def plugin_sample_defs)

lemma sample_new_simps [simp]:
  "nd_event_id sample_new = ''e''" "nd_event_type sample_new = ''t''"
  "nd_endpoint_url sample_new = ''u''" "nd_endpoint_origin sample_new = ''u''"
  "nd_payload_snapshot sample_new = as_bytes ''e''" "nd_queue_name sample_new = ''q''"
  "nd_max_attempts sample_new = 2" "nd_available_at sample_new = 7000"
  "nd_payload_sha256 sample_new = sha256_hex sample_crates (as_bytes ''e'')"
  by (simp_all add: sample_new_def new_delivery_of_def plugin_sample_defs)

lemma run_step1: "step sample_crates initial_world run_world1"
  using step.enqueue [OF sample_plugin_ok, of initial_world sample_env 7777 as_producer sample_request]
    sample_enqueue by (simp add: run_world1_def initial_world_def)

lemma run_claim:
  "claim_due sample_env ''q'' 30 enqueued_db =
    (Ok (Some run_record), \<lparr>deliveries = [claim_row sample_env 30 run_row], attempts = []\<rparr>)"
  by (simp add: claim_due_def execute_def commit_def claim_statement_def expired_def candidate_def
      due_def claim_row_def retires_def update_deliveries_def delivery_checks_def Let_def
      decode_delivery_def delivery_status_parse_def i32_try_from_def sample_env_def enqueued_db_def
      run_row_def run_record_def created_record_def new_row_def)

lemma run_step2: "step sample_crates run_world1 run_world2"
proof -
  have "dispatch_claim sample_plugin sample_env as_admin (w_db run_world1) =
      (Ok (sample_prepared, Some run_record), \<lparr>deliveries = [claim_row sample_env 30 run_row], attempts = []\<rparr>)"
    using run_claim sample_allowed
    by (simp add: dispatch_claim_Ok plugin_sample_defs run_world1_def)
  from step.claim [OF sample_plugin_ok this] show ?thesis
    by (simp add: run_world1_def run_world2_def initial_world_def)
qed

lemma run_finish:
  "\<exists>answer. dispatch_claimed sample_crates sample_plugin sample_prepared (\<lambda>_ _. Inr (response_of 200))
      sample_clocks sample_env as_admin run_record (w_db run_world2) =
    ((answer, w_db run_world3), [run_request])"
proof -
  have "signed_request sample_crates sample_prepared run_record (ck_signed sample_clocks) = Ok run_request"
    by (simp add: signed_request_def format_time_def sign_payload_def sample_clocks_def run_request_def
        run_record_def created_record_def sample_prepared_def sample_url_def)
  moreover have "\<not> endpoint_changed sample_plugin sample_prepared run_record"
    by (simp add: endpoint_changed_def plugin_sample_defs run_record_def created_record_def)
  moreover have "\<exists>answer. finish_dispatch sample_crates sample_config run_record (Inr (response_of 200))
      sample_clocks sample_env (w_db run_world2) = (answer, w_db run_world3)"
    by (simp add: finish_dispatch_def settle_def response_receipt_def response_of_def new_receipt_def
        next_state_def record_outcome_def receipt_row_def i32_try_from_def execute_def commit_def
        ensure_updated_def insert_attempt_def attempt_checks_def update_deliveries_def delivery_checks_def
        outcome_matches_def outcome_row_def claim_row_def new_row_def run_row_def run_record_def
        created_record_def run_receipt_def run_world2_def run_world3_def sample_env_def sample_clocks_def Let_def)
  ultimately show ?thesis by (simp add: dispatch_claimed_def sample_plugin_def)
qed

lemma run_step3: "step sample_crates run_world2 run_world3"
proof -
  obtain answer where run: "dispatch_claimed sample_crates sample_plugin sample_prepared
      (\<lambda>_ _. Inr (response_of 200)) sample_clocks sample_env as_admin run_record (w_db run_world2) =
    ((answer, w_db run_world3), [run_request])" using run_finish by blast
  let ?f = "\<lparr>fl_plugin = sample_plugin, fl_prepared = sample_prepared, fl_delivery = run_record\<rparr>"
  have "?f \<in> set (w_flights run_world2)" by (simp add: run_world2_def)
  from step.finish [OF this, of sample_crates "\<lambda>_ _. Inr (response_of 200)" sample_clocks sample_env as_admin]
  show ?thesis using run by (simp add: run_world2_def run_world3_def)
qed

lemma run_reachable: "reachable sample_crates run_world3"
  using run_step1 run_step2 run_step3 by (meson converse_rtranclp_into_rtranclp rtranclp.rtrancl_refl)

lemma run_delivered:
  "outcome_row sample_env ''delivered'' None (claim_row sample_env 30 run_row) \<in> set (deliveries (w_db run_world3))"
  "row_status (outcome_row sample_env ''delivered'' None (claim_row sample_env 30 run_row)) = ''delivered''"
  by (simp_all add: run_world3_def outcome_row_def)

section \<open>The properties at the end of that run\<close>

lemma reachable_store_consistent_witness:
  "distinct (map row_delivery_id (deliveries (w_db run_world3)))"
  using reachable_store_consistent [OF run_reachable] by blast

lemma run_preserves_history_witness:
  "\<exists>r' \<in> set (deliveries (w_db run_world3)).
    same_snapshot (outcome_row sample_env ''delivered'' None (claim_row sample_env 30 run_row)) r'"
  using run_preserves_history [OF run_reachable rtranclp.rtrancl_refl run_delivered(1)] by blast

lemma delivered_is_final_witness:
  "\<exists>r' \<in> set (deliveries (w_db run_world3)). row_status r' = ''delivered''"
  using delivered_is_final [OF run_reachable rtranclp.rtrancl_refl run_delivered] by blast

lemma attempts_sent_once_witness:
  "distinct (map (\<lambda>(d, request). attempt_of d) (w_sent run_world3))"
  by (rule attempts_sent_once [OF run_reachable])

lemma run_sent: "(run_record, run_request) \<in> set (w_sent run_world3)"
  by (simp add: run_world3_def)

lemma sent_requests_are_stored_snapshots_witness:
  "\<exists>r \<in> set (deliveries (w_db run_world3)). sr_body run_request = row_payload_snapshot r"
  using sent_requests_are_stored_snapshots [OF run_reachable run_sent] by blast

lemma requests_per_cycle_bounded_witness:
  "int (length (filter (\<lambda>(d, request). dr_delivery_id d = nd_delivery_id sample_new \<and> dr_replay_count d = 0)
    (w_sent run_world3))) \<le> 2"
proof -
  have "row_delivery_id (outcome_row sample_env ''delivered'' None (claim_row sample_env 30 run_row))
      = nd_delivery_id sample_new"
    "row_max_attempts (outcome_row sample_env ''delivered'' None (claim_row sample_env 30 run_row)) = 2"
    by (simp_all add: outcome_row_def claim_row_def run_row_def new_row_def)
  then show ?thesis
    using requests_per_cycle_bounded [OF run_reachable run_delivered(1), of 0] by simp
qed

text \<open>The event is enqueued once more after its delivery.\<close>

lemma run_evolves: "evolves (w_db run_world1) (w_db run_world3)"
proof -
  have "(step sample_crates)\<^sup>*\<^sup>* run_world1 run_world3"
    using run_step2 run_step3 by (meson converse_rtranclp_into_rtranclp rtranclp.rtrancl_refl)
  moreover have "world_ok sample_crates run_world1"
    using reachable_ok run_step1 by blast
  ultimately show ?thesis
    using runs.rel_run by (fastforce simp: history_def evolves_def)
qed

lemma enqueue_idempotent_witness:
  "(\<exists>r \<in> set (deliveries (w_db run_world3)). row_status r = ''delivered'') \<and>
   (\<exists>status. enqueue_delivery sample_crates sample_plugin sample_env 9 as_producer sample_request (w_db run_world3)
    = (Ok \<lparr>enq_created = False, enq_delivery_id = nd_delivery_id sample_new, enq_status = status\<rparr>, w_db run_world3))"
proof -
  have f: "\<forall>label. \<not> db_fails sample_env label"
    and a: "producer_allowed (pl_config sample_plugin) (caller_instance as_producer)"
    using sample_allowed by (simp_all add: sample_env_def plugin_sample_defs)
  have ok: "store_ok (w_db run_world3)"
    using reachable_ok [OF run_reachable] by (simp add: world_ok_def)
  have e: "evolves enqueued_db (w_db run_world3)"
    using run_evolves by (simp add: run_world1_def)
  show ?thesis
    using enqueue_idempotent [OF store_ok_empty sample_enqueue ok e sample_bounds f a, of 9] run_delivered
    by (auto simp: created_response_def)
qed

end
