(* ===== verification/Progress.thy ===== *)
theory Progress
  imports Runs
begin

text \<open>
  Progress: a due delivery of a working instance is delivered by one dispatch, and in a run that
  never ends every delivery comes to rest, because its attempts and its replay cycles are bounded.
\<close>

section \<open>A due delivery is delivered\<close>

text \<open>
  A working environment: the calls of both transactions succeed, the times can be printed, the key
  is accepted, and the receiver answers every request with a 2xx status.
\<close>

definition receiver_accepts :: "http_client \<Rightarrow> bool" where
  "receiver_accepts http \<longleftrightarrow> (\<forall>context request. \<exists>response. http context request = Inr response \<and>
     resp_status response \<in> {200..299})"

lemma accepted_attempt_delivers:
  assumes "store_ok s" and "r \<in> set (deliveries s)"
    and "outcome_matches env (dr_delivery_id d) (dr_replay_count d) (dr_attempts d) r"
    and "\<not> endpoint_changed pl pw d" and "\<And>label. \<not> db_fails env label"
    and "rfc3339 cr (ck_receipt ck) = Inr stamp" and "rfc3339 cr (ck_signed ck) = Inr stamp'"
    and "\<And>message. \<exists>mac. hmac_sha256 cr (pw_signing_key pw) message = Some mac"
    and "receiver_accepts http"
  shows "\<exists>s' request r' answer. dispatch_claimed cr pl pw http ck env context d s = ((Ok answer, s'), [request]) \<and>
    dsp_outcome answer = DispatchDelivered \<and> dsp_delivery_id answer = Some (dr_delivery_id d) \<and>
    r' \<in> set (deliveries s') \<and> same_snapshot r r' \<and> row_status r' = ''delivered''"
proof -
  obtain request where request: "signed_request cr pw d (ck_signed ck) = Ok request"
    using assms(7) assms(8) by (metis signed_request_Ok)
  obtain response where response: "http context request = Inr response" "resp_status response \<in> {200..299}"
    using assms(9) by (auto simp: receiver_accepts_def)
  let ?receipt = "fst (result_receipt cr d (Inr response) (ck_receipt ck))"
  have st: "settled (Inr response)" and doc: "documented_status (Inr response) a m = Delivered" for a m
    using response(2) by (simp_all add: settled_def documented_status_def)
  obtain s' where run: "record_outcome cr env (dr_delivery_id d) (dr_replay_count d) ?receipt Delivered None s = (Ok (), s')"
    and rec: "recorded cr env (dr_delivery_id d) (dr_replay_count d) ?receipt Delivered None s s'"
    by (rule record_outcome_succeeds [of s r env "dr_delivery_id d" "dr_replay_count d" ?receipt cr Delivered None])
      (use assms(1-3,5) response(2) in \<open>auto simp: http_status_ok_def\<close>)
  have id: "row_delivery_id r = dr_delivery_id d" using assms(3) by (simp add: outcome_matches_def)
  let ?r' = "outcome_row env ''delivered'' None r"
  have "?r' \<in> set (deliveries s')" using recorded_effect(1) [OF assms(1) rec assms(2) id] by simp
  moreover have "same_snapshot r ?r'" "row_status ?r' = ''delivered''" by (simp_all add: outcome_row_def same_snapshot_def)
  moreover have "next_attempt_at c d (Inr response) now = None" for c now
    by (simp add: next_attempt_at_def doc)
  ultimately show ?thesis
    using run assms(4,6) request response(1)
    by (intro exI [where x = s'], intro exI [where x = request], intro exI [where x = ?r'])
      (simp add: dispatch_claimed_def settle_eq [OF st] doc retry_in_range_def dispatch_response_of_eq)
qed

text \<open>
  C28: due work is delivered: if a delivery of the queue is due and not held by another transaction,
  and the environment works, one dispatch of an active instance delivers a due delivery: it sends
  exactly one request, answers \<open>delivered\<close>, and the row of that delivery says so.
\<close>

theorem due_delivery_is_delivered:
  assumes "store_ok s" and "plugin_ok cr pl" and "pl_prepared pl = Some pw"
    and "admin_allowed (pl_config pl) (caller_instance context)"
    and "r0 \<in> set (deliveries s)" and "\<not> db_locked env (row_delivery_id r0)"
    and "due env (cfg_queue_name (pl_config pl)) (expired env (cfg_queue_name (pl_config pl)) s) r0"
    and "\<forall>r \<in> set (deliveries s). row_queue_name r = cfg_queue_name (pl_config pl) \<longrightarrow>
      row_endpoint_url r = cfg_endpoint_url (pl_config pl) \<and> row_endpoint_origin r = pw_endpoint_origin pw"
    and "\<forall>label. \<not> db_fails env label" and "\<forall>label. \<not> db_fails env' label"
    and "db_now env' < db_now env + cfg_lease_seconds (pl_config pl) * 1000000"
    and "rfc3339 cr (ck_receipt ck) = Inr stamp" and "rfc3339 cr (ck_signed ck) = Inr stamp'"
    and "\<forall>message. \<exists>mac. hmac_sha256 cr (pw_signing_key pw) message = Some mac"
    and "receiver_accepts http"
  shows "\<exists>answer s' request r r'.
    dispatch_delivery cr pl http ck env env' (\<lambda>t. t) context s = ((Ok answer, s'), [request]) \<and>
    dsp_outcome answer = DispatchDelivered \<and> dsp_delivery_id answer = Some (row_delivery_id r) \<and>
    r \<in> set (deliveries s) \<and>
    due env (cfg_queue_name (pl_config pl)) (expired env (cfg_queue_name (pl_config pl)) s) r \<and>
    r' \<in> set (deliveries s') \<and> same_snapshot r r' \<and> row_status r' = ''delivered''"
proof -
  let ?q = "cfg_queue_name (pl_config pl)" and ?l = "cfg_lease_seconds (pl_config pl)"
  have lease: "i32_try_from ?l = Some ?l"
    using assms(2) by (simp add: plugin_ok_def config_bounds_def)
  obtain found s1 where claim: "claim_due env ?q ?l s = (Ok found, s1)"
    using claim_due_returns [OF assms(1) lease] assms(9) by blast
  have "found \<noteq> None"
  proof
    assume "found = None"
    then have "candidate env ?q (expired env ?q s) s = []" using claim_due_None [OF assms(1)] claim by simp
    then show False using assms(5-7) by (simp add: candidate_empty_iff)
  qed
  then obtain d where d: "claim_due env ?q ?l s = (Ok (Some d), s1)" using claim by auto
  obtain r where r: "candidate env ?q (expired env ?q s) s = [r]" "r \<in> set (deliveries s)"
    "decode_delivery env (claim_row env ?l r) = Ok d" "claim_row env ?l r \<in> set (deliveries s1)"
    by (rule claim_due_Some [OF assms(1) d])
  have due_r: "due env ?q (expired env ?q s) r"
    using in_candidate(2) [of r env ?q "expired env ?q s" s] r(1) by simp
  have snap: "snapshot_of d (claim_row env ?l r)" "dr_replay_count d = row_replay_count r"
    "dr_attempts d = row_attempts r + 1" "dr_endpoint_origin d = row_endpoint_origin r"
    using decoded_snapshot [OF r(3)] by (simp_all add: claim_row_def snapshot_of_def)
  have fence: "outcome_matches env' (dr_delivery_id d) (dr_replay_count d) (dr_attempts d) (claim_row env ?l r)"
    using snap assms(11) by (simp add: outcome_matches_def claim_row_def snapshot_of_def)
  have endpoint: "\<not> endpoint_changed pl pw d"
    using assms(8) r(2) due_r snap by (simp add: endpoint_changed_def due_def snapshot_of_def claim_row_def)
  have s1: "store_ok s1" using claim_due_ok [OF assms(1), of env ?q ?l] d by simp
  obtain answer s' request r' where out: "dispatch_claimed cr pl pw http ck env' context d s1 = ((Ok answer, s'), [request])"
    "dsp_outcome answer = DispatchDelivered" "dsp_delivery_id answer = Some (dr_delivery_id d)"
    "r' \<in> set (deliveries s')" "same_snapshot (claim_row env ?l r) r'" "row_status r' = ''delivered''"
    using accepted_attempt_delivers [OF s1 r(4) fence endpoint _ assms(12,13) _ assms(15)] assms(10,14) by blast
  have "dispatch_claim pl env context s = (Ok (pw, Some d), s1)"
    using d assms(3,4) by (simp add: dispatch_claim_Ok)
  then have "dispatch_delivery cr pl http ck env env' (\<lambda>t. t) context s = ((Ok answer, s'), [request])"
    using out(1) by (simp add: dispatch_delivery_def)
  moreover have "same_snapshot r r'"
    using out(5) by (simp add: same_snapshot_def claim_row_def)
  moreover have "dr_delivery_id d = row_delivery_id r"
    using snap(1) by (simp add: snapshot_of_def claim_row_def)
  ultimately show ?thesis using out r(2) due_r by metis
qed

section \<open>Every delivery comes to rest\<close>

definition life_before :: "(life \<times> life) set" where
  "life_before = {(l', l). life_step l l' \<and> life_ok l}"

lemma life_steps_before:
  "life_step\<^sup>*\<^sup>* l l' \<Longrightarrow> life_ok l \<Longrightarrow> life_ok l' \<and> (l' = l \<or> (l', l) \<in> life_before\<^sup>+)"
proof (induction rule: rtranclp_induct)
  case (step l1 l2)
  then have "life_ok l1" by blast
  then have "(l2, l1) \<in> life_before" "life_ok l2"
    using step.hyps(2) life_step_ok by (auto simp: life_before_def)
  with step show ?case by (auto intro: trancl_trans)
qed simp

text \<open>A sequence that only moves along the lifecycle is constant from some point on.\<close>

lemma lifecycle_settles:
  assumes "\<And>n n'. n \<le> n' \<Longrightarrow> life_step\<^sup>*\<^sup>* (f n) (f n')" and "life_ok (f 0)"
  shows "\<exists>N. \<forall>n \<ge> N. f n = f (N :: nat)"
proof -
  have "wf (life_before\<^sup>+)"
    unfolding life_before_def by (rule wf_trancl [OF life_step_terminates])
  then obtain z where z: "z \<in> range f" "\<And>y. (y, z) \<in> life_before\<^sup>+ \<Longrightarrow> y \<notin> range f"
    by (rule wfE_min [where Q = "range f"]) auto
  then obtain N where N: "z = f N" by auto
  have "life_ok (f N)" using life_steps_before [OF assms(1) assms(2)] by blast
  then have "f n = f N" if "N \<le> n" for n
    using life_steps_before [OF assms(1) [OF that]] z(2) N by blast
  then show ?thesis by blast
qed

text \<open>
  C29: in any infinite run of any number of instances, with any failures, losses and replays, every
  stored delivery eventually stops changing: from some point on its status, cycle and attempt
  number stay the same for ever. No delivery is retried or replayed without end.
\<close>

theorem every_delivery_comes_to_rest:
  assumes "w 0 = initial_world" and "\<forall>n. step cr (w n) (w (Suc n))"
    and "r \<in> set (deliveries (w_db (w m)))"
  shows "\<exists>N status cycle attempt. \<forall>n \<ge> N. \<exists>r' \<in> set (deliveries (w_db (w n))). same_snapshot r r' \<and>
    row_status r' = status \<and> row_replay_count r' = cycle \<and> row_attempts r' = attempt"
proof -
  have run: "(step cr)\<^sup>*\<^sup>* (w n) (w (n + k))" for n k
    by (induction k) (use assms(2) in \<open>auto intro: rtranclp.rtrancl_into_rtrancl\<close>)
  have ok: "world_ok cr (w n)" for n
    using run [of 0 n] assms(1) reachable_ok by simp
  have hist: "history (w n) (w (n + k))" for n k by (rule runs.rel_run [OF run ok])
  have "\<exists>r'. r' \<in> set (deliveries (w_db (w (m + k)))) \<and> same_snapshot r r'" for k
    using hist [of m k] assms(3) by (auto simp: history_def)
  then obtain row where row: "row k \<in> set (deliveries (w_db (w (m + k))))" "same_snapshot r (row k)" for k
    by metis
  let ?f = "\<lambda>k. life_of (row k)"
  have moves: "life_step\<^sup>*\<^sup>* (?f k) (?f k')" if le: "k \<le> k'" for k k'
  proof -
    have index: "m + k + (k' - k) = m + k'" using le by simp
    obtain r' where r': "r' \<in> set (deliveries (w_db (w (m + k'))))" "same_snapshot (row k) r'"
      "life_step\<^sup>*\<^sup>* (?f k) (life_of r')"
      using hist [of "m + k" "k' - k"] row(1) [of k] index by (auto simp: history_def)
    have "r' = row k'"
      using store_ok_unique [of "w_db (w (m + k'))" r' "row k'"] ok [of "m + k'"] r'(1,2) row
      by (simp add: world_ok_def same_snapshot_def)
    with r'(3) show ?thesis by simp
  qed
  have checks: "delivery_checks (row k)" for k
    using ok [of "m + k"] row(1) [of k] store_ok_row [of "w_db (w (m + k))"] by (simp add: world_ok_def row_ok_def)
  then have "life_ok (?f 0)" by (simp add: life_ok_def life_of_def delivery_checks_def)
  then obtain N where N: "\<forall>n \<ge> N. ?f n = ?f N" using lifecycle_settles [of ?f] moves by blast
  have "\<exists>r' \<in> set (deliveries (w_db (w n))). same_snapshot r r' \<and> row_status r' = row_status (row N) \<and>
      row_replay_count r' = row_replay_count (row N) \<and> row_attempts r' = row_attempts (row N)"
    if "m + N \<le> n" for n
  proof -
    have le: "N \<le> n - m" and n: "m + (n - m) = n" using that by simp_all
    have eq: "?f (n - m) = ?f N" using N [rule_format, OF le] by simp
    have "status_of (row (n - m)) = status_of (row N)"
      and rest: "row_replay_count (row (n - m)) = row_replay_count (row N)"
        "row_attempts (row (n - m)) = row_attempts (row N)"
      using eq by (simp_all only: life_of_def life.inject)
    then have "row_status (row (n - m)) = row_status (row N)"
      using row_status_of [OF checks] by metis
    then show ?thesis using rest row [of "n - m"] n by auto
  qed
  then show ?thesis by blast
qed

section \<open>Both on the sample\<close>

theorem due_delivery_is_delivered_witness:
  "\<exists>answer s' request. dispatch_delivery sample_crates sample_plugin (\<lambda>_ _. Inr (response_of 200)) sample_clocks
     sample_env sample_env (\<lambda>t. t) as_admin enqueued_db = ((Ok answer, s'), [request]) \<and>
     dsp_outcome answer = DispatchDelivered"
proof -
  have "run_row \<in> set (deliveries enqueued_db)" by (simp add: enqueued_db_def run_row_def)
  moreover have "due sample_env (cfg_queue_name (pl_config sample_plugin))
      (expired sample_env (cfg_queue_name (pl_config sample_plugin)) enqueued_db) run_row"
    by (simp add: due_def run_row_def new_row_def sample_env_def plugin_sample_defs)
  moreover have "\<forall>r \<in> set (deliveries enqueued_db). row_queue_name r = cfg_queue_name (pl_config sample_plugin) \<longrightarrow>
      row_endpoint_url r = cfg_endpoint_url (pl_config sample_plugin) \<and>
      row_endpoint_origin r = pw_endpoint_origin sample_prepared"
    by (simp add: enqueued_db_def new_row_def plugin_sample_defs)
  moreover have "receiver_accepts (\<lambda>_ _. Inr (response_of 200))"
    by (simp add: receiver_accepts_def response_of_def)
  moreover have "pl_prepared sample_plugin = Some sample_prepared"
    "admin_allowed (pl_config sample_plugin) (caller_instance as_admin)"
    using sample_allowed by (simp_all add: plugin_sample_defs)
  moreover have "\<not> db_locked sample_env (row_delivery_id run_row)" "\<forall>label. \<not> db_fails sample_env label"
    "db_now sample_env < db_now sample_env + cfg_lease_seconds (pl_config sample_plugin) * 1000000"
    by (simp_all add: sample_env_def plugin_sample_defs)
  moreover have "rfc3339 sample_crates (ck_receipt sample_clocks) = Inr (show_int (ck_receipt sample_clocks))"
    "rfc3339 sample_crates (ck_signed sample_clocks) = Inr (show_int (ck_signed sample_clocks))"
    "\<forall>message. \<exists>mac. hmac_sha256 sample_crates (pw_signing_key sample_prepared) message = Some mac"
    by simp_all
  ultimately show ?thesis
    using due_delivery_is_delivered [OF enqueued_db_ok sample_plugin_ok] by blast
qed

text \<open>The complete run, continued for ever by calls that are refused.\<close>

definition endless_run :: "nat \<Rightarrow> world" where
  "endless_run n = (if n = 0 then initial_world else if n = 1 then run_world1
     else if n = 2 then run_world2 else run_world3)"

lemma endless_run_0: "endless_run 0 = initial_world" and endless_run_1: "endless_run 1 = run_world1"
  and endless_run_2: "endless_run 2 = run_world2" and endless_run_3: "2 < n \<Longrightarrow> endless_run n = run_world3"
  and endless_Suc: "Suc 0 = 1" "Suc 1 = 2" "endless_run (Suc 2) = run_world3" "2 < n \<Longrightarrow> endless_run (Suc n) = run_world3"
  unfolding endless_run_def by simp_all

lemma refused_step: "step sample_crates w w"
proof -
  have forbidden: "dispatch_claim sample_plugin sample_env \<lparr>caller_instance = None\<rparr> s = (Err (AdminDispatch DispatchForbidden), s)" for s
    by (simp add: dispatch_claim_def admins.allowed_iff)
  from step.idle [OF sample_plugin_ok, of sample_env "\<lparr>caller_instance = None\<rparr>" w]
  show ?thesis by (simp add: forbidden)
qed

theorem every_delivery_comes_to_rest_witness:
  "\<exists>N status cycle attempt. \<forall>n \<ge> N. \<exists>r' \<in> set (deliveries (w_db (endless_run n))).
     row_status r' = status \<and> row_replay_count r' = cycle \<and> row_attempts r' = attempt"
proof -
  have steps: "\<forall>n. step sample_crates (endless_run n) (endless_run (Suc n))"
  proof
    fix n :: nat
    consider "n = 0" | "n = 1" | "n = 2" | "2 < n" by linarith
    then show "step sample_crates (endless_run n) (endless_run (Suc n))"
      by cases (simp_all only: endless_run_0 endless_run_1 endless_run_2 endless_run_3 endless_Suc
        run_step1 run_step2 run_step3 refused_step)
  qed
  have row: "run_row \<in> set (deliveries (w_db (endless_run 1)))"
    by (simp add: endless_run_def run_world1_def enqueued_db_def run_row_def)
  have "endless_run 0 = initial_world" by (simp add: endless_run_def)
  from every_delivery_comes_to_rest [OF this steps row] obtain N status cycle attempt where
    rest: "\<forall>n \<ge> N. \<exists>r' \<in> set (deliveries (w_db (endless_run n))). same_snapshot run_row r' \<and>
      row_status r' = status \<and> row_replay_count r' = cycle \<and> row_attempts r' = attempt"
    by (elim exE)
  show ?thesis
  proof (intro exI allI impI)
    fix n
    assume "N \<le> n"
    then obtain r' where "r' \<in> set (deliveries (w_db (endless_run n)))" "row_status r' = status"
      "row_replay_count r' = cycle" "row_attempts r' = attempt"
      using rest by meson
    then show "\<exists>r' \<in> set (deliveries (w_db (endless_run n))). row_status r' = status \<and>
        row_replay_count r' = cycle \<and> row_attempts r' = attempt"
      by (intro bexI [of _ r'] conjI)
  qed
qed

end
