(* ===== verification/Contract_Source.thy ===== *)
theory Contract_Source
  imports Contract_Types
begin

text \<open>
  The authored contracts (\<open>contract.rs\<close> of the two capability crates): each request, response,
  enumeration and domain error as the JSON schema its derives and attributes describe, and the two
  capability traits with their operations. \<open>matches\<close> is the meaning of a schema.
\<close>

section \<open>Schemas\<close>

text \<open>
  \<open>SStruct\<close> is a struct with \<open>deny_unknown_fields\<close>: all of its fields are required and no other is
  allowed. A JSON object has no key twice, and the text of a number is one JSON allows. A \<open>format\<close> and \<open>x-lenso-sensitive\<close> are annotations and do not restrict the values.
\<close>

datatype schema =
    SAny
  | SString
  | SDateTime
  | SBoolean
  | SInteger int int
  | SEnum "string list"
  | SMap schema
  | SNullable schema
  | SStruct "(string \<times> schema) list"

text \<open>\<open>rename_all = "snake_case"\<close>: an underscore before every upper-case letter but the first.\<close>

definition is_upper :: "char \<Rightarrow> bool" where
  "is_upper c \<longleftrightarrow> in_bytes (CHR ''A'') (CHR ''Z'') c"

definition to_lower :: "char \<Rightarrow> char" where
  "to_lower c = (if is_upper c then char_of (of_char c + 32 :: nat) else c)"

fun snake_case :: "string \<Rightarrow> string" where
  "snake_case [] = []"
| "snake_case (c # s) =
     to_lower c # concat (map (\<lambda>d. if is_upper d then [CHR ''_'', to_lower d] else [d]) s)"

definition read_int :: "string \<Rightarrow> int" where
  "read_int s = (case s of
     [] \<Rightarrow> 0
   | c # digits \<Rightarrow> if c = CHR ''-'' then - int (read_nat digits) else int (read_nat s))"

text \<open>
  The integer a JSON number is. \<open>plain_int\<close> reads a number written as an integer. \<open>json_int\<close> is the
  \<open>integer\<close> of JSON Schema 2020-12: any number whose value is integral, so also \<open>1.0\<close> and \<open>1e2\<close>.
\<close>

fun plain_int :: "json \<Rightarrow> int option" where
  "plain_int (JNumber s) = (if show_int (read_int s) = s then Some (read_int s) else None)"
| "plain_int _ = None"

definition all_digits :: "string \<Rightarrow> bool" where
  "all_digits s \<longleftrightarrow> list_all (in_bytes (CHR ''0'') (CHR ''9'')) s"

definition read_signed :: "string \<Rightarrow> (bool \<times> string)" where
  "read_signed s = (case s of
     [] \<Rightarrow> (False, [])
   | c # rest \<Rightarrow> if c = CHR ''-'' then (True, rest) else if c = CHR ''+'' then (False, rest) else (False, s))"

definition read_minus :: "string \<Rightarrow> (bool \<times> string)" where
  "read_minus s = (case s of
     [] \<Rightarrow> (False, [])
   | c # rest \<Rightarrow> if c = CHR ''-'' then (True, rest) else (False, s))"

definition is_exponent :: "char \<Rightarrow> bool" where
  "is_exponent c \<longleftrightarrow> c = CHR ''e'' \<or> c = CHR ''E''"

definition number_int :: "string \<Rightarrow> int option" where
  "number_int s =
     (let (negative, body) = read_minus s;
          mantissa = takeWhile (\<lambda>c. \<not> is_exponent c) body;
          (down, power) = read_signed (drop 1 (dropWhile (\<lambda>c. \<not> is_exponent c) body));
          whole = takeWhile (\<lambda>c. c \<noteq> CHR ''.'') mantissa;
          fraction = drop 1 (dropWhile (\<lambda>c. c \<noteq> CHR ''.'') mantissa);
          digits = int (read_nat (whole @ fraction));
          shift = (if down then - int (read_nat power) else int (read_nat power)) - int (length fraction);
          unit = 10 ^ nat (- shift)
      in if whole = [] \<or> \<not> all_digits (whole @ fraction @ power) then None
         else if 0 \<le> shift then Some ((if negative then - 1 else 1) * digits * 10 ^ nat shift)
         else if digits mod unit = 0 then Some ((if negative then - 1 else 1) * (digits div unit))
         else None)"

fun json_int :: "json \<Rightarrow> int option" where
  "json_int (JNumber s) = number_int s"
| "json_int _ = None"

fun in_range :: "int \<Rightarrow> int \<Rightarrow> int option \<Rightarrow> bool" where
  "in_range lo hi (Some i) \<longleftrightarrow> lo \<le> i \<and> i \<le> hi"
| "in_range lo hi None \<longleftrightarrow> False"

text \<open>The meaning of a schema, given how an integer is read.\<close>

fun fits_schema :: "(json \<Rightarrow> int option) \<Rightarrow> schema \<Rightarrow> json \<Rightarrow> bool" where
  "fits_schema rd SAny v \<longleftrightarrow> True"
| "fits_schema rd SString v \<longleftrightarrow> is_string v"
| "fits_schema rd SDateTime v \<longleftrightarrow> is_string v"
| "fits_schema rd SBoolean v \<longleftrightarrow> v = JBool True \<or> v = JBool False"
| "fits_schema rd (SInteger lo hi) v \<longleftrightarrow> in_range lo hi (rd v)"
| "fits_schema rd (SEnum variants) v \<longleftrightarrow> list_ex (\<lambda>variant. v = JString variant) variants"
| "fits_schema rd (SMap element) v \<longleftrightarrow>
     (case v of
        JObject kvs \<Rightarrow> distinct (map fst kvs) \<and> list_all (\<lambda>(k, x). fits_schema rd element x) kvs
      | _ \<Rightarrow> False)"
| "fits_schema rd (SNullable element) v \<longleftrightarrow> v = JNull \<or> fits_schema rd element v"
| "fits_schema rd (SStruct members) v \<longleftrightarrow>
     (case v of
        JObject kvs \<Rightarrow> distinct (map fst kvs) \<and>
          list_all (\<lambda>(k, element). case map_of kvs k of None \<Rightarrow> False | Some x \<Rightarrow> fits_schema rd element x) members \<and>
          list_all (\<lambda>(k, x). k \<in> set (map fst members)) kvs
      | _ \<Rightarrow> False)"

text \<open>
  \<open>matches\<close> is validity; \<open>admits\<close> also wants every integer the schema asks for to be written as one,
  without fraction or exponent, which is all the generated code reads and writes.
\<close>

abbreviation matches :: "schema \<Rightarrow> json \<Rightarrow> bool" where
  "matches \<equiv> fits_schema json_int"

abbreviation admits :: "schema \<Rightarrow> json \<Rightarrow> bool" where
  "admits \<equiv> fits_schema plain_int"

section \<open>\<open>lenso.outbound-webhook\<close>\<close>

definition source_enqueue_request :: schema where
  "source_enqueue_request =
     SStruct [(''event_id'', SString), (''event_type'', SString), (''payload'', SMap SAny)]"

definition source_enqueue_response_status :: schema where
  "source_enqueue_response_status =
     SEnum (map snake_case [''Queued'', ''Delivering'', ''Delivered'', ''RetryScheduled'', ''DeadLetter''])"

definition source_enqueue_response :: schema where
  "source_enqueue_response =
     SStruct [(''delivery_id'', SString), (''created'', SBoolean),
       (''status'', source_enqueue_response_status)]"

definition source_enqueue_error :: schema where
  "source_enqueue_error = SEnum (map snake_case [''InvalidEvent'', ''IdempotencyConflict'', ''Forbidden''])"

section \<open>\<open>lenso.outbound-webhook-admin\<close>\<close>

definition source_nullable :: "schema \<Rightarrow> schema" where
  "source_nullable element = SNullable element"

definition source_dispatch_request :: schema where
  "source_dispatch_request = SStruct []"

definition source_dispatch_response_outcome :: schema where
  "source_dispatch_response_outcome =
     SEnum (map snake_case [''Idle'', ''Delivered'', ''RetryScheduled'', ''DeadLettered''])"

definition source_dispatch_response_receipt :: schema where
  "source_dispatch_response_receipt =
     SStruct [(''attempt'', SInteger 1 100), (''outcome'', SString),
       (''http_status'', source_nullable SString), (''response_sha256'', source_nullable SString),
       (''occurred_at'', SDateTime)]"

definition source_dispatch_response :: schema where
  "source_dispatch_response =
     SStruct [(''outcome'', source_dispatch_response_outcome),
       (''delivery_id'', source_nullable SString),
       (''receipt'', source_nullable source_dispatch_response_receipt)]"

definition source_dispatch_error :: schema where
  "source_dispatch_error = SEnum (map snake_case [''Forbidden''])"

definition source_inspect_request :: schema where
  "source_inspect_request = SStruct [(''delivery_id'', SString)]"

definition source_inspect_response_status :: schema where
  "source_inspect_response_status =
     SEnum (map snake_case [''Queued'', ''Delivering'', ''RetryScheduled'', ''Delivered'', ''DeadLetter''])"

definition source_inspect_response_last_receipt :: schema where
  "source_inspect_response_last_receipt =
     SStruct [(''attempt'', SInteger 1 100), (''outcome'', SString),
       (''http_status'', source_nullable SString), (''response_sha256'', source_nullable SString),
       (''occurred_at'', SDateTime)]"

definition source_inspect_response :: schema where
  "source_inspect_response =
     SStruct [(''delivery_id'', SString), (''event_id'', SString), (''event_type'', SString),
       (''endpoint_origin'', SString), (''payload_sha256'', SString),
       (''status'', source_inspect_response_status),
       (''attempts'', SInteger 0 100), (''max_attempts'', SInteger 1 100),
       (''replay_count'', SInteger 0 1000000),
       (''last_receipt'', source_nullable source_inspect_response_last_receipt)]"

definition source_inspect_error :: schema where
  "source_inspect_error = SEnum (map snake_case [''Forbidden'', ''InvalidDelivery'', ''NotFound''])"

definition source_replay_request :: schema where
  "source_replay_request = SStruct [(''delivery_id'', SString)]"

definition source_replay_response :: schema where
  "source_replay_response = SStruct [(''replay_count'', SInteger 1 1000000)]"

definition source_replay_error :: schema where
  "source_replay_error =
     SEnum (map snake_case [''Forbidden'', ''InvalidDelivery'', ''NotFound'', ''NotDeadLetter''])"

section \<open>The capability traits\<close>

record source_operation =
  op_name :: string
  op_request :: schema
  op_response :: schema
  op_domain_error :: schema

record source_capability =
  cap_id :: string
  cap_major :: nat
  cap_version :: string
  cap_portable :: bool
  cap_cross_lane_transfer :: bool
  cap_operations :: "source_operation list"

definition source_webhook :: source_capability where
  "source_webhook =
     \<lparr>cap_id = ''lenso.outbound-webhook'', cap_major = 1, cap_version = ''1.0.0'',
      cap_portable = True, cap_cross_lane_transfer = True,
      cap_operations =
        [\<lparr>op_name = ''enqueue'', op_request = source_enqueue_request,
          op_response = source_enqueue_response, op_domain_error = source_enqueue_error\<rparr>]\<rparr>"

definition source_webhook_admin :: source_capability where
  "source_webhook_admin =
     \<lparr>cap_id = ''lenso.outbound-webhook-admin'', cap_major = 1, cap_version = ''1.0.0'',
      cap_portable = True, cap_cross_lane_transfer = True,
      cap_operations =
        [\<lparr>op_name = ''dispatch'', op_request = source_dispatch_request,
          op_response = source_dispatch_response, op_domain_error = source_dispatch_error\<rparr>,
         \<lparr>op_name = ''inspect'', op_request = source_inspect_request,
          op_response = source_inspect_response, op_domain_error = source_inspect_error\<rparr>,
         \<lparr>op_name = ''replay'', op_request = source_replay_request,
          op_response = source_replay_response, op_domain_error = source_replay_error\<rparr>]\<rparr>"

section \<open>Lemmas\<close>

lemma read_int_show_int [simp]: "read_int (show_int i) = i"
proof (cases "i < 0")
  case True
  then show ?thesis by (simp add: show_int_def read_int_def read_show_nat)
next
  case False
  obtain c digits where eq: "show_nat (nat i) = c # digits" and c: "c \<noteq> CHR ''-''"
    using show_nat_hd [of "nat i"] by (cases "show_nat (nat i)") auto
  have "read_nat (c # digits) = nat i" by (metis eq read_show_nat)
  then show ?thesis using False eq c by (simp add: show_int_def read_int_def)
qed

lemma all_digits_show_nat: "all_digits (show_nat n)"
proof (induction n rule: show_nat.induct)
  case (1 n)
  have "in_bytes (CHR ''0'') (CHR ''9'') (digit_char d)" if "d < 10" for d
    using that by (simp add: in_bytes_def digit_char_def)
  with 1 show ?case
    by (cases "n < 10") (simp_all add: show_nat.simps [of n] all_digits_def)
qed

lemma digit_plain: "in_bytes (CHR ''0'') (CHR ''9'') c \<Longrightarrow> \<not> is_exponent c \<and> c \<noteq> CHR ''.'' \<and> c \<noteq> CHR ''-'' \<and> c \<noteq> CHR ''+''"
  by (auto simp: is_exponent_def in_bytes_def)

lemma number_int_digits:
  assumes "all_digits s" and "s \<noteq> []"
  shows "number_int s = Some (int (read_nat s))" and "number_int (CHR ''-'' # s) = Some (- int (read_nat s))"
proof -
  have c: "\<not> is_exponent c" "c \<noteq> CHR ''.''" "c \<noteq> CHR ''-''" "c \<noteq> CHR ''+''" if "c \<in> set s" for c
    using assms(1) that digit_plain by (auto simp: all_digits_def list_all_iff)
  have whole: "takeWhile (\<lambda>c. \<not> is_exponent c) s = s" "dropWhile (\<lambda>c. \<not> is_exponent c) s = []"
    "takeWhile (\<lambda>c. c \<noteq> CHR ''.'') s = s" "dropWhile (\<lambda>c. c \<noteq> CHR ''.'') s = []"
    using c by (auto intro: takeWhile_eq_all_conv [THEN iffD2])
  have sign: "read_minus s = (False, s)" "read_minus (CHR ''-'' # s) = (True, s)" "read_signed [] = (False, [])"
    using assms(2) c by (cases s; auto simp: read_minus_def read_signed_def)+
  show "number_int s = Some (int (read_nat s))" "number_int (CHR ''-'' # s) = Some (- int (read_nat s))"
    using assms by (simp_all add: number_int_def sign whole read_nat_def)
qed

lemma number_int_show [simp]: "number_int (show_int i) = Some i"
proof (cases "i < 0")
  case True
  then show ?thesis
    using number_int_digits(2) [OF all_digits_show_nat, of "nat (- i)"] show_nat_hd [of "nat (- i)"] by (simp add: show_int_def read_show_nat)
next
  case False
  then show ?thesis
    using number_int_digits(1) [OF all_digits_show_nat, of "nat i"] show_nat_hd [of "nat i"] by (simp add: show_int_def read_show_nat)
qed

lemma json_int_show [simp]: "json_int (JNumber (show_int i)) = Some i" "plain_int (JNumber (show_int i)) = Some i"
  by simp_all

text \<open>What the other forms mean.\<close>

lemma number_int_forms:
  "number_int ''1.0'' = Some 1" "number_int ''1e2'' = Some 100" "number_int ''2.50E+1'' = Some 25"
  "number_int ''1.5'' = None" "number_int ''-30e-1'' = Some (- 3)"
  by code_simp+

lemma plain_json_int: "plain_int v = Some i \<Longrightarrow> json_int v = Some i"
proof (induction v rule: plain_int.induct)
  case (1 s)
  then have "s = show_int i" by (auto split: if_splits)
  then show ?case by simp
qed simp_all

lemma admits_matches: "admits sch v \<Longrightarrow> matches sch v"
proof (induction sch arbitrary: v)
  case (SInteger lo hi)
  then show ?case by (cases "plain_int v") (auto dest: plain_json_int)
next
  case (SMap element)
  then show ?case by (cases v) (auto simp: list_all_iff)
next
  case (SStruct members)
  then show ?case by (cases v) (fastforce simp: list_all_iff split: option.splits)+
qed auto

text \<open>Without an integer in it, a schema means the same both ways.\<close>

fun no_integer :: "schema \<Rightarrow> bool" where
  "no_integer (SInteger lo hi) \<longleftrightarrow> False"
| "no_integer (SMap element) \<longleftrightarrow> no_integer element"
| "no_integer (SNullable element) \<longleftrightarrow> no_integer element"
| "no_integer (SStruct members) \<longleftrightarrow> list_all (\<lambda>(k, element). no_integer element) members"
| "no_integer _ \<longleftrightarrow> True"

lemma no_integer_admits: "no_integer sch \<Longrightarrow> matches sch v \<Longrightarrow> admits sch v"
proof (induction sch arbitrary: v)
  case (SMap element)
  then show ?case by (cases v) (auto simp: list_all_iff)
next
  case (SStruct members)
  then show ?case by (cases v) (fastforce simp: list_all_iff split: option.splits)+
qed auto

lemma snake_case_names [simp]:
  "snake_case ''Queued'' = ''queued''" "snake_case ''Delivering'' = ''delivering''"
  "snake_case ''Delivered'' = ''delivered''" "snake_case ''RetryScheduled'' = ''retry_scheduled''"
  "snake_case ''DeadLetter'' = ''dead_letter''" "snake_case ''Idle'' = ''idle''"
  "snake_case ''DeadLettered'' = ''dead_lettered''" "snake_case ''Forbidden'' = ''forbidden''"
  "snake_case ''InvalidEvent'' = ''invalid_event''" "snake_case ''NotFound'' = ''not_found''"
  "snake_case ''IdempotencyConflict'' = ''idempotency_conflict''"
  "snake_case ''InvalidDelivery'' = ''invalid_delivery''"
  "snake_case ''NotDeadLetter'' = ''not_dead_letter''"
  by code_simp+

declare snake_case.simps [simp del]

lemmas source_defs = source_enqueue_request_def source_enqueue_response_status_def
  source_enqueue_response_def source_enqueue_error_def source_nullable_def
  source_dispatch_request_def source_dispatch_response_outcome_def
  source_dispatch_response_receipt_def source_dispatch_response_def source_dispatch_error_def
  source_inspect_request_def source_inspect_response_status_def
  source_inspect_response_last_receipt_def source_inspect_response_def source_inspect_error_def
  source_replay_request_def source_replay_response_def source_replay_error_def

end
