(* ===== verification/Wire.thy ===== *)
theory Wire
  imports Contract_Source "HOL-Library.Monad_Syntax"
begin

text \<open>
  The wire form of the generated types (\<open>generated.rs\<close> of the two capability crates): the derived
  serialisers and deserialisers of requests and responses, and the \<open>encode_*\<close> and \<open>decode_*\<close>
  functions. The locale \<open>wire_type\<close> states what a type and its authored schema owe each other.
\<close>

section \<open>Derived serialisation\<close>

text \<open>
  The functions of \<open>lenso_contract_runtime\<close> the code calls: \<open>encode_portable_json\<close> and
  \<open>decode_portable_json\<close> around the type's own (de)serialisation, \<open>deserialize_required\<close> before a
  field's, and the display of a JSON value. The text of a \<open>serde_json\<close> error is not modelled:
  a failure is \<open>None\<close>.
\<close>

record portable =
  print_json :: "json \<Rightarrow> string option"
  parse_json :: "string \<Rightarrow> json option"
  required :: "json \<Rightarrow> json option"
  show_json :: "json \<Rightarrow> string"

definition transparent :: "portable \<Rightarrow> bool" where
  "transparent pt \<longleftrightarrow> (\<forall>v. required pt v = Some v)"

text \<open>
  A derived struct accepts an object with each field once, ignoring others, or an array of its
  fields in order; a unit variant is its name, or an object from its name to null.
\<close>

definition sole_member :: "portable \<Rightarrow> (string \<times> json) list \<Rightarrow> string \<Rightarrow> (string \<times> json) option" where
  "sole_member pt kvs name =
     (case filter (\<lambda>p. fst p = name) kvs of
        [(_, x)] \<Rightarrow> map_option (Pair name) (required pt x)
      | _ \<Rightarrow> None)"

definition struct_members :: "portable \<Rightarrow> string list \<Rightarrow> json \<Rightarrow> (string \<times> json) list option" where
  "struct_members pt names v =
     (case v of
        JObject kvs \<Rightarrow> those (map (sole_member pt kvs) names)
      | JArray vs \<Rightarrow>
          (if length vs = length names
           then those (map (\<lambda>(name, x). map_option (Pair name) (required pt x)) (zip names vs))
           else None)
      | _ \<Rightarrow> None)"

definition member_as :: "(string \<times> json) list \<Rightarrow> string \<Rightarrow> (json \<Rightarrow> 'a option) \<Rightarrow> 'a option" where
  "member_as members name de = Option.bind (map_of members name) de"

definition unit_variant :: "json \<Rightarrow> string option" where
  "unit_variant v =
     (case v of JString s \<Rightarrow> Some s | JObject [(s, JNull)] \<Rightarrow> Some s | _ \<Rightarrow> None)"

fun option_to_json :: "('a \<Rightarrow> json) \<Rightarrow> 'a option \<Rightarrow> json" where
  "option_to_json f None = JNull"
| "option_to_json f (Some x) = f x"

definition option_of_json :: "(json \<Rightarrow> 'a option) \<Rightarrow> json \<Rightarrow> 'a option option" where
  "option_of_json f v = (if v = JNull then Some None else map_option Some (f v))"

fun bool_of_json :: "json \<Rightarrow> bool option" where
  "bool_of_json (JBool b) = Some b"
| "bool_of_json _ = None"

definition in_i64 :: "int \<Rightarrow> bool" where
  "in_i64 i \<longleftrightarrow> i64_min \<le> i \<and> i \<le> i64_max"

definition i64_to_json :: "int \<Rightarrow> json" where
  "i64_to_json i = JNumber (show_int i)"

definition i64_of_json :: "json \<Rightarrow> int option" where
  "i64_of_json v = (case plain_int v of Some i \<Rightarrow> if in_i64 i then Some i else None | None \<Rightarrow> None)"

subsection \<open>\<open>lenso.outbound-webhook@1\<close>\<close>

definition enqueue_request_to_json :: "enqueue_request \<Rightarrow> json" where
  "enqueue_request_to_json r =
     JObject [(''event_id'', JString (enq_event_id r)), (''event_type'', JString (enq_event_type r)),
              (''payload'', JObject (enq_payload r))]"

definition enqueue_request_of_json :: "portable \<Rightarrow> json \<Rightarrow> enqueue_request option" where
  "enqueue_request_of_json pt v =
     do { m \<leftarrow> struct_members pt [''event_id'', ''event_type'', ''payload''] v;
          event_id \<leftarrow> member_as m ''event_id'' as_str;
          event_type \<leftarrow> member_as m ''event_type'' as_str;
          payload \<leftarrow> member_as m ''payload'' as_object;
          Some \<lparr>enq_event_id = event_id, enq_event_type = event_type, enq_payload = btree_of_list payload\<rparr> }"

fun enqueue_response_status_to_str :: "enqueue_response_status \<Rightarrow> string" where
  "enqueue_response_status_to_str EnqueueQueued = ''queued''"
| "enqueue_response_status_to_str EnqueueDelivering = ''delivering''"
| "enqueue_response_status_to_str EnqueueDelivered = ''delivered''"
| "enqueue_response_status_to_str EnqueueRetryScheduled = ''retry_scheduled''"
| "enqueue_response_status_to_str EnqueueDeadLetter = ''dead_letter''"

definition enqueue_response_status_of_str :: "string \<Rightarrow> enqueue_response_status option" where
  "enqueue_response_status_of_str s =
     (if s = ''queued'' then Some EnqueueQueued
      else if s = ''delivering'' then Some EnqueueDelivering
      else if s = ''delivered'' then Some EnqueueDelivered
      else if s = ''retry_scheduled'' then Some EnqueueRetryScheduled
      else if s = ''dead_letter'' then Some EnqueueDeadLetter
      else None)"

definition enqueue_response_to_json :: "enqueue_response \<Rightarrow> json" where
  "enqueue_response_to_json r =
     JObject [(''created'', JBool (enq_created r)), (''delivery_id'', JString (enq_delivery_id r)),
              (''status'', JString (enqueue_response_status_to_str (enq_status r)))]"

definition enqueue_response_of_json :: "portable \<Rightarrow> json \<Rightarrow> enqueue_response option" where
  "enqueue_response_of_json pt v =
     do { m \<leftarrow> struct_members pt [''created'', ''delivery_id'', ''status''] v;
          created \<leftarrow> member_as m ''created'' bool_of_json;
          delivery_id \<leftarrow> member_as m ''delivery_id'' as_str;
          variant \<leftarrow> member_as m ''status'' unit_variant;
          status \<leftarrow> enqueue_response_status_of_str variant;
          Some \<lparr>enq_created = created, enq_delivery_id = delivery_id, enq_status = status\<rparr> }"

subsection \<open>\<open>lenso.outbound-webhook-admin@1\<close>\<close>

definition dispatch_request_to_json :: "dispatch_request \<Rightarrow> json" where
  "dispatch_request_to_json r = JObject []"

definition dispatch_request_of_json :: "portable \<Rightarrow> json \<Rightarrow> dispatch_request option" where
  "dispatch_request_of_json pt v = do { m \<leftarrow> struct_members pt [] v; Some DispatchRequest }"

fun dispatch_response_outcome_to_str :: "dispatch_response_outcome \<Rightarrow> string" where
  "dispatch_response_outcome_to_str DispatchIdle = ''idle''"
| "dispatch_response_outcome_to_str DispatchDelivered = ''delivered''"
| "dispatch_response_outcome_to_str DispatchRetryScheduled = ''retry_scheduled''"
| "dispatch_response_outcome_to_str DispatchDeadLettered = ''dead_lettered''"

definition dispatch_response_outcome_of_str :: "string \<Rightarrow> dispatch_response_outcome option" where
  "dispatch_response_outcome_of_str s =
     (if s = ''idle'' then Some DispatchIdle
      else if s = ''delivered'' then Some DispatchDelivered
      else if s = ''retry_scheduled'' then Some DispatchRetryScheduled
      else if s = ''dead_lettered'' then Some DispatchDeadLettered
      else None)"

definition dispatch_response_receipt_to_json :: "dispatch_response_receipt \<Rightarrow> json" where
  "dispatch_response_receipt_to_json r =
     JObject [(''attempt'', i64_to_json (drr_attempt r)),
              (''http_status'', option_to_json JString (drr_http_status r)),
              (''occurred_at'', JString (drr_occurred_at r)),
              (''outcome'', JString (drr_outcome r)),
              (''response_sha256'', option_to_json JString (drr_response_sha256 r))]"

definition dispatch_response_receipt_of_json :: "portable \<Rightarrow> json \<Rightarrow> dispatch_response_receipt option" where
  "dispatch_response_receipt_of_json pt v =
     do { m \<leftarrow> struct_members pt
            [''attempt'', ''http_status'', ''occurred_at'', ''outcome'', ''response_sha256''] v;
          attempt \<leftarrow> member_as m ''attempt'' i64_of_json;
          http_status \<leftarrow> member_as m ''http_status'' (option_of_json as_str);
          occurred_at \<leftarrow> member_as m ''occurred_at'' as_str;
          outcome \<leftarrow> member_as m ''outcome'' as_str;
          response_sha256 \<leftarrow> member_as m ''response_sha256'' (option_of_json as_str);
          Some \<lparr>drr_attempt = attempt, drr_http_status = http_status, drr_occurred_at = occurred_at,
                drr_outcome = outcome, drr_response_sha256 = response_sha256\<rparr> }"

definition dispatch_response_to_json :: "dispatch_response \<Rightarrow> json" where
  "dispatch_response_to_json r =
     JObject [(''delivery_id'', option_to_json JString (dsp_delivery_id r)),
              (''outcome'', JString (dispatch_response_outcome_to_str (dsp_outcome r))),
              (''receipt'', option_to_json dispatch_response_receipt_to_json (dsp_receipt r))]"

definition dispatch_response_of_json :: "portable \<Rightarrow> json \<Rightarrow> dispatch_response option" where
  "dispatch_response_of_json pt v =
     do { m \<leftarrow> struct_members pt [''delivery_id'', ''outcome'', ''receipt''] v;
          delivery_id \<leftarrow> member_as m ''delivery_id'' (option_of_json as_str);
          variant \<leftarrow> member_as m ''outcome'' unit_variant;
          outcome \<leftarrow> dispatch_response_outcome_of_str variant;
          receipt \<leftarrow> member_as m ''receipt'' (option_of_json (dispatch_response_receipt_of_json pt));
          Some \<lparr>dsp_delivery_id = delivery_id, dsp_outcome = outcome, dsp_receipt = receipt\<rparr> }"

definition inspect_request_to_json :: "inspect_request \<Rightarrow> json" where
  "inspect_request_to_json r = JObject [(''delivery_id'', JString (ins_request_delivery_id r))]"

definition inspect_request_of_json :: "portable \<Rightarrow> json \<Rightarrow> inspect_request option" where
  "inspect_request_of_json pt v =
     do { m \<leftarrow> struct_members pt [''delivery_id''] v;
          delivery_id \<leftarrow> member_as m ''delivery_id'' as_str;
          Some \<lparr>ins_request_delivery_id = delivery_id\<rparr> }"

fun inspect_response_status_to_str :: "inspect_response_status \<Rightarrow> string" where
  "inspect_response_status_to_str InspectQueued = ''queued''"
| "inspect_response_status_to_str InspectDelivering = ''delivering''"
| "inspect_response_status_to_str InspectRetryScheduled = ''retry_scheduled''"
| "inspect_response_status_to_str InspectDelivered = ''delivered''"
| "inspect_response_status_to_str InspectDeadLetter = ''dead_letter''"

definition inspect_response_status_of_str :: "string \<Rightarrow> inspect_response_status option" where
  "inspect_response_status_of_str s =
     (if s = ''queued'' then Some InspectQueued
      else if s = ''delivering'' then Some InspectDelivering
      else if s = ''retry_scheduled'' then Some InspectRetryScheduled
      else if s = ''delivered'' then Some InspectDelivered
      else if s = ''dead_letter'' then Some InspectDeadLetter
      else None)"

definition inspect_response_last_receipt_to_json :: "inspect_response_last_receipt \<Rightarrow> json" where
  "inspect_response_last_receipt_to_json r =
     JObject [(''attempt'', i64_to_json (ilr_attempt r)),
              (''http_status'', option_to_json JString (ilr_http_status r)),
              (''occurred_at'', JString (ilr_occurred_at r)),
              (''outcome'', JString (ilr_outcome r)),
              (''response_sha256'', option_to_json JString (ilr_response_sha256 r))]"

definition inspect_response_last_receipt_of_json ::
    "portable \<Rightarrow> json \<Rightarrow> inspect_response_last_receipt option" where
  "inspect_response_last_receipt_of_json pt v =
     do { m \<leftarrow> struct_members pt
            [''attempt'', ''http_status'', ''occurred_at'', ''outcome'', ''response_sha256''] v;
          attempt \<leftarrow> member_as m ''attempt'' i64_of_json;
          http_status \<leftarrow> member_as m ''http_status'' (option_of_json as_str);
          occurred_at \<leftarrow> member_as m ''occurred_at'' as_str;
          outcome \<leftarrow> member_as m ''outcome'' as_str;
          response_sha256 \<leftarrow> member_as m ''response_sha256'' (option_of_json as_str);
          Some \<lparr>ilr_attempt = attempt, ilr_http_status = http_status, ilr_occurred_at = occurred_at,
                ilr_outcome = outcome, ilr_response_sha256 = response_sha256\<rparr> }"

definition inspect_response_to_json :: "inspect_response \<Rightarrow> json" where
  "inspect_response_to_json r =
     JObject [(''attempts'', i64_to_json (ins_attempts r)),
              (''delivery_id'', JString (ins_delivery_id r)),
              (''endpoint_origin'', JString (ins_endpoint_origin r)),
              (''event_id'', JString (ins_event_id r)),
              (''event_type'', JString (ins_event_type r)),
              (''last_receipt'', option_to_json inspect_response_last_receipt_to_json (ins_last_receipt r)),
              (''max_attempts'', i64_to_json (ins_max_attempts r)),
              (''payload_sha256'', JString (ins_payload_sha256 r)),
              (''replay_count'', i64_to_json (ins_replay_count r)),
              (''status'', JString (inspect_response_status_to_str (ins_status r)))]"

definition inspect_response_of_json :: "portable \<Rightarrow> json \<Rightarrow> inspect_response option" where
  "inspect_response_of_json pt v =
     do { m \<leftarrow> struct_members pt
            [''attempts'', ''delivery_id'', ''endpoint_origin'', ''event_id'', ''event_type'',
             ''last_receipt'', ''max_attempts'', ''payload_sha256'', ''replay_count'', ''status''] v;
          attempts \<leftarrow> member_as m ''attempts'' i64_of_json;
          delivery_id \<leftarrow> member_as m ''delivery_id'' as_str;
          endpoint_origin \<leftarrow> member_as m ''endpoint_origin'' as_str;
          event_id \<leftarrow> member_as m ''event_id'' as_str;
          event_type \<leftarrow> member_as m ''event_type'' as_str;
          last_receipt \<leftarrow>
            member_as m ''last_receipt'' (option_of_json (inspect_response_last_receipt_of_json pt));
          max_attempts \<leftarrow> member_as m ''max_attempts'' i64_of_json;
          payload_sha256 \<leftarrow> member_as m ''payload_sha256'' as_str;
          replay_count \<leftarrow> member_as m ''replay_count'' i64_of_json;
          variant \<leftarrow> member_as m ''status'' unit_variant;
          status \<leftarrow> inspect_response_status_of_str variant;
          Some \<lparr>ins_attempts = attempts, ins_delivery_id = delivery_id,
                ins_endpoint_origin = endpoint_origin, ins_event_id = event_id,
                ins_event_type = event_type, ins_last_receipt = last_receipt,
                ins_max_attempts = max_attempts, ins_payload_sha256 = payload_sha256,
                ins_replay_count = replay_count, ins_status = status\<rparr> }"

definition replay_request_to_json :: "replay_request \<Rightarrow> json" where
  "replay_request_to_json r = JObject [(''delivery_id'', JString (rpl_request_delivery_id r))]"

definition replay_request_of_json :: "portable \<Rightarrow> json \<Rightarrow> replay_request option" where
  "replay_request_of_json pt v =
     do { m \<leftarrow> struct_members pt [''delivery_id''] v;
          delivery_id \<leftarrow> member_as m ''delivery_id'' as_str;
          Some \<lparr>rpl_request_delivery_id = delivery_id\<rparr> }"

definition replay_response_to_json :: "replay_response \<Rightarrow> json" where
  "replay_response_to_json r = JObject [(''replay_count'', i64_to_json (rpl_replay_count r))]"

definition replay_response_of_json :: "portable \<Rightarrow> json \<Rightarrow> replay_response option" where
  "replay_response_of_json pt v =
     do { m \<leftarrow> struct_members pt [''replay_count''] v;
          replay_count \<leftarrow> member_as m ''replay_count'' i64_of_json;
          Some \<lparr>rpl_replay_count = replay_count\<rparr> }"

section \<open>Encoding and decoding\<close>

definition encode_portable :: "portable \<Rightarrow> ('a \<Rightarrow> json) \<Rightarrow> 'a \<Rightarrow> string option" where
  "encode_portable pt to_json x = print_json pt (to_json x)"

definition decode_portable :: "portable \<Rightarrow> (json \<Rightarrow> 'a option) \<Rightarrow> string \<Rightarrow> 'a option" where
  "decode_portable pt of_json wire = Option.bind (parse_json pt wire) of_json"

fun result_option :: "('a, 'e) result \<Rightarrow> 'a option" where
  "result_option (Ok x) = Some x"
| "result_option _ = None"

definition encode_enqueue_request :: "portable \<Rightarrow> enqueue_request \<Rightarrow> string option" where
  "encode_enqueue_request pt = encode_portable pt enqueue_request_to_json"

definition decode_enqueue_request :: "portable \<Rightarrow> string \<Rightarrow> enqueue_request option" where
  "decode_enqueue_request pt = decode_portable pt (enqueue_request_of_json pt)"

definition encode_enqueue_response :: "portable \<Rightarrow> enqueue_response \<Rightarrow> string option" where
  "encode_enqueue_response pt = encode_portable pt enqueue_response_to_json"

definition decode_enqueue_response :: "portable \<Rightarrow> string \<Rightarrow> enqueue_response option" where
  "decode_enqueue_response pt = decode_portable pt (enqueue_response_of_json pt)"

definition encode_enqueue_error :: "portable \<Rightarrow> enqueue_error \<Rightarrow> string option" where
  "encode_enqueue_error pt = encode_portable pt enqueue_error_serialize"

definition decode_enqueue_error :: "portable \<Rightarrow> string \<Rightarrow> enqueue_error option" where
  "decode_enqueue_error pt = decode_portable pt (\<lambda>v. result_option (enqueue_error_deserialize (show_json pt) v))"

definition encode_dispatch_request :: "portable \<Rightarrow> dispatch_request \<Rightarrow> string option" where
  "encode_dispatch_request pt = encode_portable pt dispatch_request_to_json"

definition decode_dispatch_request :: "portable \<Rightarrow> string \<Rightarrow> dispatch_request option" where
  "decode_dispatch_request pt = decode_portable pt (dispatch_request_of_json pt)"

definition encode_dispatch_response :: "portable \<Rightarrow> dispatch_response \<Rightarrow> string option" where
  "encode_dispatch_response pt = encode_portable pt dispatch_response_to_json"

definition decode_dispatch_response :: "portable \<Rightarrow> string \<Rightarrow> dispatch_response option" where
  "decode_dispatch_response pt = decode_portable pt (dispatch_response_of_json pt)"

definition encode_dispatch_error :: "portable \<Rightarrow> dispatch_error \<Rightarrow> string option" where
  "encode_dispatch_error pt = encode_portable pt dispatch_error_serialize"

definition decode_dispatch_error :: "portable \<Rightarrow> string \<Rightarrow> dispatch_error option" where
  "decode_dispatch_error pt = decode_portable pt (\<lambda>v. result_option (dispatch_error_deserialize (show_json pt) v))"

definition encode_inspect_request :: "portable \<Rightarrow> inspect_request \<Rightarrow> string option" where
  "encode_inspect_request pt = encode_portable pt inspect_request_to_json"

definition decode_inspect_request :: "portable \<Rightarrow> string \<Rightarrow> inspect_request option" where
  "decode_inspect_request pt = decode_portable pt (inspect_request_of_json pt)"

definition encode_inspect_response :: "portable \<Rightarrow> inspect_response \<Rightarrow> string option" where
  "encode_inspect_response pt = encode_portable pt inspect_response_to_json"

definition decode_inspect_response :: "portable \<Rightarrow> string \<Rightarrow> inspect_response option" where
  "decode_inspect_response pt = decode_portable pt (inspect_response_of_json pt)"

definition encode_inspect_error :: "portable \<Rightarrow> inspect_error \<Rightarrow> string option" where
  "encode_inspect_error pt = encode_portable pt inspect_error_serialize"

definition decode_inspect_error :: "portable \<Rightarrow> string \<Rightarrow> inspect_error option" where
  "decode_inspect_error pt = decode_portable pt (\<lambda>v. result_option (inspect_error_deserialize (show_json pt) v))"

definition encode_replay_request :: "portable \<Rightarrow> replay_request \<Rightarrow> string option" where
  "encode_replay_request pt = encode_portable pt replay_request_to_json"

definition decode_replay_request :: "portable \<Rightarrow> string \<Rightarrow> replay_request option" where
  "decode_replay_request pt = decode_portable pt (replay_request_of_json pt)"

definition encode_replay_response :: "portable \<Rightarrow> replay_response \<Rightarrow> string option" where
  "encode_replay_response pt = encode_portable pt replay_response_to_json"

definition decode_replay_response :: "portable \<Rightarrow> string \<Rightarrow> replay_response option" where
  "decode_replay_response pt = decode_portable pt (replay_response_of_json pt)"

definition encode_replay_error :: "portable \<Rightarrow> replay_error \<Rightarrow> string option" where
  "encode_replay_error pt = encode_portable pt replay_error_serialize"

definition decode_replay_error :: "portable \<Rightarrow> string \<Rightarrow> replay_error option" where
  "decode_replay_error pt = decode_portable pt (\<lambda>v. result_option (replay_error_deserialize (show_json pt) v))"

section \<open>What a type owes its schema\<close>

text \<open>
  \<open>valid v\<close>: the value can be written and read back; \<open>fits v\<close>: it is one the contract allows.
\<close>

locale wire_type =
  fixes to_json :: "'a \<Rightarrow> json"
    and of_json :: "portable \<Rightarrow> json \<Rightarrow> 'a option"
    and valid :: "'a \<Rightarrow> bool"
    and fits :: "'a \<Rightarrow> bool"
    and sch :: schema
  assumes of_to: "transparent pt \<Longrightarrow> valid v \<Longrightarrow> of_json pt (to_json v) = Some v"
    and fits_matches: "fits v \<Longrightarrow> admits sch (to_json v)"
    and accepts: "transparent pt \<Longrightarrow> admits sch j \<Longrightarrow> \<exists>v. of_json pt j = Some v \<and> fits v"
begin

lemma reads_back:
  assumes "transparent pt" and "valid v"
    and "encode_portable pt to_json v = Some wire" and "parse_json pt wire = Some (to_json v)"
  shows "decode_portable pt (of_json pt) wire = Some v"
  using assms of_to by (simp add: decode_portable_def)

lemma contract_decodes:
  assumes "transparent pt" and "admits sch j" and "parse_json pt wire = Some j"
  shows "\<exists>v. decode_portable pt (of_json pt) wire = Some v \<and> admits sch (to_json v)"
  using accepts [OF assms(1,2)] assms(3) fits_matches by (auto simp: decode_portable_def)

end

subsection \<open>Reading what the schema allows\<close>

lemma filter_key: "distinct (map fst kvs) \<Longrightarrow> map_of kvs k = Some x \<Longrightarrow> filter (\<lambda>p. fst p = k) kvs = [(k, x)]"
proof (induction kvs)
  case (Cons p kvs)
  show ?case
  proof (cases "fst p = k")
    case True
    have "filter (\<lambda>p. fst p = k) kvs = []"
      using Cons.prems(1) True by (auto simp: filter_empty_conv) (metis fst_conv image_eqI)
    with True Cons.prems(2) show ?thesis by (cases p) (auto split: if_splits)
  next
    case False
    with Cons show ?thesis by (cases p) auto
  qed
qed simp

lemma those_map_Some: "those (map (\<lambda>x. Some (f x)) xs) = Some (map f xs)"
  by (induction xs) auto

lemma struct_members_object:
  assumes "transparent pt" and "distinct (map fst kvs)" and "\<forall>name \<in> set names. \<exists>x. map_of kvs name = Some x"
  shows "struct_members pt names (JObject kvs) = Some (map (\<lambda>name. (name, the (map_of kvs name))) names)"
proof -
  have "map (sole_member pt kvs) names = map (\<lambda>name. Some (name, the (map_of kvs name))) names"
  proof (rule map_cong [OF refl])
    fix name assume "name \<in> set names"
    then obtain x where "map_of kvs name = Some x" using assms(3) by blast
    then show "sole_member pt kvs name = Some (name, the (map_of kvs name))"
      using filter_key [OF assms(2)] assms(1) by (simp add: transparent_def sole_member_def)
  qed
  then show ?thesis by (simp only: struct_members_def json.case those_map_Some)
qed

lemma is_string_iff: "is_string v \<longleftrightarrow> (\<exists>s. v = JString s)"
  by (cases v) auto

definition matches_field :: "(string \<times> json) list \<Rightarrow> string \<times> schema \<Rightarrow> bool" where
  "matches_field kvs p \<longleftrightarrow> (\<exists>x. map_of kvs (fst p) = Some x \<and> admits (snd p) x)"

lemma matches_struct:
  "admits (SStruct members) v \<longleftrightarrow> (\<exists>kvs. v = JObject kvs \<and> distinct (map fst kvs) \<and>
    list_all (matches_field kvs) members \<and> fst ` set kvs \<subseteq> fst ` set members)"
proof (cases v)
  case (JObject kvs)
  have "list_all (\<lambda>(k, element). case map_of kvs k of None \<Rightarrow> False | Some x \<Rightarrow> admits element x) members
      = list_all (matches_field kvs) members"
    by (rule list.pred_cong) (auto simp: matches_field_def split: option.splits)
  moreover have "list_all (\<lambda>(k, x). k \<in> set (map fst members)) kvs \<longleftrightarrow> fst ` set kvs \<subseteq> fst ` set members"
    by (simp add: list_all_iff case_prod_unfold image_subset_iff)
  ultimately show ?thesis by (simp add: JObject)
qed auto

lemma matches_string: "admits SString v \<longleftrightarrow> (\<exists>s. v = JString s)" "admits SDateTime v \<longleftrightarrow> (\<exists>s. v = JString s)"
  by (simp_all add: is_string_iff)

lemma matches_map_any: "admits (SMap SAny) v \<longleftrightarrow> (\<exists>kvs. v = JObject kvs \<and> distinct (map fst kvs))"
  by (cases v) (simp_all add: list_all_iff case_prod_unfold)

lemma matches_nullable_string: "admits (SNullable SString) v \<longleftrightarrow> (\<exists>s. option_of_json as_str v = Some s)"
  by (cases v) (auto simp: option_of_json_def)

lemma matches_nullable:
  assumes "admits (SNullable element) v" and "\<And>x. admits element x \<Longrightarrow> \<exists>y. g x = Some y \<and> P y"
  shows "\<exists>found. option_of_json g v = Some found \<and> (\<forall>y. found = Some y \<longrightarrow> P y)"
  using assms by (cases "v = JNull") (fastforce simp: option_of_json_def)+

lemma nullable_matches:
  "(\<And>x. found = Some x \<Longrightarrow> admits element (f x)) \<Longrightarrow> admits (SNullable element) (option_to_json f found)"
  by (cases found) auto

lemma option_of_to_json [simp]:
  "(\<And>x. f x \<noteq> JNull) \<Longrightarrow> (\<And>x. o' = Some x \<Longrightarrow> g (f x) = Some x) \<Longrightarrow> option_of_json g (option_to_json f o') = Some o'"
  by (cases o') (auto simp: option_of_json_def)

lemma i64_of_to_json [simp]: "in_i64 i \<Longrightarrow> i64_of_json (i64_to_json i) = Some i"
  by (simp add: i64_of_json_def i64_to_json_def)

lemma matches_integer:
  assumes "- 1000000 \<le> lo" and "hi \<le> 1000000"
  shows "admits (SInteger lo hi) v \<longleftrightarrow> (\<exists>i. i64_of_json v = Some i \<and> lo \<le> i \<and> i \<le> hi)"
  using assms by (cases "plain_int v") (auto simp: i64_of_json_def in_i64_def i64_min_def i64_max_def)

lemma in_i64_small: "- 1000000 \<le> i \<Longrightarrow> i \<le> 1000000 \<Longrightarrow> in_i64 i"
  by (simp add: in_i64_def i64_min_def i64_max_def)

lemma i64_to_json_neq [simp]: "i64_to_json i \<noteq> JNull"
  by (simp add: i64_to_json_def)

declare fits_schema.simps [simp del] and map_of_eq_Some_iff [simp del]

subsection \<open>The eight types\<close>

lemmas wire_simps = struct_members_object member_as_def unit_variant_def

lemmas contract_simps = source_nullable_def matches_struct matches_field_def matches_string matches_map_any
  matches_nullable_string matches_integer fits_schema.simps(4,6)

interpretation enqueue_request_wire: wire_type enqueue_request_to_json enqueue_request_of_json
  "\<lambda>v. btree_ok (enq_payload v)" "\<lambda>v. btree_ok (enq_payload v)" source_enqueue_request
proof unfold_locales
  fix pt v
  show "transparent pt \<Longrightarrow> (\<lambda>v. btree_ok (enq_payload v)) v \<Longrightarrow> enqueue_request_of_json pt (enqueue_request_to_json v) = Some v"
    by (simp add: enqueue_request_of_json_def enqueue_request_to_json_def wire_simps btree_of_list_id)
  show "(\<lambda>v. btree_ok (enq_payload v)) v \<Longrightarrow> admits source_enqueue_request (enqueue_request_to_json v)"
    by (simp add: enqueue_request_to_json_def source_enqueue_request_def contract_simps btree_ok_distinct)
next
  fix pt j
  assume "transparent pt" and "admits source_enqueue_request j"
  then show "\<exists>v. enqueue_request_of_json pt j = Some v \<and> (\<lambda>v. btree_ok (enq_payload v)) v"
    by (auto simp: enqueue_request_of_json_def source_enqueue_request_def contract_simps wire_simps btree_ok_of_list)
qed

lemma enqueue_response_status_of_to [simp]: "enqueue_response_status_of_str (enqueue_response_status_to_str st) = Some st"
  by (cases st) (simp_all add: enqueue_response_status_of_str_def)

interpretation enqueue_response_wire: wire_type enqueue_response_to_json enqueue_response_of_json
  "\<lambda>_. True" "\<lambda>_. True" source_enqueue_response
proof unfold_locales
  fix pt v
  show "transparent pt \<Longrightarrow> (\<lambda>_. True) v \<Longrightarrow> enqueue_response_of_json pt (enqueue_response_to_json v) = Some v"
    by (simp add: enqueue_response_of_json_def enqueue_response_to_json_def wire_simps)
  show "(\<lambda>_. True) v \<Longrightarrow> admits source_enqueue_response (enqueue_response_to_json v)"
    by (cases "enq_status v") (simp_all add: enqueue_response_to_json_def source_enqueue_response_def contract_simps source_enqueue_response_status_def)
next
  fix pt j
  assume "transparent pt" and "admits source_enqueue_response j"
  then show "\<exists>v. enqueue_response_of_json pt j = Some v \<and> (\<lambda>_. True) v"
    by (auto simp: enqueue_response_of_json_def source_enqueue_response_def contract_simps wire_simps source_enqueue_response_status_def enqueue_response_status_of_str_def)
qed

interpretation dispatch_request_wire: wire_type dispatch_request_to_json dispatch_request_of_json
  "\<lambda>_. True" "\<lambda>_. True" source_dispatch_request
proof unfold_locales
  fix pt v
  show "transparent pt \<Longrightarrow> (\<lambda>_. True) v \<Longrightarrow> dispatch_request_of_json pt (dispatch_request_to_json v) = Some v"
    by (cases v) (simp add: dispatch_request_of_json_def dispatch_request_to_json_def wire_simps)
  show "(\<lambda>_. True) v \<Longrightarrow> admits source_dispatch_request (dispatch_request_to_json v)"
    by (simp add: dispatch_request_to_json_def source_dispatch_request_def contract_simps)
next
  fix pt j
  assume "transparent pt" and "admits source_dispatch_request j"
  then show "\<exists>v. dispatch_request_of_json pt j = Some v \<and> (\<lambda>_. True) v"
    by (auto simp: dispatch_request_of_json_def source_dispatch_request_def contract_simps wire_simps)
qed

interpretation inspect_request_wire: wire_type inspect_request_to_json inspect_request_of_json
  "\<lambda>_. True" "\<lambda>_. True" source_inspect_request
proof unfold_locales
  fix pt v
  show "transparent pt \<Longrightarrow> (\<lambda>_. True) v \<Longrightarrow> inspect_request_of_json pt (inspect_request_to_json v) = Some v"
    by (simp add: inspect_request_of_json_def inspect_request_to_json_def wire_simps)
  show "(\<lambda>_. True) v \<Longrightarrow> admits source_inspect_request (inspect_request_to_json v)"
    by (simp add: inspect_request_to_json_def source_inspect_request_def contract_simps)
next
  fix pt j
  assume "transparent pt" and "admits source_inspect_request j"
  then show "\<exists>v. inspect_request_of_json pt j = Some v \<and> (\<lambda>_. True) v"
    by (auto simp: inspect_request_of_json_def source_inspect_request_def contract_simps wire_simps)
qed

interpretation replay_request_wire: wire_type replay_request_to_json replay_request_of_json
  "\<lambda>_. True" "\<lambda>_. True" source_replay_request
proof unfold_locales
  fix pt v
  show "transparent pt \<Longrightarrow> (\<lambda>_. True) v \<Longrightarrow> replay_request_of_json pt (replay_request_to_json v) = Some v"
    by (simp add: replay_request_of_json_def replay_request_to_json_def wire_simps)
  show "(\<lambda>_. True) v \<Longrightarrow> admits source_replay_request (replay_request_to_json v)"
    by (simp add: replay_request_to_json_def source_replay_request_def contract_simps)
next
  fix pt j
  assume "transparent pt" and "admits source_replay_request j"
  then show "\<exists>v. replay_request_of_json pt j = Some v \<and> (\<lambda>_. True) v"
    by (auto simp: replay_request_of_json_def source_replay_request_def contract_simps wire_simps)
qed

interpretation replay_response_wire: wire_type replay_response_to_json replay_response_of_json
  "\<lambda>v. in_i64 (rpl_replay_count v)" "\<lambda>v. 1 \<le> rpl_replay_count v \<and> rpl_replay_count v \<le> 1000000" source_replay_response
proof unfold_locales
  fix pt v
  show "transparent pt \<Longrightarrow> (\<lambda>v. in_i64 (rpl_replay_count v)) v \<Longrightarrow> replay_response_of_json pt (replay_response_to_json v) = Some v"
    by (simp add: replay_response_of_json_def replay_response_to_json_def wire_simps)
  show "(\<lambda>v. 1 \<le> rpl_replay_count v \<and> rpl_replay_count v \<le> 1000000) v \<Longrightarrow> admits source_replay_response (replay_response_to_json v)"
    by (simp add: replay_response_to_json_def source_replay_response_def contract_simps in_i64_small)
next
  fix pt j
  assume "transparent pt" and "admits source_replay_response j"
  then show "\<exists>v. replay_response_of_json pt j = Some v \<and> (\<lambda>v. 1 \<le> rpl_replay_count v \<and> rpl_replay_count v \<le> 1000000) v"
    by (auto simp: replay_response_of_json_def source_replay_response_def contract_simps wire_simps)
qed

interpretation dispatch_response_receipt_wire: wire_type dispatch_response_receipt_to_json dispatch_response_receipt_of_json
  "\<lambda>v. in_i64 (drr_attempt v)" "\<lambda>v. 1 \<le> drr_attempt v \<and> drr_attempt v \<le> 100" source_dispatch_response_receipt
proof unfold_locales
  fix pt v
  show "transparent pt \<Longrightarrow> in_i64 (drr_attempt v) \<Longrightarrow> dispatch_response_receipt_of_json pt (dispatch_response_receipt_to_json v) = Some v"
    by (simp add: dispatch_response_receipt_of_json_def dispatch_response_receipt_to_json_def wire_simps)
  show "1 \<le> drr_attempt v \<and> drr_attempt v \<le> 100 \<Longrightarrow> admits source_dispatch_response_receipt (dispatch_response_receipt_to_json v)"
    by (simp add: dispatch_response_receipt_to_json_def source_dispatch_response_receipt_def contract_simps in_i64_small)
next
  fix pt j
  assume "transparent pt" and "admits source_dispatch_response_receipt j"
  then show "\<exists>v. dispatch_response_receipt_of_json pt j = Some v \<and> 1 \<le> drr_attempt v \<and> drr_attempt v \<le> 100"
    by (auto simp: dispatch_response_receipt_of_json_def source_dispatch_response_receipt_def contract_simps wire_simps)
qed

lemma dispatch_response_receipt_to_json_neq [simp]: "dispatch_response_receipt_to_json v \<noteq> JNull"
  by (simp add: dispatch_response_receipt_to_json_def)

lemma dispatch_response_outcome_of_to [simp]: "dispatch_response_outcome_of_str (dispatch_response_outcome_to_str st) = Some st"
  by (cases st) (simp_all add: dispatch_response_outcome_of_str_def)

definition dispatch_response_fits :: "dispatch_response \<Rightarrow> bool" where
  "dispatch_response_fits v \<longleftrightarrow> (\<forall>r. dsp_receipt v = Some r \<longrightarrow> 1 \<le> drr_attempt r \<and> drr_attempt r \<le> 100)"

lemma dispatch_response_of_to:
  assumes "transparent pt" and "\<forall>r. dsp_receipt v = Some r \<longrightarrow> in_i64 (drr_attempt r)"
  shows "dispatch_response_of_json pt (dispatch_response_to_json v) = Some v"
  using assms by (simp add: dispatch_response_of_json_def dispatch_response_to_json_def wire_simps dispatch_response_receipt_wire.of_to)

lemma dispatch_response_fits_matches:
  assumes "dispatch_response_fits v"
  shows "admits source_dispatch_response (dispatch_response_to_json v)"
proof -
  have "admits (SNullable source_dispatch_response_receipt) (option_to_json dispatch_response_receipt_to_json (dsp_receipt v))"
    using assms dispatch_response_receipt_wire.fits_matches
    by (intro nullable_matches) (simp add: dispatch_response_fits_def)
  moreover have "admits source_dispatch_response_outcome (JString (dispatch_response_outcome_to_str (dsp_outcome v)))"
    by (cases "dsp_outcome v") (simp_all add: source_dispatch_response_outcome_def contract_simps)
  ultimately show ?thesis
    using assms by (simp add: dispatch_response_fits_def dispatch_response_to_json_def source_dispatch_response_def contract_simps in_i64_small)
qed

lemma dispatch_response_outcome_accepts:
  assumes "admits source_dispatch_response_outcome j"
  shows "\<exists>variant st. unit_variant j = Some variant \<and> dispatch_response_outcome_of_str variant = Some st"
proof -
  have "\<exists>st. j = JString (dispatch_response_outcome_to_str st)"
    using assms unfolding source_dispatch_response_outcome_def
    by (simp add: contract_simps) (metis dispatch_response_outcome_to_str.simps)
  then show ?thesis by (auto simp: unit_variant_def)
qed

lemma dispatch_response_accepts:
  assumes "transparent pt" and "admits source_dispatch_response j"
  shows "\<exists>v. dispatch_response_of_json pt j = Some v \<and> dispatch_response_fits v"
  using assms
  by (auto simp: dispatch_response_of_json_def dispatch_response_fits_def source_dispatch_response_def source_nullable_def matches_struct
      matches_field_def matches_string matches_nullable_string matches_integer struct_members_object
      member_as_def dest!: dispatch_response_outcome_accepts matches_nullable [OF _ dispatch_response_receipt_wire.accepts [OF assms(1)]])

interpretation dispatch_response_wire: wire_type dispatch_response_to_json dispatch_response_of_json
  "\<lambda>v. \<forall>r. dsp_receipt v = Some r \<longrightarrow> in_i64 (drr_attempt r)" dispatch_response_fits source_dispatch_response
  by unfold_locales (erule (1) dispatch_response_of_to, erule dispatch_response_fits_matches, erule (1) dispatch_response_accepts)

interpretation inspect_response_last_receipt_wire: wire_type inspect_response_last_receipt_to_json inspect_response_last_receipt_of_json
  "\<lambda>v. in_i64 (ilr_attempt v)" "\<lambda>v. 1 \<le> ilr_attempt v \<and> ilr_attempt v \<le> 100" source_inspect_response_last_receipt
proof unfold_locales
  fix pt v
  show "transparent pt \<Longrightarrow> in_i64 (ilr_attempt v) \<Longrightarrow> inspect_response_last_receipt_of_json pt (inspect_response_last_receipt_to_json v) = Some v"
    by (simp add: inspect_response_last_receipt_of_json_def inspect_response_last_receipt_to_json_def wire_simps)
  show "1 \<le> ilr_attempt v \<and> ilr_attempt v \<le> 100 \<Longrightarrow> admits source_inspect_response_last_receipt (inspect_response_last_receipt_to_json v)"
    by (simp add: inspect_response_last_receipt_to_json_def source_inspect_response_last_receipt_def contract_simps in_i64_small)
next
  fix pt j
  assume "transparent pt" and "admits source_inspect_response_last_receipt j"
  then show "\<exists>v. inspect_response_last_receipt_of_json pt j = Some v \<and> 1 \<le> ilr_attempt v \<and> ilr_attempt v \<le> 100"
    by (auto simp: inspect_response_last_receipt_of_json_def source_inspect_response_last_receipt_def contract_simps wire_simps)
qed

lemma inspect_response_last_receipt_to_json_neq [simp]: "inspect_response_last_receipt_to_json v \<noteq> JNull"
  by (simp add: inspect_response_last_receipt_to_json_def)

lemma inspect_response_status_of_to [simp]: "inspect_response_status_of_str (inspect_response_status_to_str st) = Some st"
  by (cases st) (simp_all add: inspect_response_status_of_str_def)

definition inspect_response_fits :: "inspect_response \<Rightarrow> bool" where
  "inspect_response_fits v \<longleftrightarrow> 0 \<le> ins_attempts v \<and> ins_attempts v \<le> 100 \<and>
    1 \<le> ins_max_attempts v \<and> ins_max_attempts v \<le> 100 \<and>
    0 \<le> ins_replay_count v \<and> ins_replay_count v \<le> 1000000 \<and>
    (\<forall>r. ins_last_receipt v = Some r \<longrightarrow> 1 \<le> ilr_attempt r \<and> ilr_attempt r \<le> 100)"

lemma inspect_response_of_to:
  assumes "transparent pt" and "in_i64 (ins_attempts v) \<and> in_i64 (ins_max_attempts v) \<and> in_i64 (ins_replay_count v) \<and>
    (\<forall>r. ins_last_receipt v = Some r \<longrightarrow> in_i64 (ilr_attempt r))"
  shows "inspect_response_of_json pt (inspect_response_to_json v) = Some v"
  using assms by (simp add: inspect_response_of_json_def inspect_response_to_json_def wire_simps inspect_response_last_receipt_wire.of_to)

lemma inspect_response_fits_matches:
  assumes "inspect_response_fits v"
  shows "admits source_inspect_response (inspect_response_to_json v)"
proof -
  have "admits (SNullable source_inspect_response_last_receipt) (option_to_json inspect_response_last_receipt_to_json (ins_last_receipt v))"
    using assms inspect_response_last_receipt_wire.fits_matches
    by (intro nullable_matches) (simp add: inspect_response_fits_def)
  moreover have "admits source_inspect_response_status (JString (inspect_response_status_to_str (ins_status v)))"
    by (cases "ins_status v") (simp_all add: source_inspect_response_status_def contract_simps)
  ultimately show ?thesis
    using assms by (simp add: inspect_response_fits_def inspect_response_to_json_def source_inspect_response_def contract_simps in_i64_small)
qed

lemma inspect_response_status_accepts:
  assumes "admits source_inspect_response_status j"
  shows "\<exists>variant st. unit_variant j = Some variant \<and> inspect_response_status_of_str variant = Some st"
proof -
  have "\<exists>st. j = JString (inspect_response_status_to_str st)"
    using assms unfolding source_inspect_response_status_def
    by (simp add: contract_simps) (metis inspect_response_status_to_str.simps)
  then show ?thesis by (auto simp: unit_variant_def)
qed

lemma inspect_response_accepts:
  assumes "transparent pt" and "admits source_inspect_response j"
  shows "\<exists>v. inspect_response_of_json pt j = Some v \<and> inspect_response_fits v"
  using assms
  by (auto simp: inspect_response_of_json_def inspect_response_fits_def source_inspect_response_def source_nullable_def matches_struct
      matches_field_def matches_string matches_nullable_string matches_integer struct_members_object
      member_as_def dest!: inspect_response_status_accepts matches_nullable [OF _ inspect_response_last_receipt_wire.accepts [OF assms(1)]])

interpretation inspect_response_wire: wire_type inspect_response_to_json inspect_response_of_json
  "\<lambda>v. in_i64 (ins_attempts v) \<and> in_i64 (ins_max_attempts v) \<and> in_i64 (ins_replay_count v) \<and>
    (\<forall>r. ins_last_receipt v = Some r \<longrightarrow> in_i64 (ilr_attempt r))" inspect_response_fits source_inspect_response
  by unfold_locales (erule (1) inspect_response_of_to, erule inspect_response_fits_matches, erule (1) inspect_response_accepts)

section \<open>Properties of the wire form\<close>

text \<open>Printing and parsing a JSON value gives it back.\<close>

definition lossless :: "portable \<Rightarrow> bool" where
  "lossless pt \<longleftrightarrow> (\<forall>j wire. print_json pt j = Some wire \<longrightarrow> parse_json pt wire = Some j)"

definition portable_for :: "json \<Rightarrow> portable" where
  "portable_for j = \<lparr>print_json = (\<lambda>v. if v = j then Some ''wire'' else None),
     parse_json = (\<lambda>wire. if wire = ''wire'' then Some j else None), required = Some, show_json = (\<lambda>_. [])\<rparr>"

lemma portable_for_ok: "transparent (portable_for j)" "lossless (portable_for j)"
  by (simp_all add: portable_for_def transparent_def lossless_def)

lemma result_option_Some [simp]: "result_option r = Some x \<longleftrightarrow> r = Ok x"
  by (cases r) auto

lemma encoded_parses:
  "lossless pt \<Longrightarrow> encode_portable pt f v = Some wire \<Longrightarrow> parse_json pt wire = Some (f v)"
  by (simp add: lossless_def encode_portable_def)

lemma error_reads_back:
  assumes "lossless pt" and "de (ser e) = Ok e" and "encode_portable pt ser e = Some wire"
  shows "decode_portable pt (\<lambda>v. result_option (de v)) wire = Some e"
  using assms(2) encoded_parses [OF assms(1,3)] by (simp add: decode_portable_def)

text \<open>
  C35: the wire form loses nothing: over a JSON printer and parser that lose nothing, every request and
  response that can be encoded decodes to itself (integers in 64 bits, the payload an ordered map),
  and so does every domain error: each declared one, and an unknown one whose remaining fields are
  an ordered map without the names \<open>code\<close> and \<open>payload\<close>, which are written beside them.
\<close>

theorem wire_roundtrip:
  assumes "transparent pt" and "lossless pt"
  shows "(encode_enqueue_request pt eq = Some w \<and>
      btree_ok (enq_payload eq) \<longrightarrow>
      decode_enqueue_request pt w = Some eq) \<and>
    (encode_enqueue_response pt er = Some w \<longrightarrow>
      decode_enqueue_response pt w = Some er) \<and>
    (encode_dispatch_request pt dq = Some w \<longrightarrow>
      decode_dispatch_request pt w = Some dq) \<and>
    (encode_dispatch_response pt dr = Some w \<and>
      (\<forall>r. dsp_receipt dr = Some r \<longrightarrow> in_i64 (drr_attempt r)) \<longrightarrow>
      decode_dispatch_response pt w = Some dr) \<and>
    (encode_inspect_request pt iq = Some w \<longrightarrow>
      decode_inspect_request pt w = Some iq) \<and>
    (encode_inspect_response pt ir = Some w \<and>
      in_i64 (ins_attempts ir) \<and> in_i64 (ins_max_attempts ir) \<and> in_i64 (ins_replay_count ir) \<and> (\<forall>r. ins_last_receipt ir = Some r \<longrightarrow> in_i64 (ilr_attempt r)) \<longrightarrow>
      decode_inspect_response pt w = Some ir) \<and>
    (encode_replay_request pt rq = Some w \<longrightarrow>
      decode_replay_request pt w = Some rq) \<and>
    (encode_replay_response pt rr = Some w \<and>
      in_i64 (rpl_replay_count rr) \<longrightarrow>
      decode_replay_response pt w = Some rr) \<and>
    (encode_enqueue_error pt ee = Some w \<and> (\<forall>u. ee = EnqueueUnknown u \<longrightarrow> unknown_ok u) \<longrightarrow>
      decode_enqueue_error pt w = Some ee) \<and>
    (encode_dispatch_error pt de = Some w \<and> (\<forall>u. de = DispatchUnknown u \<longrightarrow> unknown_ok u) \<longrightarrow>
      decode_dispatch_error pt w = Some de) \<and>
    (encode_inspect_error pt ie = Some w \<and> (\<forall>u. ie = InspectUnknown u \<longrightarrow> unknown_ok u) \<longrightarrow>
      decode_inspect_error pt w = Some ie) \<and>
    (encode_replay_error pt re = Some w \<and> (\<forall>u. re = ReplayUnknown u \<longrightarrow> unknown_ok u) \<longrightarrow>
      decode_replay_error pt w = Some re)"
proof (intro conjI impI; (elim conjE)?)
  assume enc: "encode_enqueue_request pt eq = Some w" and valid: "btree_ok (enq_payload eq)"
  show "decode_enqueue_request pt w = Some eq"
    unfolding decode_enqueue_request_def
    by (rule enqueue_request_wire.reads_back [OF assms(1) _ enc [unfolded encode_enqueue_request_def]
          encoded_parses [OF assms(2) enc [unfolded encode_enqueue_request_def]]]) (use valid in simp)
next
  assume enc: "encode_enqueue_response pt er = Some w"
  show "decode_enqueue_response pt w = Some er"
    unfolding decode_enqueue_response_def
    by (rule enqueue_response_wire.reads_back [OF assms(1) _ enc [unfolded encode_enqueue_response_def]
          encoded_parses [OF assms(2) enc [unfolded encode_enqueue_response_def]]]) simp
next
  assume enc: "encode_dispatch_request pt dq = Some w"
  show "decode_dispatch_request pt w = Some dq"
    unfolding decode_dispatch_request_def
    by (rule dispatch_request_wire.reads_back [OF assms(1) _ enc [unfolded encode_dispatch_request_def]
          encoded_parses [OF assms(2) enc [unfolded encode_dispatch_request_def]]]) simp
next
  assume enc: "encode_dispatch_response pt dr = Some w" and valid: "\<forall>r. dsp_receipt dr = Some r \<longrightarrow> in_i64 (drr_attempt r)"
  show "decode_dispatch_response pt w = Some dr"
    unfolding decode_dispatch_response_def
    by (rule dispatch_response_wire.reads_back [OF assms(1) _ enc [unfolded encode_dispatch_response_def]
          encoded_parses [OF assms(2) enc [unfolded encode_dispatch_response_def]]]) (use valid in simp)
next
  assume enc: "encode_inspect_request pt iq = Some w"
  show "decode_inspect_request pt w = Some iq"
    unfolding decode_inspect_request_def
    by (rule inspect_request_wire.reads_back [OF assms(1) _ enc [unfolded encode_inspect_request_def]
          encoded_parses [OF assms(2) enc [unfolded encode_inspect_request_def]]]) simp
next
  assume enc: "encode_inspect_response pt ir = Some w" and valid: "in_i64 (ins_attempts ir)" "in_i64 (ins_max_attempts ir)" "in_i64 (ins_replay_count ir)" "\<forall>r. ins_last_receipt ir = Some r \<longrightarrow> in_i64 (ilr_attempt r)"
  show "decode_inspect_response pt w = Some ir"
    unfolding decode_inspect_response_def
    by (rule inspect_response_wire.reads_back [OF assms(1) _ enc [unfolded encode_inspect_response_def]
          encoded_parses [OF assms(2) enc [unfolded encode_inspect_response_def]]]) (use valid in simp)
next
  assume enc: "encode_replay_request pt rq = Some w"
  show "decode_replay_request pt w = Some rq"
    unfolding decode_replay_request_def
    by (rule replay_request_wire.reads_back [OF assms(1) _ enc [unfolded encode_replay_request_def]
          encoded_parses [OF assms(2) enc [unfolded encode_replay_request_def]]]) simp
next
  assume enc: "encode_replay_response pt rr = Some w" and valid: "in_i64 (rpl_replay_count rr)"
  show "decode_replay_response pt w = Some rr"
    unfolding decode_replay_response_def
    by (rule replay_response_wire.reads_back [OF assms(1) _ enc [unfolded encode_replay_response_def]
          encoded_parses [OF assms(2) enc [unfolded encode_replay_response_def]]]) (use valid in simp)
next
  assume enc: "encode_enqueue_error pt ee = Some w" and ok: "\<forall>u. ee = EnqueueUnknown u \<longrightarrow> unknown_ok u"
  have dec: "enqueue_codec.decoded ee" using ok by (cases ee) (auto simp: enqueue_codec.decoded_def)
  show "decode_enqueue_error pt w = Some ee"
    unfolding decode_enqueue_error_def
    by (rule error_reads_back [OF assms(2) _ enc [unfolded encode_enqueue_error_def]], rule enqueue_codec.roundtrip [OF dec])
next
  assume enc: "encode_dispatch_error pt de = Some w" and ok: "\<forall>u. de = DispatchUnknown u \<longrightarrow> unknown_ok u"
  have dec: "dispatch_codec.decoded de" using ok by (cases de) (auto simp: dispatch_codec.decoded_def)
  show "decode_dispatch_error pt w = Some de"
    unfolding decode_dispatch_error_def
    by (rule error_reads_back [OF assms(2) _ enc [unfolded encode_dispatch_error_def]], rule dispatch_codec.roundtrip [OF dec])
next
  assume enc: "encode_inspect_error pt ie = Some w" and ok: "\<forall>u. ie = InspectUnknown u \<longrightarrow> unknown_ok u"
  have dec: "inspect_codec.decoded ie" using ok by (cases ie) (auto simp: inspect_codec.decoded_def)
  show "decode_inspect_error pt w = Some ie"
    unfolding decode_inspect_error_def
    by (rule error_reads_back [OF assms(2) _ enc [unfolded encode_inspect_error_def]], rule inspect_codec.roundtrip [OF dec])
next
  assume enc: "encode_replay_error pt re = Some w" and ok: "\<forall>u. re = ReplayUnknown u \<longrightarrow> unknown_ok u"
  have dec: "replay_codec.decoded re" using ok by (cases re) (auto simp: replay_codec.decoded_def)
  show "decode_replay_error pt w = Some re"
    unfolding decode_replay_error_def
    by (rule error_reads_back [OF assms(2) _ enc [unfolded encode_replay_error_def]], rule replay_codec.roundtrip [OF dec])
qed

theorem wire_roundtrip_witness:
  "\<exists>pt wire. encode_replay_response pt \<lparr>rpl_replay_count = 3\<rparr> = Some wire \<and>
    decode_replay_response pt wire = Some \<lparr>rpl_replay_count = 3\<rparr>"
proof -
  let ?r = "\<lparr>rpl_replay_count = 3\<rparr>"
  let ?pt = "portable_for (replay_response_to_json ?r)"
  have "encode_replay_response ?pt ?r = Some ''wire''"
    by (simp add: encode_replay_response_def encode_portable_def portable_for_def)
  moreover from this have "decode_replay_response ?pt ''wire'' = Some ?r"
    using wire_roundtrip [OF portable_for_ok, of "replay_response_to_json ?r"]
    by (simp add: in_i64_def i64_min_def i64_max_def)
  ultimately show ?thesis by blast
qed

text \<open>
  The authored schemas say \<open>integer\<close>, which includes \<open>1.0\<close>; the generated code reads an \<open>i64\<close>, which
  does not.
\<close>

lemma integral_fraction_refused:
  "matches source_replay_response (JObject [(''replay_count'', JNumber ''1.0'')])"
  "transparent pt \<Longrightarrow> replay_response_of_json pt (JObject [(''replay_count'', JNumber ''1.0'')]) = None"
proof -
  show "matches source_replay_response (JObject [(''replay_count'', JNumber ''1.0'')])"
    by code_simp
  have "show_int (read_int ''1.0'') \<noteq> ''1.0''" by code_simp
  then have "i64_of_json (JNumber ''1.0'') = None" by (simp add: i64_of_json_def)
  then show "replay_response_of_json pt (JObject [(''replay_count'', JNumber ''1.0'')]) = None"
    if "transparent pt"
    using that by (simp add: replay_response_of_json_def wire_simps)
qed

text \<open>What decoding a request takes from the JSON value.\<close>

lemma enqueue_request_read:
  assumes "transparent pt" and "admits source_enqueue_request j" and "enqueue_request_of_json pt j = Some request"
  shows "\<exists>members payload. j = JObject members \<and>
    map_of members ''event_id'' = Some (JString (enq_event_id request)) \<and>
    map_of members ''event_type'' = Some (JString (enq_event_type request)) \<and>
    map_of members ''payload'' = Some (JObject payload) \<and> enq_payload request = btree_of_list payload"
  using assms
  by (auto simp: enqueue_request_of_json_def source_enqueue_request_def contract_simps wire_simps)

text \<open>
  C36: the generated code accepts what the authored contract allows, with one restriction on how
  integers are written: every JSON value that matches the schema of a request, or of the response
  of enqueue, decodes; a value that matches a response schema of the admin capability decodes when
  the integers it asks for are written without fraction or exponent (\<open>admits\<close>). Each decoded value
  again fits its schema when written, and every declared error code decodes to the error that is
  written as that code.
\<close>

theorem contract_values_decode:
  assumes "transparent pt" and "parse_json pt wire = Some j"
  shows "(matches source_enqueue_request j \<longrightarrow>
      (\<exists>v. decode_enqueue_request pt wire = Some v \<and> admits source_enqueue_request (enqueue_request_to_json v))) \<and>
    (matches source_enqueue_response j \<longrightarrow>
      (\<exists>v. decode_enqueue_response pt wire = Some v \<and> admits source_enqueue_response (enqueue_response_to_json v))) \<and>
    (matches source_dispatch_request j \<longrightarrow>
      (\<exists>v. decode_dispatch_request pt wire = Some v \<and> admits source_dispatch_request (dispatch_request_to_json v))) \<and>
    (admits source_dispatch_response j \<longrightarrow>
      (\<exists>v. decode_dispatch_response pt wire = Some v \<and> admits source_dispatch_response (dispatch_response_to_json v))) \<and>
    (matches source_inspect_request j \<longrightarrow>
      (\<exists>v. decode_inspect_request pt wire = Some v \<and> admits source_inspect_request (inspect_request_to_json v))) \<and>
    (admits source_inspect_response j \<longrightarrow>
      (\<exists>v. decode_inspect_response pt wire = Some v \<and> admits source_inspect_response (inspect_response_to_json v))) \<and>
    (matches source_replay_request j \<longrightarrow>
      (\<exists>v. decode_replay_request pt wire = Some v \<and> admits source_replay_request (replay_request_to_json v))) \<and>
    (admits source_replay_response j \<longrightarrow>
      (\<exists>v. decode_replay_response pt wire = Some v \<and> admits source_replay_response (replay_response_to_json v))) \<and>
    (matches source_enqueue_error j \<longrightarrow>
      (\<exists>e. decode_enqueue_error pt wire = Some e \<and> enqueue_error_serialize e = j)) \<and>
    (matches source_dispatch_error j \<longrightarrow>
      (\<exists>e. decode_dispatch_error pt wire = Some e \<and> dispatch_error_serialize e = j)) \<and>
    (matches source_inspect_error j \<longrightarrow>
      (\<exists>e. decode_inspect_error pt wire = Some e \<and> inspect_error_serialize e = j)) \<and>
    (matches source_replay_error j \<longrightarrow>
      (\<exists>e. decode_replay_error pt wire = Some e \<and> replay_error_serialize e = j))"
proof (intro conjI impI)
  assume "matches source_enqueue_request j"
  then have "admits source_enqueue_request j" by (rule no_integer_admits [rotated]) (simp add: source_defs)
  from enqueue_request_wire.contract_decodes [OF assms(1) this assms(2)]
  show "\<exists>v. decode_enqueue_request pt wire = Some v \<and> admits source_enqueue_request (enqueue_request_to_json v)"
    by (simp add: decode_enqueue_request_def)
next
  assume "matches source_enqueue_response j"
  then have "admits source_enqueue_response j" by (rule no_integer_admits [rotated]) (simp add: source_defs)
  from enqueue_response_wire.contract_decodes [OF assms(1) this assms(2)]
  show "\<exists>v. decode_enqueue_response pt wire = Some v \<and> admits source_enqueue_response (enqueue_response_to_json v)"
    by (simp add: decode_enqueue_response_def)
next
  assume "matches source_dispatch_request j"
  then have "admits source_dispatch_request j" by (rule no_integer_admits [rotated]) (simp add: source_defs)
  from dispatch_request_wire.contract_decodes [OF assms(1) this assms(2)]
  show "\<exists>v. decode_dispatch_request pt wire = Some v \<and> admits source_dispatch_request (dispatch_request_to_json v)"
    by (simp add: decode_dispatch_request_def)
next
  assume "admits source_dispatch_response j"
  from dispatch_response_wire.contract_decodes [OF assms(1) this assms(2)]
  show "\<exists>v. decode_dispatch_response pt wire = Some v \<and> admits source_dispatch_response (dispatch_response_to_json v)"
    by (simp add: decode_dispatch_response_def)
next
  assume "matches source_inspect_request j"
  then have "admits source_inspect_request j" by (rule no_integer_admits [rotated]) (simp add: source_defs)
  from inspect_request_wire.contract_decodes [OF assms(1) this assms(2)]
  show "\<exists>v. decode_inspect_request pt wire = Some v \<and> admits source_inspect_request (inspect_request_to_json v)"
    by (simp add: decode_inspect_request_def)
next
  assume "admits source_inspect_response j"
  from inspect_response_wire.contract_decodes [OF assms(1) this assms(2)]
  show "\<exists>v. decode_inspect_response pt wire = Some v \<and> admits source_inspect_response (inspect_response_to_json v)"
    by (simp add: decode_inspect_response_def)
next
  assume "matches source_replay_request j"
  then have "admits source_replay_request j" by (rule no_integer_admits [rotated]) (simp add: source_defs)
  from replay_request_wire.contract_decodes [OF assms(1) this assms(2)]
  show "\<exists>v. decode_replay_request pt wire = Some v \<and> admits source_replay_request (replay_request_to_json v)"
    by (simp add: decode_replay_request_def)
next
  assume "admits source_replay_response j"
  from replay_response_wire.contract_decodes [OF assms(1) this assms(2)]
  show "\<exists>v. decode_replay_response pt wire = Some v \<and> admits source_replay_response (replay_response_to_json v)"
    by (simp add: decode_replay_response_def)
next
  assume "matches source_enqueue_error j"
  then show "\<exists>e. decode_enqueue_error pt wire = Some e \<and> enqueue_error_serialize e = j"
    using assms(2) by (auto simp: source_enqueue_error_def fits_schema.simps decode_enqueue_error_def decode_portable_def)
next
  assume "matches source_dispatch_error j"
  then show "\<exists>e. decode_dispatch_error pt wire = Some e \<and> dispatch_error_serialize e = j"
    using assms(2) by (auto simp: source_dispatch_error_def fits_schema.simps decode_dispatch_error_def decode_portable_def)
next
  assume "matches source_inspect_error j"
  then show "\<exists>e. decode_inspect_error pt wire = Some e \<and> inspect_error_serialize e = j"
    using assms(2) by (auto simp: source_inspect_error_def fits_schema.simps decode_inspect_error_def decode_portable_def)
next
  assume "matches source_replay_error j"
  then show "\<exists>e. decode_replay_error pt wire = Some e \<and> replay_error_serialize e = j"
    using assms(2) by (auto simp: source_replay_error_def fits_schema.simps decode_replay_error_def decode_portable_def)
qed

theorem contract_values_decode_witness:
  "\<exists>v. decode_inspect_request (portable_for (JObject [(''delivery_id'', JString ''x'')])) ''wire'' = Some v"
proof -
  let ?j = "JObject [(''delivery_id'', JString ''x'')]"
  have "parse_json (portable_for ?j) ''wire'' = Some ?j" by (simp add: portable_for_def)
  moreover have "admits source_inspect_request ?j"
    by (simp add: source_inspect_request_def contract_simps)
  then have "matches source_inspect_request ?j" by (rule admits_matches)
  ultimately show ?thesis
    using contract_values_decode [OF portable_for_ok(1), of ?j] by blast
qed

end
