(* ===== verification/Answers.thy ===== *)
theory Answers
  imports Dispatch_Flow Admin_Flow Plugin Wire
begin

text \<open>
  What callers see of the four operations of \<open>lib.rs\<close>: nothing happens for a caller that is not
  listed or on an instance that is not active, no call panics, and every answer is one the authored
  contract allows.
\<close>

section \<open>Calls that must do nothing\<close>

text \<open>
  An instance that is not active does no work for anybody: no operation succeeds, touches the
  database or sends a request, and an admitted caller is told that the plugin is not active.
\<close>

lemma inactive_plugin_does_nothing:
  assumes "pl_prepared pl = None"
  shows "snd (enqueue cr pl env now context erequest s) = s \<and>
    (\<forall>x. fst (enqueue cr pl env now context erequest s) \<noteq> Ok (Ok x)) \<and>
    (\<exists>answer. dispatch cr pl http ck env env' between context drequest s = ((answer, s), []) \<and>
      answer = (if admin_allowed (pl_config pl) (caller_instance context)
                then Err (PluginFailure ''Outbound Webhook Plugin is not active'')
                else Ok (Err DispatchForbidden))) \<and>
    (\<forall>x. inspect cr pl env context irequest s s' \<noteq> Ok (Ok x)) \<and>
    snd (replay cr pl env context rrequest s s' s'') = s'' \<and>
    (\<forall>x. fst (replay cr pl env context rrequest s s' s'') \<noteq> Ok (Ok x))"
  using assms
  by (simp add: prepared_def enqueue_def enqueue_delivery_def enqueue_prepare_def
      dispatch_def dispatch_delivery_def dispatch_claim_def inspect_def inspect_delivery_def
      replay_def replay_delivery_def)

section \<open>No call panics\<close>

lemma insert_or_get_no_panic:
  assumes "i32_try_from (nd_max_attempts d) = Some m"
  shows "no_panic (fst (insert_or_get cr env d s))"
proof -
  have "decode_delivery env r \<noteq> Panic p" for r p
    using decode_delivery_no_panic [of env r] by (auto simp: no_panic_def)
  then show ?thesis
    using assms by (auto simp: insert_or_get_def commit_def split: option.splits result.splits)
qed

lemma claim_due_no_panic:
  assumes "i32_try_from lease = Some lease"
  shows "no_panic (fst (claim_due env queue lease s))"
  by (rule claim_due_cases [of env queue lease s]) (use assms claim_answer_no_panic in auto)

lemma record_outcome_no_panic:
  assumes "no_panic (receipt_row cr i c receipt)"
  shows "no_panic (fst (record_outcome cr env i c receipt status next s))"
  using assms
  by (auto simp: record_outcome_def commit_def ensure_updated_def no_panic_def
      split: option.splits result.splits if_splits)

lemma load_no_panic [no_panic_intros]: "no_panic (load cr env i s s')"
proof -
  have "no_panic (last_receipt cr env i s')"
    by (auto simp: last_receipt_def decode_receipt_def split: list.splits)
  then show ?thesis
    using decode_delivery_no_panic [of env]
    by (auto simp: load_def split: option.splits intro!: no_panic_intros)
qed

lemma prepared_no_panic [no_panic_intros]: "no_panic (prepared pl)"
  by (auto simp: prepared_def split: option.splits)

lemma ok_or_no_panic [no_panic_intros]: "no_panic (ok_or e x)"
  by (cases x) auto

lemma ok_or_Ok_iff [simp]: "ok_or e x = Ok y \<longleftrightarrow> x = Some y"
  by (cases x) auto

lemma ok_or_Err_iff [simp]: "ok_or e x = Err e' \<longleftrightarrow> x = None \<and> e' = e"
  by (cases x) auto

text \<open>The bounds a claimed delivery has.\<close>

definition claimed_bounds :: "delivery_record \<Rightarrow> bool" where
  "claimed_bounds d \<longleftrightarrow> 1 \<le> dr_attempts d \<and> dr_attempts d \<le> 100 \<and>
     0 \<le> dr_replay_count d \<and> dr_replay_count d \<le> 1000000"

lemma claim_due_bounds:
  assumes "store_ok s" and "claim_due env queue lease s = (Ok (Some d), s')"
  shows "claimed_bounds d"
proof (rule claim_due_Some [OF assms])
  fix r
  assume r: "candidate env queue (expired env queue s) s = [r]" "r \<in> set (deliveries s)"
    and d: "decode_delivery env (claim_row env lease r) = Ok d"
  have "row_attempts r < row_max_attempts r"
    using in_candidate(2) [of r env queue "expired env queue s" s] r(1) by (simp add: due_def)
  then show ?thesis
    using store_ok_row [OF assms(1) r(2)] d
    by (auto simp: claimed_bounds_def row_ok_def delivery_checks_def decode_delivery_def claim_row_def
        and_then_Ok_iff split: if_splits)
qed

text \<open>The clock and the HTTP client behave: a receipt's time can be printed, a status is an \<open>i32\<close>.\<close>

definition http_i32 :: "http_client \<Rightarrow> bool" where
  "http_i32 http \<longleftrightarrow> (\<forall>context request response. http context request = Inr response \<longrightarrow>
     i32_try_from (resp_status response) = Some (resp_status response))"

text \<open>There is a day left on the clock, which is the longest a retry is put off.\<close>

definition clock_in_range :: "crates \<Rightarrow> int \<Rightarrow> bool" where
  "clock_in_range cr now \<longleftrightarrow> time_min cr \<le> now \<and> now + 86400 * 1000000000 \<le> time_max cr"

lemma retry_in_range:
  assumes "config_bounds c" and "clock_in_range cr now"
  shows "retry_in_range cr c d response now"
proof -
  let ?delay = "retry_delay_seconds (dr_attempts d) (cfg_retry_base_seconds c) (cfg_retry_max_seconds c)"
  have b: "1 \<le> cfg_retry_base_seconds c" "cfg_retry_base_seconds c \<le> 86400"
    "cfg_retry_base_seconds c \<le> cfg_retry_max_seconds c" "cfg_retry_max_seconds c \<le> 86400"
    using assms(1) by (simp_all add: config_bounds_def)
  have "cfg_retry_base_seconds c * 1 \<le> cfg_retry_base_seconds c * 2 ^ nat (min (max (dr_attempts d - 1) 0) 62)"
    using b by (intro mult_left_mono) simp_all
  then have "1 \<le> ?delay" "?delay \<le> 86400"
    using b unfolding retry_delay_eq [OF b(1,2,4)] by linarith+
  moreover have "0 \<le> now mod 1000" "now mod 1000 < 1000" by simp_all
  ultimately show ?thesis
    using assms(2) unfolding retry_in_range_def retry_time_def clock_in_range_def by linarith
qed

lemma dispatch_claimed_no_panic:
  assumes "claimed_bounds d" and "rfc3339 cr (ck_receipt ck) = Inr stamp" and "http_i32 http"
    and "config_bounds (pl_config pl)" and "clock_in_range cr (ck_retry ck)"
  shows "no_panic (fst (fst (dispatch_claimed cr pl pw http ck env context d s)))"
proof -
  have row: "no_panic (receipt_row cr i (dr_replay_count d) receipt)"
    if "rc_attempt receipt = dr_attempts d" "\<And>h. rc_http_status receipt = Some h \<Longrightarrow> i32_try_from h = Some h"
    for i receipt
    using receipt_row_of [of "dr_replay_count d" receipt cr i] that assms(1)
    by (simp add: claimed_bounds_def)
  have answer: "no_panic (dispatch_response_of cr i outcome receipt)"
    if "rc_occurred_at receipt = ck_receipt ck" for i outcome and receipt :: delivery_receipt
    using assms(2) that by (simp add: dispatch_response_of_def dispatch_receipt_def format_time_def)
  have signed: "no_panic (signed_request cr pw d now)" for now
    by (auto simp: signed_request_def format_time_def sign_payload_def
        intro!: no_panic_intros split: option.splits)
  have finish: "no_panic (fst (finish_dispatch cr (pl_config pl) d response ck env s))"
    if "\<And>r. response = Inr r \<Longrightarrow> i32_try_from (resp_status r) = Some (resp_status r)" for response
  proof (cases "settled response")
    case True
    have "no_panic (receipt_row cr i (dr_replay_count d) (fst (result_receipt cr d response (ck_receipt ck))))" for i
    proof (rule row)
      fix h assume "rc_http_status (fst (result_receipt cr d response (ck_receipt ck))) = Some h"
      then show "i32_try_from h = Some h" using that by (cases response) auto
    qed simp
    then show ?thesis
      unfolding settle_eq [OF True] if_P [OF retry_in_range [OF assms(4,5)]]
      by (intro no_panic_intros) (simp_all add: record_outcome_no_panic answer)
  next
    case False
    then obtain error where "response = Inl (HttpRuntime error)" by (auto simp: settled_def)
    moreover have "no_panic (receipt_row cr i (dr_replay_count d)
        (new_receipt d ''http_runtime_failure'' None None (ck_receipt ck)))" for i
      by (rule row) (simp_all add: new_receipt_def)
    ultimately show ?thesis
      by (auto simp: finish_dispatch_def record_outcome_no_panic intro!: no_panic_intros)
  qed
  have changed: "no_panic (receipt_row cr i (dr_replay_count d)
      (new_receipt d ''endpoint_configuration_changed'' None None (ck_receipt ck)))" for i
    by (rule row) (simp_all add: new_receipt_def)
  have "no_panic (fst (finish_dispatch cr (pl_config pl) d (http context request) ck env s))" for request
    by (rule finish) (use assms(3) in \<open>auto simp: http_i32_def\<close>)
  moreover have "rc_occurred_at (new_receipt d outcome None None (ck_receipt ck)) = ck_receipt ck" for outcome
    by (simp add: new_receipt_def)
  ultimately show ?thesis
    using signed [of "ck_signed ck"]
    by (auto simp: dispatch_claimed_def Let_def no_panic_def [of "signed_request _ _ _ _"]
        record_outcome_no_panic changed answer intro!: no_panic_intros split: result.splits)
qed

lemma answer_no_panic:
  "no_panic r1 \<Longrightarrow> no_panic (enqueue_answer r1)" "no_panic r2 \<Longrightarrow> no_panic (dispatch_answer r2)"
  "no_panic r3 \<Longrightarrow> no_panic (inspect_answer r3)" "no_panic r4 \<Longrightarrow> no_panic (replay_answer r4)"
     apply (cases r1 rule: enqueue_answer.cases; simp)
    apply (cases r2 rule: dispatch_answer.cases; simp)
   apply (cases r3 rule: inspect_answer.cases; simp)
  apply (cases r4 rule: replay_answer.cases; simp)
  done

lemma enqueue_delivery_no_panic:
  assumes "config_bounds (pl_config pl)"
  shows "no_panic (fst (enqueue_delivery cr pl env now context request s))"
proof -
  have prepare: "no_panic (enqueue_prepare cr pl now context request)"
    by (auto simp: enqueue_prepare_def payload_snapshot_def database_timestamp_now_eq intro!: no_panic_intros)
  have bound: "i32_try_from (nd_max_attempts new) = Some (cfg_max_attempts (pl_config pl))"
    if "enqueue_prepare cr pl now context request = Ok new" for new
    using that assms
    by (auto simp: enqueue_prepare_def and_then_Ok_iff new_delivery_of_def config_bounds_def split: if_splits)
  have "no_panic (fst (insert_or_get cr env new s'))"
    if "enqueue_prepare cr pl now context request = Ok new" for new s'
    by (rule insert_or_get_no_panic [OF bound [OF that]])
  then show ?thesis
    using prepare
    by (auto simp: enqueue_delivery_def enqueue_response_of_def intro!: no_panic_intros
        split: insert_outcome.splits)
qed

definition times_printable :: "crates \<Rightarrow> database \<Rightarrow> bool" where
  "times_printable cr s \<longleftrightarrow> (\<forall>a \<in> set (attempts s). \<exists>stamp. rfc3339 cr (pg_time cr (att_occurred_at a)) = Inr stamp)"

lemma last_receipt_printable:
  assumes "last_receipt cr env i s = Ok (Some receipt)" and "times_printable cr s"
  shows "no_panic (inspect_receipt cr receipt)"
proof -
  let ?sorted = "sort_key (\<lambda>a. (- att_replay_count a, - att_attempt a))
      (filter (\<lambda>a. att_delivery_id a = i) (attempts s))"
  obtain a more where a: "?sorted = a # more" "decode_receipt cr env a = Ok receipt"
    using assms(1)
    by (auto simp: last_receipt_def and_then_Ok_iff split: if_splits list.splits)
  have "a \<in> set ?sorted" using a(1) by (metis list.set_intros(1))
  then have "a \<in> set (attempts s)" by simp
  with a(2) obtain stamp where "rfc3339 cr (rc_occurred_at receipt) = Inr stamp"
    using assms(2) by (auto simp: times_printable_def decode_receipt_def split: if_splits)
  then show ?thesis by (simp add: inspect_receipt_def format_time_def)
qed

lemma inspect_delivery_no_panic:
  assumes "times_printable cr s'"
  shows "no_panic (inspect_delivery cr pl env context request s s')"
proof -
  have "no_panic (inspect_response_of cr d)"
    if "load cr env i s s' = Ok (Some d)" for i d
  proof (cases "dr_last_receipt d")
    case (Some receipt)
    then have "last_receipt cr env i s' = Ok (Some receipt)"
      using that by (auto simp: load_def and_then_Ok_iff split: if_splits option.splits)
    from last_receipt_printable [OF this assms] show ?thesis
      by (auto simp: inspect_response_of_def Some intro!: no_panic_intros)
  qed (simp add: inspect_response_of_def)
  then show ?thesis
    by (auto simp: inspect_delivery_def intro!: no_panic_intros)
qed

lemma replay_delivery_no_panic:
  assumes "store_ok s''"
  shows "no_panic (fst (replay_delivery cr pl env context request s s' s''))"
proof (cases "replay_admits pl context request")
  case True
  have "no_panic (fst (begin_replay env i s''))" for i
    using begin_replay_failure(2) [OF assms] by (auto simp: no_panic_def)
  then show ?thesis
    by (auto simp: replay_admitted [OF True] intro!: no_panic_intros)
next
  case False
  then show ?thesis
    by (auto simp: replay_delivery_def replay_admits_def prepared_def)
qed

text \<open>
  C32: no call panics: none of the \<open>expect\<close>s of the code and no addition of times can fail, whatever
  the request, the failures of the database and the interference of others, on a validated
  instance and a consistent store, provided the HTTP client reports statuses that fit 32 bits, RFC
  3339 can express the clock and the times of the stored receipts, and the clock is a day or more
  from the end of the times there are.
\<close>

theorem answers_never_panic:
  assumes "config_bounds (pl_config pl)" and "store_ok s" and "store_ok s''"
    and "http_i32 http" and "rfc3339 cr (ck_receipt ck) = Inr stamp" and "times_printable cr s'"
    and "time_min cr \<le> ck_retry ck" and "ck_retry ck + 86400 * 1000000000 \<le> time_max cr"
  shows "no_panic (fst (enqueue cr pl env now context erequest s)) \<and>
    no_panic (fst (fst (dispatch cr pl http ck env env' between context drequest s))) \<and>
    no_panic (inspect cr pl env context irequest s s') \<and>
    no_panic (fst (replay cr pl env context rrequest s s' s''))"
proof (intro conjI)
  show "no_panic (fst (enqueue cr pl env now context erequest s))"
    using enqueue_delivery_no_panic [OF assms(1)] by (simp add: enqueue_def answer_no_panic split: prod.split)
      (metis answer_no_panic(1) fst_conv)
  show "no_panic (inspect cr pl env context irequest s s')"
    by (simp add: inspect_def answer_no_panic inspect_delivery_no_panic [OF assms(6)])
  show "no_panic (fst (replay cr pl env context rrequest s s' s''))"
    using replay_delivery_no_panic [OF assms(3)]
    by (simp add: replay_def case_prod_unfold answer_no_panic)
  have claim: "no_panic (fst (dispatch_claim pl env context s))"
    using claim_due_no_panic [of "cfg_lease_seconds (pl_config pl)"] assms(1)
    by (auto simp: dispatch_claim_def config_bounds_def intro!: no_panic_intros)
  have "no_panic (fst (fst (dispatch_delivery cr pl http ck env env' between context s)))"
  proof (cases "dispatch_claim pl env context s")
    case (Pair r s1)
    show ?thesis
    proof (cases r)
      case (Ok found)
      then obtain pw d where found: "found = (pw, d)" by (cases found)
      show ?thesis
      proof (cases d)
        case (Some delivery)
        have "claim_due env (cfg_queue_name (pl_config pl)) (cfg_lease_seconds (pl_config pl)) s = (Ok (Some delivery), s1)"
          using Pair by (simp add: Ok found Some dispatch_claim_Ok)
        from dispatch_claimed_no_panic [OF claim_due_bounds [OF assms(2) this] assms(5,4,1)]
        show ?thesis using assms(7,8) by (simp add: dispatch_delivery_def Pair Ok found Some clock_in_range_def)
      qed (simp add: dispatch_delivery_def Pair Ok found)
    qed (use claim Pair in \<open>simp_all add: dispatch_delivery_def\<close>)
  qed
  then show "no_panic (fst (fst (dispatch cr pl http ck env env' between context drequest s)))"
    by (simp add: dispatch_def case_prod_unfold answer_no_panic)
qed

theorem answers_never_panic_witness:
  "no_panic (fst (fst (dispatch sample_crates sample_plugin (\<lambda>_ _. Inr (response_of 200)) sample_clocks
     sample_env sample_env id as_admin DispatchRequest queued_db)))"
proof -
  have "config_bounds (pl_config sample_plugin)" by (rule sample_bounds)
  moreover have "http_i32 (\<lambda>_ _. Inr (response_of 200))"
    by (simp add: http_i32_def response_of_def)
  moreover have "rfc3339 sample_crates (ck_receipt sample_clocks) = Inr (show_int (ck_receipt sample_clocks))"
    by simp
  moreover have "times_printable sample_crates queued_db" by (simp add: times_printable_def)
  moreover have "time_min sample_crates \<le> ck_retry sample_clocks"
    "ck_retry sample_clocks + 86400 * 1000000000 \<le> time_max sample_crates"
    by (simp_all add: sample_clocks_def sample_crates_def)
  ultimately show ?thesis
    using answers_never_panic [OF _ queued_db_ok queued_db_ok] by blast
qed

section \<open>Every answer is one the contract allows\<close>

lemma enqueue_domain_errors:
  assumes "fst (enqueue_delivery cr pl env now context request s) = Err (FlowDomain e)"
  shows "e \<in> {EnqueueInvalidEvent, EnqueueIdempotencyConflict} \<or>
    e = EnqueueForbidden \<and> \<not> producer_allowed (pl_config pl) (caller_instance context)"
  using assms
  by (cases "enqueue_delivery cr pl env now context request s")
    (auto simp: enqueue_delivery_def enqueue_prepare_def prepared_def payload_snapshot_def
      database_timestamp_now_eq and_then_db_Err_iff and_then_Err_iff map_err_Err_iff
      map_store_err_Err_iff enqueue_response_of_def split: if_splits option.splits insert_outcome.splits)

lemma source_error_codes:
  "admits source_enqueue_error (JString code) \<longleftrightarrow> code \<in> {''invalid_event'', ''idempotency_conflict'', ''forbidden''}"
  "admits source_dispatch_error (JString code) \<longleftrightarrow> code = ''forbidden''"
  "admits source_inspect_error (JString code) \<longleftrightarrow> code \<in> {''forbidden'', ''invalid_delivery'', ''not_found''}"
  "admits source_replay_error (JString code) \<longleftrightarrow>
    code \<in> {''forbidden'', ''invalid_delivery'', ''not_found'', ''not_dead_letter''}"
  by (auto simp: source_enqueue_error_def source_dispatch_error_def source_inspect_error_def
      source_replay_error_def fits_schema.simps)

lemma inspect_answer_fits:
  assumes "store_ok s" and "store_ok s'" and "inspect_delivery cr pl env context request s s' = Ok response"
  shows "inspect_response_fits response"
proof -
  obtain d where load: "load cr env (ins_request_delivery_id request) s s' = Ok (Some d)"
    and resp: "inspect_response_of cr d = (Ok response :: (_, admin_flow_error) result)"
    using assms(3) by (auto simp: inspect_delivery_def and_then_Ok_iff split: if_splits)
  obtain r d0 receipt where r: "r \<in> set (deliveries s)" "decode_delivery env r = Ok d0"
    "last_receipt cr env (ins_request_delivery_id request) s' = Ok receipt" "d = d0\<lparr>dr_last_receipt := receipt\<rparr>"
    using load by (auto simp: load_def and_then_Ok_iff split: if_splits option.splits dest!: find_Some_in)
  have rows: "0 \<le> dr_attempts d \<and> dr_attempts d \<le> 100 \<and> 1 \<le> dr_max_attempts d \<and> dr_max_attempts d \<le> 100 \<and>
      0 \<le> dr_replay_count d \<and> dr_replay_count d \<le> 1000000"
    using store_ok_row [OF assms(1) r(1)] r(2,4)
    by (auto simp: row_ok_def delivery_checks_def decode_delivery_def and_then_Ok_iff split: if_splits)
  have receipt: "1 \<le> rc_attempt rc \<and> rc_attempt rc \<le> 100" if rc: "receipt = Some rc" for rc
  proof -
    let ?sorted = "sort_key (\<lambda>a. (- att_replay_count a, - att_attempt a))
        (filter (\<lambda>a. att_delivery_id a = ins_request_delivery_id request) (attempts s'))"
    obtain a more where a: "?sorted = a # more" "decode_receipt cr env a = Ok rc"
      using r(3) rc by (auto simp: last_receipt_def and_then_Ok_iff split: if_splits list.splits)
    have "a \<in> set ?sorted" using a(1) by (metis list.set_intros(1))
    then have "attempt_checks a" using assms(2) by (auto simp: store_ok_def)
    then show ?thesis using a(2) by (auto simp: decode_receipt_def attempt_checks_def split: if_splits)
  qed
  have "dr_last_receipt d = receipt" using r(4) by simp
  then show ?thesis
    using resp rows receipt
    by (auto simp: inspect_response_of_def inspect_receipt_def inspect_response_fits_def and_then_Ok_iff
        split: option.splits)
qed

lemma fst_and_then_db_Ok:
  "fst (and_then_db p f) = Ok y \<Longrightarrow> \<exists>x s. p = (Ok x, s) \<and> fst (f x s) = Ok y"
  by (cases "(p, f)" rule: and_then_db.cases) auto

lemma fst_and_then_db_Err:
  "fst (and_then_db p f) = Err e \<Longrightarrow> fst p = Err e \<or> (\<exists>x s. p = (Ok x, s) \<and> fst (f x s) = Err e)"
  by (cases "(p, f)" rule: and_then_db.cases) auto

lemma dispatch_claimed_answer:
  assumes "fst (fst (dispatch_claimed cr pl pw http ck env context d s)) = Ok response"
  obtains outcome receipt where "rc_attempt receipt = dr_attempts d"
    "dispatch_response_of cr (dr_delivery_id d) outcome receipt = (Ok response :: (_, admin_flow_error) result)"
proof (cases "endpoint_changed pl pw d")
  case True
  have "dispatch_response_of cr (dr_delivery_id d) DispatchDeadLettered
      (new_receipt d ''endpoint_configuration_changed'' None None (ck_receipt ck)) =
      (Ok response :: (_, admin_flow_error) result)"
    using True assms by (auto simp: dispatch_claimed_def Let_def dest!: fst_and_then_db_Ok)
  then show thesis by (rule that [rotated]) (simp add: new_receipt_def)
next
  case False
  then obtain request where
    "fst (finish_dispatch cr (pl_config pl) d (http context request) ck env s) = Ok response"
    using assms by (auto simp: dispatch_claimed_def split: result.splits)
  then have "\<exists>outcome. dispatch_response_of cr (dr_delivery_id d) outcome
      (fst (result_receipt cr d (http context request) (ck_receipt ck))) =
      (Ok response :: (_, admin_flow_error) result)"
    by (cases "settled (http context request)")
      (auto simp: settle_eq settled_def finish_dispatch_def [of _ _ _ "Inl (HttpRuntime _)"]
        dest!: fst_and_then_db_Ok split: if_splits)
  then show thesis by (elim exE) (rule that [rotated], assumption, simp)
qed

lemma dispatch_answer_fits:
  assumes "store_ok s" and "fst (fst (dispatch_delivery cr pl http ck env env' between context s)) = Ok response"
  shows "dispatch_response_fits response"
proof (cases "response = idle_dispatch")
  case True
  then show ?thesis by (simp add: idle_dispatch_def dispatch_response_fits_def)
next
  case False
  then obtain pw d s1 where claim: "dispatch_claim pl env context s = (Ok (pw, Some d), s1)"
    and ok: "fst (fst (dispatch_claimed cr pl pw http ck env' context d (between s1))) = Ok response"
    using assms(2) by (auto simp: dispatch_delivery_def split: prod.splits result.splits option.splits)
  have b: "claimed_bounds d"
    using claim claim_due_bounds [OF assms(1)] by (auto simp: dispatch_claim_Ok)
  obtain outcome receipt where "rc_attempt receipt = dr_attempts d"
    "dispatch_response_of cr (dr_delivery_id d) outcome receipt = (Ok response :: (_, admin_flow_error) result)"
    by (rule dispatch_claimed_answer [OF ok])
  then show ?thesis
    using b by (auto simp: dispatch_response_of_def dispatch_receipt_def dispatch_response_fits_def
        claimed_bounds_def and_then_Ok_iff)
qed

lemma replay_answer_fits:
  assumes "store_ok s''" and "fst (replay_delivery cr pl env context request s s' s'') = Ok response"
  shows "1 \<le> rpl_replay_count response \<and> rpl_replay_count response \<le> 1000000"
proof -
  have adm: "replay_admits pl context request"
    using assms(2) by (rule contrapos_pp) (auto simp: replay_delivery_def replay_admits_def prepared_def)
  let ?i = "rpl_request_delivery_id request"
  obtain d t where d: "begin_replay env ?i s'' = (Ok (Some d), t)" "response = \<lparr>rpl_replay_count = dr_replay_count d\<rparr>"
    using assms(2) unfolding replay_admitted [OF adm]
    by (auto dest!: fst_and_then_db_Ok split: if_splits)
  then have "\<exists>r \<in> set (deliveries s''). replayable ?i r \<and> decode_delivery env (replay_row env r) = Ok d"
    by (auto simp: begin_replay_def update_deliveries_def Let_def and_then_Ok_iff filter_eq_Cons_iff
        split: if_splits list.splits)
  then obtain r where r: "r \<in> set (deliveries s'')" "replayable ?i r" "decode_delivery env (replay_row env r) = Ok d"
    by blast
  then show ?thesis
    using store_ok_row [OF assms(1) r(1)] d(2)
    by (auto simp: row_ok_def delivery_checks_def replayable_def decode_delivery_def replay_row_def
        and_then_Ok_iff split: if_splits)
qed

lemma map_store_err_runtime [simp]: "fst (map_store_err AdminRuntime p) \<noteq> Err (AdminDispatch e)"
  by (simp add: map_store_err_def map_err_Err_iff)

lemma dispatch_domain_errors:
  assumes "fst (fst (dispatch_delivery cr pl http ck env env' between context s)) = Err (AdminDispatch e)"
  shows "e = DispatchForbidden \<and> \<not> admin_allowed (pl_config pl) (caller_instance context)"
proof -
  have late: "fst (fst (dispatch_claimed cr pl pw http ck env' context d t)) \<noteq> Err (AdminDispatch e)" for pw d t
  proof
    assume err: "fst (fst (dispatch_claimed cr pl pw http ck env' context d t)) = Err (AdminDispatch e)"
    have resp: "dispatch_response_of cr i outcome receipt \<noteq> Err (AdminDispatch e)" for i outcome receipt
      by (cases "rfc3339 cr (rc_occurred_at receipt)")
        (simp_all add: dispatch_response_of_def dispatch_receipt_def format_time_def)
    have sign: "signed_request cr pw d now \<noteq> Err (AdminDispatch e)" for now
      by (auto simp: signed_request_def and_then_Err_iff map_err_Err_iff)
    have finish: "fst (finish_dispatch cr c d response ck env' t) \<noteq> Err (AdminDispatch e)" for c response
      using resp
      by (cases "settled response")
        (auto simp: settle_eq settled_def finish_dispatch_def [of _ _ _ "Inl (HttpRuntime _)"]
          dest!: fst_and_then_db_Err split: if_splits)
    show False
      using err resp sign finish
      by (cases "endpoint_changed pl pw d")
        (auto simp: dispatch_claimed_def Let_def dest!: fst_and_then_db_Err split: result.splits)
  qed
  show ?thesis
  proof (cases "dispatch_claim pl env context s")
    case (Pair r s1)
    show ?thesis
    proof (cases r)
      case (Ok found)
      with Pair assms late show ?thesis
        by (auto simp: dispatch_delivery_def idle_dispatch_def split: prod.splits option.splits)
    next
      case (Err error)
      with Pair assms have "fst (dispatch_claim pl env context s) = Err (AdminDispatch e)"
        by (simp add: dispatch_delivery_def)
      then show ?thesis
        by (auto simp: dispatch_claim_def prepared_def map_store_err_def map_err_Err_iff
            dest!: fst_and_then_db_Err split: if_splits option.splits)
    qed (use Pair assms in \<open>simp add: dispatch_delivery_def\<close>)
  qed
qed

lemma inspect_domain_errors:
  assumes "inspect_delivery cr pl env context request s s' = Err (AdminInspect e)"
  shows "e \<in> {InspectInvalidDelivery, InspectNotFound} \<or>
    e = InspectForbidden \<and> \<not> admin_allowed (pl_config pl) (caller_instance context)"
proof -
  have "inspect_response_of cr d \<noteq> Err (AdminInspect e)" for d
  proof (cases "dr_last_receipt d")
    case (Some receipt)
    then show ?thesis
      by (cases "rfc3339 cr (rc_occurred_at receipt)")
        (simp_all add: inspect_response_of_def inspect_receipt_def format_time_def)
  qed (simp add: inspect_response_of_def)
  then show ?thesis
    using assms
    by (auto simp: inspect_delivery_def and_then_Err_iff map_err_Err_iff split: if_splits)
qed

lemma replay_domain_errors:
  assumes "fst (replay_delivery cr pl env context request s s' s'') = Err (AdminReplay e)"
  shows "e \<in> {ReplayInvalidDelivery, ReplayNotFound, ReplayNotDeadLetter} \<or>
    e = ReplayForbidden \<and> \<not> admin_allowed (pl_config pl) (caller_instance context)"
  using assms
  by (auto simp: replay_delivery_def map_store_err_def map_err_Err_iff dest!: fst_and_then_db_Err
      split: if_splits)

section \<open>Who may call what\<close>

lemma enqueue_answer_domain: "enqueue_answer r = Ok (Err e) \<longleftrightarrow> r = Err (FlowDomain e)"
  by (cases r rule: enqueue_answer.cases) auto

lemma dispatch_answer_domain: "dispatch_answer r = Ok (Err e) \<longleftrightarrow> r = Err (AdminDispatch e)"
  by (cases r rule: dispatch_answer.cases) auto

lemma inspect_answer_domain: "inspect_answer r = Ok (Err e) \<longleftrightarrow> r = Err (AdminInspect e)"
  by (cases r rule: inspect_answer.cases) auto

lemma replay_answer_domain: "replay_answer r = Ok (Err e) \<longleftrightarrow> r = Err (AdminReplay e)"
  by (cases r rule: replay_answer.cases) auto

text \<open>
  C34: authority is per operation and closed: \<open>enqueue\<close> answers \<open>forbidden\<close> exactly to the callers
  that are not among the configured producers, \<open>dispatch\<close>, \<open>inspect\<close> and \<open>replay\<close> exactly to those
  that are not among the configured administrators, an anonymous caller being in no list; a call
  so refused touches no database and sends no request.
\<close>

theorem unauthorised_calls_do_nothing:
  "(fst (enqueue cr pl env now context erequest s) = Ok (Err EnqueueForbidden) \<longleftrightarrow>
      caller_instance context \<notin> Some ` set (cfg_producer_instances (pl_config pl))) \<and>
   (fst (fst (dispatch cr pl http ck env env' between context drequest s)) = Ok (Err DispatchForbidden) \<longleftrightarrow>
      caller_instance context \<notin> Some ` set (cfg_admin_instances (pl_config pl))) \<and>
   (inspect cr pl env context irequest t t' = Ok (Err InspectForbidden) \<longleftrightarrow>
      caller_instance context \<notin> Some ` set (cfg_admin_instances (pl_config pl))) \<and>
   (fst (replay cr pl env context rrequest t t' s) = Ok (Err ReplayForbidden) \<longleftrightarrow>
      caller_instance context \<notin> Some ` set (cfg_admin_instances (pl_config pl))) \<and>
   (caller_instance context \<notin> Some ` set (cfg_producer_instances (pl_config pl)) \<longrightarrow>
      snd (enqueue cr pl env now context erequest s) = s) \<and>
   (caller_instance context \<notin> Some ` set (cfg_admin_instances (pl_config pl)) \<longrightarrow>
      snd (fst (dispatch cr pl http ck env env' between context drequest s)) = s \<and>
      snd (dispatch cr pl http ck env env' between context drequest s) = [] \<and>
      snd (replay cr pl env context rrequest t t' s) = s)"
proof -
  note allowed = producers.allowed_iff admins.allowed_iff
  have enqueue: "enqueue cr pl env now context erequest s = (Ok (Err EnqueueForbidden), s)"
    if "\<not> producer_allowed (pl_config pl) (caller_instance context)"
    using that by (simp add: enqueue_def enqueue_delivery_def enqueue_prepare_def)
  have admin: "dispatch cr pl http ck env env' between context drequest s = ((Ok (Err DispatchForbidden), s), [])"
    "inspect cr pl env context irequest t t' = Ok (Err InspectForbidden)"
    "replay cr pl env context rrequest t t' s = (Ok (Err ReplayForbidden), s)"
    if "\<not> admin_allowed (pl_config pl) (caller_instance context)"
    using that by (simp_all add: dispatch_def dispatch_delivery_def dispatch_claim_def inspect_def
        inspect_delivery_def replay_def replay_delivery_def)
  have "fst (enqueue cr pl env now context erequest s) = Ok (Err EnqueueForbidden) \<Longrightarrow>
      \<not> producer_allowed (pl_config pl) (caller_instance context)"
    using enqueue_domain_errors [of cr pl env now "context" erequest s EnqueueForbidden]
    by (simp add: enqueue_def case_prod_unfold enqueue_answer_domain)
  moreover have "fst (fst (dispatch cr pl http ck env env' between context drequest s)) = Ok (Err DispatchForbidden) \<Longrightarrow>
      \<not> admin_allowed (pl_config pl) (caller_instance context)"
    using dispatch_domain_errors [of cr pl http ck env env' between "context" s DispatchForbidden]
    by (simp add: dispatch_def case_prod_unfold dispatch_answer_domain)
  moreover have "inspect cr pl env context irequest t t' = Ok (Err InspectForbidden) \<Longrightarrow>
      \<not> admin_allowed (pl_config pl) (caller_instance context)"
    using inspect_domain_errors [of cr pl env "context" irequest t t' InspectForbidden]
    by (simp add: inspect_def inspect_answer_domain)
  moreover have "fst (replay cr pl env context rrequest t t' s) = Ok (Err ReplayForbidden) \<Longrightarrow>
      \<not> admin_allowed (pl_config pl) (caller_instance context)"
    using replay_domain_errors [of cr pl env "context" rrequest t t' s ReplayForbidden]
    by (simp add: replay_def case_prod_unfold replay_answer_domain)
  ultimately show ?thesis
    using enqueue admin unfolding allowed by (metis fst_conv snd_conv)
qed

theorem unauthorised_calls_do_nothing_witness:
  "fst (enqueue sample_crates sample_plugin sample_env 0 as_admin sample_request queued_db) = Ok (Err EnqueueForbidden) \<and>
   snd (enqueue sample_crates sample_plugin sample_env 0 as_admin sample_request queued_db) = queued_db \<and>
   snd (replay sample_crates sample_plugin sample_env as_producer
     \<lparr>rpl_request_delivery_id = sample_id\<rparr> dead_db dead_db dead_db) = dead_db"
proof -
  have a: "caller_instance as_admin \<notin> Some ` set (cfg_producer_instances (pl_config sample_plugin))"
    and b: "caller_instance as_producer \<notin> Some ` set (cfg_admin_instances (pl_config sample_plugin))"
    by (simp_all add: plugin_sample_defs)
  note refused = unauthorised_calls_do_nothing [of sample_crates sample_plugin sample_env 0 _ sample_request _
      "\<lambda>_ _. Inr (response_of 200)" sample_clocks sample_env id DispatchRequest
      "\<lparr>ins_request_delivery_id = sample_id\<rparr>" dead_db dead_db "\<lparr>rpl_request_delivery_id = sample_id\<rparr>"]
  show ?thesis
    using refused [of as_admin queued_db] refused [of as_producer dead_db] a b by (elim conjE) (intro conjI; blast)
qed

section \<open>Answers and the contract\<close>

text \<open>
  C33: every answer is one the authored contract allows: on consistent stores each response, as it is
  serialised, matches the response schema of its operation with all ranges, and each domain error
  is one of the codes the operation declares.
\<close>

theorem answers_match_contract:
  assumes "store_ok s" and "store_ok s'" and "store_ok s''"
  shows "(\<forall>r. fst (enqueue cr pl env now context erequest s) = Ok (Ok r) \<longrightarrow>
      admits source_enqueue_response (enqueue_response_to_json r)) \<and>
    (\<forall>e. fst (enqueue cr pl env now context erequest s) = Ok (Err e) \<longrightarrow>
      admits source_enqueue_error (enqueue_error_serialize e)) \<and>
    (\<forall>r. fst (fst (dispatch cr pl http ck env env' between context drequest s)) = Ok (Ok r) \<longrightarrow>
      admits source_dispatch_response (dispatch_response_to_json r)) \<and>
    (\<forall>e. fst (fst (dispatch cr pl http ck env env' between context drequest s)) = Ok (Err e) \<longrightarrow>
      admits source_dispatch_error (dispatch_error_serialize e)) \<and>
    (\<forall>r. inspect cr pl env context irequest s s' = Ok (Ok r) \<longrightarrow>
      admits source_inspect_response (inspect_response_to_json r)) \<and>
    (\<forall>e. inspect cr pl env context irequest s s' = Ok (Err e) \<longrightarrow>
      admits source_inspect_error (inspect_error_serialize e)) \<and>
    (\<forall>r. fst (replay cr pl env context rrequest s s' s'') = Ok (Ok r) \<longrightarrow>
      admits source_replay_response (replay_response_to_json r)) \<and>
    (\<forall>e. fst (replay cr pl env context rrequest s s' s'') = Ok (Err e) \<longrightarrow>
      admits source_replay_error (replay_error_serialize e))"
proof (intro conjI allI impI)
  fix r assume "fst (enqueue cr pl env now context erequest s) = Ok (Ok r)"
  show "admits source_enqueue_response (enqueue_response_to_json r)"
    by (rule enqueue_response_wire.fits_matches) simp
next
  fix e assume "fst (enqueue cr pl env now context erequest s) = Ok (Err e)"
  then have "fst (enqueue_delivery cr pl env now context erequest s) = Err (FlowDomain e)"
    by (auto simp: enqueue_def case_prod_unfold elim: enqueue_answer.elims)
  from enqueue_domain_errors [OF this] show "admits source_enqueue_error (enqueue_error_serialize e)"
    by (auto simp: source_error_codes)
next
  fix r assume "fst (fst (dispatch cr pl http ck env env' between context drequest s)) = Ok (Ok r)"
  then have "dispatch_response_fits r"
    by (intro dispatch_answer_fits [OF assms(1)])
      (auto simp: dispatch_def case_prod_unfold elim: dispatch_answer.elims)
  then show "admits source_dispatch_response (dispatch_response_to_json r)"
    by (rule dispatch_response_wire.fits_matches)
next
  fix e assume "fst (fst (dispatch cr pl http ck env env' between context drequest s)) = Ok (Err e)"
  then have "fst (fst (dispatch_delivery cr pl http ck env env' between context s)) = Err (AdminDispatch e)"
    by (auto simp: dispatch_def case_prod_unfold elim: dispatch_answer.elims)
  from dispatch_domain_errors [OF this] show "admits source_dispatch_error (dispatch_error_serialize e)"
    by (simp add: source_error_codes)
next
  fix r assume "inspect cr pl env context irequest s s' = Ok (Ok r)"
  then have "inspect_response_fits r"
    by (intro inspect_answer_fits [OF assms(1,2)])
      (auto simp: inspect_def elim: inspect_answer.elims)
  then show "admits source_inspect_response (inspect_response_to_json r)"
    by (rule inspect_response_wire.fits_matches)
next
  fix e assume "inspect cr pl env context irequest s s' = Ok (Err e)"
  then have "inspect_delivery cr pl env context irequest s s' = Err (AdminInspect e)"
    by (auto simp: inspect_def elim: inspect_answer.elims)
  from inspect_domain_errors [OF this] show "admits source_inspect_error (inspect_error_serialize e)"
    by (auto simp: source_error_codes)
next
  fix r assume "fst (replay cr pl env context rrequest s s' s'') = Ok (Ok r)"
  then have "1 \<le> rpl_replay_count r \<and> rpl_replay_count r \<le> 1000000"
    by (intro replay_answer_fits [OF assms(3)])
      (auto simp: replay_def case_prod_unfold elim: replay_answer.elims)
  then show "admits source_replay_response (replay_response_to_json r)"
    by (rule replay_response_wire.fits_matches)
next
  fix e assume "fst (replay cr pl env context rrequest s s' s'') = Ok (Err e)"
  then have "fst (replay_delivery cr pl env context rrequest s s' s'') = Err (AdminReplay e)"
    by (auto simp: replay_def case_prod_unfold elim: replay_answer.elims)
  from replay_domain_errors [OF this] show "admits source_replay_error (replay_error_serialize e)"
    by (auto simp: source_error_codes)
qed

theorem answers_match_contract_witness:
  "admits source_replay_error (replay_error_serialize ReplayForbidden)"
proof -
  have "fst (replay sample_crates sample_plugin sample_env \<lparr>caller_instance = None\<rparr>
      \<lparr>rpl_request_delivery_id = sample_id\<rparr> dead_db dead_db dead_db) = Ok (Err ReplayForbidden)"
    by (simp add: replay_def replay_delivery_def admins.allowed_iff)
  then show ?thesis
    using answers_match_contract [OF dead_db_ok dead_db_ok dead_db_ok] by blast
qed

end
