(* ===== verification/Endpoint.thy ===== *)
theory Endpoint
  imports Plugin Wire
begin

text \<open>
  The endpoints and clients of the two \<open>generated.rs\<close>: how an operation name and a boxed request
  reach the provider, directly or through \<open>Box<dyn Any>\<close>; how an answer becomes the client's
  result, and back; how clients are made from a plugin's dependencies.
\<close>

definition CAPABILITY_ID :: string where "CAPABILITY_ID = ''lenso.outbound-webhook@1''"
definition ADMIN_CAPABILITY_ID :: string where "ADMIN_CAPABILITY_ID = ''lenso.outbound-webhook-admin@1''"

definition DESCRIPTOR_VERSION :: string where "DESCRIPTOR_VERSION = ''1.0.0''"
definition PORTABLE :: bool where "PORTABLE = True"
definition CROSS_LANE_TRANSFER :: bool where "CROSS_LANE_TRANSFER = True"
definition ADMIN_DESCRIPTOR_VERSION :: string where "ADMIN_DESCRIPTOR_VERSION = ''1.0.0''"
definition ADMIN_PORTABLE :: bool where "ADMIN_PORTABLE = True"
definition ADMIN_CROSS_LANE_TRANSFER :: bool where "ADMIN_CROSS_LANE_TRANSFER = True"

definition ENQUEUE_OPERATION :: string where "ENQUEUE_OPERATION = ''enqueue''"
definition DISPATCH_OPERATION :: string where "DISPATCH_OPERATION = ''dispatch''"
definition INSPECT_OPERATION :: string where "INSPECT_OPERATION = ''inspect''"
definition REPLAY_OPERATION :: string where "REPLAY_OPERATION = ''replay''"

definition webhook_operations :: "string list" where
  "webhook_operations = [ENQUEUE_OPERATION]"

definition admin_operations :: "string list" where
  "admin_operations = [DISPATCH_OPERATION, INSPECT_OPERATION, REPLAY_OPERATION]"

text \<open>\<open>Box<dyn Any>\<close>: a value with its type, which \<open>downcast\<close> tests.\<close>

datatype boxed =
    BEnqueueRequest enqueue_request | BEnqueueResponse enqueue_response | BEnqueueError enqueue_error
  | BDispatchRequest dispatch_request | BDispatchResponse dispatch_response | BDispatchError dispatch_error
  | BInspectRequest inspect_request | BInspectResponse inspect_response | BInspectError inspect_error
  | BReplayRequest replay_request | BReplayResponse replay_response | BReplayError replay_error
  | BOther

fun box_inner :: "('a \<Rightarrow> boxed) \<Rightarrow> ('d \<Rightarrow> boxed) \<Rightarrow> ('a, 'd) result \<Rightarrow> (boxed, boxed) result" where
  "box_inner f g (Ok x) = Ok (f x)"
| "box_inner f g (Err e) = Err (g e)"
| "box_inner f g (Panic m) = Panic m"

definition box_answer :: "('a \<Rightarrow> boxed) \<Rightarrow> ('d \<Rightarrow> boxed) \<Rightarrow> ('a, 'd) answer \<Rightarrow> (boxed, boxed) answer" where
  "box_answer f g answer = and_then answer (\<lambda>result. Ok (box_inner f g result))"

text \<open>A provider's operation takes the request and the world \<open>'w\<close> and returns its answer.\<close>

type_synonym ('r, 'a, 'd, 'w) operation =
  "invocation_context \<Rightarrow> 'r \<Rightarrow> 'w \<Rightarrow> ('a, 'd) answer \<times> 'w"

definition invoke_webhook ::
    "(enqueue_request, enqueue_response, enqueue_error, 'w) operation \<Rightarrow>
     string \<Rightarrow> boxed \<Rightarrow> invocation_context \<Rightarrow> 'w \<Rightarrow> (boxed, boxed) answer \<times> 'w" where
  "invoke_webhook run_enqueue operation request context w =
     (if operation = ENQUEUE_OPERATION
      then (case request of
              BEnqueueRequest r \<Rightarrow>
                (case run_enqueue context r w of
                   (answer, w') \<Rightarrow> (box_answer BEnqueueResponse BEnqueueError answer, w'))
            | _ \<Rightarrow> (Err (ProtocolViolation CAPABILITY_ID), w))
      else (Err (UnknownOperation CAPABILITY_ID operation), w))"

definition invoke_admin ::
    "(dispatch_request, dispatch_response, dispatch_error, 'w) operation \<Rightarrow>
     (inspect_request, inspect_response, inspect_error, 'w) operation \<Rightarrow>
     (replay_request, replay_response, replay_error, 'w) operation \<Rightarrow>
     string \<Rightarrow> boxed \<Rightarrow> invocation_context \<Rightarrow> 'w \<Rightarrow> (boxed, boxed) answer \<times> 'w" where
  "invoke_admin run_dispatch run_inspect run_replay operation request context w =
     (if operation = DISPATCH_OPERATION
      then (case request of
              BDispatchRequest r \<Rightarrow>
                (case run_dispatch context r w of
                   (answer, w') \<Rightarrow> (box_answer BDispatchResponse BDispatchError answer, w'))
            | _ \<Rightarrow> (Err (ProtocolViolation ADMIN_CAPABILITY_ID), w))
      else if operation = INSPECT_OPERATION
      then (case request of
              BInspectRequest r \<Rightarrow>
                (case run_inspect context r w of
                   (answer, w') \<Rightarrow> (box_answer BInspectResponse BInspectError answer, w'))
            | _ \<Rightarrow> (Err (ProtocolViolation ADMIN_CAPABILITY_ID), w))
      else if operation = REPLAY_OPERATION
      then (case request of
              BReplayRequest r \<Rightarrow>
                (case run_replay context r w of
                   (answer, w') \<Rightarrow> (box_answer BReplayResponse BReplayError answer, w'))
            | _ \<Rightarrow> (Err (ProtocolViolation ADMIN_CAPABILITY_ID), w))
      else (Err (UnknownOperation ADMIN_CAPABILITY_ID operation), w))"

section \<open>Providers and their endpoints\<close>

record 'w webhook_provider =
  wp_enqueue :: "(enqueue_request, enqueue_response, enqueue_error, 'w) operation"

record 'w admin_provider =
  ap_dispatch :: "(dispatch_request, dispatch_response, dispatch_error, 'w) operation"
  ap_inspect :: "(inspect_request, inspect_response, inspect_error, 'w) operation"
  ap_replay :: "(replay_request, replay_response, replay_error, 'w) operation"

text \<open>An endpoint shares its provider with the typed endpoint inside it.\<close>

record 'p request_endpoint =
  ep_provider :: 'p
  ep_request_provider :: 'p

definition webhook_endpoint_new :: "'w webhook_provider \<Rightarrow> 'w webhook_provider request_endpoint" where
  "webhook_endpoint_new provider = \<lparr>ep_provider = provider, ep_request_provider = provider\<rparr>"

definition admin_endpoint_new :: "'w admin_provider \<Rightarrow> 'w admin_provider request_endpoint" where
  "admin_endpoint_new provider = \<lparr>ep_provider = provider, ep_request_provider = provider\<rparr>"

text \<open>\<open>dyn NativeRequestEndpoint\<close>, and the value \<open>typed_endpoint\<close> offers to \<open>downcast_ref\<close>.\<close>

datatype 'w any_endpoint =
  AnyWebhook "'w webhook_provider" | AnyAdmin "'w admin_provider" | AnyOther

record 'w native_endpoint =
  ne_capability_id :: string
  ne_descriptor_version :: string
  ne_operations :: "string list"
  ne_typed_endpoint :: "'w any_endpoint option"
  ne_invoke :: "string \<Rightarrow> boxed \<Rightarrow> invocation_context \<Rightarrow> 'w \<Rightarrow> (boxed, boxed) answer \<times> 'w"

definition webhook_native_endpoint :: "'w webhook_provider request_endpoint \<Rightarrow> 'w native_endpoint" where
  "webhook_native_endpoint ep =
     \<lparr>ne_capability_id = CAPABILITY_ID, ne_descriptor_version = DESCRIPTOR_VERSION,
      ne_operations = webhook_operations,
      ne_typed_endpoint = Some (AnyWebhook (ep_request_provider ep)),
      ne_invoke = invoke_webhook (wp_enqueue (ep_provider ep))\<rparr>"

definition admin_native_endpoint :: "'w admin_provider request_endpoint \<Rightarrow> 'w native_endpoint" where
  "admin_native_endpoint ep =
     \<lparr>ne_capability_id = ADMIN_CAPABILITY_ID, ne_descriptor_version = ADMIN_DESCRIPTOR_VERSION,
      ne_operations = admin_operations,
      ne_typed_endpoint = Some (AnyAdmin (ep_request_provider ep)),
      ne_invoke = invoke_admin (ap_dispatch (ep_provider ep)) (ap_inspect (ep_provider ep))
        (ap_replay (ep_provider ep))\<rparr>"

text \<open>What the two macros hand to the host: the request endpoints, and no streams and no events.\<close>

definition webhook_endpoints ::
    "'w webhook_provider \<Rightarrow> 'w native_endpoint list \<times> unit list \<times> unit list" where
  "webhook_endpoints provider = ([webhook_native_endpoint (webhook_endpoint_new provider)], [], [])"

definition admin_endpoints ::
    "'w admin_provider \<Rightarrow> 'w native_endpoint list \<times> unit list \<times> unit list" where
  "admin_endpoints provider = ([admin_native_endpoint (admin_endpoint_new provider)], [], [])"

subsection \<open>The typed fast path\<close>

text \<open>
  \<open>RequestCapability::invoke_native\<close>; \<open>erased\<close> is the kernel's
  \<open>invoke_typed_or_erased_native_request\<close>.
\<close>

definition invoke_native_enqueue ::
    "('w native_endpoint \<Rightarrow> string \<Rightarrow> (enqueue_request, enqueue_response, enqueue_error, 'w) operation) \<Rightarrow>
     'w native_endpoint \<Rightarrow> string \<Rightarrow> (enqueue_request, enqueue_response, enqueue_error, 'w) operation" where
  "invoke_native_enqueue erased ep operation context request w =
     (if operation \<noteq> ENQUEUE_OPERATION then erased ep operation context request w
      else (case ne_typed_endpoint ep of
              Some (AnyWebhook provider) \<Rightarrow> wp_enqueue provider context request w
            | _ \<Rightarrow> erased ep operation context request w))"

definition invoke_native_dispatch ::
    "('w native_endpoint \<Rightarrow> string \<Rightarrow> (dispatch_request, dispatch_response, dispatch_error, 'w) operation) \<Rightarrow>
     'w native_endpoint \<Rightarrow> string \<Rightarrow> (dispatch_request, dispatch_response, dispatch_error, 'w) operation" where
  "invoke_native_dispatch erased ep operation context request w =
     (if operation \<noteq> DISPATCH_OPERATION then erased ep operation context request w
      else (case ne_typed_endpoint ep of
              Some (AnyAdmin provider) \<Rightarrow> ap_dispatch provider context request w
            | _ \<Rightarrow> erased ep operation context request w))"

definition invoke_native_inspect ::
    "('w native_endpoint \<Rightarrow> string \<Rightarrow> (inspect_request, inspect_response, inspect_error, 'w) operation) \<Rightarrow>
     'w native_endpoint \<Rightarrow> string \<Rightarrow> (inspect_request, inspect_response, inspect_error, 'w) operation" where
  "invoke_native_inspect erased ep operation context request w =
     (if operation \<noteq> INSPECT_OPERATION then erased ep operation context request w
      else (case ne_typed_endpoint ep of
              Some (AnyAdmin provider) \<Rightarrow> ap_inspect provider context request w
            | _ \<Rightarrow> erased ep operation context request w))"

definition invoke_native_replay ::
    "('w native_endpoint \<Rightarrow> string \<Rightarrow> (replay_request, replay_response, replay_error, 'w) operation) \<Rightarrow>
     'w native_endpoint \<Rightarrow> string \<Rightarrow> (replay_request, replay_response, replay_error, 'w) operation" where
  "invoke_native_replay erased ep operation context request w =
     (if operation \<noteq> REPLAY_OPERATION then erased ep operation context request w
      else (case ne_typed_endpoint ep of
              Some (AnyAdmin provider) \<Rightarrow> ap_replay provider context request w
            | _ \<Rightarrow> erased ep operation context request w))"

section \<open>Clients\<close>

datatype webhook_invocation_error = EnqueueInvDomain enqueue_error | EnqueueInvRuntime runtime_failure
datatype dispatch_invocation_error = DispatchInvDomain dispatch_error | DispatchInvRuntime runtime_failure
datatype inspect_invocation_error = InspectInvDomain inspect_error | InspectInvRuntime runtime_failure
datatype replay_invocation_error = ReplayInvDomain replay_error | ReplayInvRuntime runtime_failure

text \<open>
  A client calls its handle (\<open>NativeRequestHandle\<close>) with the operation name, with a context
  (\<open>invoke_with_context\<close>) or without (\<open>invoke\<close>), and splits the answer:
  \<open>.map_err(Runtime)?.map_err(Domain)\<close>.
\<close>

type_synonym ('r, 'a, 'd, 'w) handle =
  "string \<Rightarrow> invocation_context option \<Rightarrow> 'r \<Rightarrow> 'w \<Rightarrow> ('a, 'd) answer \<times> 'w"

definition client_enqueue ::
    "(enqueue_request, enqueue_response, enqueue_error, 'w) handle \<Rightarrow> invocation_context option \<Rightarrow>
     enqueue_request \<Rightarrow> 'w \<Rightarrow> (enqueue_response, webhook_invocation_error) result \<times> 'w" where
  "client_enqueue handle context request w =
     (case handle ENQUEUE_OPERATION context request w of
        (answer, w') \<Rightarrow> (and_then (map_err EnqueueInvRuntime answer) (map_err EnqueueInvDomain), w'))"

definition client_dispatch ::
    "(dispatch_request, dispatch_response, dispatch_error, 'w) handle \<Rightarrow> invocation_context option \<Rightarrow>
     dispatch_request \<Rightarrow> 'w \<Rightarrow> (dispatch_response, dispatch_invocation_error) result \<times> 'w" where
  "client_dispatch handle context request w =
     (case handle DISPATCH_OPERATION context request w of
        (answer, w') \<Rightarrow> (and_then (map_err DispatchInvRuntime answer) (map_err DispatchInvDomain), w'))"

definition client_inspect ::
    "(inspect_request, inspect_response, inspect_error, 'w) handle \<Rightarrow> invocation_context option \<Rightarrow>
     inspect_request \<Rightarrow> 'w \<Rightarrow> (inspect_response, inspect_invocation_error) result \<times> 'w" where
  "client_inspect handle context request w =
     (case handle INSPECT_OPERATION context request w of
        (answer, w') \<Rightarrow> (and_then (map_err InspectInvRuntime answer) (map_err InspectInvDomain), w'))"

definition client_replay ::
    "(replay_request, replay_response, replay_error, 'w) handle \<Rightarrow> invocation_context option \<Rightarrow>
     replay_request \<Rightarrow> 'w \<Rightarrow> (replay_response, replay_invocation_error) result \<times> 'w" where
  "client_replay handle context request w =
     (case handle REPLAY_OPERATION context request w of
        (answer, w') \<Rightarrow> (and_then (map_err ReplayInvRuntime answer) (map_err ReplayInvDomain), w'))"

text \<open>\<open>__lenso_into_result\<close> of a client's result, for a plugin that forwards it.\<close>

fun enqueue_into_result ::
    "(enqueue_response, webhook_invocation_error) result \<Rightarrow> (enqueue_response, enqueue_error) answer" where
  "enqueue_into_result (Ok v) = Ok (Ok v)"
| "enqueue_into_result (Err (EnqueueInvDomain error)) = Ok (Err error)"
| "enqueue_into_result (Err (EnqueueInvRuntime error)) = Err error"
| "enqueue_into_result (Panic m) = Panic m"

fun dispatch_into_result ::
    "(dispatch_response, dispatch_invocation_error) result \<Rightarrow> (dispatch_response, dispatch_error) answer" where
  "dispatch_into_result (Ok v) = Ok (Ok v)"
| "dispatch_into_result (Err (DispatchInvDomain error)) = Ok (Err error)"
| "dispatch_into_result (Err (DispatchInvRuntime error)) = Err error"
| "dispatch_into_result (Panic m) = Panic m"

fun inspect_into_result ::
    "(inspect_response, inspect_invocation_error) result \<Rightarrow> (inspect_response, inspect_error) answer" where
  "inspect_into_result (Ok v) = Ok (Ok v)"
| "inspect_into_result (Err (InspectInvDomain error)) = Ok (Err error)"
| "inspect_into_result (Err (InspectInvRuntime error)) = Err error"
| "inspect_into_result (Panic m) = Panic m"

fun replay_into_result ::
    "(replay_response, replay_invocation_error) result \<Rightarrow> (replay_response, replay_error) answer" where
  "replay_into_result (Ok v) = Ok (Ok v)"
| "replay_into_result (Err (ReplayInvDomain error)) = Ok (Err error)"
| "replay_into_result (Err (ReplayInvRuntime error)) = Err error"
| "replay_into_result (Panic m) = Panic m"

text \<open>
  The other results a plugin method may have: plain, already nested, or with the authoring crate's
  \<open>PluginError\<close>.
\<close>

datatype 'd plugin_error = PluginDomain 'd | PluginRuntime runtime_failure

definition enqueue_plain_into_result ::
    "(enqueue_response, enqueue_error) result \<Rightarrow> (enqueue_response, enqueue_error) answer" where
  "enqueue_plain_into_result self = Ok self"

definition enqueue_nested_into_result ::
    "(enqueue_response, enqueue_error) answer \<Rightarrow> (enqueue_response, enqueue_error) answer" where
  "enqueue_nested_into_result self = self"

fun enqueue_plugin_into_result ::
    "(enqueue_response, enqueue_error plugin_error) result \<Rightarrow> (enqueue_response, enqueue_error) answer" where
  "enqueue_plugin_into_result (Ok v) = Ok (Ok v)"
| "enqueue_plugin_into_result (Err (PluginDomain error)) = Ok (Err error)"
| "enqueue_plugin_into_result (Err (PluginRuntime error)) = Err error"
| "enqueue_plugin_into_result (Panic m) = Panic m"

definition dispatch_plain_into_result ::
    "(dispatch_response, dispatch_error) result \<Rightarrow> (dispatch_response, dispatch_error) answer" where
  "dispatch_plain_into_result self = Ok self"

definition dispatch_nested_into_result ::
    "(dispatch_response, dispatch_error) answer \<Rightarrow> (dispatch_response, dispatch_error) answer" where
  "dispatch_nested_into_result self = self"

fun dispatch_plugin_into_result ::
    "(dispatch_response, dispatch_error plugin_error) result \<Rightarrow> (dispatch_response, dispatch_error) answer" where
  "dispatch_plugin_into_result (Ok v) = Ok (Ok v)"
| "dispatch_plugin_into_result (Err (PluginDomain error)) = Ok (Err error)"
| "dispatch_plugin_into_result (Err (PluginRuntime error)) = Err error"
| "dispatch_plugin_into_result (Panic m) = Panic m"

definition inspect_plain_into_result ::
    "(inspect_response, inspect_error) result \<Rightarrow> (inspect_response, inspect_error) answer" where
  "inspect_plain_into_result self = Ok self"

definition inspect_nested_into_result ::
    "(inspect_response, inspect_error) answer \<Rightarrow> (inspect_response, inspect_error) answer" where
  "inspect_nested_into_result self = self"

fun inspect_plugin_into_result ::
    "(inspect_response, inspect_error plugin_error) result \<Rightarrow> (inspect_response, inspect_error) answer" where
  "inspect_plugin_into_result (Ok v) = Ok (Ok v)"
| "inspect_plugin_into_result (Err (PluginDomain error)) = Ok (Err error)"
| "inspect_plugin_into_result (Err (PluginRuntime error)) = Err error"
| "inspect_plugin_into_result (Panic m) = Panic m"

definition replay_plain_into_result ::
    "(replay_response, replay_error) result \<Rightarrow> (replay_response, replay_error) answer" where
  "replay_plain_into_result self = Ok self"

definition replay_nested_into_result ::
    "(replay_response, replay_error) answer \<Rightarrow> (replay_response, replay_error) answer" where
  "replay_nested_into_result self = self"

fun replay_plugin_into_result ::
    "(replay_response, replay_error plugin_error) result \<Rightarrow> (replay_response, replay_error) answer" where
  "replay_plugin_into_result (Ok v) = Ok (Ok v)"
| "replay_plugin_into_result (Err (PluginDomain error)) = Ok (Err error)"
| "replay_plugin_into_result (Err (PluginRuntime error)) = Err error"
| "replay_plugin_into_result (Panic m) = Panic m"

section \<open>The plugin as a provider\<close>

text \<open>
  The lowering macros: the provider's operation calls the plugin's method of the same name, whose
  result is already nested.
\<close>

definition lower_webhook :: "(enqueue_request, enqueue_response, enqueue_error, 'w) operation \<Rightarrow> 'w webhook_provider" where
  "lower_webhook plugin_enqueue =
     \<lparr>wp_enqueue = (\<lambda>context request w. case plugin_enqueue context request w of
        (result, w') \<Rightarrow> (enqueue_nested_into_result result, w'))\<rparr>"

definition lower_webhook_admin ::
    "(dispatch_request, dispatch_response, dispatch_error, 'w) operation \<Rightarrow>
     (inspect_request, inspect_response, inspect_error, 'w) operation \<Rightarrow>
     (replay_request, replay_response, replay_error, 'w) operation \<Rightarrow> 'w admin_provider" where
  "lower_webhook_admin plugin_dispatch plugin_inspect plugin_replay =
     \<lparr>ap_dispatch = (\<lambda>context request w. case plugin_dispatch context request w of
        (result, w') \<Rightarrow> (dispatch_nested_into_result result, w')),
      ap_inspect = (\<lambda>context request w. case plugin_inspect context request w of
        (result, w') \<Rightarrow> (inspect_nested_into_result result, w')),
      ap_replay = (\<lambda>context request w. case plugin_replay context request w of
        (result, w') \<Rightarrow> (replay_nested_into_result result, w'))\<rparr>"

section \<open>Dependencies\<close>

text \<open>
  \<open>PluginDependencies\<close>: \<open>one\<close> finds the handle of the single provider of a capability type; a
  binding may lack a handle, and \<open>typed\<close> may refuse the type.
\<close>

datatype request_capability =
  OutboundWebhook | OutboundWebhookAdminDispatch | OutboundWebhookAdminInspect | OutboundWebhookAdminReplay

record 'h binding =
  bd_capability_id :: string
  bd_provider_instance :: string
  bd_handle :: "(request_capability \<Rightarrow> runtime_failure + 'h) option"

record 'h dependencies =
  dep_one :: "request_capability \<Rightarrow> runtime_failure + 'h"
  dep_bindings :: "'h binding list"

record 'h webhook_client =
  wc_enqueue :: 'h

record 'h admin_client =
  ac_dispatch :: 'h
  ac_inspect :: 'h
  ac_replay :: 'h

definition webhook_client_new :: "'h \<Rightarrow> 'h webhook_client" where
  "webhook_client_new handle = \<lparr>wc_enqueue = handle\<rparr>"

definition webhook_from_dependencies :: "'h dependencies \<Rightarrow> ('h webhook_client, runtime_failure) result" where
  "webhook_from_dependencies deps =
     and_then (of_sum id (dep_one deps OutboundWebhook)) (\<lambda>enqueue_handle.
     Ok \<lparr>wc_enqueue = enqueue_handle\<rparr>)"

definition admin_from_dependencies :: "'h dependencies \<Rightarrow> ('h admin_client, runtime_failure) result" where
  "admin_from_dependencies deps =
     and_then (of_sum id (dep_one deps OutboundWebhookAdminDispatch)) (\<lambda>dispatch_handle.
     and_then (of_sum id (dep_one deps OutboundWebhookAdminInspect)) (\<lambda>inspect_handle.
     and_then (of_sum id (dep_one deps OutboundWebhookAdminReplay)) (\<lambda>replay_handle.
     Ok \<lparr>ac_dispatch = dispatch_handle, ac_inspect = inspect_handle, ac_replay = replay_handle\<rparr>)))"

definition webhook_already_connected :: runtime_failure where
  "webhook_already_connected =
     PluginFailure (''Capability Port '' @ CAPABILITY_ID @ '' was connected more than once'')"

definition admin_already_connected :: runtime_failure where
  "admin_already_connected =
     PluginFailure (''Capability Port '' @ ADMIN_CAPABILITY_ID @ '' was connected more than once'')"

definition bound_handle :: "string \<Rightarrow> request_capability \<Rightarrow> 'h binding \<Rightarrow> ('h, runtime_failure) result" where
  "bound_handle capability marker binding =
     and_then (ok_or (Unavailable capability) (bd_handle binding)) (\<lambda>typed. of_sum id (typed marker))"

text \<open>\<open>collect()\<close> into a \<open>Result\<close>: all values, or the first error.\<close>

fun collect_results :: "('a, 'e) result list \<Rightarrow> ('a list, 'e) result" where
  "collect_results [] = Ok []"
| "collect_results (r # rs) = and_then r (\<lambda>x. and_then (collect_results rs) (\<lambda>xs. Ok (x # xs)))"

definition webhook_many_from_dependencies ::
    "'h dependencies \<Rightarrow> ((string \<times> 'h webhook_client) list, runtime_failure) result" where
  "webhook_many_from_dependencies deps =
     collect_results (map (\<lambda>binding.
         and_then (bound_handle CAPABILITY_ID OutboundWebhook binding) (\<lambda>enqueue_handle.
         Ok (bd_provider_instance binding, \<lparr>wc_enqueue = enqueue_handle\<rparr>)))
       (filter (\<lambda>binding. bd_capability_id binding = CAPABILITY_ID) (dep_bindings deps)))"

definition admin_many_from_dependencies ::
    "'h dependencies \<Rightarrow> ((string \<times> 'h admin_client) list, runtime_failure) result" where
  "admin_many_from_dependencies deps =
     collect_results (map (\<lambda>binding.
         and_then (bound_handle ADMIN_CAPABILITY_ID OutboundWebhookAdminDispatch binding) (\<lambda>dispatch_handle.
         and_then (bound_handle ADMIN_CAPABILITY_ID OutboundWebhookAdminInspect binding) (\<lambda>inspect_handle.
         and_then (bound_handle ADMIN_CAPABILITY_ID OutboundWebhookAdminReplay binding) (\<lambda>replay_handle.
         Ok (bd_provider_instance binding,
             \<lparr>ac_dispatch = dispatch_handle, ac_inspect = inspect_handle, ac_replay = replay_handle\<rparr>)))))
       (filter (\<lambda>binding. bd_capability_id binding = ADMIN_CAPABILITY_ID) (dep_bindings deps)))"

section \<open>Properties\<close>

lemmas operation_names = ENQUEUE_OPERATION_def DISPATCH_OPERATION_def INSPECT_OPERATION_def REPLAY_OPERATION_def

lemmas endpoint_defs = webhook_native_endpoint_def admin_native_endpoint_def
  webhook_endpoint_new_def admin_endpoint_new_def

lemmas invoke_native_defs = invoke_native_enqueue_def invoke_native_dispatch_def
  invoke_native_inspect_def invoke_native_replay_def

text \<open>
  C38: the typed fast path and the boxed path of an endpoint agree: for each of the four operations,
  invoking the endpoint with a boxed request gives the boxed answer of \<open>invoke_native\<close> and leaves
  the same state, whatever the kernel's fallback does.
\<close>

theorem native_path_agrees:
  "ne_invoke (webhook_native_endpoint (webhook_endpoint_new wp)) ENQUEUE_OPERATION (BEnqueueRequest er) context w =
     apfst (box_answer BEnqueueResponse BEnqueueError)
       (invoke_native_enqueue e1 (webhook_native_endpoint (webhook_endpoint_new wp)) ENQUEUE_OPERATION context er w) \<and>
   ne_invoke (admin_native_endpoint (admin_endpoint_new ap)) DISPATCH_OPERATION (BDispatchRequest dr) context w =
     apfst (box_answer BDispatchResponse BDispatchError)
       (invoke_native_dispatch e2 (admin_native_endpoint (admin_endpoint_new ap)) DISPATCH_OPERATION context dr w) \<and>
   ne_invoke (admin_native_endpoint (admin_endpoint_new ap)) INSPECT_OPERATION (BInspectRequest ir) context w =
     apfst (box_answer BInspectResponse BInspectError)
       (invoke_native_inspect e3 (admin_native_endpoint (admin_endpoint_new ap)) INSPECT_OPERATION context ir w) \<and>
   ne_invoke (admin_native_endpoint (admin_endpoint_new ap)) REPLAY_OPERATION (BReplayRequest rr) context w =
     apfst (box_answer BReplayResponse BReplayError)
       (invoke_native_replay e4 (admin_native_endpoint (admin_endpoint_new ap)) REPLAY_OPERATION context rr w)"
  by (simp add: endpoint_defs invoke_native_defs invoke_webhook_def invoke_admin_def operation_names
      apfst_def map_prod_def split: prod.split)

text \<open>
  An endpoint refuses what it does not offer without running the provider: an operation name
  outside its list is an unknown operation, and a request of another type is a protocol violation;
  the state is untouched.
\<close>

lemma endpoint_refuses_unknown:
  "(operation \<notin> set webhook_operations \<longrightarrow>
      invoke_webhook f operation request context w = (Err (UnknownOperation CAPABILITY_ID operation), w)) \<and>
   (operation \<notin> set admin_operations \<longrightarrow>
      invoke_admin g h k operation request context w = (Err (UnknownOperation ADMIN_CAPABILITY_ID operation), w)) \<and>
   (operation \<in> set webhook_operations \<and> (\<forall>r. request \<noteq> BEnqueueRequest r) \<longrightarrow>
      invoke_webhook f operation request context w = (Err (ProtocolViolation CAPABILITY_ID), w)) \<and>
   (operation \<in> set admin_operations \<and>
      (\<forall>r. operation = DISPATCH_OPERATION \<longrightarrow> request \<noteq> BDispatchRequest r) \<and>
      (\<forall>r. operation = INSPECT_OPERATION \<longrightarrow> request \<noteq> BInspectRequest r) \<and>
      (\<forall>r. operation = REPLAY_OPERATION \<longrightarrow> request \<noteq> BReplayRequest r) \<longrightarrow>
      invoke_admin g h k operation request context w = (Err (ProtocolViolation ADMIN_CAPABILITY_ID), w))"
  by (cases request)
    (auto simp: webhook_operations_def admin_operations_def invoke_webhook_def invoke_admin_def operation_names)

subsection \<open>From a client to the plugin and back\<close>

text \<open>
  \<open>#[provides]\<close>: the plugin's methods as providers. The state is the database and the requests sent
  so far; the arguments of the flows that are not part of a call are fixed.
\<close>

definition webhook_of_plugin ::
    "crates \<Rightarrow> plugin \<Rightarrow> db_env \<Rightarrow> int \<Rightarrow> (database \<times> send_request list) webhook_provider" where
  "webhook_of_plugin cr pl env now = lower_webhook
     (\<lambda>context request (s, sent). case enqueue cr pl env now context request s of
        (answer, s') \<Rightarrow> (answer, s', sent))"

definition admin_of_plugin ::
    "crates \<Rightarrow> plugin \<Rightarrow> http_client \<Rightarrow> clocks \<Rightarrow> db_env \<Rightarrow> db_env \<Rightarrow> (database \<Rightarrow> database) \<Rightarrow>
     (database \<times> send_request list) admin_provider" where
  "admin_of_plugin cr pl http ck env env' between = lower_webhook_admin
     (\<lambda>context request (s, sent). case dispatch cr pl http ck env env' between context request s of
        ((answer, s'), requests) \<Rightarrow> (answer, s', sent @ requests))
     (\<lambda>context request (s, sent). (inspect cr pl env context request s s, s, sent))
     (\<lambda>context request (s, sent). case replay cr pl env context request s s s of
        (answer, s') \<Rightarrow> (answer, s', sent))"

lemma answer_inner [simp]:
  "enqueue_answer r1 \<noteq> Ok (Panic m)" "dispatch_answer r2 \<noteq> Ok (Panic m)"
  "inspect_answer r3 \<noteq> Ok (Panic m)" "replay_answer r4 \<noteq> Ok (Panic m)"
     apply (cases r1 rule: enqueue_answer.cases; simp)
    apply (cases r2 rule: dispatch_answer.cases; simp)
   apply (cases r3 rule: inspect_answer.cases; simp)
  apply (cases r4 rule: replay_answer.cases; simp)
  done

lemma split_forward:
  "(\<And>m. ea \<noteq> Ok (Panic m)) \<Longrightarrow>
    enqueue_into_result (and_then (map_err EnqueueInvRuntime ea) (map_err EnqueueInvDomain)) = ea"
  "(\<And>m. da \<noteq> Ok (Panic m)) \<Longrightarrow>
    dispatch_into_result (and_then (map_err DispatchInvRuntime da) (map_err DispatchInvDomain)) = da"
  "(\<And>m. ia \<noteq> Ok (Panic m)) \<Longrightarrow>
    inspect_into_result (and_then (map_err InspectInvRuntime ia) (map_err InspectInvDomain)) = ia"
  "(\<And>m. ra \<noteq> Ok (Panic m)) \<Longrightarrow>
    replay_into_result (and_then (map_err ReplayInvRuntime ra) (map_err ReplayInvDomain)) = ra"
proof -
  have inner: "(\<And>m. a \<noteq> Ok (Panic m)) \<Longrightarrow>
      (\<exists>x. a = Ok (Ok x)) \<or> (\<exists>e. a = Ok (Err e)) \<or> (\<exists>e. a = Err e) \<or> (\<exists>m. a = Panic m)"
    for a :: "('x, 'y) answer"
    by (metis result.exhaust)
  show "(\<And>m. ea \<noteq> Ok (Panic m)) \<Longrightarrow>
      enqueue_into_result (and_then (map_err EnqueueInvRuntime ea) (map_err EnqueueInvDomain)) = ea"
    by (drule inner) auto
  show "(\<And>m. da \<noteq> Ok (Panic m)) \<Longrightarrow>
      dispatch_into_result (and_then (map_err DispatchInvRuntime da) (map_err DispatchInvDomain)) = da"
    by (drule inner) auto
  show "(\<And>m. ia \<noteq> Ok (Panic m)) \<Longrightarrow>
      inspect_into_result (and_then (map_err InspectInvRuntime ia) (map_err InspectInvDomain)) = ia"
    by (drule inner) auto
  show "(\<And>m. ra \<noteq> Ok (Panic m)) \<Longrightarrow>
      replay_into_result (and_then (map_err ReplayInvRuntime ra) (map_err ReplayInvDomain)) = ra"
    by (drule inner) auto
qed

lemmas client_defs = client_enqueue_def client_dispatch_def client_inspect_def client_replay_def

lemmas nested_defs = enqueue_nested_into_result_def dispatch_nested_into_result_def
  inspect_nested_into_result_def replay_nested_into_result_def

lemma client_forwards:
  "(\<And>m. fst (eh ENQUEUE_OPERATION caller er w) \<noteq> Ok (Panic m)) \<Longrightarrow>
    apfst enqueue_into_result (client_enqueue eh caller er w) = eh ENQUEUE_OPERATION caller er w"
  "(\<And>m. fst (dh DISPATCH_OPERATION caller dr w) \<noteq> Ok (Panic m)) \<Longrightarrow>
    apfst dispatch_into_result (client_dispatch dh caller dr w) = dh DISPATCH_OPERATION caller dr w"
  "(\<And>m. fst (ih INSPECT_OPERATION caller ir w) \<noteq> Ok (Panic m)) \<Longrightarrow>
    apfst inspect_into_result (client_inspect ih caller ir w) = ih INSPECT_OPERATION caller ir w"
  "(\<And>m. fst (rh REPLAY_OPERATION caller rr w) \<noteq> Ok (Panic m)) \<Longrightarrow>
    apfst replay_into_result (client_replay rh caller rr w) = rh REPLAY_OPERATION caller rr w"
  by (simp_all add: client_defs split_forward case_prod_unfold apfst_def map_prod_def)

lemma native_reaches_plugin:
  "invoke_native_enqueue e1
       (webhook_native_endpoint (webhook_endpoint_new (webhook_of_plugin cr pl env now)))
       ENQUEUE_OPERATION context er (s, sent) =
     (fst (enqueue cr pl env now context er s), snd (enqueue cr pl env now context er s), sent)"
  "invoke_native_dispatch e2
       (admin_native_endpoint (admin_endpoint_new (admin_of_plugin cr pl http ck env env' between)))
       DISPATCH_OPERATION context dr (s, sent) =
     (fst (fst (dispatch cr pl http ck env env' between context dr s)),
      snd (fst (dispatch cr pl http ck env env' between context dr s)),
      sent @ snd (dispatch cr pl http ck env env' between context dr s))"
  "invoke_native_inspect e3
       (admin_native_endpoint (admin_endpoint_new (admin_of_plugin cr pl http ck env env' between)))
       INSPECT_OPERATION context ir (s, sent) = (inspect cr pl env context ir s s, s, sent)"
  "invoke_native_replay e4
       (admin_native_endpoint (admin_endpoint_new (admin_of_plugin cr pl http ck env env' between)))
       REPLAY_OPERATION context rr (s, sent) =
     (fst (replay cr pl env context rr s s s), snd (replay cr pl env context rr s s s), sent)"
  by (simp_all add: endpoint_defs invoke_native_defs webhook_of_plugin_def
      admin_of_plugin_def lower_webhook_def lower_webhook_admin_def nested_defs
      enqueue_def dispatch_def inspect_def replay_def split: prod.split)

text \<open>
  C37: the plugin is reached and answered without loss. Invoking one of the four operations on the
  endpoint of the plugin runs exactly the plugin's method: its answer is that of the flow, and the
  database and the requests sent are those the flow leaves. And whatever a handle answers, the
  client asks it for its own operation, with the caller's context and request, and its result turned
  back into a plugin result is the handle's answer: no success, domain error, failure or panic is
  lost or changed on the way. (A panic inside a returned value is excluded; no Rust value holds one.)
\<close>

theorem client_reaches_plugin:
  assumes "\<And>m. fst (eh ENQUEUE_OPERATION caller er w) \<noteq> Ok (Panic m)"
    and "\<And>m. fst (dh DISPATCH_OPERATION caller dr w) \<noteq> Ok (Panic m)"
    and "\<And>m. fst (ih INSPECT_OPERATION caller ir w) \<noteq> Ok (Panic m)"
    and "\<And>m. fst (rh REPLAY_OPERATION caller rr w) \<noteq> Ok (Panic m)"
  shows "apfst enqueue_into_result (client_enqueue eh caller er w) = eh ENQUEUE_OPERATION caller er w \<and>
   apfst dispatch_into_result (client_dispatch dh caller dr w) = dh DISPATCH_OPERATION caller dr w \<and>
   apfst inspect_into_result (client_inspect ih caller ir w) = ih INSPECT_OPERATION caller ir w \<and>
   apfst replay_into_result (client_replay rh caller rr w) = rh REPLAY_OPERATION caller rr w \<and>
   invoke_native_enqueue e1
       (webhook_native_endpoint (webhook_endpoint_new (webhook_of_plugin cr pl env now)))
       ENQUEUE_OPERATION context er (s, sent) =
     (fst (enqueue cr pl env now context er s), snd (enqueue cr pl env now context er s), sent) \<and>
   invoke_native_dispatch e2
       (admin_native_endpoint (admin_endpoint_new (admin_of_plugin cr pl http ck env env' between)))
       DISPATCH_OPERATION context dr (s, sent) =
     (fst (fst (dispatch cr pl http ck env env' between context dr s)),
      snd (fst (dispatch cr pl http ck env env' between context dr s)),
      sent @ snd (dispatch cr pl http ck env env' between context dr s)) \<and>
   invoke_native_inspect e3
       (admin_native_endpoint (admin_endpoint_new (admin_of_plugin cr pl http ck env env' between)))
       INSPECT_OPERATION context ir (s, sent) = (inspect cr pl env context ir s s, s, sent) \<and>
   invoke_native_replay e4
       (admin_native_endpoint (admin_endpoint_new (admin_of_plugin cr pl http ck env env' between)))
       REPLAY_OPERATION context rr (s, sent) =
     (fst (replay cr pl env context rr s s s), snd (replay cr pl env context rr s s s), sent)"
  by (intro conjI client_forwards native_reaches_plugin assms)

theorem client_reaches_plugin_witness:
  "fst (client_enqueue (\<lambda>operation caller request w. (Err (UnknownOperation CAPABILITY_ID operation), w))
     None \<lparr>enq_event_id = ''e'', enq_event_type = ''t'', enq_payload = []\<rparr> ()) =
   Err (EnqueueInvRuntime (UnknownOperation CAPABILITY_ID ENQUEUE_OPERATION))"
proof -
  let ?h = "\<lambda>operation caller request w. (Err (UnknownOperation CAPABILITY_ID operation), w)"
  let ?r = "\<lparr>enq_event_id = ''e'', enq_event_type = ''t'', enq_payload = []\<rparr>"
  have "apfst enqueue_into_result (client_enqueue ?h None ?r ()) = ?h ENQUEUE_OPERATION None ?r ()"
    using client_reaches_plugin [of ?h None ?r "()" ?h _ ?h _ ?h] by simp
  then show ?thesis
    by (cases "client_enqueue ?h None ?r ()"; cases "fst (client_enqueue ?h None ?r ())" rule: enqueue_into_result.cases)
      simp_all
qed

subsection \<open>Many providers\<close>

lemma collect_results_Ok:
  "collect_results (map f xs) = Ok ys \<longleftrightarrow> list_all2 (\<lambda>x y. f x = Ok y) xs ys"
proof (induction xs arbitrary: ys)
  case (Cons x xs)
  show ?case
    by (cases ys) (auto simp: and_then_Ok_iff Cons.IH)
qed auto

lemma collect_results_Err:
  "collect_results (map f xs) = Err e \<longleftrightarrow>
    (\<exists>before x after. xs = before @ x # after \<and> f x = Err e \<and> list_all (\<lambda>y. \<exists>z. f y = Ok z) before)"
  (is "_ \<longleftrightarrow> ?first xs")
proof (induction xs)
  case (Cons x xs)
  show ?case
  proof (cases "f x")
    case (Ok z)
    have "?first (x # xs) \<longleftrightarrow> ?first xs"
    proof
      assume "?first (x # xs)"
      then obtain before y after where first: "x # xs = before @ y # after" "f y = Err e"
        "list_all (\<lambda>y. \<exists>z. f y = Ok z) before" by blast
      with Ok show "?first xs" by (cases before) auto
    next
      assume "?first xs"
      then obtain before y after where first: "xs = before @ y # after" "f y = Err e"
        "list_all (\<lambda>y. \<exists>z. f y = Ok z) before" by blast
      with Ok show "?first (x # xs)"
        by (intro exI [where x = "x # before"] exI [where x = y] exI [where x = after]) simp
    qed
    with Ok show ?thesis by (simp add: and_then_Err_iff Cons.IH)
  next
    case (Err e')
    have "?first (x # xs)" if "e' = e"
      using Err that by (intro exI [where x = "[]"] exI [where x = x] exI [where x = xs]) simp
    with Err show ?thesis by (auto simp: Cons_eq_append_conv)
  qed (auto simp: Cons_eq_append_conv)
qed auto

text \<open>
  Connecting to many providers yields one client for every binding of the capability, in
  binding order, under the name of its provider instance and with the handles of that binding; it
  fails with the first binding whose handle is missing or refused.
\<close>

lemma many_binds_every_provider:
  "(webhook_many_from_dependencies deps = Ok clients \<longleftrightarrow>
      list_all2 (\<lambda>b (name, c). name = bd_provider_instance b \<and>
          bound_handle CAPABILITY_ID OutboundWebhook b = Ok (wc_enqueue c))
        (filter (\<lambda>b. bd_capability_id b = CAPABILITY_ID) (dep_bindings deps)) clients) \<and>
   (admin_many_from_dependencies deps = Ok admins \<longleftrightarrow>
      list_all2 (\<lambda>b (name, c). name = bd_provider_instance b \<and>
          bound_handle ADMIN_CAPABILITY_ID OutboundWebhookAdminDispatch b = Ok (ac_dispatch c) \<and>
          bound_handle ADMIN_CAPABILITY_ID OutboundWebhookAdminInspect b = Ok (ac_inspect c) \<and>
          bound_handle ADMIN_CAPABILITY_ID OutboundWebhookAdminReplay b = Ok (ac_replay c))
        (filter (\<lambda>b. bd_capability_id b = ADMIN_CAPABILITY_ID) (dep_bindings deps)) admins) \<and>
   (webhook_many_from_dependencies deps = Err failure' \<longleftrightarrow>
      (\<exists>before b after. filter (\<lambda>b. bd_capability_id b = CAPABILITY_ID) (dep_bindings deps) = before @ b # after \<and>
        bound_handle CAPABILITY_ID OutboundWebhook b = Err failure' \<and>
        list_all (\<lambda>b'. \<exists>h. bound_handle CAPABILITY_ID OutboundWebhook b' = Ok h) before))"
proof (intro conjI)
  show "webhook_many_from_dependencies deps = Ok clients \<longleftrightarrow>
      list_all2 (\<lambda>b (name, c). name = bd_provider_instance b \<and>
          bound_handle CAPABILITY_ID OutboundWebhook b = Ok (wc_enqueue c))
        (filter (\<lambda>b. bd_capability_id b = CAPABILITY_ID) (dep_bindings deps)) clients"
    unfolding webhook_many_from_dependencies_def collect_results_Ok
    by (rule list.rel_cong [OF refl refl]) (auto simp: and_then_Ok_iff)
  show "admin_many_from_dependencies deps = Ok admins \<longleftrightarrow>
      list_all2 (\<lambda>b (name, c). name = bd_provider_instance b \<and>
          bound_handle ADMIN_CAPABILITY_ID OutboundWebhookAdminDispatch b = Ok (ac_dispatch c) \<and>
          bound_handle ADMIN_CAPABILITY_ID OutboundWebhookAdminInspect b = Ok (ac_inspect c) \<and>
          bound_handle ADMIN_CAPABILITY_ID OutboundWebhookAdminReplay b = Ok (ac_replay c))
        (filter (\<lambda>b. bd_capability_id b = ADMIN_CAPABILITY_ID) (dep_bindings deps)) admins"
    unfolding admin_many_from_dependencies_def collect_results_Ok
    by (rule list.rel_cong [OF refl refl]) (auto simp: and_then_Ok_iff)
  show "webhook_many_from_dependencies deps = Err failure' \<longleftrightarrow>
      (\<exists>before b after. filter (\<lambda>b. bd_capability_id b = CAPABILITY_ID) (dep_bindings deps) = before @ b # after \<and>
        bound_handle CAPABILITY_ID OutboundWebhook b = Err failure' \<and>
        list_all (\<lambda>b'. \<exists>h. bound_handle CAPABILITY_ID OutboundWebhook b' = Ok h) before)"
    unfolding webhook_many_from_dependencies_def collect_results_Err
    by (simp add: and_then_Err_iff and_then_Ok_iff)
qed

end
