(* ===== verification/Schema_Snapshot.thy ===== *)
theory Schema_Snapshot
  imports Json_Values
begin

text \<open>
  The contract-snapshot normalisation of the capability crates' \<open>build.rs\<close>: \<open>normalize_schema\<close>
  rewrites a JSON schema in place, children first, and \<open>normalize_snapshot\<close> applies it to the
  three schemas of every operation.
\<close>

section \<open>The model\<close>

definition drops_properties :: "(string \<times> json) list \<Rightarrow> bool" where
  "drops_properties object \<longleftrightarrow>
     map_of object ''additionalProperties'' = Some (JBool True) \<and>
     (case Option.bind (map_of object ''properties'') as_object of
        None \<Rightarrow> False | Some m \<Rightarrow> m = [])"

definition drops_type :: "(string \<times> json) list \<Rightarrow> bool" where
  "drops_type object \<longleftrightarrow>
     (case Option.bind (map_of object ''enum'') as_array of
        None \<Rightarrow> False | Some values \<Rightarrow> list_all is_string values) \<and>
     Option.bind (map_of object ''type'') as_str = Some ''string''"

definition normalize_object :: "(string \<times> json) list \<Rightarrow> (string \<times> json) list" where
  "normalize_object object =
     (let object = (if drops_properties object then object_remove ''properties'' object else object)
      in if drops_type object then object_remove ''type'' object else object)"

fun normalize_schema :: "json \<Rightarrow> json" where
  "normalize_schema (JObject object) =
     JObject (normalize_object (map (\<lambda>(k, v). (k, normalize_schema v)) object))"
| "normalize_schema (JArray values) = JArray (map normalize_schema values)"
| "normalize_schema v = v"

record operation_snapshot =
  request_schema :: json
  response_schema :: json
  domain_error_schema :: json

definition normalize_snapshot :: "operation_snapshot list \<Rightarrow> operation_snapshot list" where
  "normalize_snapshot operations =
     map (\<lambda>operation. operation\<lparr>
            request_schema := normalize_schema (request_schema operation),
            response_schema := normalize_schema (response_schema operation),
            domain_error_schema := normalize_schema (domain_error_schema operation)\<rparr>) operations"

section \<open>Normalisation is stable\<close>

text \<open>What the two conditions look at survives the normalisation of the children.\<close>

lemma map_of_map_normalize:
  "map_of (map (\<lambda>(k, v). (k, normalize_schema v)) object) k
     = map_option normalize_schema (map_of object k)"
  by (induction object) auto

lemma normalize_schema_scalar [simp]:
  "normalize_schema v = JBool b \<longleftrightarrow> v = JBool b"
  "normalize_schema v = JString s \<longleftrightarrow> v = JString s"
  "as_str (normalize_schema v) = as_str v"
  "is_string (normalize_schema v) = is_string v"
  by (cases v; simp)+

lemma as_array_normalize:
  "as_array (normalize_schema v) = map_option (map normalize_schema) (as_array v)"
  by (cases v) auto

lemma drops_type_map_normalize:
  "drops_type (map (\<lambda>(k, v). (k, normalize_schema v)) object) = drops_type object"
  by (cases "map_of object ''enum''"; cases "map_of object ''type''")
    (auto simp: drops_type_def map_of_map_normalize as_array_normalize list_all_iff
      split: option.splits)

lemma map_normalize_remove:
  "map (\<lambda>(k, v). (k, f v)) (object_remove key object)
     = object_remove key (map (\<lambda>(k, v). (k, f v)) object)"
  by (induction object) (auto simp: object_remove_def)

lemma drops_type_remove_properties [simp]:
  "drops_type (object_remove ''properties'' object) = drops_type object"
  by (simp add: drops_type_def map_of_object_remove)

lemma drops_properties_remove_type [simp]:
  "drops_properties (object_remove ''type'' object) = drops_properties object"
  by (simp add: drops_properties_def map_of_object_remove)

lemma normalize_object_fixed:
  "\<not> drops_properties object \<Longrightarrow> \<not> drops_type object \<Longrightarrow> normalize_object object = object"
  by (simp add: normalize_object_def)

lemma normalize_object_clean:
  "\<not> drops_properties (normalize_object object)" "\<not> drops_type (normalize_object object)"
  by (auto simp: normalize_object_def Let_def)
    (simp_all add: drops_properties_def drops_type_def map_of_object_remove)

lemma normalize_object_cases:
  obtains ks where "normalize_object object = filter (\<lambda>p. fst p \<notin> ks) object"
    and "ks \<subseteq> {''properties'', ''type''}"
proof -
  let ?ks = "(if drops_properties object then {''properties''} else {}) \<union>
             (if drops_type object then {''type''} else {})"
  have "normalize_object object = filter (\<lambda>p. fst p \<notin> ?ks) object"
    by (simp add: normalize_object_def Let_def) (simp add: object_remove_def conj_commute)
  then show thesis using that [of ?ks] by auto
qed

lemma normalize_children_fixed:
  assumes "\<And>k v. (k, v) \<in> set object \<Longrightarrow> normalize_schema (normalize_schema v) = normalize_schema v"
  shows "map (\<lambda>(k, v). (k, normalize_schema v))
           (normalize_object (map (\<lambda>(k, v). (k, normalize_schema v)) object))
         = normalize_object (map (\<lambda>(k, v). (k, normalize_schema v)) object)"
proof -
  let ?o = "map (\<lambda>(k, v). (k, normalize_schema v)) object"
  obtain ks where ks: "normalize_object ?o = filter (\<lambda>p. fst p \<notin> ks) ?o"
    by (rule normalize_object_cases)
  have "map (\<lambda>(k, v). (k, normalize_schema v)) (filter (\<lambda>p. fst p \<notin> ks) ?o)
        = filter (\<lambda>p. fst p \<notin> ks) ?o"
    using assms by (intro map_idI) auto
  then show ?thesis by (simp add: ks)
qed

lemma normalize_schema_stable: "normalize_schema (normalize_schema v) = normalize_schema v"
proof (induction v rule: normalize_schema.induct)
  case (1 object)
  then have "map (\<lambda>(k, v). (k, normalize_schema v))
           (normalize_object (map (\<lambda>(k, v). (k, normalize_schema v)) object))
         = normalize_object (map (\<lambda>(k, v). (k, normalize_schema v)) object)"
    by (intro normalize_children_fixed) auto
  then show ?case
    by (simp add: normalize_object_fixed normalize_object_clean)
qed auto

end
