(* ===== verification/Build.thy ===== *)
theory Build
  imports Schema_Snapshot
begin

text \<open>
  \<open>main\<close> of the two \<open>build.rs\<close>, the second copy of the normalisation in the admin crate, and what
  the normalisation may drop: keywords that restrict nothing.
\<close>

section \<open>The build scripts\<close>

text \<open>
  The functions of \<open>lenso_contract_codegen\<close>: \<open>Inl\<close> with the text of the error. A language is named
  as the code names it.
\<close>

datatype projection_language = Rust

record codegen =
  write_source_snapshot :: "operation_snapshot list \<Rightarrow> string \<Rightarrow> string + unit"
  check_source_snapshot :: "operation_snapshot list \<Rightarrow> string \<Rightarrow> string + unit"
  check_projection :: "string \<Rightarrow> projection_language \<Rightarrow> string \<Rightarrow> string + unit"

fun unwrap_or_panic :: "string \<Rightarrow> string + unit \<Rightarrow> (unit, unit) result" where
  "unwrap_or_panic message (Inl error) = Panic (message @ error)"
| "unwrap_or_panic message (Inr u) = Ok ()"

text \<open>
  \<open>source\<close> is the snapshot the contract's macro generates; \<open>update\<close>: whether
  \<open>LENSO_UPDATE_CONTRACT_SNAPSHOT\<close> is set.
\<close>

definition build_webhook :: "codegen \<Rightarrow> bool \<Rightarrow> operation_snapshot list \<Rightarrow> (unit, unit) result" where
  "build_webhook cg update source =
     (let snapshot = normalize_snapshot source in
      and_then
        (if update
         then unwrap_or_panic ''failed to update Outbound Webhook snapshot: ''
                (write_source_snapshot cg snapshot ''capability.json'')
         else unwrap_or_panic ''Outbound Webhook Descriptor or Schemas are stale: ''
                (check_source_snapshot cg snapshot ''capability.json''))
        (\<lambda>_. unwrap_or_panic ''Outbound Webhook Rust projection is stale: ''
                (check_projection cg ''capability.json'' Rust ''src/generated.rs'')))"

subsection \<open>The admin crate\<close>

definition admin_drops_properties :: "(string \<times> json) list \<Rightarrow> bool" where
  "admin_drops_properties object \<longleftrightarrow>
     map_of object ''additionalProperties'' = Some (JBool True) \<and>
     (case Option.bind (map_of object ''properties'') as_object of
        None \<Rightarrow> False | Some m \<Rightarrow> m = [])"

definition admin_drops_type :: "(string \<times> json) list \<Rightarrow> bool" where
  "admin_drops_type object \<longleftrightarrow>
     (case Option.bind (map_of object ''enum'') as_array of
        None \<Rightarrow> False | Some values \<Rightarrow> list_all is_string values) \<and>
     Option.bind (map_of object ''type'') as_str = Some ''string''"

definition admin_normalize_object :: "(string \<times> json) list \<Rightarrow> (string \<times> json) list" where
  "admin_normalize_object object =
     (let object = (if admin_drops_properties object then object_remove ''properties'' object else object)
      in if admin_drops_type object then object_remove ''type'' object else object)"

fun admin_normalize_schema :: "json \<Rightarrow> json" where
  "admin_normalize_schema (JObject object) =
     JObject (admin_normalize_object (map (\<lambda>(k, v). (k, admin_normalize_schema v)) object))"
| "admin_normalize_schema (JArray values) = JArray (map admin_normalize_schema values)"
| "admin_normalize_schema v = v"

definition admin_normalize_snapshot :: "operation_snapshot list \<Rightarrow> operation_snapshot list" where
  "admin_normalize_snapshot operations =
     map (\<lambda>operation. operation\<lparr>
            request_schema := admin_normalize_schema (request_schema operation),
            response_schema := admin_normalize_schema (response_schema operation),
            domain_error_schema := admin_normalize_schema (domain_error_schema operation)\<rparr>) operations"

definition build_webhook_admin :: "codegen \<Rightarrow> bool \<Rightarrow> operation_snapshot list \<Rightarrow> (unit, unit) result" where
  "build_webhook_admin cg update source =
     (let snapshot = admin_normalize_snapshot source in
      and_then
        (if update
         then unwrap_or_panic ''failed to update Outbound Webhook Admin snapshot: ''
                (write_source_snapshot cg snapshot ''capability.json'')
         else unwrap_or_panic ''Outbound Webhook Admin Descriptor or Schemas are stale: ''
                (check_source_snapshot cg snapshot ''capability.json''))
        (\<lambda>_. unwrap_or_panic ''Outbound Webhook Admin Rust projection is stale: ''
                (check_projection cg ''capability.json'' Rust ''src/generated.rs'')))"

section \<open>The two copies agree\<close>

lemma admin_normalize_object_eq: "admin_normalize_object object = normalize_object object"
  by (simp add: admin_normalize_object_def normalize_object_def admin_drops_properties_def
      drops_properties_def admin_drops_type_def drops_type_def Let_def)

lemma admin_normalize_schema_eq: "admin_normalize_schema v = normalize_schema v"
proof (induction v rule: normalize_schema.induct)
  case (1 object)
  then have "map (\<lambda>(k, v). (k, admin_normalize_schema v)) object = map (\<lambda>(k, v). (k, normalize_schema v)) object"
    by (auto intro: map_cong)
  then show ?case by (simp only: admin_normalize_schema.simps normalize_schema.simps admin_normalize_object_eq)
qed simp_all

lemma admin_normalize_snapshot_eq: "admin_normalize_snapshot operations = normalize_snapshot operations"
  by (simp add: admin_normalize_snapshot_def normalize_snapshot_def admin_normalize_schema_eq)

text \<open>
  The build of either crate passes, outside update mode, exactly when the checked-in descriptor
  matches the normalised contract and the generated code matches the descriptor; both crates
  normalise alike; and a snapshot that is already normalised is checked as it is.
\<close>

lemma build_checks_normalized_contract:
  "(build_webhook cg False source = Ok () \<longleftrightarrow>
      check_source_snapshot cg (normalize_snapshot source) ''capability.json'' = Inr () \<and>
      check_projection cg ''capability.json'' Rust ''src/generated.rs'' = Inr ()) \<and>
   (build_webhook_admin cg False source = Ok () \<longleftrightarrow>
      check_source_snapshot cg (normalize_snapshot source) ''capability.json'' = Inr () \<and>
      check_projection cg ''capability.json'' Rust ''src/generated.rs'' = Inr ()) \<and>
   build_webhook_admin cg update (normalize_snapshot source) = build_webhook_admin cg update source"
proof -
  have ok: "unwrap_or_panic m r = Ok () \<longleftrightarrow> r = Inr ()" for m r
    by (cases r) auto
  have idem: "normalize_snapshot (normalize_snapshot source) = normalize_snapshot source"
    by (simp add: normalize_snapshot_def normalize_schema_stable)
  show ?thesis
    by (simp add: build_webhook_def build_webhook_admin_def admin_normalize_snapshot_eq Let_def
        and_then_Ok_iff ok idem)
qed

section \<open>What is dropped restricts nothing\<close>

text \<open>
  The keywords of a JSON schema that the normalisation looks at, as they restrict a value;
  \<open>sub\<close> is the validity of a value for a sub-schema.
\<close>

definition type_allows :: "string \<Rightarrow> json \<Rightarrow> bool" where
  "type_allows name v \<longleftrightarrow>
     (case v of
        JNull \<Rightarrow> name = ''null''
      | JBool _ \<Rightarrow> name = ''boolean''
      | JNumber _ \<Rightarrow> name = ''number'' \<or> name = ''integer''
      | JString _ \<Rightarrow> name = ''string''
      | JArray _ \<Rightarrow> name = ''array''
      | JObject _ \<Rightarrow> name = ''object'')"

definition keywords_allow ::
    "(json \<Rightarrow> json \<Rightarrow> bool) \<Rightarrow> (string \<times> json) list \<Rightarrow> json \<Rightarrow> bool" where
  "keywords_allow sub object v \<longleftrightarrow>
     (case map_of object ''type'' of Some (JString name) \<Rightarrow> type_allows name v | _ \<Rightarrow> True) \<and>
     (case map_of object ''enum'' of Some (JArray values) \<Rightarrow> v \<in> set values | _ \<Rightarrow> True) \<and>
     (let members = (case v of JObject kvs \<Rightarrow> kvs | _ \<Rightarrow> []);
          known = (case map_of object ''properties'' of Some (JObject ps) \<Rightarrow> ps | _ \<Rightarrow> [])
      in list_all (\<lambda>(k, x). case map_of known k of
           Some schema \<Rightarrow> sub schema x
         | None \<Rightarrow> (case map_of object ''additionalProperties'' of
             Some (JBool b) \<Rightarrow> b | Some schema \<Rightarrow> sub schema x | None \<Rightarrow> True)) members)"

lemma as_json_Some: "as_array v = Some vs \<longleftrightarrow> v = JArray vs" "as_str v = Some s \<longleftrightarrow> v = JString s"
  by (cases v; simp)+

lemma drops_typeE:
  assumes "drops_type object"
  obtains vs where "map_of object ''enum'' = Some (JArray vs)" "list_all is_string vs"
    "map_of object ''type'' = Some (JString ''string'')"
  using assms
  by (cases "Option.bind (map_of object ''enum'') as_array")
    (auto simp: drops_type_def Option.bind_eq_Some_conv as_json_Some)

text \<open>
  C40: the keywords that \<open>normalize_schema\<close> drops from an object restrict nothing there: whatever
  value a schema allows through its type, enumeration and properties, the schema without them
  allows, and the other way round.
\<close>

theorem normalize_object_keeps_meaning:
  "keywords_allow sub (normalize_object object) v \<longleftrightarrow> keywords_allow sub object v"
proof -
  have props: "keywords_allow sub (object_remove ''properties'' o') v \<longleftrightarrow> keywords_allow sub o' v"
    if "drops_properties o'" for o'
    using that
    by (auto simp: keywords_allow_def map_of_object_remove drops_properties_def Let_def
        split: option.splits json.splits elim!: as_object.elims)
  have dtype: "keywords_allow sub (object_remove ''type'' o') v \<longleftrightarrow> keywords_allow sub o' v"
    if drop: "drops_type o'" for o'
  proof -
    obtain vs where "map_of o' ''enum'' = Some (JArray vs)" "list_all is_string vs"
      "map_of o' ''type'' = Some (JString ''string'')"
      by (rule drops_typeE [OF drop])
    then show ?thesis
      by (cases v) (auto simp: keywords_allow_def map_of_object_remove type_allows_def list_all_iff Let_def)
  qed
  show ?thesis
    by (simp add: normalize_object_def Let_def props dtype)
qed

end
