(* ===== verification/Redaction.thy ===== *)
theory Redaction
  imports Service
begin

text \<open>
  The hand-written \<open>Debug\<close> implementations (\<open>generated.rs\<close> and \<open>lib.rs\<close>): what a log may show of a
  request, of the prepared state and of the plugin.
\<close>

text \<open>What is given to \<open>debug_struct\<close>: its name, its fields, and whether it is marked as complete.\<close>

datatype debug_value = DebugStr string | DebugBool bool | DebugConfig outbound_webhook_config

record debug_struct =
  debug_name :: string
  debug_fields :: "(string \<times> debug_value) list"
  debug_exhaustive :: bool

definition debug_enqueue_request :: "enqueue_request \<Rightarrow> debug_struct" where
  "debug_enqueue_request r =
     \<lparr>debug_name = ''EnqueueRequest'',
      debug_fields =
        [(''event_id'', DebugStr (enq_event_id r)),
         (''event_type'', DebugStr (enq_event_type r)),
         (''payload'', DebugStr ''<redacted>'')],
      debug_exhaustive = True\<rparr>"

text \<open>\<open>schema\<close> is the schema name the PostgreSQL handle reports.\<close>

definition debug_prepared_webhook :: "string \<Rightarrow> prepared_webhook \<Rightarrow> debug_struct" where
  "debug_prepared_webhook schema pw =
     \<lparr>debug_name = ''PreparedWebhook'',
      debug_fields =
        [(''schema'', DebugStr schema),
         (''endpoint_origin'', DebugStr (pw_endpoint_origin pw)),
         (''signing_key'', DebugStr ''<redacted>'')],
      debug_exhaustive = False\<rparr>"

definition debug_plugin :: "plugin \<Rightarrow> debug_struct" where
  "debug_plugin pl =
     \<lparr>debug_name = ''OutboundWebhookPlugin'',
      debug_fields =
        [(''config'', DebugConfig (pl_config pl)),
         (''prepared'', DebugBool (pl_prepared pl \<noteq> None))],
      debug_exhaustive = False\<rparr>"

text \<open>Neither the payload nor the signing key has any influence on what is shown.\<close>

lemma debug_payload_redacted: "debug_enqueue_request (r\<lparr>enq_payload := payload\<rparr>) = debug_enqueue_request r"
  by (simp add: debug_enqueue_request_def)

lemma debug_key_redacted:
  "debug_prepared_webhook schema (pw\<lparr>pw_signing_key := key\<rparr>) = debug_prepared_webhook schema pw"
  by (simp add: debug_prepared_webhook_def)

lemma debug_plugin_redacted:
  "debug_plugin (pl\<lparr>pl_prepared := map_option (\<lambda>pw. pw\<lparr>pw_signing_key := key\<rparr>) (pl_prepared pl)\<rparr>) = debug_plugin pl"
  by (simp add: debug_plugin_def)

end
