(* ===== verification/Protocol_Facts.thy ===== *)
theory Protocol_Facts
  imports Protocol Samples
begin

text \<open>
  Identities and signatures: the hexadecimal form is injective, a delivery identity is always one
  the admin operations accept, and two deliveries or two signed messages can only be confused if
  the digest itself collides.
\<close>

section \<open>Hexadecimal digits\<close>

definition hex_value :: "char \<Rightarrow> nat" where
  "hex_value c = (if c \<in> set ''0123456789'' then of_char c - 48 else of_char c - 87)"

lemma less_16_cases:
  "n < (16::nat) \<Longrightarrow> n \<in> {0,1,2,3,4,5,6,7,8,9,10,11,12,13,14,15}"
  by auto arith

lemma hex_digit_facts:
  "n < 16 \<Longrightarrow> hex_value (hex_digit n) = n \<and> is_ascii_hexdigit (hex_digit n) \<and> hex_digit n \<noteq> CHR ''.''"
  by (drule less_16_cases)
    (auto simp: hex_digit_def hex_value_def is_ascii_hexdigit_def in_bytes_def)

lemma byte_nibbles:
  fixes b :: byte
  shows "unat (drop_bit 4 b) = unat b div 16" and "unat (and b 0x0f) = unat b mod 16"
proof -
  show "unat (drop_bit 4 b) = unat b div 16"
    by (simp only: unat_drop_bit_eq) (simp add: drop_bit_eq_div)
  have "and b 0x0f = take_bit 4 b"
    by (simp add: take_bit_eq_mask mask_eq_exp_minus_1)
  moreover have "unat (take_bit 4 b) = unat b mod 16"
    by (simp only: unsigned_take_bit_eq) (simp add: take_bit_eq_mod)
  ultimately show "unat (and b 0x0f) = unat b mod 16" by simp
qed

lemma nibble_bounds:
  fixes b :: byte
  shows "unat b div 16 < 16" and "unat b mod 16 < 16"
  using unsigned_less [of b, where 'a = nat] by simp_all

lemma hex_Nil [simp]: "hex [] = []"
  by (simp add: hex_def)

lemma hex_Cons: "hex (b # bs) = hex_digit (unat b div 16) # hex_digit (unat b mod 16) # hex bs"
  by (simp add: hex_def byte_nibbles)

lemma length_hex [simp]: "length (hex bs) = 2 * length bs"
  by (induction bs) (simp_all add: hex_Cons)

lemma hex_chars: "c \<in> set (hex bs) \<Longrightarrow> is_ascii_hexdigit c \<and> c \<noteq> CHR ''.''"
  by (induction bs) (auto simp: hex_Cons hex_digit_facts nibble_bounds)

lemma hex_digit_inject: "m < 16 \<Longrightarrow> n < 16 \<Longrightarrow> hex_digit m = hex_digit n \<longleftrightarrow> m = n"
  by (metis hex_digit_facts)

lemma hex_inject: "hex xs = hex ys \<longleftrightarrow> xs = ys"
proof (induction xs arbitrary: ys)
  case Nil
  show ?case by (cases ys) (simp_all add: hex_Cons)
next
  case (Cons b bs)
  show ?case
  proof (cases ys)
    case (Cons c cs)
    have "unat b div 16 = unat c div 16 \<and> unat b mod 16 = unat c mod 16 \<longleftrightarrow> b = c"
      by (metis div_mult_mod_eq word_unat_eq_iff)
    then show ?thesis
      using Cons.IH [of cs] by (auto simp: Cons hex_Cons hex_digit_inject nibble_bounds)
  qed (simp add: hex_Cons)
qed

lemma take_hex: "take (2 * n) (hex bs) = hex (take n bs)"
proof (induction bs arbitrary: n)
  case (Cons b bs)
  then show ?case by (cases n) (simp_all add: hex_Cons)
qed simp

section \<open>Delivery identities\<close>

text \<open>What is hashed into the identity of a delivery.\<close>

definition identity_bytes :: "string \<Rightarrow> string \<Rightarrow> bytes" where
  "identity_bytes url event = as_bytes url @ [0] @ as_bytes event"

lemma stable_delivery_id_eq:
  "stable_delivery_id cr url event = ''wh_'' @ hex (take 24 (sha256 cr (identity_bytes url event)))"
  using take_hex [of 24] by (simp add: stable_delivery_id_def identity_bytes_def)

text \<open>
  Every identity that enqueue derives is one the admin operations accept, given that a SHA-256
  digest has 32 bytes.
\<close>

lemma stable_delivery_id_valid:
  assumes "length (sha256 cr (identity_bytes url event)) = 32"
  shows "valid_delivery_id (stable_delivery_id cr url event)"
  using assms hex_chars
  by (auto simp: valid_delivery_id_def stable_delivery_id_eq starts_with_def list_all_iff)

lemma valid_event_name_no_nul: "valid_event_name event \<Longrightarrow> 0 \<notin> set (as_bytes event)"
proof
  assume valid: "valid_event_name event" and "0 \<in> set (as_bytes event)"
  then obtain c where c: "c \<in> set event" "(of_char c :: byte) = 0" by (auto simp: as_bytes_def)
  then have "(of_char c :: nat) = 0" by (metis unat_of_char unsigned_0)
  moreover have "is_ascii_alphanumeric c \<or> c \<in> set ''._-:/''"
    using valid c(1) by (auto simp: valid_event_name_def list_all_iff)
  ultimately show False
    by (auto simp: is_ascii_alphanumeric_def in_bytes_def)
qed

lemma split_first:
  "xs @ d # ys = xs' @ d # ys' \<Longrightarrow> d \<notin> set xs \<Longrightarrow> d \<notin> set xs' \<Longrightarrow> xs = xs' \<and> ys = ys'"
proof (induction xs arbitrary: xs')
  case Nil
  then show ?case by (cases xs') auto
next
  case (Cons x xs)
  then show ?case by (cases xs') auto
qed

lemma split_last:
  assumes "xs @ [d] @ ys = xs' @ [d] @ ys'" and "d \<notin> set ys" and "d \<notin> set ys'"
  shows "xs = xs' \<and> ys = ys'"
proof -
  have "rev ys @ d # rev xs = rev ys' @ d # rev xs'"
    using arg_cong [OF assms(1), of rev] by simp
  from split_first [OF this] show ?thesis using assms(2,3) by simp
qed

lemma as_bytes_split:
  "as_bytes xs @ of_char d # p = as_bytes xs' @ of_char d # p' \<Longrightarrow> d \<notin> set xs \<Longrightarrow> d \<notin> set xs' \<Longrightarrow>
    xs = xs' \<and> p = p'"
  using split_first [of "as_bytes xs" "of_char d" p "as_bytes xs'" p'] by simp

text \<open>
  C31: distinct deliveries have distinct identities unless SHA-256 itself collides on them: if two
  different pairs of endpoint and accepted event get the same identity, the bytes hashed for them
  differ and the first 24 bytes of their digests agree. The bytes are unambiguous because an event
  name cannot contain the separator.
\<close>

theorem delivery_ids_collide_only_with_digests:
  assumes "valid_event_name event" and "valid_event_name event'" and "(url, event) \<noteq> (url', event')"
    and "stable_delivery_id cr url event = stable_delivery_id cr url' event'"
  shows "identity_bytes url event \<noteq> identity_bytes url' event' \<and>
    take 24 (sha256 cr (identity_bytes url event)) = take 24 (sha256 cr (identity_bytes url' event'))"
proof
  show "take 24 (sha256 cr (identity_bytes url event)) = take 24 (sha256 cr (identity_bytes url' event'))"
    using assms(4) by (simp add: stable_delivery_id_eq hex_inject)
  show "identity_bytes url event \<noteq> identity_bytes url' event'"
  proof
    assume "identity_bytes url event = identity_bytes url' event'"
    from split_last [OF this [unfolded identity_bytes_def]]
    have "as_bytes url = as_bytes url' \<and> as_bytes event = as_bytes event'"
      using valid_event_name_no_nul [OF assms(1)] valid_event_name_no_nul [OF assms(2)] by simp
    then show False using assms(3) by simp
  qed
qed

theorem delivery_ids_collide_only_with_digests_witness:
  "identity_bytes ''u'' ''e'' \<noteq> identity_bytes ''u'' ''t'' \<and>
    take 24 (sha256 sample_crates (identity_bytes ''u'' ''e'')) = take 24 (sha256 sample_crates (identity_bytes ''u'' ''t''))"
proof (rule delivery_ids_collide_only_with_digests [OF sample_names])
  show "(''u'', ''e'') \<noteq> (''u'', ''t'')" by simp
  show "stable_delivery_id sample_crates ''u'' ''e'' = stable_delivery_id sample_crates ''u'' ''t''"
    by (simp add: stable_delivery_id_def)
qed

section \<open>Signatures\<close>

text \<open>
  What is signed. A UTC time in RFC 3339 ends with \<open>Z\<close> and has no other \<open>Z\<close>; it may contain a dot.
\<close>

definition signed_bytes :: "string \<Rightarrow> string \<Rightarrow> bytes \<Rightarrow> bytes" where
  "signed_bytes delivery_id timestamp payload =
     as_bytes delivery_id @ as_bytes ''.'' @ as_bytes timestamp @ as_bytes ''.'' @ payload"

definition utc_stamp :: "string \<Rightarrow> bool" where
  "utc_stamp stamp \<longleftrightarrow> stamp \<noteq> [] \<and> last stamp = CHR ''Z'' \<and> CHR ''Z'' \<notin> set (butlast stamp)"

lemma sign_payload_eq:
  "sign_payload cr key i t p = Ok signature \<longleftrightarrow> (\<exists>mac. hmac_sha256 cr key (signed_bytes i t p) = Some mac \<and> signature = hex mac)"
  by (auto simp: sign_payload_def signed_bytes_def split: option.splits)

lemma valid_delivery_id_no_dot: "valid_delivery_id i \<Longrightarrow> CHR ''.'' \<notin> set i"
proof
  assume v: "valid_delivery_id i" and m: "CHR ''.'' \<in> set i"
  have "take 3 i = ''wh_''" using v by (simp add: valid_delivery_id_def starts_with_def numeral_3_eq_3)
  moreover have "set i = set (take 3 i) \<union> set (drop 3 i)" by (metis append_take_drop_id set_append)
  ultimately have "CHR ''.'' \<in> set (drop 3 i)" using m by simp
  then have "is_ascii_hexdigit (CHR ''.'')" using v by (auto simp: valid_delivery_id_def list_all_iff)
  then show False by (simp add: is_ascii_hexdigit_def in_bytes_def)
qed

lemma signed_bytes_inject:
  assumes "valid_delivery_id i" "valid_delivery_id i'" "utc_stamp t" "utc_stamp t'"
    and "signed_bytes i t p = signed_bytes i' t' p'"
  shows "i = i' \<and> t = t' \<and> p = p'"
proof -
  have eq: "signed_bytes i t p = as_bytes i @ of_char (CHR ''.'') # as_bytes t @ of_char (CHR ''.'') # p"
    for i t p by (simp add: signed_bytes_def as_bytes_def)
  have "i = i' \<and> as_bytes t @ of_char (CHR ''.'') # p = as_bytes t' @ of_char (CHR ''.'') # p'"
    using assms(5) valid_delivery_id_no_dot [OF assms(1)] valid_delivery_id_no_dot [OF assms(2)]
    unfolding eq by (rule as_bytes_split)
  then have i: "i = i'" and rest: "as_bytes t @ of_char (CHR ''.'') # p = as_bytes t' @ of_char (CHR ''.'') # p'"
    by simp_all
  obtain u u' where u: "t = u @ ''Z''" "CHR ''Z'' \<notin> set u" and u': "t' = u' @ ''Z''" "CHR ''Z'' \<notin> set u'"
    using assms(3,4) unfolding utc_stamp_def by (metis append_butlast_last_id)
  have z: "as_bytes (u @ ''Z'') @ q = as_bytes u @ of_char (CHR ''Z'') # q" for u q
    by (simp add: as_bytes_def)
  have "u = u' \<and> of_char (CHR ''.'') # p = of_char (CHR ''.'') # p'"
    using rest u(2) u'(2) unfolding u(1) u'(1) z by (rule as_bytes_split)
  then show ?thesis using i u(1) u'(1) by simp
qed

text \<open>
  C30: a signature binds delivery, time and payload: if two signings under one key give the same
  signature for a different delivery, time or payload, the bytes signed differ and HMAC-SHA256
  collides on them; the bytes are unambiguous although a time may contain the separator.
\<close>

theorem signature_binds_message:
  assumes "sign_payload cr key i t p = Ok signature" and "sign_payload cr key i' t' p' = Ok signature"
    and "valid_delivery_id i" and "valid_delivery_id i'" and "utc_stamp t" and "utc_stamp t'"
    and "(i, t, p) \<noteq> (i', t', p')"
  shows "signed_bytes i t p \<noteq> signed_bytes i' t' p' \<and>
    hmac_sha256 cr key (signed_bytes i t p) = hmac_sha256 cr key (signed_bytes i' t' p')"
proof -
  obtain mac mac' where mac: "hmac_sha256 cr key (signed_bytes i t p) = Some mac"
    "hmac_sha256 cr key (signed_bytes i' t' p') = Some mac'" "hex mac = hex mac'"
    using assms(1,2) by (auto simp: sign_payload_eq)
  moreover have "signed_bytes i t p \<noteq> signed_bytes i' t' p'"
    using signed_bytes_inject [OF assms(3-6)] assms(7) by blast
  ultimately show ?thesis by (auto simp: hex_inject)
qed

theorem signature_binds_message_witness:
  "signed_bytes sample_id ''Z'' [] \<noteq> signed_bytes sample_id ''Z'' [1] \<and>
    hmac_sha256 sample_crates [1] (signed_bytes sample_id ''Z'' []) = hmac_sha256 sample_crates [1] (signed_bytes sample_id ''Z'' [1])"
proof (rule signature_binds_message)
  show "sign_payload sample_crates [1] sample_id ''Z'' [] = Ok (hex (replicate 32 205))"
    and "sign_payload sample_crates [1] sample_id ''Z'' [1] = Ok (hex (replicate 32 205))"
    by (simp_all add: sign_payload_def)
qed (simp_all add: sample_id_valid utc_stamp_def)

end
