(* ===== verification/Spec2Isabelle.thy ===== *)
theory Spec2Isabelle
  imports Progress Answers Endpoint Build Redaction Protocol_Facts
begin

text \<open>
  A model of the Outbound Webhook Plugin (\<open>src/crates\<close>) and the theorems that make it correct.

  THE PROGRAM. A producer calls \<open>enqueue\<close>; the plugin stores the exact envelope in its own
  PostgreSQL tables before it reports success. A worker calls \<open>dispatch\<close>; one call claims at most
  one due row under a lease, sends one signed POST of the stored envelope and records the result.
  \<open>inspect\<close> reports a delivery with its last receipt; \<open>replay\<close> opens a new attempt cycle of a dead
  letter. The capability crates hold the authored contracts (\<open>contract.rs\<close>), the code generated
  from them (\<open>generated.rs\<close>: wire types, endpoints, clients) and the check that both agree
  (\<open>build.rs\<close>).

  THE THEORIES, in the order of their imports, and the code each models.
  \<^item> \<open>Webhook_Prelude\<close>: results with early return and panics, integers at the 32- and 64-bit
    boundary with their saturation, strings as UTF-8 bytes, lemmas on lists.
  \<^item> \<open>Json_Values\<close>, \<open>Schema_Snapshot\<close>, \<open>Build\<close>: JSON values; \<open>build.rs\<close> of both capability crates.
    Normalisation keeps the meaning of a schema, is stable, and is the same in both crates.
  \<^item> \<open>Contract_Types\<close>: the types of \<open>generated.rs\<close> and the hand-shaped form of the domain errors
    (locale \<open>domain_error_codec\<close>, interpreted four times).
  \<^item> \<open>Contract_Source\<close>: \<open>contract.rs\<close> of both crates as schemas, and their meaning.
  \<^item> \<open>Wire\<close>: derived serialisation and the \<open>encode\<close> and \<open>decode\<close> functions. The locale
    \<open>wire_type\<close> is what a generated type owes its authored schema; ten types interpret it.
  \<^item> \<open>External_Code\<close>: the functions of other crates the code calls, as one record.
  \<^item> \<open>Config\<close>: \<open>config.rs\<close>, \<open>schema.rs\<close>; locale \<open>caller_authority\<close> for the two allowlists.
  \<^item> \<open>Storage\<close>: the tables of \<open>migrations\<close> with their constraints, and \<open>storage.rs\<close> statement by
    statement. \<open>Storage_Invariant\<close> states and keeps the invariant \<open>store_ok\<close>;
    \<open>Delivery_Lifecycle\<close> is the abstract machine of one delivery; \<open>Storage_Contract\<close> shows that
    every operation keeps the invariant, refines that machine on every row, only appends receipts
    and rolls back on failure (locale \<open>store_operation\<close>, interpreted on all four that write).
    \<open>Claim_Contract\<close> is what a committed claim does.
  \<^item> \<open>Protocol\<close>, \<open>Protocol_Facts\<close>: \<open>protocol.rs\<close>; identities and signatures can be confused only if
    a digest collides.
  \<^item> \<open>Service\<close>: \<open>service.rs\<close>, the four flows, guard by guard. \<open>Enqueue_Flow\<close>, \<open>Dispatch_Flow\<close> and
    \<open>Admin_Flow\<close> are their contracts, branch by branch, with the retry delay.
  \<^item> \<open>Plugin\<close>: \<open>lib.rs\<close> and \<open>operator.rs\<close>: answers, activation, the operator's entry points.
    \<open>Redaction\<close>: the hand-written \<open>Debug\<close> implementations.
  \<^item> \<open>Answers\<close>: no call panics, refused callers cause nothing, every answer fits the contract.
  \<^item> \<open>Endpoint\<close>: endpoints, clients and dependency binding of both \<open>generated.rs\<close>.
  \<^item> \<open>Runs\<close>: the plugin as a concurrent system: any number of instances and workers in any
    interleaving, with failing calls and lost workers. The locale \<open>monotone_system\<close> carries what
    holds of reachable states and between two states of a run. \<open>Progress\<close>: liveness.
  \<^item> \<open>Samples\<close>: the concrete rows, instances and environments of the witnesses.

  HOW THE CODE IS READ. A Rust \<open>Result\<close> with \<open>?\<close> is \<open>result\<close> with \<open>and_then\<close>; an \<open>expect\<close> that fails is
  \<open>Panic\<close>. A table is a list of rows. A transaction takes effect at once; \<open>dispatch\<close> has two
  (claim, then outcome) and \<open>replay\<close> three database calls, between which other callers run, so those
  states are separate arguments, or separate steps of \<open>Runs\<close>. A database call may fail at any
  labelled call, a commit may fail after it was applied, and locked rows are skipped. Times are
  microseconds since the epoch. There is no fuel: all recursion is structural, and no loop of the
  code is unbounded. A delivery has at most 100 attempts in each of at most 1,000,001 cycles,
  which is why every run brings it to rest.

  PARAMETERS, because their code is not under \<open>src\<close>: SHA-256, HMAC, \<open>serde_json\<close> printing and
  parsing, RFC 3339, the range of \<open>OffsetDateTime\<close> and URL parsing (\<open>External_Code\<close>, \<open>Wire\<close>); the HTTP
  client, the secrets port, the PostgreSQL kit, the kernel's handles and bindings, the contract code
  generator. Nothing is assumed of them but what a theorem names: a digest has 32 bytes, a printed
  JSON value parses back, a printed time has no dot-separated ambiguity, the times at hand can be
  printed. What is said of clients holds for every handle: what the kernel does between a handle
  and an endpoint is not part of the model.

  SCHEMAS. \<open>matches\<close> reads \<open>integer\<close> as JSON Schema 2020-12 does, where \<open>1.0\<close> and \<open>1e2\<close> are integers;
  \<open>admits\<close> asks for a plain decimal integer, which is what the generated code writes and all it reads
  into an \<open>i64\<close> (\<open>Wire.integral_fraction_refused\<close>). The two differ only where a schema has an integer.

  PANICS. The code has two kinds: \<open>expect\<close> on conversions and on printing a time, and adding the retry
  delay to a clock at the end of the range of times; both are \<open>Panic\<close> in the model. The slice \<open>[..48]\<close>
  of a digest in \<open>stable_delivery_id\<close> is \<open>take 48\<close>: it could only panic on a digest of fewer than 24
  bytes, and SHA-256 has 32.

  NOT MODELLED. The collation of text in ORDER BY, where the
  order of characters is used to break ties; isolation anomalies below a single statement and what
  the indexes of migration 002 save; texts of \<open>serde\<close> and database errors beyond the prefix the code
  writes; the attribute macros, and the macros whose body is a descriptor string for them (lines
  14 to 24 of each \<open>generated.rs\<close>), which the host's tooling reads; the tests of \<open>lib.rs\<close> and
  \<open>protocol.rs\<close> and \<open>postgres_tests.rs\<close>, which need a server and whose claims are stated here
  for all inputs.
\<close>

section \<open>The generated code and the authored contract\<close>

lemma major_one: "show_nat (Suc 0) = ''1''"
  by code_simp

text \<open>
  The constants of \<open>generated.rs\<close> are those of \<open>contract.rs\<close>: identity with its major version,
  descriptor version, operations in their order, and both transfer flags.
\<close>

lemma generated_matches_authored:
  "CAPABILITY_ID = cap_id source_webhook @ ''@'' @ show_nat (cap_major source_webhook)"
  "ADMIN_CAPABILITY_ID = cap_id source_webhook_admin @ ''@'' @ show_nat (cap_major source_webhook_admin)"
  "DESCRIPTOR_VERSION = cap_version source_webhook"
  "ADMIN_DESCRIPTOR_VERSION = cap_version source_webhook_admin"
  "webhook_operations = map op_name (cap_operations source_webhook)"
  "admin_operations = map op_name (cap_operations source_webhook_admin)"
  "PORTABLE = cap_portable source_webhook" "ADMIN_PORTABLE = cap_portable source_webhook_admin"
  "CROSS_LANE_TRANSFER = cap_cross_lane_transfer source_webhook"
  "ADMIN_CROSS_LANE_TRANSFER = cap_cross_lane_transfer source_webhook_admin"
  by (simp_all add: CAPABILITY_ID_def ADMIN_CAPABILITY_ID_def DESCRIPTOR_VERSION_def
      ADMIN_DESCRIPTOR_VERSION_def webhook_operations_def admin_operations_def operation_names
      PORTABLE_def ADMIN_PORTABLE_def CROSS_LANE_TRANSFER_def ADMIN_CROSS_LANE_TRANSFER_def
      source_webhook_def source_webhook_admin_def major_one)

section \<open>From the wire to the wire\<close>



end
